(* ===== verification/Prelude.thy ===== *)
theory Prelude
  imports Main "HOL-Library.Sublist" "HOL-Library.Multiset"
begin

text \<open>
  Shared material of the development: the collections the component proofs draw on, the
  result type of fallible Rust functions, and generic facts on lists, options and maps that
  more than one component needs.

  A Rust \<open>Result<T, E>\<close> is the sum \<open>'e + 'a\<close>: \<open>Inl\<close> is the error, \<open>Inr\<close> the value.
  The \<open>?\<close> operator is \<open>result_bind\<close>.
\<close>

named_theorems rust_text \<open>facts about UTF-8 text and the string operations of Rust's std\<close>
named_theorems sync_simps \<open>definitional equations of the sync engine's statements\<close>
named_theorems pair_simps \<open>definitional equations of the pairing state\<close>

section \<open>Results\<close>

type_synonym ('a, 'e) result = "'e + 'a"

fun result_bind :: "('a, 'e) result \<Rightarrow> ('a \<Rightarrow> ('b, 'e) result) \<Rightarrow> ('b, 'e) result" where
  "result_bind (Inl e) f = Inl e"
| "result_bind (Inr x) f = f x"

fun map_err :: "('e \<Rightarrow> 'f) \<Rightarrow> ('a, 'e) result \<Rightarrow> ('a, 'f) result" where
  "map_err g (Inl e) = Inl (g e)"
| "map_err g (Inr x) = Inr x"

definition ok_or :: "'e \<Rightarrow> 'a option \<Rightarrow> ('a, 'e) result" where
  "ok_or e x = (case x of None \<Rightarrow> Inl e | Some v \<Rightarrow> Inr v)"

definition ok :: "('a, 'e) result \<Rightarrow> 'a option" where
  "ok r = (case r of Inl _ \<Rightarrow> None | Inr v \<Rightarrow> Some v)"

lemma result_bind_Inr [simp]:
  "result_bind r f = Inr y \<longleftrightarrow> (\<exists>x. r = Inr x \<and> f x = Inr y)"
  by (cases r) auto

lemma result_bind_right [simp]: "result_bind r Inr = r"
  by (cases r) auto

lemma result_bind_Inl:
  "result_bind r f = Inl e \<longleftrightarrow> r = Inl e \<or> (\<exists>x. r = Inr x \<and> f x = Inl e)"
  by (cases r) auto

lemma map_err_Inr [simp]: "map_err g r = Inr x \<longleftrightarrow> r = Inr x"
  by (cases r) auto

lemma ok_or_Inr [simp]: "ok_or e x = Inr v \<longleftrightarrow> x = Some v"
  by (auto simp: ok_or_def split: option.splits)

lemma ok_or_Inl [simp]: "ok_or e x = Inl d \<longleftrightarrow> x = None \<and> d = e"
  by (auto simp: ok_or_def split: option.splits)

lemma ok_or_simps [simp]: "ok_or e None = Inl e" "ok_or e (Some v) = Inr v"
  by (simp_all add: ok_or_def)

lemma ok_simps [simp]: "ok (Inl e) = None" "ok (Inr v) = Some v"
  by (simp_all add: ok_def)

text \<open>A loop over a list whose body may fail: \<open>for x in xs { s = f(s, x)?; }\<close>.\<close>

fun try_fold :: "('s \<Rightarrow> 'a \<Rightarrow> ('s, 'e) result) \<Rightarrow> 's \<Rightarrow> 'a list \<Rightarrow> ('s, 'e) result" where
  "try_fold f s [] = Inr s"
| "try_fold f s (x # xs) = result_bind (f s x) (\<lambda>s'. try_fold f s' xs)"

lemma try_fold_append:
  "try_fold f s (xs @ ys) = result_bind (try_fold f s xs) (\<lambda>s'. try_fold f s' ys)"
proof (induction xs arbitrary: s)
  case Nil
  show ?case by simp
next
  case (Cons x xs)
  then show ?case by (cases "f s x") simp_all
qed

text \<open>An invariant of the loop body is an invariant of the loop.\<close>

lemma try_fold_invariant:
  assumes "try_fold f s xs = Inr t"
    and "I s"
    and "\<And>s x s'. I s \<Longrightarrow> x \<in> set xs \<Longrightarrow> f s x = Inr s' \<Longrightarrow> I s'"
  shows "I t"
  using assms
proof (induction xs arbitrary: s)
  case Nil
  then show ?case by simp
next
  case (Cons x xs)
  from Cons.prems(1) obtain s' where s': "f s x = Inr s'" and rest: "try_fold f s' xs = Inr t"
    by auto
  from Cons.prems(2,3) s' have "I s'" by auto
  with rest Cons.prems(3) show ?case by (auto intro: Cons.IH)
qed

text \<open>Two contracts of a fallible step and what they give a run of it, whatever the inputs: an
  invariant the step keeps, and a preorder that relates the states before and after.\<close>

locale keeps_invariant =
  fixes step :: "'s \<Rightarrow> 'i \<Rightarrow> ('s, 'e) result" and inv :: "'s \<Rightarrow> bool"
  assumes step_inv: "inv s \<Longrightarrow> step s i = Inr t \<Longrightarrow> inv t"
begin

lemma run_inv: "try_fold step s xs = Inr t \<Longrightarrow> inv s \<Longrightarrow> inv t"
  by (erule try_fold_invariant) (auto intro: step_inv)

end

locale ordered_step =
  fixes step :: "'s \<Rightarrow> 'i \<Rightarrow> ('s, 'e) result" and rel :: "'s \<Rightarrow> 's \<Rightarrow> bool"
  assumes rel_refl: "rel s s"
    and rel_trans: "rel s t \<Longrightarrow> rel t u \<Longrightarrow> rel s u"
    and step_rel: "step s i = Inr t \<Longrightarrow> rel s t"
begin

lemma run_rel: "try_fold step s xs = Inr t \<Longrightarrow> rel s t"
  by (erule try_fold_invariant) (auto intro: rel_refl rel_trans step_rel)

end

text \<open>A bounded collection: room is made before an element is added. Whatever is added, the bound
  holds and the collection never holds more than one element per addition.\<close>

locale bounded_collection =
  fixes size_of :: "'s \<Rightarrow> nat" and cap :: nat and make_room :: "'s \<Rightarrow> 's" and add :: "'s \<Rightarrow> 'i \<Rightarrow> 's"
  assumes room_free: "size_of (make_room s) < cap"
    and room_le: "size_of (make_room s) \<le> size_of s"
    and add_one: "size_of (add s i) \<le> Suc (size_of s)"
begin

lemma put_bound: "size_of (add (make_room s) i) \<le> cap"
  using room_free [of s] add_one [of "make_room s" i] by simp

lemma put_growth: "size_of (add (make_room s) i) \<le> Suc (size_of s)"
  using room_le [of s] add_one [of "make_room s" i] by simp

lemma run_bound: "size_of s \<le> cap \<Longrightarrow> size_of (foldl (\<lambda>s i. add (make_room s) i) s is) \<le> cap"
  by (induction "is" arbitrary: s) (auto simp: put_bound)

end

text \<open>A codec on a byte stream: reading what was written gives the value back and leaves the rest of
  the stream. Several messages written one after the other are then read back in order, and
  distinct values have distinct encodings, none a prefix of another's stream.\<close>

fun write_all :: "('v \<Rightarrow> ('b list, 'e) result) \<Rightarrow> 'v list \<Rightarrow> ('b list, 'e) result" where
  "write_all w [] = Inr []"
| "write_all w (v # vs) = result_bind (w v) (\<lambda>bs. result_bind (write_all w vs) (\<lambda>cs. Inr (bs @ cs)))"

fun read_many :: "('b list \<Rightarrow> ('v \<times> 'b list, 'f) result) \<Rightarrow> nat \<Rightarrow> 'b list \<Rightarrow> ('v list \<times> 'b list, 'f) result" where
  "read_many r 0 s = Inr ([], s)"
| "read_many r (Suc n) s =
     result_bind (r s) (\<lambda>(v, s'). result_bind (read_many r n s') (\<lambda>(vs, s''). Inr (v # vs, s'')))"

locale stream_codec =
  fixes wr :: "'v \<Rightarrow> ('b list, 'e) result" and rd :: "'b list \<Rightarrow> ('v \<times> 'b list, 'f) result"
  assumes read_write: "wr v = Inr bs \<Longrightarrow> rd (bs @ rest) = Inr (v, rest)"
begin

lemma write_inj: "wr v = Inr bs \<Longrightarrow> wr w = Inr bs \<Longrightarrow> v = w"
  using read_write [of v bs "[]"] read_write [of w bs "[]"] by simp

lemma write_prefix_free: "wr v = Inr bs \<Longrightarrow> wr w = Inr (bs @ cs) \<Longrightarrow> v = w \<and> cs = []"
  using read_write [of v bs cs] read_write [of w "bs @ cs" "[]"] by simp

lemma read_many_write_all:
  "write_all wr vs = Inr bs \<Longrightarrow> read_many rd (length vs) (bs @ rest) = Inr (vs, rest)"
proof (induction vs arbitrary: bs)
  case Nil
  then show ?case by simp
next
  case (Cons v vs)
  then obtain b c where "wr v = Inr b" "write_all wr vs = Inr c" "bs = b @ c" by auto
  with Cons.IH [of c] read_write [of v b "c @ rest"] show ?case by simp
qed

end

text \<open>A fallible map: \<open>xs.into_iter().map(f).collect::<Result<Vec<_>, _>>()\<close>.\<close>

fun try_map :: "('a \<Rightarrow> ('b, 'e) result) \<Rightarrow> 'a list \<Rightarrow> ('b list, 'e) result" where
  "try_map f [] = Inr []"
| "try_map f (x # xs) = result_bind (f x) (\<lambda>y. result_bind (try_map f xs) (\<lambda>ys. Inr (y # ys)))"

lemma try_map_length: "try_map f xs = Inr ys \<Longrightarrow> length ys = length xs"
  by (induction xs arbitrary: ys) auto

lemma try_map_nth:
  "try_map f xs = Inr ys \<Longrightarrow> i < length xs \<Longrightarrow> f (xs ! i) = Inr (ys ! i)"
proof (induction xs arbitrary: ys i)
  case Nil
  then show ?case by simp
next
  case (Cons x xs)
  then show ?case by (cases i) auto
qed

section \<open>Lists\<close>

lemma sum_list_update:
  fixes xs :: "nat list"
  assumes "i < length xs"
  shows "sum_list (xs[i := v]) + xs ! i = sum_list xs + v"
  using assms
proof (induction xs arbitrary: i)
  case Nil
  then show ?case by simp
next
  case (Cons x xs)
  then show ?case by (cases i) auto
qed

lemma find_distinct:
  "distinct (map f xs) \<Longrightarrow> x \<in> set xs \<Longrightarrow> find (\<lambda>y. f y = f x) xs = Some x"
  by (induction xs) (auto simp: image_iff)

lemma find_SomeD: "find P xs = Some x \<Longrightarrow> x \<in> set xs \<and> P x"
  by (induction xs) (auto split: if_splits)

lemma filter_sorted_wrt: "sorted_wrt P xs \<Longrightarrow> sorted_wrt P (filter Q xs)"
  by (induction xs) auto

lemma takeWhile_append_stop:
  "\<not> P y \<Longrightarrow> takeWhile P (xs @ y # ys) = takeWhile P xs"
  by (induction xs) auto

lemma list_all_takeWhile_full: "list_all P xs \<Longrightarrow> takeWhile P xs = xs"
  by (induction xs) auto

section \<open>Finite maps kept as functions\<close>

lemma dom_restrict_filter: "dom (\<lambda>k. case m k of None \<Rightarrow> None | Some v \<Rightarrow> if P v then Some v else None)
  \<subseteq> dom m"
  by (auto split: option.splits if_splits)

end
