(* ===== verification/RustText.thy ===== *)
theory RustText
  imports Prelude
begin

text \<open>
  Rust text. A \<open>String\<close> or \<open>&str\<close> is the list of its UTF-8 bytes, one \<open>char\<close> of HOL per
  byte, so \<open>length\<close> is Rust's \<open>len()\<close> and slicing is \<open>take\<close>/\<open>drop\<close>. A Rust \<open>char\<close> is
  the byte list of its UTF-8 encoding: \<open>chars\<close> cuts a string before every byte that is not
  a continuation byte, which is the decomposition into scalar values on valid UTF-8. The
  functions of \<open>str\<close> and \<open>u8\<close> the program calls are defined on that representation.
\<close>

section \<open>Bytes\<close>

definition byte :: "char \<Rightarrow> nat" where
  "byte c = of_char c"

definition of_byte :: "nat \<Rightarrow> char" where
  "of_byte n = char_of n"

lemma byte_less [simp]: "byte c < 256"
proof -
  have "byte c mod 256 = byte c" unfolding byte_def by simp
  then show ?thesis by (metis mod_less_divisor zero_less_numeral)
qed

lemma byte_div16 [simp]: "byte c div 16 < 16"
  using byte_less [of c] by (simp add: div_less_iff_less_mult)

lemma byte_of_byte [simp]: "n < 256 \<Longrightarrow> byte (of_byte n) = n"
  by (simp add: byte_def of_byte_def)

lemma of_byte_byte [simp]: "of_byte (byte c) = c"
  by (simp add: byte_def of_byte_def)

lemma byte_inject [simp]: "byte c = byte d \<longleftrightarrow> c = d"
  by (metis of_byte_byte)

text \<open>\<open>u8\<close> and \<open>char\<close> classification: the \<open>is_ascii_*\<close> family.\<close>

definition is_ascii :: "char \<Rightarrow> bool" where
  "is_ascii c \<longleftrightarrow> byte c < 128"

definition is_ascii_digit :: "char \<Rightarrow> bool" where
  "is_ascii_digit c \<longleftrightarrow> 48 \<le> byte c \<and> byte c \<le> 57"

definition is_ascii_uppercase :: "char \<Rightarrow> bool" where
  "is_ascii_uppercase c \<longleftrightarrow> 65 \<le> byte c \<and> byte c \<le> 90"

definition is_ascii_lowercase :: "char \<Rightarrow> bool" where
  "is_ascii_lowercase c \<longleftrightarrow> 97 \<le> byte c \<and> byte c \<le> 122"

definition is_ascii_alphanumeric :: "char \<Rightarrow> bool" where
  "is_ascii_alphanumeric c \<longleftrightarrow> is_ascii_digit c \<or> is_ascii_uppercase c \<or> is_ascii_lowercase c"

definition lower_char :: "char \<Rightarrow> char" where
  "lower_char c = (if is_ascii_uppercase c then of_byte (byte c + 32) else c)"

definition upper_char :: "char \<Rightarrow> char" where
  "upper_char c = (if is_ascii_lowercase c then of_byte (byte c - 32) else c)"

definition to_ascii_lowercase :: "string \<Rightarrow> string" where
  "to_ascii_lowercase s = map lower_char s"

definition to_ascii_uppercase :: "string \<Rightarrow> string" where
  "to_ascii_uppercase s = map upper_char s"

definition eq_ignore_ascii_case :: "string \<Rightarrow> string \<Rightarrow> bool" where
  "eq_ignore_ascii_case s t \<longleftrightarrow> to_ascii_lowercase s = to_ascii_lowercase t"

lemmas ascii_defs = is_ascii_def is_ascii_digit_def is_ascii_uppercase_def
  is_ascii_lowercase_def is_ascii_alphanumeric_def

lemma lower_char_idem [simp]: "lower_char (lower_char c) = lower_char c"
  by (auto simp: lower_char_def is_ascii_uppercase_def)

lemma upper_char_idem [simp]: "upper_char (upper_char c) = upper_char c"
  by (auto simp: upper_char_def is_ascii_lowercase_def)

lemma to_ascii_lowercase_idem [simp]:
  "to_ascii_lowercase (to_ascii_lowercase s) = to_ascii_lowercase s"
  by (simp add: to_ascii_lowercase_def)

lemma to_ascii_uppercase_idem [simp]:
  "to_ascii_uppercase (to_ascii_uppercase s) = to_ascii_uppercase s"
  by (simp add: to_ascii_uppercase_def)

lemma length_to_ascii_lowercase [simp]: "length (to_ascii_lowercase s) = length s"
  by (simp add: to_ascii_lowercase_def)

section \<open>Scalar values\<close>

definition is_cont :: "char \<Rightarrow> bool" where
  "is_cont c \<longleftrightarrow> 128 \<le> byte c \<and> byte c < 192"

function chars :: "string \<Rightarrow> string list" where
  "chars [] = []"
| "chars (c # cs) = (c # takeWhile is_cont cs) # chars (dropWhile is_cont cs)"
  by pat_completeness auto
termination
  by (relation "measure length") (auto simp: le_imp_less_Suc length_dropWhile_le)

lemma concat_chars [simp, rust_text]: "concat (chars s) = s"
  by (induction s rule: chars.induct) auto

lemma is_ascii_not_cont: "is_ascii c \<Longrightarrow> \<not> is_cont c"
  by (simp add: is_ascii_def is_cont_def)

lemma chars_ascii [rust_text]: "list_all is_ascii s \<Longrightarrow> chars s = map (\<lambda>c. [c]) s"
proof (induction s)
  case Nil
  show ?case by simp
next
  case (Cons c s)
  then have "takeWhile is_cont s = []" and "dropWhile is_cont s = s"
    by (cases s; simp add: is_ascii_not_cont)+
  with Cons show ?case by simp
qed

text \<open>The pieces of a cut: each is one lead byte and continuation bytes, and no piece but the first starts
  with a continuation byte. Cutting the concatenation of such pieces gives the pieces back.\<close>

definition cut_ok :: "string list \<Rightarrow> bool" where
  "cut_ok ps \<longleftrightarrow> list_all (\<lambda>p. p \<noteq> [] \<and> list_all is_cont (tl p)) ps \<and> list_all (\<lambda>p. \<not> is_cont (hd p)) (tl ps)"

lemma cut_ok_Cons:
  "cut_ok (p # ps) \<longleftrightarrow> p \<noteq> [] \<and> list_all is_cont (tl p) \<and> cut_ok ps \<and> (ps = [] \<or> \<not> is_cont (hd (hd ps)))"
  by (cases ps) (auto simp: cut_ok_def)

lemma chars_cut_ok: "cut_ok (chars s)"
proof (induction s rule: chars.induct)
  case (2 c cs)
  have "list_all is_cont (takeWhile is_cont cs)" by (auto simp: list_all_iff dest: set_takeWhileD)
  moreover have "chars (dropWhile is_cont cs) = [] \<or> \<not> is_cont (hd (hd (chars (dropWhile is_cont cs))))"
  proof (cases "dropWhile is_cont cs")
    case (Cons d ds)
    then have "\<not> is_cont d" by (metis hd_dropWhile list.distinct(1) list.sel(1))
    with Cons show ?thesis by simp
  next
    case Nil
    then show ?thesis by (simp only: chars.simps simp_thms)
  qed
  ultimately show ?case using 2 by (simp add: cut_ok_Cons)
qed (simp add: cut_ok_def)

lemma while_hd: "xs = [] \<or> \<not> P (hd xs) \<Longrightarrow> takeWhile P xs = [] \<and> dropWhile P xs = xs"
  by (cases xs) auto

lemma chars_concat: "cut_ok ps \<Longrightarrow> chars (concat ps) = ps"
proof (induction ps)
  case (Cons p ps)
  then obtain c t where p: "p = c # t" "list_all is_cont t" by (cases p) (auto simp: cut_ok_Cons)
  have "concat ps = [] \<or> \<not> is_cont (hd (concat ps))"
  proof (cases ps)
    case (Cons q qs)
    with Cons.prems have "q \<noteq> []" "\<not> is_cont (hd q)" by (simp_all add: cut_ok_Cons)
    then show ?thesis by (simp add: Cons)
  qed simp
  then have "takeWhile is_cont (concat ps) = []" "dropWhile is_cont (concat ps) = concat ps"
    using while_hd [of "concat ps" is_cont] by blast+
  moreover have "takeWhile is_cont (t @ r) = t @ takeWhile is_cont r"
    "dropWhile is_cont (t @ r) = dropWhile is_cont r" for r
    using p(2) by (induction t) simp_all
  ultimately have "takeWhile is_cont (t @ concat ps) = t" "dropWhile is_cont (t @ concat ps) = concat ps"
    by simp_all
  with p Cons show ?case by (simp add: cut_ok_Cons)
qed simp

lemma cut_ok_suffix: "cut_ok (ps @ qs) \<Longrightarrow> cut_ok qs"
  by (induction ps) (auto simp: cut_ok_Cons)

lemma cut_ok_prefix: "cut_ok (ps @ qs) \<Longrightarrow> cut_ok ps"
  by (cases ps) (auto simp: cut_ok_def)

text \<open>A test that only single-byte scalar values pass can be read byte by byte.\<close>

definition char_is :: "(char \<Rightarrow> bool) \<Rightarrow> string \<Rightarrow> bool" where
  "char_is P ch \<longleftrightarrow> (case ch of [c] \<Rightarrow> P c | _ \<Rightarrow> False)"

lemma char_is_single [simp]: "char_is P [c] = P c"
  by (simp add: char_is_def)

lemma char_isD: "char_is P ch \<Longrightarrow> \<exists>c. ch = [c] \<and> P c"
  by (auto simp: char_is_def split: list.splits)

lemma chars_all_char_is:
  assumes "\<And>c. P c \<Longrightarrow> is_ascii c"
  shows "list_all (char_is P) (chars s) \<longleftrightarrow> list_all P s"
proof
  assume l: "list_all (char_is P) (chars s)"
  have "P c" if "c \<in> set s" for c
  proof -
    have "c \<in> set (concat (chars s))" using that by simp
    then obtain ch where ch: "ch \<in> set (chars s)" "c \<in> set ch"
      unfolding set_concat by blast
    with l have "char_is P ch" by (simp add: list_all_iff)
    with ch(2) show ?thesis by (auto dest: char_isD)
  qed
  then show "list_all P s" by (simp add: list_all_iff)
next
  assume l: "list_all P s"
  with assms have "list_all is_ascii s" by (auto simp: list_all_iff)
  with l show "list_all (char_is P) (chars s)" by (simp add: chars_ascii list_all_iff)
qed

text \<open>The scalar values with the Unicode property \<open>White_Space\<close>, which \<open>char::is_whitespace\<close>
  tests: U+0009 to U+000D, U+0020, U+0085, U+00A0, U+1680, U+2000 to U+200A, U+2028, U+2029,
  U+202F, U+205F and U+3000.\<close>

definition white_space :: "nat list list" where
  "white_space =
     map (\<lambda>n. [n]) [9, 10, 11, 12, 13, 32] @
     [[0xC2, 0x85], [0xC2, 0xA0], [0xE1, 0x9A, 0x80]] @
     map (\<lambda>n. [0xE2, 0x80, n])
       [0x80, 0x81, 0x82, 0x83, 0x84, 0x85, 0x86, 0x87, 0x88, 0x89, 0x8A, 0xA8, 0xA9, 0xAF] @
     [[0xE2, 0x81, 0x9F], [0xE3, 0x80, 0x80]]"

definition is_whitespace :: "string \<Rightarrow> bool" where
  "is_whitespace ch \<longleftrightarrow> map byte ch \<in> set white_space"

definition trim :: "string \<Rightarrow> string" where
  "trim s = concat (rev (dropWhile is_whitespace (rev (dropWhile is_whitespace (chars s)))))"

lemma is_whitespace_single [simp]:
  "is_whitespace [c] \<longleftrightarrow> byte c \<in> {9, 10, 11, 12, 13, 32}"
  by (auto simp: is_whitespace_def white_space_def)

lemma trim_id [rust_text]:
  assumes "list_all is_ascii s" "s = [] \<or> \<not> is_whitespace [hd s] \<and> \<not> is_whitespace [last s]"
  shows "trim s = s"
proof (cases "s = []")
  case True
  then show ?thesis by (simp add: trim_def)
next
  case False
  let ?cs = "map (\<lambda>c. [c]) s"
  from assms(1) have cs: "chars s = ?cs" by (rule chars_ascii)
  from False assms(2) have h: "dropWhile is_whitespace ?cs = ?cs"
    by (cases s) auto
  from False assms(2) have "dropWhile is_whitespace (rev ?cs) = rev ?cs"
    by (cases s rule: rev_cases) auto
  with h cs show ?thesis by (simp add: trim_def)
qed

lemma trim_idem [simp, rust_text]: "trim (trim s) = trim s"
proof -
  let ?f = "dropWhile is_whitespace (chars s)"
  let ?m = "rev (dropWhile is_whitespace (rev ?f))"
  have "cut_ok ?f" using chars_cut_ok [of s] cut_ok_suffix by (metis takeWhile_dropWhile_id)
  moreover have f: "?f = ?m @ rev (takeWhile is_whitespace (rev ?f))"
    by (metis rev_append rev_rev_ident takeWhile_dropWhile_id)
  ultimately have "cut_ok ?m" by (metis cut_ok_prefix)
  then have m: "chars (trim s) = ?m" unfolding trim_def by (rule chars_concat)
  have "dropWhile is_whitespace ?m = ?m"
  proof (cases "?m = []")
    case False
    then have "hd ?m = hd ?f" "?f \<noteq> []" using f by (metis hd_append2, metis append_is_Nil_conv)
    then have "\<not> is_whitespace (hd ?m)" using hd_dropWhile by metis
    with False show ?thesis by (metis dropWhile_eq_self_iff)
  next
    case True
    then show ?thesis by (simp only: dropWhile.simps)
  qed
  then show ?thesis unfolding trim_def [of "trim s"] m by (simp add: trim_def dropWhile_idem)
qed

text \<open>Visible ASCII is not trimmed.\<close>

definition is_graphic :: "char \<Rightarrow> bool" where
  "is_graphic c \<longleftrightarrow> 32 < byte c \<and> byte c < 127"

lemma trim_graphic [rust_text]: "list_all is_graphic s \<Longrightarrow> trim s = s"
proof (rule trim_id)
  assume g: "list_all is_graphic s"
  then show "list_all is_ascii s" by (auto simp: list_all_iff is_graphic_def is_ascii_def)
  have "\<not> is_whitespace [c]" if "c \<in> set s" for c
    using g that by (auto simp: list_all_iff is_graphic_def)
  then show "s = [] \<or> \<not> is_whitespace [hd s] \<and> \<not> is_whitespace [last s]" by auto
qed

section \<open>Searching and splitting\<close>

definition starts_with :: "string \<Rightarrow> string \<Rightarrow> bool" where
  "starts_with p s \<longleftrightarrow> take (length p) s = p"

lemma starts_with_iff: "starts_with p s \<longleftrightarrow> (\<exists>r. s = p @ r)"
  by (metis append_eq_conv_conj append_take_drop_id starts_with_def)

fun split_once :: "string \<Rightarrow> string \<Rightarrow> (string \<times> string) option" where
  "split_once p [] = (if p = [] then Some ([], []) else None)"
| "split_once p (c # cs) =
     (if starts_with p (c # cs) then Some ([], drop (length p) (c # cs))
      else map_option (\<lambda>(a, b). (c # a, b)) (split_once p cs))"

lemma split_once_Some: "split_once p s = Some (a, b) \<Longrightarrow> s = a @ p @ b"
proof (induction s arbitrary: a b)
  case Nil
  then show ?case by (auto split: if_splits)
next
  case (Cons c cs)
  show ?case
  proof (cases "starts_with p (c # cs)")
    case True
    with Cons.prems have ab: "a = []" "b = drop (length p) (c # cs)" by auto
    have "take (length p) (c # cs) @ drop (length p) (c # cs) = c # cs"
      by (rule append_take_drop_id)
    with True ab show ?thesis by (simp only: starts_with_def append_Nil)
  next
    case False
    with Cons show ?thesis by auto
  qed
qed

lemma split_once_char [rust_text]:
  "c \<notin> set a \<Longrightarrow> split_once [c] (a @ c # b) = Some (a, b)"
  by (induction a) (auto simp: starts_with_def)

lemma split_once_char_None [rust_text]: "c \<notin> set s \<Longrightarrow> split_once [c] s = None"
  by (induction s) (auto simp: starts_with_def)

lemma split_once_char_iff:
  "split_once [c] s = Some (a, b) \<longleftrightarrow> s = a @ c # b \<and> c \<notin> set a"
proof
  assume "split_once [c] s = Some (a, b)"
  then show "s = a @ c # b \<and> c \<notin> set a"
    by (induction s arbitrary: a b) (auto simp: starts_with_def split: if_splits)
qed (auto simp: split_once_char)

text \<open>\<open>str::split(c)\<close>: always at least one piece.\<close>

fun split_on :: "char \<Rightarrow> string \<Rightarrow> string list" where
  "split_on c [] = [[]]"
| "split_on c (d # ds) =
     (if d = c then [] # split_on c ds
      else (case split_on c ds of [] \<Rightarrow> [[d]] | p # ps \<Rightarrow> (d # p) # ps))"

lemma split_on_nonempty [simp]: "split_on c s \<noteq> []"
  by (induction s) (auto split: list.splits)

lemma split_on_none [rust_text]: "c \<notin> set s \<Longrightarrow> split_on c s = [s]"
  by (induction s) auto

lemma split_on_append [rust_text]: "c \<notin> set a \<Longrightarrow> split_on c (a @ c # b) = a # split_on c b"
  by (induction a) auto

definition trim_end_matches :: "char \<Rightarrow> string \<Rightarrow> string" where
  "trim_end_matches c s = rev (dropWhile (\<lambda>d. d = c) (rev s))"

lemma trim_end_matches_id [rust_text]:
  "s = [] \<or> last s \<noteq> c \<Longrightarrow> trim_end_matches c s = s"
  by (cases s rule: rev_cases) (auto simp: trim_end_matches_def)

section \<open>Decimal numbers\<close>

definition digit_value :: "char \<Rightarrow> nat" where
  "digit_value c = byte c - 48"

definition digit_char :: "nat \<Rightarrow> char" where
  "digit_char d = of_byte (48 + d)"

definition decimal_value :: "string \<Rightarrow> nat" where
  "decimal_value s = foldl (\<lambda>acc c. acc * 10 + digit_value c) 0 s"

lemma digit_char_digit [simp]: "d < 10 \<Longrightarrow> is_ascii_digit (digit_char d)"
  by (simp add: is_ascii_digit_def digit_char_def)

lemma digit_value_digit_char [simp]: "d < 10 \<Longrightarrow> digit_value (digit_char d) = d"
  by (simp add: digit_value_def digit_char_def)

lemma digit_char_digit_value [simp]: "is_ascii_digit c \<Longrightarrow> digit_char (digit_value c) = c"
  by (simp add: is_ascii_digit_def digit_char_def digit_value_def)

lemma digit_value_less [simp]: "is_ascii_digit c \<Longrightarrow> digit_value c < 10"
  by (auto simp: is_ascii_digit_def digit_value_def)

lemma digit_is_ascii [simp]: "is_ascii_digit c \<Longrightarrow> is_ascii c"
  by (simp add: is_ascii_digit_def is_ascii_def)

lemma decimal_value_Nil [simp]: "decimal_value [] = 0"
  by (simp add: decimal_value_def)

lemma decimal_value_snoc [simp]: "decimal_value (s @ [c]) = decimal_value s * 10 + digit_value c"
  by (simp add: decimal_value_def)

lemma decimal_value_append:
  "decimal_value (s @ t) = decimal_value s * 10 ^ length t + decimal_value t"
proof (induction t rule: rev_induct)
  case Nil
  show ?case by simp
next
  case (snoc c t)
  have "decimal_value (s @ t @ [c]) = decimal_value ((s @ t) @ [c])" by simp
  also have "\<dots> = decimal_value (s @ t) * 10 + digit_value c" by (rule decimal_value_snoc)
  finally show ?case using snoc by (simp add: algebra_simps)
qed

lemma decimal_value_zeros [simp]: "decimal_value (replicate n (CHR ''0'') @ s) = decimal_value s"
proof -
  have "decimal_value (replicate n (CHR ''0'')) = 0"
    by (induction n) (simp_all add: decimal_value_def digit_value_def byte_def)
  then show ?thesis by (simp add: decimal_value_append)
qed

lemma decimal_value_less: "list_all is_ascii_digit s \<Longrightarrow> decimal_value s < 10 ^ length s"
proof (induction s rule: rev_induct)
  case Nil
  show ?case by simp
next
  case (snoc c s)
  then have "decimal_value s < 10 ^ length s" and "digit_value c < 10" by auto
  then have "decimal_value s * 10 + digit_value c < (decimal_value s + 1) * 10" by simp
  also have "\<dots> \<le> 10 ^ length s * 10"
    using \<open>decimal_value s < 10 ^ length s\<close> by (intro mult_right_mono) auto
  finally show ?case by (simp add: mult.commute)
qed

text \<open>The \<open>Display\<close> form of an unsigned integer, and \<open>{n:0w}\<close>.\<close>

fun show_nat :: "nat \<Rightarrow> string" where
  "show_nat n = (if n < 10 then [digit_char n] else show_nat (n div 10) @ [digit_char (n mod 10)])"

declare show_nat.simps [simp del]

definition show_padded :: "nat \<Rightarrow> nat \<Rightarrow> string" where
  "show_padded w n = replicate (w - length (show_nat n)) (CHR ''0'') @ show_nat n"

lemma show_nat_digits: "list_all is_ascii_digit (show_nat n)"
proof (induction n rule: show_nat.induct)
  case (1 n)
  then show ?case by (cases "n < 10") (simp_all add: show_nat.simps [of n])
qed

lemma show_nat_nonempty [simp]: "show_nat n \<noteq> []"
  by (subst show_nat.simps) simp

lemma decimal_value_show_nat [simp, rust_text]: "decimal_value (show_nat n) = n"
proof (induction n rule: show_nat.induct)
  case (1 n)
  show ?case
  proof (cases "n < 10")
    case True
    then show ?thesis by (simp add: show_nat.simps [of n] decimal_value_def)
  next
    case False
    with "1" show ?thesis by (simp add: show_nat.simps [of n] mult.commute [of _ 10])
  qed
qed

lemma show_nat_length: "n < 10 ^ k \<Longrightarrow> 0 < k \<Longrightarrow> length (show_nat n) \<le> k"
proof (induction n arbitrary: k rule: show_nat.induct)
  case (1 n)
  show ?case
  proof (cases "n < 10")
    case True
    with "1.prems" show ?thesis by (simp add: show_nat.simps [of n])
  next
    case False
    then obtain j where k: "k = Suc j" "0 < j"
      using "1.prems" by (cases k; cases "k - 1") auto
    with "1.prems" have "n div 10 < 10 ^ j" by (simp add: less_mult_imp_div_less mult.commute)
    with "1.IH" False k have "length (show_nat (n div 10)) \<le> j" by simp
    with False k show ?thesis by (simp add: show_nat.simps [of n])
  qed
qed

lemma show_padded_digits: "list_all is_ascii_digit (show_padded w n)"
proof -
  have "list_all is_ascii_digit (replicate k (CHR ''0''))" for k
    by (induction k) (simp_all add: is_ascii_digit_def byte_def)
  then show ?thesis by (simp add: show_padded_def show_nat_digits)
qed

lemma show_padded_length: "n < 10 ^ w \<Longrightarrow> 0 < w \<Longrightarrow> length (show_padded w n) = w"
  using show_nat_length [of n w] by (simp add: show_padded_def)

lemma decimal_value_show_padded [simp, rust_text]: "decimal_value (show_padded w n) = n"
  by (simp add: show_padded_def)

text \<open>The \<open>Display\<close> form of a signed integer.\<close>

definition show_int :: "int \<Rightarrow> string" where
  "show_int n = (if n < 0 then CHR ''-'' # show_nat (nat (- n)) else show_nat (nat n))"

text \<open>\<open>str::parse\<close> for an unsigned integer type with maximum \<open>m\<close>: an optional \<open>+\<close>, then one
  or more decimal digits, within range.\<close>

definition parse_unsigned :: "nat \<Rightarrow> string \<Rightarrow> nat option" where
  "parse_unsigned m s =
     (let d = (if starts_with ''+'' s then tl s else s)
      in if d \<noteq> [] \<and> list_all is_ascii_digit d \<and> decimal_value d \<le> m
         then Some (decimal_value d) else None)"

definition u8_max :: nat where "u8_max = 255"
definition u16_max :: nat where "u16_max = 65535"
definition u32_max :: nat where "u32_max = 4294967295"

lemma digits_no_sign: "list_all is_ascii_digit s \<Longrightarrow> \<not> starts_with ''+'' s"
  by (cases s) (auto simp: starts_with_def is_ascii_digit_def byte_def)

lemma parse_unsigned_digits [rust_text]:
  "s \<noteq> [] \<Longrightarrow> list_all is_ascii_digit s \<Longrightarrow> decimal_value s \<le> m \<Longrightarrow>
   parse_unsigned m s = Some (decimal_value s)"
  by (simp add: parse_unsigned_def digits_no_sign)

lemma parse_unsigned_bound: "parse_unsigned m s = Some n \<Longrightarrow> n \<le> m"
  by (auto simp: parse_unsigned_def Let_def split: if_splits)

section \<open>Hexadecimal bytes\<close>

definition hex_digit_value :: "char \<Rightarrow> nat option" where
  "hex_digit_value c =
     (if is_ascii_digit c then Some (byte c - 48)
      else if 65 \<le> byte c \<and> byte c \<le> 70 then Some (byte c - 55)
      else if 97 \<le> byte c \<and> byte c \<le> 102 then Some (byte c - 87)
      else None)"

definition hex_upper :: "nat \<Rightarrow> char" where
  "hex_upper n = (if n < 10 then digit_char n else of_byte (55 + n))"

lemma hex_digit_value_upper [simp]: "n < 16 \<Longrightarrow> hex_digit_value (hex_upper n) = Some n"
  by (simp add: hex_digit_value_def hex_upper_def digit_char_def is_ascii_digit_def)

lemma hex_upper_alnum: "n < 16 \<Longrightarrow> is_ascii_alphanumeric (hex_upper n)"
  by (simp add: hex_upper_def digit_char_def ascii_defs)

text \<open>\<open>u8::from_str_radix(s, 16)\<close>: a leading \<open>+\<close> is accepted, the value must fit a byte.\<close>

definition u8_from_hex :: "string \<Rightarrow> nat option" where
  "u8_from_hex s =
     (let d = (if starts_with ''+'' s \<and> 1 < length s then tl s else s)
      in if d \<noteq> [] \<and> list_all (\<lambda>c. hex_digit_value c \<noteq> None) d then
           let n = foldl (\<lambda>acc c. acc * 16 + the (hex_digit_value c)) 0 d
           in if n \<le> u8_max then Some n else None
         else None)"

lemma u8_from_hex_upper [rust_text]:
  assumes "b < 256"
  shows "u8_from_hex [hex_upper (b div 16), hex_upper (b mod 16)] = Some b"
proof -
  have "b div 16 < 16" "b mod 16 < 16" using assms by auto
  moreover have "hex_upper n \<noteq> CHR ''+''" if "n < 16" for n
    using hex_upper_alnum [OF that] by (auto simp: ascii_defs byte_def)
  ultimately show ?thesis
    using assms by (simp add: u8_from_hex_def starts_with_def u8_max_def)
qed

section \<open>UTF-8 validity\<close>

text \<open>One step of the decoder behind \<open>String::from_utf8_lossy\<close> on a non-empty rest: whether a
  well-formed scalar value starts here, and how many bytes it, or the maximal ill-formed
  prefix, takes.\<close>

fun second_byte_ok :: "nat \<Rightarrow> nat \<Rightarrow> bool" where
  "second_byte_ok b0 b1 =
     (if b0 = 0xE0 then 0xA0 \<le> b1 \<and> b1 \<le> 0xBF
      else if b0 = 0xED then 0x80 \<le> b1 \<and> b1 \<le> 0x9F
      else if b0 = 0xF0 then 0x90 \<le> b1 \<and> b1 \<le> 0xBF
      else if b0 = 0xF4 then 0x80 \<le> b1 \<and> b1 \<le> 0x8F
      else 0x80 \<le> b1 \<and> b1 \<le> 0xBF)"

definition cont_at :: "string \<Rightarrow> nat \<Rightarrow> bool" where
  "cont_at s i \<longleftrightarrow> i < length s \<and> is_cont (s ! i)"

definition utf8_step :: "string \<Rightarrow> bool \<times> nat" where
  "utf8_step s =
     (let b0 = byte (hd s) in
      if b0 < 0x80 then (True, 1)
      else if 0xC2 \<le> b0 \<and> b0 \<le> 0xDF then (if cont_at s 1 then (True, 2) else (False, 1))
      else if 0xE0 \<le> b0 \<and> b0 \<le> 0xF4 then
        if \<not> (1 < length s \<and> second_byte_ok b0 (byte (s ! 1))) then (False, 1)
        else if \<not> cont_at s 2 then (False, 2)
        else if b0 \<le> 0xEF then (True, 3)
        else if \<not> cont_at s 3 then (False, 3)
        else (True, 4)
      else (False, 1))"

lemma utf8_step_pos [simp]: "0 < snd (utf8_step s)"
  by (simp add: utf8_step_def Let_def)

function valid_utf8 :: "string \<Rightarrow> bool" where
  "valid_utf8 [] = True"
| "valid_utf8 (c # cs) =
     (let (valid, n) = utf8_step (c # cs) in valid \<and> valid_utf8 (drop n (c # cs)))"
  by pat_completeness auto
termination
  by (relation "measure length") (auto dest: sym [of "(_, _)" "utf8_step _"] simp: prod_eq_iff)

function from_utf8_lossy :: "string \<Rightarrow> string" where
  "from_utf8_lossy [] = []"
| "from_utf8_lossy (c # cs) =
     (let (valid, n) = utf8_step (c # cs) in
      (if valid then take n (c # cs) else map of_byte [0xEF, 0xBF, 0xBD])
      @ from_utf8_lossy (drop n (c # cs)))"
  by pat_completeness auto
termination
  by (relation "measure length") (auto dest: sym [of "(_, _)" "utf8_step _"] simp: prod_eq_iff)

lemma from_utf8_lossy_valid [rust_text]: "valid_utf8 s \<Longrightarrow> from_utf8_lossy s = s"
proof (induction s rule: valid_utf8.induct)
  case 1
  show ?case by simp
next
  case (2 c cs)
  obtain v n where step: "utf8_step (c # cs) = (v, n)" by fastforce
  with "2.prems" have "v" and "valid_utf8 (drop n (c # cs))" by simp_all
  moreover from this "2.IH" [OF step [symmetric] refl] have
    "from_utf8_lossy (drop n (c # cs)) = drop n (c # cs)" by simp
  ultimately show ?case using step by simp
qed

lemma valid_utf8_ascii [rust_text]: "list_all is_ascii s \<Longrightarrow> valid_utf8 s"
proof (induction s)
  case Nil
  show ?case by simp
next
  case (Cons c s)
  then have "utf8_step (c # s) = (True, 1)" by (simp add: utf8_step_def is_ascii_def)
  with Cons show ?case by simp
qed

section \<open>Escaped text\<close>

text \<open>How a text is read in which a backslash takes the next character literally. The reading marks the
  characters that were escaped.\<close>

fun read_escaped :: "string \<Rightarrow> (bool \<times> char) list" where
  "read_escaped [] = []"
| "read_escaped [c] = [(False, c)]"
| "read_escaped (c # d # cs) = (if c = CHR 0x5C then (True, d) # read_escaped cs else (False, c) # read_escaped (d # cs))"

lemma read_escaped_pair: "read_escaped (CHR 0x5C # d # cs) = (True, d) # read_escaped cs"
  by simp

lemma read_escaped_plain: "c \<noteq> CHR 0x5C \<Longrightarrow> read_escaped (c # cs) = (False, c) # read_escaped cs"
  by (cases cs) simp_all

end
