(* ===== verification/Isbn.thy ===== *)
theory Isbn
  imports RustText
begin

text \<open>
  \<open>livtet-types/src/isbn.rs\<close>: parsing and canonicalising ISBNs. An input is trimmed, stripped
  of an \<open>ISBN:\<close> prefix, of hyphens and of white space; ten characters are checked as an
  ISBN-10 and upgraded to an ISBN-13, thirteen are checked as an ISBN-13. The sums the code
  computes in \<open>u32\<close> stay below 13 * 9 * 3 + 10, so natural numbers model them.
\<close>

datatype isbn = Isbn string

datatype isbn_error =
    Empty
  | InvalidLength nat
  | InvalidCharacter string
  | InvalidChecksum10
  | InvalidChecksum13

section \<open>Operations\<close>

definition strip_isbn_prefix :: "string \<Rightarrow> string" where
  "strip_isbn_prefix s =
     (let lower = to_ascii_lowercase s in
      case List.find (\<lambda>p. starts_with p lower) [''isbn-13:'', ''isbn-10:'', ''isbn:''] of
        Some p \<Rightarrow> drop (length p) s
      | None \<Rightarrow> s)"

definition clean :: "string \<Rightarrow> string" where
  "clean s =
     concat (filter (\<lambda>c. \<not> is_whitespace c \<and> c \<noteq> ''-'') (chars (strip_isbn_prefix (trim s))))"

definition is_isbn_char :: "string \<Rightarrow> bool" where
  "is_isbn_char c \<longleftrightarrow> char_is is_ascii_digit c \<or> c = ''X'' \<or> c = ''x''"

text \<open>\<open>c.to_digit(10).unwrap_or(0)\<close>.\<close>

definition digit_or_zero :: "string \<Rightarrow> nat" where
  "digit_or_zero c = (if char_is is_ascii_digit c then digit_value (hd c) else 0)"

definition is_valid_isbn10 :: "string \<Rightarrow> bool" where
  "is_valid_isbn10 s =
     (let cs = chars s in
      if length cs \<noteq> 10 then False
      else if \<not> list_all (char_is is_ascii_digit) (take 9 cs) then False
      else
        let lst = cs ! 9 in
        if \<not> (char_is is_ascii_digit lst \<or> lst = ''X'' \<or> lst = ''x'') then False
        else
          let total = sum_list (map (\<lambda>(i, c). digit_or_zero c * (10 - i)) (enumerate 0 (take 9 cs)));
              last_value = (if lst = ''X'' \<or> lst = ''x'' then 10 else digit_or_zero lst)
          in (total + last_value) mod 11 = 0)"

text \<open>The alternating weights 1 and 3, summed over the characters: the iterator chain that
  \<open>is_valid_isbn13\<close> and \<open>isbn13_check_digit\<close> both run.\<close>

definition weighted_sum13 :: "string list \<Rightarrow> nat" where
  "weighted_sum13 cs =
     sum_list (map (\<lambda>(i, c). digit_or_zero c * (if i mod 2 = 0 then 1 else 3)) (enumerate 0 cs))"

definition is_valid_isbn13 :: "string \<Rightarrow> bool" where
  "is_valid_isbn13 s =
     (let cs = chars s in
      if length cs \<noteq> 13 then False
      else if \<not> list_all (char_is is_ascii_digit) cs then False
      else weighted_sum13 cs mod 10 = 0)"

definition isbn13_check_digit :: "string \<Rightarrow> char" where
  "isbn13_check_digit twelve = digit_char ((10 - weighted_sum13 (chars twelve) mod 10) mod 10)"

definition upgrade_isbn10_to_13 :: "string \<Rightarrow> string" where
  "upgrade_isbn10_to_13 isbn10 =
     (let core = concat (take 9 (chars isbn10));
          twelve = ''978'' @ core
      in twelve @ [isbn13_check_digit twelve])"

definition parse :: "string \<Rightarrow> (isbn, isbn_error) result" where
  "parse s =
     (let cleaned = clean s in
      if cleaned = [] then Inl Empty
      else case List.find (\<lambda>c. \<not> is_isbn_char c) (chars cleaned) of
        Some bad \<Rightarrow> Inl (InvalidCharacter bad)
      | None \<Rightarrow>
          let len = length (chars cleaned) in
          if len = 10 then
            if \<not> is_valid_isbn10 cleaned then Inl InvalidChecksum10
            else Inr (Isbn (upgrade_isbn10_to_13 cleaned))
          else if len = 13 then
            if \<not> is_valid_isbn13 cleaned then Inl InvalidChecksum13
            else Inr (Isbn cleaned)
          else Inl (InvalidLength len))"

fun as_str :: "isbn \<Rightarrow> string" where
  "as_str (Isbn s) = s"

fun is_13 :: "isbn \<Rightarrow> bool" where
  "is_13 (Isbn s) = (length (chars s) = 13)"

section \<open>Digit strings\<close>

text \<open>On a string of digits the character-wise sums are sums over its bytes.\<close>

definition weights13 :: "string \<Rightarrow> nat" where
  "weights13 s = sum_list (map (\<lambda>(i, c). digit_value c * (if i mod 2 = 0 then 1 else 3)) (enumerate 0 s))"

definition weights10 :: "string \<Rightarrow> nat" where
  "weights10 s = sum_list (map (\<lambda>(i, c). digit_value c * (10 - i)) (enumerate 0 s))"

lemma enumerate_singletons:
  "map f (enumerate n (map (\<lambda>c. [c]) s)) = map (\<lambda>(i, c). f (i, [c])) (enumerate n s)"
  by (induction s arbitrary: n) auto

lemma digits_ascii: "list_all is_ascii_digit s \<Longrightarrow> list_all is_ascii s"
  by (auto simp: list_all_iff)

lemma weighted_sum13_digits: "list_all is_ascii_digit s \<Longrightarrow> weighted_sum13 (chars s) = weights13 s"
  by (auto simp: weighted_sum13_def weights13_def chars_ascii digits_ascii enumerate_singletons
      digit_or_zero_def in_set_enumerate_eq list_all_length intro!: arg_cong [where f = sum_list])

lemma is_valid_isbn13_iff:
  "is_valid_isbn13 s \<longleftrightarrow> length s = 13 \<and> list_all is_ascii_digit s \<and> weights13 s mod 10 = 0"
proof (cases "list_all is_ascii_digit s")
  case True
  then have "length (chars s) = length s" by (simp add: chars_ascii digits_ascii)
  with True show ?thesis
    by (simp add: is_valid_isbn13_def Let_def weighted_sum13_digits chars_all_char_is)
next
  case False
  then show ?thesis by (simp add: is_valid_isbn13_def Let_def chars_all_char_is)
qed

lemma weights13_snoc:
  "weights13 (s @ [c]) = weights13 s + digit_value c * (if length s mod 2 = 0 then 1 else 3)"
  by (simp add: weights13_def enumerate_append_eq)

text \<open>The upgraded number carries the right check digit.\<close>

lemma check_digit_valid:
  assumes "list_all is_ascii_digit twelve" "length twelve = 12"
  shows "is_valid_isbn13 (twelve @ [isbn13_check_digit twelve])"
proof -
  have "(a + (10 - a mod 10) mod 10) mod 10 = 0" for a :: nat
  proof -
    have "10 * q + r + (10 - r) = 10 * (q + 1)" if "r < 10" for q r :: nat
      using that by simp
    from this [of "a mod 10" "a div 10"] have "a + (10 - a mod 10) = 10 * (a div 10 + 1)" by simp
    then show ?thesis by (simp only: mod_add_right_eq) simp
  qed
  then show ?thesis
    using assms by (simp add: is_valid_isbn13_iff isbn13_check_digit_def weighted_sum13_digits
        weights13_snoc)
qed

lemma take_chars_digits:
  assumes "list_all (char_is is_ascii_digit) (take n (chars s))"
  shows "list_all is_ascii_digit (concat (take n (chars s)))"
  using assms by (force simp: list_all_iff dest: char_isD)

lemma length_concat_digits:
  "list_all (char_is is_ascii_digit) cs \<Longrightarrow> length (concat cs) = length cs"
  by (induction cs) (auto dest: char_isD)

lemma upgrade_valid:
  assumes "is_valid_isbn10 s"
  shows "is_valid_isbn13 (upgrade_isbn10_to_13 s)"
proof -
  from assms have len: "length (chars s) = 10"
    and dig: "list_all (char_is is_ascii_digit) (take 9 (chars s))"
    by (auto simp: is_valid_isbn10_def Let_def split: if_splits)
  have "list_all is_ascii_digit (''978'' @ concat (take 9 (chars s)))"
    using take_chars_digits [OF dig] by (simp add: is_ascii_digit_def byte_def)
  moreover have "length (''978'' @ concat (take 9 (chars s))) = 12"
    using length_concat_digits [OF dig] len by simp
  ultimately show ?thesis
    unfolding upgrade_isbn10_to_13_def Let_def by (rule check_digit_valid)
qed

lemma parse_Inr:
  "parse s = Inr i \<longleftrightarrow>
   clean s \<noteq> [] \<and> list_all is_isbn_char (chars (clean s)) \<and>
   (length (chars (clean s)) = 10 \<and> is_valid_isbn10 (clean s) \<and> i = Isbn (upgrade_isbn10_to_13 (clean s))
    \<or> is_valid_isbn13 (clean s) \<and> i = Isbn (clean s))"
proof (cases "List.find (\<lambda>c. \<not> is_isbn_char c) (chars (clean s))")
  case None
  then have "list_all is_isbn_char (chars (clean s))" by (simp add: find_None_iff list_all_iff)
  moreover have "is_valid_isbn13 (clean s) \<Longrightarrow> length (chars (clean s)) = 13"
    by (simp add: is_valid_isbn13_def Let_def split: if_splits)
  ultimately show ?thesis using None by (auto simp: parse_def Let_def)
next
  case (Some bad)
  then have "\<not> list_all is_isbn_char (chars (clean s))"
    by (auto simp: find_Some_iff list_all_length)
  with Some show ?thesis by (auto simp: parse_def Let_def)
qed

text \<open>A canonical ISBN is a fixed point of cleaning.\<close>

lemma digits_clean:
  assumes "list_all is_ascii_digit s"
  shows "clean s = s"
proof -
  have ascii: "list_all is_ascii s" using assms by (rule digits_ascii)
  have nows: "\<not> is_whitespace [c] \<and> [c] \<noteq> ''-''" if "c \<in> set s" for c
    using assms that by (auto simp: list_all_iff is_ascii_digit_def byte_def)
  have t: "trim s = s" 
    using ascii nows [OF hd_in_set] nows [OF last_in_set] by (intro trim_id) blast+
  have "lower_char c = c" if "is_ascii_digit c" for c
    using that by (simp add: lower_char_def ascii_defs)
  then have low: "to_ascii_lowercase s = s"
    using assms by (simp add: to_ascii_lowercase_def list_all_iff map_idI)
  have "\<not> starts_with (CHR ''i'' # p) s" for p
    using assms by (cases s) (auto simp: starts_with_def is_ascii_digit_def byte_def)
  then have "strip_isbn_prefix s = s" by (simp add: strip_isbn_prefix_def low)
  moreover have "filter (\<lambda>c. \<not> is_whitespace c \<and> c \<noteq> ''-'') (chars s) = chars s"
    using nows ascii by (auto simp: chars_ascii filter_id_conv)
  ultimately show ?thesis using t by (simp add: clean_def)
qed

text \<open>An ISBN-10 is nine digits and a check character, which may be \<open>X\<close> or \<open>x\<close> for ten.\<close>

definition check_value :: "char \<Rightarrow> nat" where
  "check_value l = (if l = CHR ''X'' \<or> l = CHR ''x'' then 10 else digit_value l)"

lemma singles_concat: "list_all (char_is P) cs \<Longrightarrow> cs = map (\<lambda>c. [c]) (concat cs) \<and> list_all P (concat cs)"
  by (induction cs) (auto dest: char_isD)

lemma weights10_digits:
  "list_all is_ascii_digit s \<Longrightarrow>
   sum_list (map (\<lambda>(i, c). digit_or_zero c * (10 - i)) (enumerate 0 (map (\<lambda>c. [c]) s))) = weights10 s"
  by (auto simp: weights10_def enumerate_singletons digit_or_zero_def in_set_enumerate_eq
      list_all_length intro!: arg_cong [where f = sum_list])

lemma is_valid_isbn10_D:
  assumes "is_valid_isbn10 s"
  obtains core l where "s = core @ [l]" "length core = 9" "list_all is_ascii_digit core"
    "chars s = map (\<lambda>c. [c]) core @ [[l]]"
    "is_ascii_digit l \<or> l = CHR ''X'' \<or> l = CHR ''x''" "(weights10 core + check_value l) mod 11 = 0"
proof -
  let ?cs = "chars s"
  let ?core = "concat (take 9 ?cs)"
  from assms have len: "length ?cs = 10"
    and dig: "list_all (char_is is_ascii_digit) (take 9 ?cs)"
    and lst: "char_is is_ascii_digit (?cs ! 9) \<or> ?cs ! 9 = ''X'' \<or> ?cs ! 9 = ''x''"
    and sum: "(sum_list (map (\<lambda>(i, c). digit_or_zero c * (10 - i)) (enumerate 0 (take 9 ?cs)))
      + (if ?cs ! 9 = ''X'' \<or> ?cs ! 9 = ''x'' then 10 else digit_or_zero (?cs ! 9))) mod 11 = 0"
    by (auto simp: is_valid_isbn10_def Let_def split: if_splits)
  from lst obtain l where l: "?cs ! 9 = [l]" "is_ascii_digit l \<or> l = CHR ''X'' \<or> l = CHR ''x''"
    by (auto dest: char_isD)
  have "take (Suc 9) ?cs = take 9 ?cs @ [?cs ! 9]"
    using len by (intro take_Suc_conv_app_nth) simp
  then have split: "?cs = take 9 ?cs @ [[l]]" using len l(1) by simp
  from singles_concat [OF dig] have cs9: "take 9 ?cs = map (\<lambda>c. [c]) ?core"
    and core: "list_all is_ascii_digit ?core" by auto
  have "s = concat ?cs" by simp
  also have "\<dots> = ?core @ [l]" by (subst split) simp
  finally have s: "s = ?core @ [l]" .
  have "length ?core = 9" using length_concat_digits [OF dig] len by simp
  moreover have "(weights10 ?core + check_value l) mod 11 = 0"
    using sum weights10_digits [OF core] cs9 l
    by (auto simp: check_value_def digit_or_zero_def split: if_splits)
  moreover have "?cs = map (\<lambda>c. [c]) ?core @ [[l]]" using split cs9 by simp
  ultimately show thesis using that [of ?core l] s core l(2) by simp
qed

lemma upper_char_check:
  assumes "is_ascii_digit l \<or> l = CHR ''X'' \<or> l = CHR ''x''"
  shows "upper_char l = (if check_value l = 10 then CHR ''X'' else digit_char (check_value l))"
proof (cases "is_ascii_digit l")
  case True
  then have "check_value l = digit_value l" by (auto simp: check_value_def ascii_defs byte_def)
  moreover have "upper_char l = l" using True by (simp add: upper_char_def ascii_defs)
  moreover have "digit_value l \<noteq> 10" using digit_value_less [OF True] by linarith
  ultimately show ?thesis using True by simp
next
  case False
  have "of_byte 88 = CHR ''X''" by code_simp
  with False assms show ?thesis
    by (auto simp: check_value_def upper_char_def ascii_defs byte_def)
qed

text \<open>Changing one entry of a weighted sum.\<close>

lemma map_enumerate_update:
  "i < length xs \<Longrightarrow> map f (enumerate 0 (xs[i := v])) = (map f (enumerate 0 xs))[i := f (i, v)]"
  by (intro nth_equalityI) (auto simp: nth_enumerate_eq nth_list_update)

lemma weighted_update:
  fixes g :: "nat \<Rightarrow> nat"
  assumes "i < length s"
  defines "wsum \<equiv> (\<lambda>t. sum_list (map (\<lambda>(i, c). digit_value c * g i) (enumerate 0 t)))"
  shows "wsum (s[i := d]) + digit_value (s ! i) * g i = wsum s + digit_value d * g i"
proof -
  let ?f = "\<lambda>(i, c). digit_value c * g i"
  have "sum_list ((map ?f (enumerate 0 s))[i := ?f (i, d)]) + map ?f (enumerate 0 s) ! i
      = sum_list (map ?f (enumerate 0 s)) + ?f (i, d)"
    using assms(1) by (intro sum_list_update) simp
  then show ?thesis
    using assms(1) unfolding wsum_def by (simp add: map_enumerate_update nth_enumerate_eq)
qed

text \<open>A difference of two digits, weighted, is never a multiple of ten (weights 1 and 3) or of
  eleven (weights 1 to 10).\<close>

lemma dvd_small_zero: "(m::int) dvd z \<Longrightarrow> \<bar>z\<bar> < m \<Longrightarrow> z = 0"
  using dvd_imp_le_int [of z m] by linarith

lemma mod0_dvd_int: "n mod m = 0 \<Longrightarrow> int m dvd int n"
  by (simp add: mod_eq_0_iff_dvd)

lemma no_collision:
  fixes a b w x y m :: nat
  assumes "a + x * w = b + y * w" "a mod m = 0" "b mod m = 0" "gcd m w = 1" "x < m" "y < m"
  shows "x = y"
proof -
  have ab: "int m dvd int a" "int m dvd int b" using assms(2,3) by (simp_all only: mod0_dvd_int)
  have "int a + int x * int w = int b + int y * int w"
    using assms(1) by (metis of_nat_add of_nat_mult)
  then have "(int x - int y) * int w = int b - int a" by (simp add: algebra_simps)
  moreover have "int m dvd int b - int a" using ab by (intro dvd_diff)
  ultimately have "int m dvd (int x - int y) * int w" by simp
  then have "int m dvd int x - int y"
    using assms(4) by (simp add: coprime_dvd_mult_left_iff coprime_iff_gcd_eq_1)
  then have "int x - int y = 0" using assms(5,6) by (intro dvd_small_zero) auto
  then show ?thesis by simp
qed

lemma same_residue:
  fixes a x y :: nat
  assumes "(a + x) mod 11 = 0" "(a + y) mod 11 = 0" "x \<le> 10" "y \<le> 10"
  shows "x = y"
proof -
  have "int 11 dvd int (a + x)" "int 11 dvd int (a + y)"
    using assms(1,2) by (simp_all only: mod0_dvd_int)
  then have "int 11 dvd int (a + x) - int (a + y)" by (rule dvd_diff)
  then have "(11::int) dvd int x - int y" by simp
  then have "int x - int y = 0" using assms(3,4) by (intro dvd_small_zero) auto
  then show ?thesis by simp
qed

section \<open>Properties\<close>

text \<open>C36: whatever text \<open>Isbn::parse\<close> accepts, the value it builds is the canonical form:
  thirteen ASCII digits with a correct ISBN-13 checksum, also when the input was an ISBN-10
  (whose check character does not survive the upgrade).\<close>

theorem isbn_parse_canonical:
  assumes "parse s = Inr i"
  shows "length (as_str i) = 13 \<and> list_all is_ascii_digit (as_str i) \<and> is_valid_isbn13 (as_str i)"
proof -
  have "is_valid_isbn13 (as_str i)" using assms by (auto simp: parse_Inr upgrade_valid)
  then show ?thesis by (simp add: is_valid_isbn13_iff)
qed

theorem isbn_parse_canonical_witness:
  "parse ''ISBN-10: 0-201-61622-x'' = Inr (Isbn ''9780201616224'')
   \<and> is_valid_isbn13 (as_str (Isbn ''9780201616224''))"
proof -
  have h: "parse ''ISBN-10: 0-201-61622-x'' = Inr (Isbn ''9780201616224'')" by code_simp
  show ?thesis using h isbn_parse_canonical [OF h] by simp
qed

text \<open>Parsing is idempotent. The canonical string of an accepted ISBN parses again, to the
  same ISBN.\<close>

theorem isbn_parse_idempotent:
  assumes "parse s = Inr i"
  shows "parse (as_str i) = Inr i"
proof -
  obtain t where i: "i = Isbn t" by (cases i)
  have v: "is_valid_isbn13 t" using assms i by (auto simp: parse_Inr upgrade_valid)
  then have t: "t \<noteq> []" "list_all is_ascii_digit t" by (auto simp: is_valid_isbn13_iff)
  have "list_all is_isbn_char (chars t)"
    using t(2) by (auto simp: chars_ascii digits_ascii list_all_iff is_isbn_char_def)
  then show ?thesis using t v i by (auto simp: parse_Inr digits_clean)
qed

theorem isbn_parse_idempotent_witness:
  "parse ''0-306-40615-2'' = Inr (Isbn ''9780306406157'')
   \<and> parse ''9780306406157'' = Inr (Isbn ''9780306406157'')"
proof -
  have h: "parse ''0-306-40615-2'' = Inr (Isbn ''9780306406157'')" by code_simp
  show ?thesis using h isbn_parse_idempotent [OF h] by simp
qed

text \<open>The ISBN-13 check catches every single mistyped digit: replacing one digit of a valid
  number by a different digit makes it invalid.\<close>

theorem isbn13_detects_single_error:
  assumes "is_valid_isbn13 s" "i < 13" "is_ascii_digit d" "d \<noteq> s ! i"
  shows "\<not> is_valid_isbn13 (s[i := d])"
proof
  let ?w = "if i mod 2 = 0 then 1 else 3 :: nat"
  assume v: "is_valid_isbn13 (s[i := d])"
  from assms(1,2) have i: "i < length s" and dig: "is_ascii_digit (s ! i)"
    by (auto simp: is_valid_isbn13_iff list_all_length)
  have eq: "weights13 (s[i := d]) + digit_value (s ! i) * ?w = weights13 s + digit_value d * ?w"
    unfolding weights13_def by (rule weighted_update [OF i])
  have m: "weights13 (s[i := d]) mod 10 = 0" "weights13 s mod 10 = 0"
    using v assms(1) by (simp_all only: is_valid_isbn13_iff)
  have "gcd 10 ?w = 1" by (cases "i mod 2 = 0"; simp; code_simp)
  from eq m this digit_value_less [OF dig] digit_value_less [OF assms(3)]
  have "digit_value (s ! i) = digit_value d" by (rule no_collision)
  then show False using assms(3,4) dig by (metis digit_char_digit_value)
qed

theorem isbn13_detects_single_error_witness:
  "is_valid_isbn13 ''9780306406157'' \<and> \<not> is_valid_isbn13 (''9780306406157''[4 := CHR ''1''])"
proof -
  have h: "is_valid_isbn13 ''9780306406157''" by code_simp
  have "\<not> is_valid_isbn13 (''9780306406157''[4 := CHR ''1''])"
    by (rule isbn13_detects_single_error [OF h]) (simp_all add: is_ascii_digit_def byte_def)
  with h show ?thesis by blast
qed

text \<open>The upgrade from ISBN-10 to ISBN-13 loses nothing. Two valid ISBN-10s with the same
  upgrade are equal up to the case of an \<open>X\<close> check character.\<close>

theorem isbn_upgrade_injective:
  assumes "is_valid_isbn10 a" "is_valid_isbn10 b" "upgrade_isbn10_to_13 a = upgrade_isbn10_to_13 b"
  shows "to_ascii_uppercase a = to_ascii_uppercase b"
proof -
  obtain ca la where a: "a = ca @ [la]" "length ca = 9" "chars a = map (\<lambda>c. [c]) ca @ [[la]]"
    "is_ascii_digit la \<or> la = CHR ''X'' \<or> la = CHR ''x''" "(weights10 ca + check_value la) mod 11 = 0"
    using is_valid_isbn10_D [OF assms(1)] .
  obtain cb lb where b: "b = cb @ [lb]" "length cb = 9" "chars b = map (\<lambda>c. [c]) cb @ [[lb]]"
    "is_ascii_digit lb \<or> lb = CHR ''X'' \<or> lb = CHR ''x''" "(weights10 cb + check_value lb) mod 11 = 0"
    using is_valid_isbn10_D [OF assms(2)] .
  have core: "ca = cb" using assms(3) a(2,3) b(2,3) by (simp add: upgrade_isbn10_to_13_def Let_def)
  have bnd: "check_value l \<le> 10" if "is_ascii_digit l \<or> l = CHR ''X'' \<or> l = CHR ''x''" for l
    using that by (auto simp: check_value_def is_ascii_digit_def digit_value_def)
  have "check_value la = check_value lb"
    using a(5) b(5) [folded core] bnd [OF a(4)] bnd [OF b(4)] by (rule same_residue)
  then have "upper_char la = upper_char lb"
    by (simp add: upper_char_check [OF a(4)] upper_char_check [OF b(4)])
  then show ?thesis using a(1) b(1) core by (simp add: to_ascii_uppercase_def)
qed

theorem isbn_upgrade_injective_witness:
  "is_valid_isbn10 ''020161622X'' \<and> is_valid_isbn10 ''020161622x''
   \<and> to_ascii_uppercase ''020161622X'' = to_ascii_uppercase ''020161622x''"
proof -
  have h: "is_valid_isbn10 ''020161622X''" "is_valid_isbn10 ''020161622x''" by code_simp+
  have "upgrade_isbn10_to_13 ''020161622X'' = upgrade_isbn10_to_13 ''020161622x''" by code_simp
  with h show ?thesis using isbn_upgrade_injective [OF h] by blast
qed

end
