(* ===== verification/PairLink.thy ===== *)
theory PairLink
  imports RustText
begin

text \<open>
  \<open>livtet-sync/src/types/pair_link.rs\<close>: the link a pairing QR code carries. \<open>to_uri\<close> renders
  the canonical form, \<open>parse\<close> accepts it, the legacy form and the web form. Rust panics when
  a string is sliced inside a multi-byte character, so \<open>decode\<close> and \<open>parse\<close> return an option:
  \<open>None\<close> is the panic, \<open>Some\<close> the Rust result.
\<close>

definition SCHEME :: string where "SCHEME = ''livtet''"
definition HOST :: string where "HOST = ''sync''"
definition LEGACY_HOST :: string where "LEGACY_HOST = ''pair''"
definition WEB_HOST :: string where "WEB_HOST = ''livtet.olamaelcu.net''"
definition PROTOCOL_VERSION :: nat where "PROTOCOL_VERSION = 2"
definition KEY_NODE_ID :: string where "KEY_NODE_ID = ''nodeId''"
definition KEY_NODE :: string where "KEY_NODE = ''node''"
definition KEY_VERSION :: string where "KEY_VERSION = ''v''"
definition KEY_NAME :: string where "KEY_NAME = ''name''"

lemmas link_consts = SCHEME_def HOST_def LEGACY_HOST_def WEB_HOST_def PROTOCOL_VERSION_def
  KEY_NODE_ID_def KEY_NODE_def KEY_VERSION_def KEY_NAME_def

datatype pair_link_error =
    NotALink string
  | UnsupportedScheme string
  | UnsupportedHost string
  | MissingNodeId
  | InvalidNodeId string
  | UnsupportedVersion nat
  | MalformedVersion string

record pair_link =
  version :: nat
  node_id :: string
  name :: "string option"

section \<open>Percent encoding\<close>

definition is_unreserved :: "char \<Rightarrow> bool" where
  "is_unreserved c \<longleftrightarrow> is_ascii_alphanumeric c \<or> c \<in> {CHR ''-'', CHR ''_'', CHR ''.'', CHR ''~''}"

definition encode_byte :: "char \<Rightarrow> string" where
  "encode_byte c =
     (if is_unreserved c then [c]
      else [CHR ''%'', hex_upper (byte c div 16), hex_upper (byte c mod 16)])"

definition encode :: "string \<Rightarrow> string" where
  "encode value = concat (map encode_byte value)"

text \<open>The decoding loop; the argument is \<open>value[index..]\<close>. The slice \<open>value[index+1..index+3]\<close>
  is taken when two more bytes follow, and panics when an end of it lies inside a character.\<close>

fun decode_bytes :: "string \<Rightarrow> string option" where
  "decode_bytes [] = Some []"
| "decode_bytes (c # rest) =
     (if c = CHR ''%'' \<and> 2 \<le> length rest then
        if cont_at rest 0 \<or> cont_at rest 2 then None
        else case u8_from_hex (take 2 rest) of
               Some b \<Rightarrow> map_option (Cons (of_byte b)) (decode_bytes (drop 2 rest))
             | None \<Rightarrow> map_option (Cons c) (decode_bytes rest)
      else map_option (Cons c) (decode_bytes rest))"

definition decode :: "string \<Rightarrow> string option" where
  "decode value = map_option from_utf8_lossy (decode_bytes value)"

definition is_node_id_char :: "char \<Rightarrow> bool" where
  "is_node_id_char c \<longleftrightarrow> is_ascii_alphanumeric c \<or> c \<in> {CHR ''-'', CHR ''_'', CHR ''.''}"

section \<open>Rendering and parsing\<close>

definition new :: "string \<Rightarrow> string option \<Rightarrow> pair_link" where
  "new nid nm =
     \<lparr>version = PROTOCOL_VERSION, node_id = nid,
      name = (case nm of Some n \<Rightarrow> if n \<noteq> [] then Some n else None | None \<Rightarrow> None)\<rparr>"

definition to_uri :: "pair_link \<Rightarrow> string" where
  "to_uri link =
     SCHEME @ ''://'' @ HOST @ ''?'' @ KEY_VERSION @ ''='' @ show_nat (version link)
     @ ''&'' @ KEY_NODE_ID @ ''='' @ encode (node_id link)
     @ (case name link of Some n \<Rightarrow> ''&'' @ KEY_NAME @ ''='' @ encode n | None \<Rightarrow> [])"

definition to_web_uri :: "pair_link \<Rightarrow> string" where
  "to_web_uri link =
     ''https://'' @ WEB_HOST @ ''/'' @ HOST @ ''?'' @ KEY_VERSION @ ''='' @ show_nat (version link)
     @ ''&'' @ KEY_NODE_ID @ ''='' @ encode (node_id link)"

type_synonym link_params = "string option \<times> nat option \<times> string option"

fun parse_query :: "string list \<Rightarrow> link_params \<Rightarrow> (link_params, pair_link_error) result option" where
  "parse_query [] ps = Some (Inr ps)"
| "parse_query (pair # pairs) (nid, ver, nm) =
     (let (key, raw_value) = (case split_once ''='' pair of Some kv \<Rightarrow> kv | None \<Rightarrow> (pair, [])) in
      case decode raw_value of
        None \<Rightarrow> None
      | Some v \<Rightarrow>
          if eq_ignore_ascii_case key KEY_NODE_ID \<or> eq_ignore_ascii_case key KEY_NODE then
            parse_query pairs (case nid of None \<Rightarrow> Some v | Some _ \<Rightarrow> nid, ver, nm)
          else if eq_ignore_ascii_case key KEY_VERSION then
            (case parse_unsigned u16_max v of
               None \<Rightarrow> Some (Inl (MalformedVersion v))
             | Some parsed \<Rightarrow> parse_query pairs (nid, Some parsed, nm))
          else if eq_ignore_ascii_case key KEY_NAME then
            parse_query pairs (nid, ver, if v \<noteq> [] then Some v else nm)
          else parse_query pairs (nid, ver, nm))"

text \<open>The scheme, authority and path: \<open>Inr\<close> is the query to read.\<close>

definition parse_target :: "string \<Rightarrow> (string, pair_link_error) result" where
  "parse_target raw =
     (case split_once ''://'' raw of
        None \<Rightarrow> Inl (NotALink raw)
      | Some (scheme0, rest) \<Rightarrow>
          let scheme = to_ascii_lowercase scheme0 in
          if scheme \<noteq> SCHEME \<and> scheme \<noteq> ''https'' \<and> scheme \<noteq> ''http''
          then Inl (UnsupportedScheme scheme)
          else
            let is_web = (scheme \<noteq> SCHEME);
                (authority0, query) = (case split_once ''?'' rest of Some aq \<Rightarrow> aq | None \<Rightarrow> (rest, []));
                authority = trim_end_matches (CHR ''/'') authority0;
                (host0, path) =
                  (if is_web then
                     (case split_once ''/'' authority of
                        Some (h, p) \<Rightarrow> (h, trim_end_matches (CHR ''/'') p)
                      | None \<Rightarrow> (authority, []))
                   else (authority, []));
                host = to_ascii_lowercase host0
            in
            if is_web \<and> \<not> eq_ignore_ascii_case host WEB_HOST then Inl (UnsupportedHost host)
            else if \<not> is_web \<and> path \<noteq> [] then Inl (UnsupportedHost (host @ ''/'' @ path))
            else if is_web \<and> path = [] then Inl (UnsupportedHost host)
            else
              let kind = (if is_web then to_ascii_lowercase path else host) in
              if kind \<noteq> HOST \<and> kind \<noteq> LEGACY_HOST then Inl (UnsupportedHost kind)
              else Inr query)"

definition finish_link :: "link_params \<Rightarrow> (pair_link, pair_link_error) result" where
  "finish_link = (\<lambda>(nid, ver, nm).
     case nid of
       None \<Rightarrow> Inl MissingNodeId
     | Some i \<Rightarrow>
         if i = [] \<or> 128 < length i \<or> \<not> list_all (char_is is_node_id_char) (chars i)
         then Inl (InvalidNodeId i)
         else
           let v = (case ver of Some v \<Rightarrow> v | None \<Rightarrow> PROTOCOL_VERSION) in
           if v \<noteq> PROTOCOL_VERSION then Inl (UnsupportedVersion v)
           else Inr \<lparr>version = v, node_id = i, name = nm\<rparr>)"

definition parse :: "string \<Rightarrow> (pair_link, pair_link_error) result option" where
  "parse raw =
     (case parse_target (trim raw) of
        Inl e \<Rightarrow> Some (Inl e)
      | Inr query \<Rightarrow>
          (case parse_query (filter (\<lambda>p. p \<noteq> []) (split_on (CHR ''&'') query)) (None, None, None) of
             None \<Rightarrow> None
           | Some (Inl e) \<Rightarrow> Some (Inl e)
           | Some (Inr ps) \<Rightarrow> Some (finish_link ps)))"

declare parse_query.simps [simp del]

lemma parse_query_Nil [simp]: "parse_query [] ps = Some (Inr ps)"
  by (simp add: parse_query.simps)

lemma parse_via:
  assumes "parse_target (trim raw) = Inr q"
    and "filter (\<lambda>p. p \<noteq> []) (split_on (CHR ''&'') q) = ps"
    and "parse_query ps (None, None, None) = Some (Inr params)"
  shows "parse raw = Some (finish_link params)"
  by (simp add: parse_def assms)

section \<open>Decoding inverts encoding\<close>

lemma is_unreserved_ascii: "is_unreserved c \<Longrightarrow> is_ascii c"
  by (auto simp: is_unreserved_def ascii_defs byte_def)

lemma encode_byte_ascii: "list_all is_ascii (encode_byte c)"
proof -
  have "is_ascii (hex_upper n)" if "n < 16" for n
    using hex_upper_alnum [OF that] by (auto simp: ascii_defs)
  then show ?thesis
    by (simp add: encode_byte_def is_unreserved_ascii) (simp add: is_ascii_def byte_def)
qed

lemma encode_ascii: "list_all is_ascii (encode s)"
  by (induction s) (simp_all add: encode_def encode_byte_ascii)

lemma decode_encode_byte:
  assumes "list_all is_ascii t"
  shows "decode_bytes (encode_byte c @ t) = map_option (Cons c) (decode_bytes t)"
proof (cases "is_unreserved c")
  case True
  then have "c \<noteq> CHR ''%''" by (auto simp: is_unreserved_def ascii_defs byte_def)
  with True show ?thesis by (simp add: encode_byte_def)
next
  case False
  have nc: "\<not> is_cont (hex_upper (byte c div 16))"
    using hex_upper_alnum [OF byte_div16 [of c]] by (auto simp: is_cont_def ascii_defs)
  have "\<not> cont_at t 0" using assms by (cases t) (auto simp: cont_at_def is_ascii_not_cont)
  then have "\<not> cont_at (hex_upper (byte c div 16) # hex_upper (byte c mod 16) # t) 2"
    by (simp add: cont_at_def)
  moreover have "\<not> cont_at (hex_upper (byte c div 16) # hex_upper (byte c mod 16) # t) 0"
    using nc by (simp add: cont_at_def)
  ultimately show ?thesis using False
    by (simp add: encode_byte_def u8_from_hex_upper)
qed

lemma decode_bytes_encode [simp]: "decode_bytes (encode s) = Some s"
  by (induction s) (simp_all add: encode_def decode_encode_byte [unfolded]
      encode_ascii [unfolded encode_def])

lemma decode_encode: "valid_utf8 s \<Longrightarrow> decode (encode s) = Some s"
  by (simp add: decode_def from_utf8_lossy_valid)

section \<open>Rendered links\<close>

lemma encode_chars: "c \<in> set (encode s) \<Longrightarrow> is_unreserved c \<or> c = CHR ''%''"
proof -
  have "is_unreserved d \<or> d = CHR ''%''" if "d \<in> set (encode_byte b)" for b d
    using that hex_upper_alnum [OF byte_div16 [of b]] hex_upper_alnum [of "byte b mod 16"]
    by (auto simp: encode_byte_def is_unreserved_def split: if_splits)
  then show "c \<in> set (encode s) \<Longrightarrow> is_unreserved c \<or> c = CHR ''%''"
    by (auto simp: encode_def)
qed

lemma encode_no_delimiter:
  "CHR ''&'' \<notin> set (encode s)" "CHR ''='' \<notin> set (encode s)" "CHR ''?'' \<notin> set (encode s)"
  by (auto dest!: encode_chars simp: is_unreserved_def ascii_defs byte_def)

lemma encode_not_white: "c \<in> set (encode s) \<Longrightarrow> \<not> is_whitespace [c]"
  by (auto dest!: encode_chars simp: is_unreserved_def ascii_defs byte_def)

lemma encode_empty_iff [simp]: "encode s = [] \<longleftrightarrow> s = []"
  by (cases s) (auto simp: encode_def encode_byte_def)

lemma ascii_literal_char: "byte c < 128 \<Longrightarrow> is_ascii c"
  by (simp add: is_ascii_def)

text \<open>A link whose text starts with a letter and ends in an encoded, non-empty value survives
  \<open>trim\<close>.\<close>

lemma trim_link:
  assumes "list_all is_ascii pre" "pre \<noteq> []" "\<not> is_whitespace [hd pre]" "s \<noteq> []"
  shows "trim (pre @ encode s) = pre @ encode s"
proof (rule trim_id)
  show "list_all is_ascii (pre @ encode s)" using assms(1) encode_ascii by simp
  have "last (pre @ encode s) \<in> set (encode s)" using assms(4) by simp
  then show "pre @ encode s = [] \<or> \<not> is_whitespace [hd (pre @ encode s)]
      \<and> \<not> is_whitespace [last (pre @ encode s)]"
    using assms(2,3) encode_not_white by simp
qed

lemma parse_target_canonical: "parse_target (''livtet://sync?'' @ q) = Inr q"
  by (simp add: parse_target_def starts_with_def to_ascii_lowercase_def lower_char_def ascii_defs
      byte_def trim_end_matches_def link_consts)

lemma parse_target_web: "parse_target (''https://livtet.olamaelcu.net/sync?'' @ q) = Inr q"
proof -
  have 1: "split_once ''://'' (''https://livtet.olamaelcu.net/sync?'' @ q) =
      Some (''https'', ''livtet.olamaelcu.net/sync?'' @ q)"
    by (simp add: starts_with_def)
  have "split_once ''?'' (''livtet.olamaelcu.net/sync'' @ CHR ''?'' # q) =
      Some (''livtet.olamaelcu.net/sync'', q)"
    by (rule split_once_char) simp
  then have 2: "split_once ''?'' (''livtet.olamaelcu.net/sync?'' @ q) =
      Some (''livtet.olamaelcu.net/sync'', q)" by simp
  have 3: "to_ascii_lowercase ''https'' = ''https''" "''https'' \<noteq> SCHEME"
    "trim_end_matches (CHR ''/'') ''livtet.olamaelcu.net/sync'' = ''livtet.olamaelcu.net/sync''"
    "split_once ''/'' ''livtet.olamaelcu.net/sync'' = Some (''livtet.olamaelcu.net'', ''sync'')"
    "trim_end_matches (CHR ''/'') ''sync'' = ''sync''" "to_ascii_lowercase ''sync'' = HOST"
    "eq_ignore_ascii_case (to_ascii_lowercase ''livtet.olamaelcu.net'') WEB_HOST"
    by code_simp+
  show ?thesis by (simp only: parse_target_def Let_def 1 2 3 option.case prod.case) (simp add: 3)
qed

lemma decode_two: "decode ''2'' = Some ''2''"
  by code_simp

lemma parse_two: "parse_unsigned u16_max ''2'' = Some 2"
  by (simp add: parse_unsigned_def starts_with_def u16_max_def ascii_defs byte_def
      decimal_value_def digit_value_def)

lemma query_version:
  "parse_query (''v=2'' # ps) (nid, ver, nm) = parse_query ps (nid, Some 2, nm)"
proof -
  have "split_once ''='' ''v=2'' = Some (''v'', ''2'')" by code_simp
  moreover have "\<not> eq_ignore_ascii_case ''v'' KEY_NODE_ID" "\<not> eq_ignore_ascii_case ''v'' KEY_NODE"
    "eq_ignore_ascii_case ''v'' KEY_VERSION" by code_simp+
  ultimately show ?thesis by (simp add: parse_query.simps decode_two parse_two)
qed

lemma query_node:
  assumes "valid_utf8 i"
  shows "parse_query ((''nodeId='' @ encode i) # ps) (None, ver, nm) = parse_query ps (Some i, ver, nm)"
proof -
  have "split_once ''='' (''nodeId'' @ CHR ''='' # encode i) = Some (''nodeId'', encode i)"
    by (rule split_once_char) simp
  moreover have "eq_ignore_ascii_case ''nodeId'' KEY_NODE_ID" by code_simp
  ultimately show ?thesis using assms by (simp add: parse_query.simps(2) decode_encode)
qed

lemma query_name:
  assumes "valid_utf8 n" "n \<noteq> []"
  shows "parse_query ((''name='' @ encode n) # ps) (nid, ver, nm) = parse_query ps (nid, ver, Some n)"
proof -
  have "split_once ''='' (''name'' @ CHR ''='' # encode n) = Some (''name'', encode n)"
    by (rule split_once_char) simp
  moreover have "\<not> eq_ignore_ascii_case ''name'' KEY_NODE_ID"
    "\<not> eq_ignore_ascii_case ''name'' KEY_NODE" "\<not> eq_ignore_ascii_case ''name'' KEY_VERSION"
    "eq_ignore_ascii_case ''name'' KEY_NAME" by code_simp+
  ultimately show ?thesis using assms by (simp add: parse_query.simps(2) decode_encode)
qed

text \<open>A node id \<open>parse\<close> accepts.\<close>

definition valid_node_id :: "string \<Rightarrow> bool" where
  "valid_node_id i \<longleftrightarrow> i \<noteq> [] \<and> length i \<le> 128 \<and> list_all is_node_id_char i"

lemma node_id_char_ascii: "is_node_id_char c \<Longrightarrow> is_ascii c"
  by (auto simp: is_node_id_char_def ascii_defs byte_def)

lemma valid_node_id_utf8: "valid_node_id i \<Longrightarrow> valid_utf8 i"
  by (rule valid_utf8_ascii) (auto simp: valid_node_id_def list_all_iff node_id_char_ascii)

lemma finish_link_Inr:
  "finish_link (nid, ver, nm) = Inr l \<longleftrightarrow>
   (\<exists>i. nid = Some i \<and> valid_node_id i \<and> (ver = None \<or> ver = Some PROTOCOL_VERSION)
      \<and> l = \<lparr>version = PROTOCOL_VERSION, node_id = i, name = nm\<rparr>)"
  using chars_all_char_is [of is_node_id_char, OF node_id_char_ascii]
  by (auto simp: finish_link_def valid_node_id_def Let_def split: option.splits if_splits)

lemma split_query:
  "filter (\<lambda>p. p \<noteq> []) (split_on (CHR ''&'') (''v=2&nodeId='' @ encode i)) = [''v=2'', ''nodeId='' @ encode i]"
  using split_on_none [of "CHR ''&''" "''nodeId='' @ encode i"] encode_no_delimiter(1) by simp

lemma split_query_name:
  "filter (\<lambda>p. p \<noteq> []) (split_on (CHR ''&'') (''v=2&nodeId='' @ encode i @ ''&name='' @ encode n)) =
   [''v=2'', ''nodeId='' @ encode i, ''name='' @ encode n]"
proof -
  have "split_on (CHR ''&'') ((''nodeId='' @ encode i) @ CHR ''&'' # ''name='' @ encode n) =
      (''nodeId='' @ encode i) # split_on (CHR ''&'') (''name='' @ encode n)"
    using encode_no_delimiter(1) by (intro split_on_append) simp
  moreover have "split_on (CHR ''&'') (''name='' @ encode n) = [''name='' @ encode n]"
    using encode_no_delimiter(1) by (intro split_on_none) simp
  ultimately show ?thesis by simp
qed

lemma show_two: "show_nat 2 = ''2''"
  by code_simp

section \<open>Properties\<close>

text \<open>C35: the canonical pairing link round-trips. For a link of the spoken protocol version with
  a well-formed node id and, if any, a non-empty name in valid UTF-8 (any characters at all,
  delimiters included), parsing what \<open>to_uri\<close> renders gives the link back, without a panic.\<close>

theorem pair_link_roundtrip:
  assumes "version link = PROTOCOL_VERSION" "valid_node_id (node_id link)"
    and "\<And>n. name link = Some n \<Longrightarrow> n \<noteq> [] \<and> valid_utf8 n"
  shows "parse (to_uri link) = Some (Inr link)"
proof -
  let ?i = "node_id link"
  have i: "?i \<noteq> []" "valid_utf8 ?i" using assms(2) valid_node_id_utf8 by (auto simp: valid_node_id_def)
  have fin: "finish_link (Some ?i, Some 2, name link) = Inr link"
    using assms(1,2) by (auto simp: finish_link_Inr PROTOCOL_VERSION_def)
  have lit: "list_all is_ascii ''livtet://sync?v=2&nodeId=''" "list_all is_ascii ''&name=''"
    by (simp_all add: is_ascii_def byte_def)
  show ?thesis
  proof (cases "name link")
    case None
    have uri: "to_uri link = ''livtet://sync?v=2&nodeId='' @ encode ?i"
      using assms(1) None by (simp add: to_uri_def link_consts show_two)
    have "trim (to_uri link) = to_uri link"
      unfolding uri using lit i by (intro trim_link) (simp_all add: byte_def)
    then have t: "parse_target (trim (to_uri link)) = Inr (''v=2&nodeId='' @ encode ?i)"
      using parse_target_canonical [of "''v=2&nodeId='' @ encode ?i"] by (simp add: uri)
    have "parse_query [''v=2'', ''nodeId='' @ encode ?i] (None, None, None)
        = Some (Inr (Some ?i, Some 2, None))"
      by (simp only: query_version query_node [OF i(2)] parse_query_Nil)
    from parse_via [OF t split_query this] show ?thesis using fin None by simp
  next
    case (Some n)
    have n: "n \<noteq> []" "valid_utf8 n" using assms(3) Some by auto
    let ?pre = "''livtet://sync?v=2&nodeId='' @ encode ?i @ ''&name=''"
    have uri: "to_uri link = ?pre @ encode n"
      using assms(1) Some by (simp add: to_uri_def link_consts show_two)
    have "trim (to_uri link) = to_uri link"
      unfolding uri using lit n encode_ascii by (intro trim_link) (simp_all add: byte_def)
    then have t: "parse_target (trim (to_uri link))
        = Inr (''v=2&nodeId='' @ encode ?i @ ''&name='' @ encode n)"
      using parse_target_canonical [of "''v=2&nodeId='' @ encode ?i @ ''&name='' @ encode n"]
      by (simp add: uri)
    have "parse_query [''v=2'', ''nodeId='' @ encode ?i, ''name='' @ encode n] (None, None, None)
        = Some (Inr (Some ?i, Some 2, Some n))"
      by (simp only: query_version query_node [OF i(2)] query_name [OF n(2,1)] parse_query_Nil)
    from parse_via [OF t split_query_name this] show ?thesis using fin Some by simp
  qed
qed

theorem pair_link_roundtrip_witness:
  "parse (to_uri (new ''6e1a-_.Z'' (Some ''desk & phone/2 + 100%''))) =
   Some (Inr (new ''6e1a-_.Z'' (Some ''desk & phone/2 + 100%'')))"
proof (rule pair_link_roundtrip)
  show "version (new ''6e1a-_.Z'' (Some ''desk & phone/2 + 100%'')) = PROTOCOL_VERSION"
    by (simp add: new_def)
  show "valid_node_id (node_id (new ''6e1a-_.Z'' (Some ''desk & phone/2 + 100%'')))" by code_simp
  have "valid_utf8 ''desk & phone/2 + 100%''" by code_simp
  then show "n \<noteq> [] \<and> valid_utf8 n"
    if "name (new ''6e1a-_.Z'' (Some ''desk & phone/2 + 100%'')) = Some n" for n
    using that by (auto simp: new_def)
qed

text \<open>The web form of a link round-trips to the same node and protocol version; the name is
  not part of that form.\<close>

theorem pair_link_web_roundtrip:
  assumes "version link = PROTOCOL_VERSION" "valid_node_id (node_id link)"
  shows "parse (to_web_uri link) = Some (Inr (link\<lparr>name := None\<rparr>))"
proof -
  let ?i = "node_id link"
  have i: "?i \<noteq> []" "valid_utf8 ?i" using assms(2) valid_node_id_utf8 by (auto simp: valid_node_id_def)
  have uri: "to_web_uri link = ''https://livtet.olamaelcu.net/sync?v=2&nodeId='' @ encode ?i"
    using assms(1) by (simp add: to_web_uri_def link_consts show_two)
  have lit: "list_all is_ascii ''https://livtet.olamaelcu.net/sync?v=2&nodeId=''" by code_simp
  have "trim (to_web_uri link) = to_web_uri link"
    unfolding uri using lit i by (intro trim_link) (simp_all add: byte_def)
  then have t: "parse_target (trim (to_web_uri link)) = Inr (''v=2&nodeId='' @ encode ?i)"
    using parse_target_web [of "''v=2&nodeId='' @ encode ?i"] by (simp add: uri)
  have "parse_query [''v=2'', ''nodeId='' @ encode ?i] (None, None, None)
      = Some (Inr (Some ?i, Some 2, None))"
    by (simp only: query_version query_node [OF i(2)] parse_query_Nil)
  from parse_via [OF t split_query this] show ?thesis
    using assms by (auto simp: finish_link_Inr PROTOCOL_VERSION_def)
qed

theorem pair_link_web_roundtrip_witness:
  "parse (to_web_uri (new ''6e1a'' (Some ''Studio''))) = Some (Inr (new ''6e1a'' None))"
proof -
  have "valid_node_id (node_id (new ''6e1a'' (Some ''Studio'')))" by code_simp
  from pair_link_web_roundtrip [OF _ this] show ?thesis by (simp add: new_def)
qed

lemma parse_query_name:
  "parse_query ps (nid, ver, nm) = Some (Inr (nid', ver', nm')) \<Longrightarrow> nm \<noteq> Some [] \<Longrightarrow> nm' \<noteq> Some []"
proof (induction ps arbitrary: nid ver nm)
  case Nil
  then show ?case by simp
next
  case (Cons p ps)
  then show ?case
    by (simp add: parse_query.simps(2) split: prod.splits option.splits if_splits)
qed

text \<open>What \<open>parse\<close> accepts is a usable link: it speaks this protocol version and names a
  non-empty node id of at most 128 bytes made of node-id characters only, and it never carries
  an empty name.\<close>

theorem pair_link_parse_sound:
  assumes "parse raw = Some (Inr link)"
  shows "version link = PROTOCOL_VERSION \<and> valid_node_id (node_id link) \<and> name link \<noteq> Some []"
proof -
  from assms obtain ps nid ver nm where
    q: "parse_query ps (None, None, None) = Some (Inr (nid, ver, nm))"
    and f: "finish_link (nid, ver, nm) = Inr link"
    by (auto simp: parse_def split: sum.splits option.splits)
  from parse_query_name [OF q] f show ?thesis by (auto simp: finish_link_Inr)
qed

theorem pair_link_parse_sound_witness:
  "parse ''  LIVTET://PAIR?node=6e1a&name=  '' = Some (Inr \<lparr>version = 2, node_id = ''6e1a'', name = None\<rparr>)
   \<and> valid_node_id ''6e1a''"
proof -
  have h: "parse ''  LIVTET://PAIR?node=6e1a&name=  ''
      = Some (Inr \<lparr>version = 2, node_id = ''6e1a'', name = None\<rparr>)" by code_simp
  show ?thesis using h pair_link_parse_sound [OF h] by simp
qed

lemma decode_bytes_ascii: "list_all is_ascii s \<Longrightarrow> decode_bytes s \<noteq> None"
proof (induction s rule: decode_bytes.induct)
  case 1
  show ?case by simp
next
  case (2 c rest)
  have "\<not> cont_at rest i" for i
    using "2.prems" by (auto simp: cont_at_def list_all_length is_ascii_not_cont)
  moreover have "list_all is_ascii (drop 2 rest)"
    using "2.prems" by (auto simp: list_all_iff dest: in_set_dropD)
  ultimately show ?case using "2" by (auto split: option.splits)
qed

lemma split_once_all: "split_once p s = Some (a, b) \<Longrightarrow> list_all P s \<Longrightarrow> list_all P a \<and> list_all P b"
  by (drule split_once_Some) simp

lemma split_on_all: "list_all P s \<Longrightarrow> list_all (list_all P) (split_on c s)"
  by (induction s) (auto split: list.splits)

lemma parse_query_returns:
  "list_all (list_all is_ascii) ps \<Longrightarrow> parse_query ps st \<noteq> None"
proof (induction ps arbitrary: st)
  case Nil
  then show ?case by simp
next
  case (Cons p ps)
  obtain nid ver nm where st: "st = (nid, ver, nm)" by (cases st)
  obtain key v where kv: "(case split_once ''='' p of Some kv \<Rightarrow> kv | None \<Rightarrow> (p, [])) = (key, v)"
    by fastforce
  with Cons.prems have "list_all is_ascii v" by (auto split: option.splits dest: split_once_all)
  then obtain w where "decode v = Some w" using decode_bytes_ascii [of v] by (auto simp: decode_def)
  with kv Cons show ?case by (simp add: st parse_query.simps(2) split: option.splits)
qed

lemma trim_all: "list_all P s \<Longrightarrow> list_all P (trim s)"
proof -
  have "set (trim s) \<subseteq> set (concat (chars s))"
    unfolding trim_def set_concat by (auto dest!: set_dropWhileD)
  then show "list_all P s \<Longrightarrow> list_all P (trim s)" by (auto simp: list_all_iff)
qed

lemma parse_target_all: "parse_target raw = Inr q \<Longrightarrow> list_all P raw \<Longrightarrow> list_all P q"
  by (auto simp: parse_target_def Let_def split: option.splits if_splits prod.splits
      dest!: split_once_all [where P = P])

text \<open>On ASCII input the parser always returns, with a link or with an error.\<close>

theorem pair_link_parse_returns:
  assumes "list_all is_ascii raw"
  shows "\<exists>r. parse raw = Some r"
proof (cases "parse_target (trim raw)")
  case (Inl e)
  then show ?thesis by (simp add: parse_def)
next
  case (Inr q)
  then have "list_all is_ascii q" using assms by (auto intro: parse_target_all trim_all)
  then have "list_all (list_all is_ascii) (filter (\<lambda>p. p \<noteq> []) (split_on (CHR ''&'') q))"
    using split_on_all [of is_ascii q "CHR ''&''"] by (auto simp: list_all_iff)
  from parse_query_returns [OF this, of "(None, None, None)"] Inr show ?thesis
    by (auto simp: parse_def split: sum.splits option.splits)
qed

theorem pair_link_parse_returns_witness:
  "\<exists>r. parse ''livtet://sync?nodeId=a%zz%'' = Some r"
  by (rule pair_link_parse_returns) code_simp

text \<open>A stray percent sign in a name can bring the parser down. The text
  \<open>livtet://sync?nodeId=a&name=%a\<close> followed by a two-byte character is valid UTF-8, and parsing
  it slices the string inside that character: the Rust function panics.\<close>

theorem pair_link_parse_panics:
  "valid_utf8 (''livtet://sync?nodeId=a&name=%a'' @ map of_byte [0xC3, 0xA9])
   \<and> parse (''livtet://sync?nodeId=a&name=%a'' @ map of_byte [0xC3, 0xA9]) = None"
  by code_simp

end
