(* ===== verification/Json.thy ===== *)
theory Json
  imports RustText "HOL-Library.List_Lexorder" "HOL-Library.Char_ord" "HOL-Library.Word"
begin

text \<open>
  The values the sync code exchanges with code outside the repository: \<open>serde_json::Value\<close>,
  the bound SQL values of sea-orm, and the record \<open>deps\<close> of the third-party functions the
  sources call (the hex and ulid crates, serde_json's parser and printer, the float
  conversions of the standard library, SQLite's ordering). What the proofs need of these
  functions is stated as predicates on the record and appears as a hypothesis wherever used.

  A JSON object is an association list in key order, as serde_json's \<open>Map\<close> iterates.
\<close>

type_synonym f64 = "64 word"

datatype json =
    JNull
  | JBool bool
  | JInt int
  | JFloat f64
  | JString string
  | JArray "json list"
  | JObject "(string \<times> json) list"

datatype sql_value =
    SqlBytes "string option"
  | SqlString "string option"
  | SqlBool "bool option"
  | SqlBigInt "int option"
  | SqlDouble "f64 option"

definition i64_max :: int where "i64_max = 9223372036854775807"
definition i64_min :: int where "i64_min = -9223372036854775808"

definition in_i64 :: "int \<Rightarrow> bool" where
  "in_i64 n \<longleftrightarrow> i64_min \<le> n \<and> n \<le> i64_max"

section \<open>Accessors of \<open>serde_json::Value\<close>\<close>

fun as_str :: "json \<Rightarrow> string option" where
  "as_str (JString s) = Some s"
| "as_str _ = None"

fun as_i64 :: "json \<Rightarrow> int option" where
  "as_i64 (JInt n) = (if in_i64 n then Some n else None)"
| "as_i64 _ = None"

fun as_bool :: "json \<Rightarrow> bool option" where
  "as_bool (JBool b) = Some b"
| "as_bool _ = None"

fun as_object :: "json \<Rightarrow> (string \<times> json) list option" where
  "as_object (JObject kvs) = Some kvs"
| "as_object _ = None"

definition json_get :: "json \<Rightarrow> string \<Rightarrow> json option" where
  "json_get v k = (case as_object v of Some kvs \<Rightarrow> map_of kvs k | None \<Rightarrow> None)"

text \<open>\<open>Map::insert\<close>: replaces the value of a key, or adds the key at its place in the order.\<close>

fun obj_insert :: "string \<Rightarrow> json \<Rightarrow> (string \<times> json) list \<Rightarrow> (string \<times> json) list" where
  "obj_insert k v [] = [(k, v)]"
| "obj_insert k v ((k', v') # rest) =
     (if k = k' then (k, v) # rest
      else if k < k' then (k, v) # (k', v') # rest
      else (k', v') # obj_insert k v rest)"

lemma map_of_obj_insert [simp]: "map_of (obj_insert k v kvs) = (map_of kvs)(k \<mapsto> v)"
  by (induction kvs rule: obj_insert.induct) auto

lemma obj_insert_keys: "fst ` set (obj_insert k v kvs) = insert k (fst ` set kvs)"
  by (induction kvs rule: obj_insert.induct) auto

lemma obj_insert_ordered:
  "sorted (map fst kvs) \<Longrightarrow> distinct (map fst kvs) \<Longrightarrow>
   sorted (map fst (obj_insert k v kvs)) \<and> distinct (map fst (obj_insert k v kvs))"
proof (induction kvs rule: obj_insert.induct)
  case (1 k v)
  show ?case by simp
next
  case (2 k v k' v' rest)
  have keys: "set (map fst (obj_insert k v rest)) = insert k (fst ` set rest)"
    using obj_insert_keys [of k v rest] by simp
  from 2 keys show ?case by (auto simp: not_less less_le)
qed

section \<open>Functions from outside the repository\<close>

record deps =
  hex_encode :: "string \<Rightarrow> string"
  hex_decode :: "string \<Rightarrow> (string, string) result"
  ulid_from_str :: "string \<Rightarrow> (string, string) result"
  ulid_to_string :: "string \<Rightarrow> string"
  json_from_str :: "string \<Rightarrow> (json, string) result"
  json_to_string :: "json \<Rightarrow> string"
  f64_from_str :: "string \<Rightarrow> f64 option"
  f64_of_int :: "int \<Rightarrow> f64"

text \<open>Documented behaviour of the hex crate: two digits per byte, and decoding undoes
  encoding.\<close>

definition hex_ok :: "deps \<Rightarrow> bool" where
  "hex_ok d \<longleftrightarrow> (\<forall>b. hex_decode d (hex_encode d b) = Inr b)
     \<and> (\<forall>b. length (hex_encode d b) = 2 * length b)
     \<and> (\<forall>s b. hex_decode d s = Inr b \<longrightarrow> length s = 2 * length b)"

text \<open>Documented behaviour of the ulid crate: a ULID is sixteen bytes, prints as 26
  characters and parses back.\<close>

definition ulid_ok :: "deps \<Rightarrow> bool" where
  "ulid_ok d \<longleftrightarrow>
     (\<forall>b. length b = 16 \<longrightarrow> ulid_from_str d (ulid_to_string d b) = Inr b
                           \<and> length (ulid_to_string d b) = 26)
     \<and> (\<forall>s b. ulid_from_str d s = Inr b \<longrightarrow> length b = 16)"

section \<open>\<open>livtet-types/src/db_id.rs\<close>: database ids\<close>

text \<open>A \<open>DbId\<close> wraps a ULID; the model keeps its sixteen bytes.\<close>

datatype db_id = DbId (to_bytes: string)

definition db_id_wf :: "db_id \<Rightarrow> bool" where
  "db_id_wf i \<longleftrightarrow> length (to_bytes i) = 16"

datatype from_hex_error = HexError string | InvalidStringLength

text \<open>\<open>Display\<close> of the hex crate's error; the text of a decoding error is what the decoder reports.\<close>

fun from_hex_error_text :: "from_hex_error \<Rightarrow> string" where
  "from_hex_error_text (HexError m) = m"
| "from_hex_error_text InvalidStringLength = ''Invalid string length''"

definition to_hex :: "deps \<Rightarrow> db_id \<Rightarrow> string" where
  "to_hex d i = hex_encode d (to_bytes i)"

definition from_hex :: "deps \<Rightarrow> string \<Rightarrow> (db_id, from_hex_error) result" where
  "from_hex d s =
     (case hex_decode d s of
        Inl e \<Rightarrow> Inl (HexError e)
      | Inr b \<Rightarrow> if length b = 16 then Inr (DbId b) else Inl InvalidStringLength)"

definition db_id_from_str :: "deps \<Rightarrow> string \<Rightarrow> (db_id, string) result" where
  "db_id_from_str d s = result_bind (ulid_from_str d s) (\<lambda>b. Inr (DbId b))"

definition db_id_display :: "deps \<Rightarrow> db_id \<Rightarrow> string" where
  "db_id_display d i = ulid_to_string d (to_bytes i)"

definition from_wire :: "deps \<Rightarrow> string \<Rightarrow> db_id option" where
  "from_wire d s =
     (case ok (from_hex d s) of Some i \<Rightarrow> Some i | None \<Rightarrow> ok (db_id_from_str d s))"

lemma from_hex_to_hex: "hex_ok d \<Longrightarrow> db_id_wf i \<Longrightarrow> from_hex d (to_hex d i) = Inr i"
  by (simp add: from_hex_def to_hex_def hex_ok_def db_id_wf_def)

lemma from_hex_wf: "from_hex d s = Inr i \<Longrightarrow> db_id_wf i"
  by (auto simp: from_hex_def db_id_wf_def split: sum.splits if_splits)

lemma from_hex_length: "hex_ok d \<Longrightarrow> from_hex d s = Inr i \<Longrightarrow> length s = 32"
  unfolding from_hex_def hex_ok_def by (auto split: sum.splits if_splits)

lemma from_wire_hex: "hex_ok d \<Longrightarrow> db_id_wf i \<Longrightarrow> from_wire d (to_hex d i) = Some i"
  by (simp add: from_wire_def from_hex_to_hex)

lemma from_wire_display:
  assumes "hex_ok d" "ulid_ok d" "db_id_wf i"
  shows "from_wire d (db_id_display d i) = Some i"
proof -
  have len: "length (db_id_display d i) = 26"
    and parse: "db_id_from_str d (db_id_display d i) = Inr i"
    using assms(2,3) by (auto simp: ulid_ok_def db_id_display_def db_id_wf_def db_id_from_str_def)
  have "ok (from_hex d (db_id_display d i)) = None"
  proof (cases "from_hex d (db_id_display d i)")
    case (Inr j)
    with from_hex_length [OF assms(1) this] len show ?thesis by simp
  qed simp
  then show ?thesis by (simp add: from_wire_def parse)
qed

lemma from_wire_wf: "ulid_ok d \<Longrightarrow> from_wire d s = Some i \<Longrightarrow> db_id_wf i"
  by (auto simp: from_wire_def db_id_from_str_def ulid_ok_def ok_def db_id_wf_def
      dest: from_hex_wf split: option.splits sum.splits)

section \<open>Compact JSON text\<close>

text \<open>The text of an object whose members are strings that need no escaping.\<close>

definition plain :: "string \<Rightarrow> bool" where
  "plain s \<longleftrightarrow> list_all (\<lambda>c. is_ascii_alphanumeric c \<or> c = CHR ''_'') s"

fun member_text :: "string \<times> string \<Rightarrow> string" where
  "member_text (k, v) = [CHR 0x22] @ k @ [CHR 0x22, CHR '':'', CHR 0x22] @ v @ [CHR 0x22]"

fun members_text :: "(string \<times> string) list \<Rightarrow> string" where
  "members_text [] = []"
| "members_text [m] = member_text m"
| "members_text (m # ms) = member_text m @ '','' @ members_text ms"

definition compact_object :: "(string \<times> string) list \<Rightarrow> string" where
  "compact_object ms = ''{'' @ members_text ms @ ''}''"

section \<open>A concrete instance\<close>

text \<open>Functions with the documented behaviour, for evaluating the model on concrete inputs:
  hex as two lower-case digits per byte, an invertible 26-character id text, and a printer for
  objects of plain strings.\<close>

definition hex_lower :: "nat \<Rightarrow> char" where
  "hex_lower n = lower_char (hex_upper n)"

definition ref_hex_encode :: "string \<Rightarrow> string" where
  "ref_hex_encode b = concat (map (\<lambda>c. [hex_lower (byte c div 16), hex_lower (byte c mod 16)]) b)"

fun ref_hex_decode :: "string \<Rightarrow> (string, string) result" where
  "ref_hex_decode [] = Inr []"
| "ref_hex_decode [c] = Inl ''OddLength''"
| "ref_hex_decode (h # l # rest) =
     (case (hex_digit_value h, hex_digit_value l) of
        (Some a, Some b) \<Rightarrow> result_bind (ref_hex_decode rest) (\<lambda>bs. Inr (of_byte (16 * a + b) # bs))
      | _ \<Rightarrow> Inl ''InvalidHexCharacter'')"

definition ref_ulid_from_str :: "string \<Rightarrow> (string, string) result" where
  "ref_ulid_from_str s =
     (if length s = 26 \<and> drop 16 s = replicate 10 (CHR ''0'') then Inr (take 16 s)
      else Inl ''InvalidLength'')"

definition ref_ulid_to_string :: "string \<Rightarrow> string" where
  "ref_ulid_to_string b = b @ replicate 10 (CHR ''0'')"

fun ref_json_text :: "json \<Rightarrow> string" where
  "ref_json_text (JObject kvs) =
     compact_object (map (\<lambda>(k, v). (k, case as_str v of Some s \<Rightarrow> s | None \<Rightarrow> [])) kvs)"
| "ref_json_text (JString s) = s"
| "ref_json_text _ = ''null''"

definition ref_deps :: "(string \<Rightarrow> (json, string) result) \<Rightarrow> deps" where
  "ref_deps parse =
     \<lparr>hex_encode = ref_hex_encode, hex_decode = ref_hex_decode, ulid_from_str = ref_ulid_from_str,
      ulid_to_string = ref_ulid_to_string, json_from_str = parse, json_to_string = ref_json_text,
      f64_from_str = (\<lambda>_. None), f64_of_int = of_int\<rparr>"

lemma ref_deps_simps [simp]:
  "hex_encode (ref_deps parse) = ref_hex_encode" "hex_decode (ref_deps parse) = ref_hex_decode"
  "ulid_from_str (ref_deps parse) = ref_ulid_from_str"
  "ulid_to_string (ref_deps parse) = ref_ulid_to_string"
  "json_from_str (ref_deps parse) = parse" "json_to_string (ref_deps parse) = ref_json_text"
  by (simp_all add: ref_deps_def)

lemma hex_lower_value [simp]: "n < 16 \<Longrightarrow> hex_digit_value (hex_lower n) = Some n"
  by (simp add: hex_lower_def hex_digit_value_def hex_upper_def digit_char_def lower_char_def
      is_ascii_digit_def is_ascii_uppercase_def)

lemma byte_div_16: "byte c div 16 < 16"
  by (simp add: byte_def less_mult_imp_div_less)

lemma ref_hex_decode_encode: "ref_hex_decode (ref_hex_encode b) = Inr b"
  by (induction b) (simp_all add: ref_hex_encode_def byte_div_16)

lemma ref_hex_encode_length: "length (ref_hex_encode b) = 2 * length b"
  by (induction b) (simp_all add: ref_hex_encode_def)

lemma ref_hex_decode_length: "ref_hex_decode s = Inr b \<Longrightarrow> length s = 2 * length b"
  by (induction s arbitrary: b rule: ref_hex_decode.induct) (auto split: option.splits)

lemma ref_hex_ok [simp]: "hex_ok (ref_deps parse)"
  by (simp add: hex_ok_def ref_deps_def ref_hex_decode_encode ref_hex_encode_length ref_hex_decode_length)

lemma ref_ulid_ok [simp]: "ulid_ok (ref_deps parse)"
  by (auto simp: ulid_ok_def ref_deps_def ref_ulid_from_str_def ref_ulid_to_string_def split: if_splits)

lemma hex_lower_alnum: "n < 16 \<Longrightarrow> is_ascii_alphanumeric (hex_lower n)"
  by (simp add: hex_lower_def hex_upper_def digit_char_def lower_char_def ascii_defs)

lemma ref_hex_plain: "plain (ref_hex_encode b)"
  by (induction b) (simp_all add: ref_hex_encode_def plain_def hex_lower_alnum byte_div_16)

lemma ref_json_text_strings: "ref_json_text (JObject (map (\<lambda>(k, v). (k, JString v)) ms)) = compact_object ms"
  by (simp add: case_prod_unfold comp_def)

end
