(* ===== verification/SyncTypes.thy ===== *)
theory SyncTypes
  imports Json
begin

text \<open>
  The data of the sync protocol: \<open>livtet-sync/src/types/wire.rs\<close> (the DTOs),
  \<open>livtet-sync/src/types/error.rs\<close> (the error type) and
  \<open>livtet-sync/src/types/syncable_entity.rs\<close> (the registry of syncable entities).

  A variant of \<open>SyncableEntityKind\<close> carries the primary-key columns of its model and, as one
  value of type \<open>'m\<close>, the remaining columns, which only the derived serde code reads.
\<close>

section \<open>Wire DTOs\<close>

record sync_change =
  ch_id :: int
  ch_entity_type :: string
  ch_entity_id :: string
  ch_operation :: string
  ch_version :: int
  ch_payload :: string
  ch_changed_at :: string
  ch_device_id :: string

record conflict =
  cf_id :: int
  cf_entity_type :: string
  cf_entity_id :: string
  cf_local_payload :: string
  cf_remote_payload :: string
  cf_resolved :: bool
  cf_resolution :: "string option"
  cf_merged_payload :: "string option"
  cf_detected_at :: string

record pull_response =
  pr_changes :: "sync_change list"
  pr_has_more :: bool
  pr_latest_version :: int

record push_response =
  ps_accepted :: bool
  ps_conflicts :: "conflict list"
  ps_latest_version :: int

record entity_dump =
  ed_works :: "json list"
  ed_editions :: "json list"
  ed_edition_groups :: "json list"
  ed_series_entries :: "json list"
  ed_digital_inventory :: "json list"
  ed_owned_editions :: "json list"
  ed_editions_loans :: "json list"
  ed_annotations :: "json list"
  ed_reading_lists :: "json list"
  ed_reading_list_book :: "json list"
  ed_reading_progress :: "json list"

record full_dump =
  fd_version :: int
  fd_device_id :: string
  fd_entities :: entity_dump

datatype sync_error =
    Db string
  | UnknownEntityType string
  | ConflictError string db_id string
  | Serialization string string
  | Deserialization string string
  | InvalidPayload string string
  | InvalidOperation string string
  | InvalidEntityId string string

section \<open>The registry of syncable entities\<close>

datatype 'm syncable_entity_kind =
    Work db_id 'm
  | Edition db_id 'm
  | SeriesEntry db_id db_id 'm
  | DigitalInventory db_id 'm
  | OwnedEdition db_id 'm
  | EditionLoan db_id 'm
  | Annotation db_id 'm
  | ReadingList db_id 'm
  | ReadingListBook db_id db_id 'm
  | ReadingProgress db_id 'm
  | WorkAuthor db_id db_id string
  | WorkTag db_id db_id
  | WorkGenre db_id db_id
  | WorkSubject db_id db_id
  | WorkPublisher db_id db_id
  | EditionAuthor db_id db_id string
  | EditionTag db_id db_id
  | EditionGenre db_id db_id
  | EditionSubject db_id db_id
  | EditionPublisher db_id db_id 'm
  | EditionGroup db_id 'm

text \<open>The argument of the \<open>define_syncable_entities!\<close> invocation: type string and table.\<close>

definition syncable_entities :: "(string \<times> string) list" where
  "syncable_entities =
    [(''work'', ''works''),
     (''edition'', ''editions''),
     (''series_entry'', ''series_entries''),
     (''digital_inventory'', ''digital_inventory''),
     (''owned_edition'', ''owned_editions''),
     (''edition_loan'', ''editions_loans''),
     (''annotation'', ''annotations''),
     (''reading_list'', ''reading_lists''),
     (''reading_list_book'', ''reading_list_book''),
     (''reading_progress'', ''reading_progress''),
     (''work_author'', ''work_authors''),
     (''work_tag'', ''work_tags''),
     (''work_genre'', ''work_genres''),
     (''work_subject'', ''work_subjects''),
     (''work_publisher'', ''work_publishers''),
     (''edition_author'', ''edition_authors''),
     (''edition_tag'', ''edition_tags''),
     (''edition_genre'', ''edition_genres''),
     (''edition_subject'', ''edition_subjects''),
     (''edition_publisher'', ''edition_publishers''),
     (''edition_group'', ''edition_groups'')]"

definition ALL_VARIANTS :: "string list" where
  "ALL_VARIANTS = map fst syncable_entities"

fun variant_index :: "'m syncable_entity_kind \<Rightarrow> nat" where
  "variant_index (Work _ _) = 0"
| "variant_index (Edition _ _) = 1"
| "variant_index (SeriesEntry _ _ _) = 2"
| "variant_index (DigitalInventory _ _) = 3"
| "variant_index (OwnedEdition _ _) = 4"
| "variant_index (EditionLoan _ _) = 5"
| "variant_index (Annotation _ _) = 6"
| "variant_index (ReadingList _ _) = 7"
| "variant_index (ReadingListBook _ _ _) = 8"
| "variant_index (ReadingProgress _ _) = 9"
| "variant_index (WorkAuthor _ _ _) = 10"
| "variant_index (WorkTag _ _) = 11"
| "variant_index (WorkGenre _ _) = 12"
| "variant_index (WorkSubject _ _) = 13"
| "variant_index (WorkPublisher _ _) = 14"
| "variant_index (EditionAuthor _ _ _) = 15"
| "variant_index (EditionTag _ _) = 16"
| "variant_index (EditionGenre _ _) = 17"
| "variant_index (EditionSubject _ _) = 18"
| "variant_index (EditionPublisher _ _ _) = 19"
| "variant_index (EditionGroup _ _) = 20"

definition entity_type_name :: "'m syncable_entity_kind \<Rightarrow> string" where
  "entity_type_name k = fst (syncable_entities ! variant_index k)"

definition table_name :: "'m syncable_entity_kind \<Rightarrow> string" where
  "table_name k = snd (syncable_entities ! variant_index k)"

text \<open>\<open>serde_json::json!({..}).to_string()\<close> on an object of string members; the \<open>json!\<close>
  macro inserts the members one by one into the map.\<close>

definition json_object_text :: "deps \<Rightarrow> (string \<times> string) list \<Rightarrow> string" where
  "json_object_text d kvs =
     json_to_string d (JObject (fold (\<lambda>(k, v). obj_insert k (JString v)) kvs []))"

fun entity_id_of :: "deps \<Rightarrow> 'm syncable_entity_kind \<Rightarrow> string" where
  "entity_id_of d (Work i _) = to_hex d i"
| "entity_id_of d (Edition i _) = to_hex d i"
| "entity_id_of d (DigitalInventory i _) = to_hex d i"
| "entity_id_of d (OwnedEdition i _) = to_hex d i"
| "entity_id_of d (EditionLoan i _) = to_hex d i"
| "entity_id_of d (Annotation i _) = to_hex d i"
| "entity_id_of d (ReadingList i _) = to_hex d i"
| "entity_id_of d (ReadingProgress i _) = to_hex d i"
| "entity_id_of d (EditionGroup i _) = to_hex d i"
| "entity_id_of d (SeriesEntry s e _) =
     json_object_text d [(''series_id'', to_hex d s), (''edition_id'', to_hex d e)]"
| "entity_id_of d (ReadingListBook l e _) =
     json_object_text d [(''reading_list_id'', to_hex d l), (''edition_id'', to_hex d e)]"
| "entity_id_of d (WorkAuthor w a r) =
     json_object_text d [(''work_id'', to_hex d w), (''author_id'', to_hex d a), (''role'', r)]"
| "entity_id_of d (WorkTag w t) =
     json_object_text d [(''work_id'', to_hex d w), (''tag_id'', to_hex d t)]"
| "entity_id_of d (WorkGenre w g) =
     json_object_text d [(''work_id'', to_hex d w), (''genre_id'', to_hex d g)]"
| "entity_id_of d (WorkSubject w s) =
     json_object_text d [(''work_id'', to_hex d w), (''subject_id'', to_hex d s)]"
| "entity_id_of d (WorkPublisher w p) =
     json_object_text d [(''work_id'', to_hex d w), (''publisher_id'', to_hex d p)]"
| "entity_id_of d (EditionAuthor e a r) =
     json_object_text d [(''edition_id'', to_hex d e), (''author_id'', to_hex d a), (''role'', r)]"
| "entity_id_of d (EditionTag e t) =
     json_object_text d [(''edition_id'', to_hex d e), (''tag_id'', to_hex d t)]"
| "entity_id_of d (EditionGenre e g) =
     json_object_text d [(''edition_id'', to_hex d e), (''genre_id'', to_hex d g)]"
| "entity_id_of d (EditionSubject e s) =
     json_object_text d [(''edition_id'', to_hex d e), (''subject_id'', to_hex d s)]"
| "entity_id_of d (EditionPublisher e p _) =
     json_object_text d [(''edition_id'', to_hex d e), (''publisher_id'', to_hex d p)]"

text \<open>Payload conversion. \<open>to_value\<close> and \<open>from_value\<close> stand for the derived serde code of the
  models; \<open>from_value\<close> takes the registered type it deserialises into.\<close>

definition to_payload ::
  "('m syncable_entity_kind \<Rightarrow> (json, string) result) \<Rightarrow> 'm syncable_entity_kind
    \<Rightarrow> (json, sync_error) result" where
  "to_payload to_value k = map_err (Serialization (entity_type_name k)) (to_value k)"

definition from_payload ::
  "(string \<Rightarrow> json \<Rightarrow> ('m syncable_entity_kind, string) result) \<Rightarrow> string \<Rightarrow> json
    \<Rightarrow> ('m syncable_entity_kind, sync_error) result" where
  "from_payload from_value t payload =
     (if t \<in> set ALL_VARIANTS then map_err (Deserialization t) (from_value t payload)
      else Inl (UnknownEntityType t))"

definition ENTITY_DUMP_TYPES :: "string list" where
  "ENTITY_DUMP_TYPES =
    [''work'', ''edition'', ''edition_group'', ''series_entry'', ''digital_inventory'',
     ''owned_edition'', ''edition_loan'', ''annotation'', ''reading_list'',
     ''reading_list_book'', ''reading_progress'']"

definition entity_type_to_table :: "string \<Rightarrow> string option" where
  "entity_type_to_table t =
    (if t = ''annotation'' then Some ''annotations''
     else if t = ''digital_inventory'' then Some ''digital_inventory''
     else if t = ''edition'' then Some ''editions''
     else if t = ''edition_author'' then Some ''edition_authors''
     else if t = ''edition_genre'' then Some ''edition_genres''
     else if t = ''edition_group'' then Some ''edition_groups''
     else if t = ''edition_loan'' then Some ''editions_loans''
     else if t = ''edition_publisher'' then Some ''edition_publishers''
     else if t = ''edition_subject'' then Some ''edition_subjects''
     else if t = ''edition_tag'' then Some ''edition_tags''
     else if t = ''owned_edition'' then Some ''owned_editions''
     else if t = ''reading_list'' then Some ''reading_lists''
     else if t = ''reading_list_book'' then Some ''reading_list_book''
     else if t = ''reading_progress'' then Some ''reading_progress''
     else if t = ''series_entry'' then Some ''series_entries''
     else if t = ''work'' then Some ''works''
     else if t = ''work_author'' then Some ''work_authors''
     else if t = ''work_genre'' then Some ''work_genres''
     else if t = ''work_publisher'' then Some ''work_publishers''
     else if t = ''work_subject'' then Some ''work_subjects''
     else if t = ''work_tag'' then Some ''work_tags''
     else None)"

section \<open>Change-log metadata of an entity\<close>

record 'm synced_entity =
  se_kind :: "'m syncable_entity_kind"
  se_version :: int
  se_entity_type :: string
  se_entity_id :: string
  se_payload :: json

definition synced_new ::
  "deps \<Rightarrow> ('m syncable_entity_kind \<Rightarrow> (json, string) result) \<Rightarrow> 'm syncable_entity_kind \<Rightarrow> int
    \<Rightarrow> 'm synced_entity" where
  "synced_new d to_value k v =
     \<lparr>se_kind = k, se_version = v, se_entity_type = entity_type_name k,
      se_entity_id = entity_id_of d k,
      se_payload = (case to_payload to_value k of Inr p \<Rightarrow> p | Inl _ \<Rightarrow> JNull)\<rparr>"

definition from_change ::
  "deps \<Rightarrow> (string \<Rightarrow> json \<Rightarrow> ('m syncable_entity_kind, string) result) \<Rightarrow> sync_change
    \<Rightarrow> ('m synced_entity, sync_error) result" where
  "from_change d from_value c =
     result_bind (map_err (Deserialization (ch_entity_type c)) (json_from_str d (ch_payload c)))
       (\<lambda>payload. result_bind (from_payload from_value (ch_entity_type c) payload)
         (\<lambda>kind. Inr \<lparr>se_kind = kind, se_version = ch_version c, se_entity_type = ch_entity_type c,
                      se_entity_id = ch_entity_id c, se_payload = payload\<rparr>))"

section \<open>Facts about the registry\<close>

lemma registry_table: "entity_type_to_table t = map_of syncable_entities t"
  unfolding entity_type_to_table_def syncable_entities_def by simp

lemma ALL_VARIANTS_dom: "set ALL_VARIANTS = dom entity_type_to_table"
  unfolding registry_table ALL_VARIANTS_def by (simp add: dom_map_of_conv_image_fst)

lemma registry_types_distinct: "distinct (map fst syncable_entities)"
  unfolding syncable_entities_def by simp

lemma registry_tables_distinct: "distinct (map snd syncable_entities)"
  unfolding syncable_entities_def by simp

lemma registry_length [simp]: "length syncable_entities = 21"
  by (simp add: syncable_entities_def)

lemma variant_index_less: "variant_index k < length syncable_entities"
  by (cases k) simp_all

lemma entity_type_table_name: "entity_type_to_table (entity_type_name k) = Some (table_name k)"
proof -
  let ?p = "syncable_entities ! variant_index k"
  have "?p \<in> set syncable_entities" by (rule nth_mem) (rule variant_index_less)
  then show ?thesis
    unfolding registry_table entity_type_name_def table_name_def
    by (simp add: map_of_is_SomeI registry_types_distinct)
qed

lemma entity_type_to_table_inj:
  assumes "entity_type_to_table s = Some tbl" "entity_type_to_table t = Some tbl"
  shows "s = t"
proof -
  have "(s, tbl) \<in> set syncable_entities" "(t, tbl) \<in> set syncable_entities"
    using assms unfolding registry_table by (auto dest: map_of_SomeD)
  with registry_tables_distinct show ?thesis
    by (metis distinct_map inj_onD prod.sel snd_conv fst_conv)
qed

text \<open>The table lookup used by the engine, the variant list and the enum's own dispatch
  agree: an entity type has a table exactly when it is registered, the table of a variant's
  type is the variant's table, and distinct entity types never share a table.\<close>

theorem registry_consistent:
  "(entity_type_to_table t \<noteq> None \<longleftrightarrow> t \<in> set ALL_VARIANTS)
   \<and> entity_type_to_table (entity_type_name k) = Some (table_name k)
   \<and> inj_on entity_type_to_table (set ALL_VARIANTS)
   \<and> set ENTITY_DUMP_TYPES \<subseteq> set ALL_VARIANTS"
proof (intro conjI)
  show "entity_type_to_table t \<noteq> None \<longleftrightarrow> t \<in> set ALL_VARIANTS"
    unfolding ALL_VARIANTS_dom by auto
  show "entity_type_to_table (entity_type_name k) = Some (table_name k)"
    by (rule entity_type_table_name)
  show "inj_on entity_type_to_table (set ALL_VARIANTS)"
    unfolding ALL_VARIANTS_dom by (rule inj_onI) (auto intro: entity_type_to_table_inj)
  show "set ENTITY_DUMP_TYPES \<subseteq> set ALL_VARIANTS"
    by (simp add: ENTITY_DUMP_TYPES_def ALL_VARIANTS_def syncable_entities_def)
qed

end
