(* ===== verification/Frames.thy ===== *)
theory Frames
  imports SyncTypes
begin

text \<open>
  \<open>livtet-sync-iroh/src/wire.rs\<close>: the requests and responses of the sync transport and the
  chunked framing that carries them. A stream is the list of the bytes still to be read;
  \<open>read_frame\<close> returns the message and the rest of the stream, \<open>write_frame\<close> the bytes it
  writes. A stream that ends early is the error \<open>Io\<close>; no other I/O failure is modelled.
  serde's encoder and decoder are parameters.
\<close>

section \<open>Messages\<close>

definition PROTOCOL_VERSION :: nat where "PROTOCOL_VERSION = 2"
definition MAX_MESSAGE_BYTES :: nat where "MAX_MESSAGE_BYTES = 256 * 1024 * 1024"
definition MAX_CHUNK_BYTES :: nat where "MAX_CHUNK_BYTES = 8 * 1024 * 1024"

record identity_info =
  id_protocol :: nat
  id_node_id :: string
  id_device_id :: string

record sync_status =
  st_latest_version :: int
  st_device_id :: string

record file_header =
  fh_content_type :: string
  fh_offset :: nat
  fh_length :: nat
  fh_total :: nat
  fh_etag :: string

record file_metadata =
  fm_content_type :: string
  fm_size :: nat
  fm_etag :: string

record opds_headers =
  oh_accept :: "string option"
  oh_accept_language :: "string option"
  oh_accept_encoding :: "string option"

record opds_response =
  or_status :: nat
  or_content_type :: string
  or_body :: string

datatype request =
    ReqIdentity
  | ReqStatus string
  | ReqChanges string int "int option"
  | ReqPullFull string
  | ReqPush string "sync_change list"
  | ReqPair string string string
  | ReqPairStatus string
  | ReqConflicts string
  | ReqResolveConflict string int string "string option"
  | ReqFile string string nat "nat option" "string option"
  | ReqFileInfo string string
  | ReqCover string string
  | ReqOpds string string opds_headers string
  | ReqOfferDecision string string bool

datatype error_code =
    BadRequest
  | Unauthorized
  | NotFound
  | ConflictCode
  | TooManyRequests
  | RangeNotSatisfiable nat
  | PreconditionFailed
  | InternalError

datatype response =
    RspIdentity identity_info
  | RspStatus sync_status
  | RspChanges pull_response
  | RspFull full_dump
  | RspPushed push_response
  | RspPairingPending string
  | RspPaired string string
  | RspRefused string
  | RspConflicts "conflict list"
  | RspResolved bool
  | RspFile file_header
  | RspFileInfo file_metadata
  | RspCover file_header
  | RspOpds opds_response
  | RspOfferDecided
  | RspError error_code string

fun label :: "error_code \<Rightarrow> string" where
  "label BadRequest = ''bad_request''"
| "label Unauthorized = ''unauthorized''"
| "label NotFound = ''not_found''"
| "label ConflictCode = ''conflict''"
| "label TooManyRequests = ''too_many_requests''"
| "label (RangeNotSatisfiable _) = ''range_not_satisfiable''"
| "label PreconditionFailed = ''precondition_failed''"
| "label InternalError = ''internal''"

datatype wire_error =
    Io string
  | JsonError string
  | TooLarge nat
  | ChunkOverflow nat nat nat
  | EmptyChunk nat
  | Protocol string
  | StreamError string

section \<open>Framing\<close>

text \<open>\<open>u32::to_be_bytes\<close> and \<open>from_be_bytes\<close>; \<open>as u32\<close> keeps the low 32 bits.\<close>

definition as_u32 :: "nat \<Rightarrow> nat" where "as_u32 n = n mod 4294967296"

definition to_be_bytes :: "nat \<Rightarrow> string" where
  "to_be_bytes n = map of_byte [n div 16777216 mod 256, n div 65536 mod 256, n div 256 mod 256, n mod 256]"

definition from_be_bytes :: "string \<Rightarrow> nat" where
  "from_be_bytes bs = foldl (\<lambda>acc b. acc * 256 + byte b) 0 bs"

text \<open>\<open>slice::chunks\<close>.\<close>

function chunks :: "nat \<Rightarrow> 'a list \<Rightarrow> 'a list list" where
  "chunks n xs = (if xs = [] \<or> n = 0 then [] else take n xs # chunks n (drop n xs))"
  by pat_completeness auto

termination by (relation "measure (length \<circ> snd)") auto

declare chunks.simps [simp del]

definition fits_one_frame :: "('v \<Rightarrow> (string, string) result) \<Rightarrow> 'v \<Rightarrow> bool" where
  "fits_one_frame to_vec v \<longleftrightarrow>
     (case to_vec v of Inr encoded \<Rightarrow> length encoded \<le> MAX_MESSAGE_BYTES | Inl _ \<Rightarrow> False)"

definition write_frame :: "('v \<Rightarrow> (string, string) result) \<Rightarrow> 'v \<Rightarrow> (string, wire_error) result" where
  "write_frame to_vec v =
     result_bind (map_err JsonError (to_vec v)) (\<lambda>body.
       if length body > MAX_MESSAGE_BYTES then Inl (TooLarge (length body))
       else Inr (to_be_bytes (as_u32 (length body)) @
                 concat (map (\<lambda>c. to_be_bytes (as_u32 (length c)) @ c) (chunks MAX_CHUNK_BYTES body))))"

definition read_exact :: "nat \<Rightarrow> string \<Rightarrow> (string \<times> string, wire_error) result" where
  "read_exact n s = (if length s < n then Inl (Io ''UnexpectedEof'') else Inr (take n s, drop n s))"

text \<open>The body loop, entered with what has been read so far.\<close>

function read_chunks :: "nat \<Rightarrow> string \<Rightarrow> string \<Rightarrow> (string \<times> string, wire_error) result" where
  "read_chunks tot body s =
     (if length body < tot then
        (case read_exact 4 s of
           Inl e \<Rightarrow> Inl e
         | Inr (pre, s1) \<Rightarrow>
             let chunk = from_be_bytes pre in
             if chunk > MAX_CHUNK_BYTES then Inl (TooLarge chunk)
             else if chunk = 0 then Inl (EmptyChunk tot)
             else if length body + chunk > tot then Inl (ChunkOverflow tot chunk (length body))
             else (case read_exact chunk s1 of
                     Inl e \<Rightarrow> Inl e
                   | Inr (bytes, s2) \<Rightarrow> read_chunks tot (body @ bytes) s2))
      else Inr (body, s))"
  by pat_completeness auto

termination
  by (relation "measure (\<lambda>(tot, body, s). tot - length body)")
     (auto simp: read_exact_def split: if_splits)

declare read_chunks.simps [simp del]

definition read_frame ::
  "(string \<Rightarrow> ('v, string) result) \<Rightarrow> string \<Rightarrow> ('v \<times> string, wire_error) result" where
  "read_frame from_slice s =
     result_bind (read_exact 4 s) (\<lambda>(pre, s1).
       let tot = from_be_bytes pre in
       if tot > MAX_MESSAGE_BYTES then Inl (TooLarge tot)
       else result_bind (read_chunks tot [] s1) (\<lambda>(body, s2).
              result_bind (map_err JsonError (from_slice body)) (\<lambda>v. Inr (v, s2))))"

section \<open>Lemmas\<close>

lemma to_be_bytes_length [simp]: "length (to_be_bytes n) = 4"
  by (simp add: to_be_bytes_def)

lemma from_to_be_bytes: "from_be_bytes (to_be_bytes (as_u32 n)) = as_u32 n"
proof -
  define m where "m = as_u32 n"
  have lt: "m div 16777216 < 256"
    unfolding m_def as_u32_def by (simp add: div_less_iff_less_mult)
  then have small: "m div 16777216 mod 256 = m div 16777216" by simp
  have split: "m = m div 256 * 256 + m mod 256"
    "m div 256 = m div 65536 * 256 + m div 256 mod 256"
    "m div 65536 = m div 16777216 * 256 + m div 65536 mod 256"
    using div_mult_mod_eq [of "m div 256" 256] div_mult_mod_eq [of "m div 65536" 256]
    by (simp_all add: div_mult2_eq [of m 256 256, simplified, symmetric] div_mult2_eq [of m 65536 256, simplified, symmetric])
  have "from_be_bytes (to_be_bytes m) =
      ((m div 16777216 * 256 + m div 65536 mod 256) * 256 + m div 256 mod 256) * 256 + m mod 256"
    using lt by (simp add: from_be_bytes_def to_be_bytes_def small)
  also have "\<dots> = m" using split by simp
  finally show ?thesis by (simp add: m_def)
qed

lemma as_u32_id: "n \<le> MAX_MESSAGE_BYTES \<Longrightarrow> as_u32 n = n"
  by (simp add: as_u32_def MAX_MESSAGE_BYTES_def)

lemma chunk_le_message: "MAX_CHUNK_BYTES \<le> MAX_MESSAGE_BYTES" "0 < MAX_CHUNK_BYTES"
  by (simp_all add: MAX_CHUNK_BYTES_def MAX_MESSAGE_BYTES_def)

definition frame_chunks :: "string list \<Rightarrow> string" where
  "frame_chunks cs = concat (map (\<lambda>c. to_be_bytes (as_u32 (length c)) @ c) cs)"

lemma chunks_concat: "0 < n \<Longrightarrow> concat (chunks n xs) = xs"
  by (induction n xs rule: chunks.induct) (subst chunks.simps, auto)

lemma chunks_bounds: "c \<in> set (chunks n xs) \<Longrightarrow> c \<noteq> [] \<and> length c \<le> n"
  by (induction n xs rule: chunks.induct) (subst (asm) (2) chunks.simps, auto split: if_splits)

text \<open>Reading back well-sized chunks.\<close>

lemma read_chunks_frame:
  assumes "\<And>c. c \<in> set cs \<Longrightarrow> c \<noteq> [] \<and> length c \<le> MAX_CHUNK_BYTES"
  shows "read_chunks (length body + length (concat cs)) body (frame_chunks cs @ rest) =
    Inr (body @ concat cs, rest)"
  using assms
proof (induction cs arbitrary: body)
  case Nil
  show ?case by (subst read_chunks.simps) (simp add: frame_chunks_def)
next
  case (Cons c cs)
  have c: "c \<noteq> []" "length c \<le> MAX_CHUNK_BYTES" using Cons.prems by auto
  then have u32: "from_be_bytes (to_be_bytes (as_u32 (length c))) = length c"
    using chunk_le_message by (metis from_to_be_bytes as_u32_id le_trans)
  have fr: "frame_chunks (c # cs) @ rest = to_be_bytes (as_u32 (length c)) @ c @ frame_chunks cs @ rest"
    by (simp add: frame_chunks_def)
  have "read_chunks (length body + length (concat (c # cs))) body (frame_chunks (c # cs) @ rest) =
      read_chunks (length (body @ c) + length (concat cs)) (body @ c) (frame_chunks cs @ rest)"
    unfolding fr using c
    by (subst read_chunks.simps) (simp add: read_exact_def u32 Let_def add.assoc)
  also have "\<dots> = Inr ((body @ c) @ concat cs, rest)"
    by (rule Cons.IH) (use Cons.prems in simp)
  finally show ?case by simp
qed

lemma write_frame_Inr:
  "write_frame to_vec v = Inr bs \<longleftrightarrow> (\<exists>body. to_vec v = Inr body \<and> length body \<le> MAX_MESSAGE_BYTES
     \<and> bs = to_be_bytes (as_u32 (length body)) @ frame_chunks (chunks MAX_CHUNK_BYTES body))"
  by (cases "to_vec v") (auto simp: write_frame_def frame_chunks_def)

lemma read_write_frame:
  assumes "write_frame to_vec v = Inr bs" "\<And>body. to_vec v = Inr body \<Longrightarrow> from_slice body = Inr v"
  shows "read_frame from_slice (bs @ rest) = Inr (v, rest)"
proof -
  from assms(1) obtain body where body: "to_vec v = Inr body" "length body \<le> MAX_MESSAGE_BYTES"
    and bs: "bs = to_be_bytes (as_u32 (length body)) @ frame_chunks (chunks MAX_CHUNK_BYTES body)"
    by (auto simp: write_frame_Inr)
  have len: "from_be_bytes (to_be_bytes (as_u32 (length body))) = length body"
    using body(2) by (simp add: from_to_be_bytes as_u32_id del: to_be_bytes_length)
       (metis as_u32_id from_to_be_bytes)
  have "read_chunks (length body) [] (frame_chunks (chunks MAX_CHUNK_BYTES body) @ rest) = Inr (body, rest)"
    using read_chunks_frame [OF chunks_bounds, where cs = "chunks MAX_CHUNK_BYTES body" and body = "[]"]
      chunk_le_message(2)
    by (simp add: chunks_concat)
  with assms(2) [OF body(1)] body(2) len show ?thesis
    by (simp add: read_frame_def bs read_exact_def Let_def)
qed

locale json_codec =
  fixes to_vec :: "'v \<Rightarrow> (string, string) result" and from_slice :: "string \<Rightarrow> ('v, string) result"
  assumes decode_encode: "to_vec v = Inr body \<Longrightarrow> from_slice body = Inr v"

sublocale json_codec \<subseteq> stream_codec "write_frame to_vec" "read_frame from_slice"
  by unfold_locales (rule read_write_frame [OF _ decode_encode])

context json_codec
begin

lemma frames_read_back:
  "write_all (write_frame to_vec) vs = Inr bs \<Longrightarrow>
   read_many (read_frame from_slice) (length vs) (bs @ rest) = Inr (vs, rest)"
  by (rule read_many_write_all)

lemma frame_inj: "write_frame to_vec v = Inr bs \<Longrightarrow> write_frame to_vec w = Inr bs \<Longrightarrow> v = w"
  by (rule write_inj)

end

interpretation raw_frame: json_codec Inr Inr
  by unfold_locales simp

text \<open>A prefix of a stream that was read successfully.\<close>

lemma read_exact_Inr: "read_exact n s = Inr (a, b) \<longleftrightarrow> n \<le> length s \<and> a = take n s \<and> b = drop n s"
  by (auto simp: read_exact_def)

lemma read_chunks_step:
  "read_chunks tot body s =
     (if length body < tot then
        result_bind (read_exact 4 s) (\<lambda>(pre, s1).
          let chunk = from_be_bytes pre in
          if chunk > MAX_CHUNK_BYTES then Inl (TooLarge chunk)
          else if chunk = 0 then Inl (EmptyChunk tot)
          else if length body + chunk > tot then Inl (ChunkOverflow tot chunk (length body))
          else result_bind (read_exact chunk s1) (\<lambda>(bytes, s2). read_chunks tot (body @ bytes) s2))
      else Inr (body, s))"
  by (subst read_chunks.simps) (auto split: sum.splits prod.splits simp: Let_def)

text \<open>What the loop reads has exactly the announced size, comes from the stream, and costs at most
  four bytes of prefix per byte.\<close>

lemma read_chunks_sound:
  assumes "read_chunks tot body s = Inr (out, rest)" "length body \<le> tot"
  shows "length out = tot \<and> prefix body out \<and> suffix rest s
    \<and> length s \<le> length rest + 5 * (tot - length body)"
  using assms
proof (induction tot body s rule: read_chunks.induct)
  case (1 tot body s)
  show ?case
  proof (cases "length body < tot")
    case False
    with 1(2,3) show ?thesis by (simp add: read_chunks_step [of tot body s])
  next
    case True
    then obtain pre s1 bytes s2 where r: "read_exact 4 s = Inr (pre, s1)"
      "\<not> from_be_bytes pre > MAX_CHUNK_BYTES" "from_be_bytes pre \<noteq> 0"
      "\<not> length body + from_be_bytes pre > tot" "read_exact (from_be_bytes pre) s1 = Inr (bytes, s2)"
      "read_chunks tot (body @ bytes) s2 = Inr (out, rest)"
      using 1(2) by (auto simp: read_chunks_step [of tot body s] Let_def split: if_splits)
    have len: "length bytes = from_be_bytes pre" using r(5) by (auto simp: read_exact_Inr)
    have "length out = tot \<and> prefix (body @ bytes) out \<and> suffix rest s2
        \<and> length s2 \<le> length rest + 5 * (tot - length (body @ bytes))"
      using r len True by (intro 1(1)) auto
    moreover have "suffix s2 s" "length s = 4 + from_be_bytes pre + length s2"
      using r(1,5) by (auto simp: read_exact_Inr suffix_drop intro: suffix_order.trans)
    ultimately show ?thesis using r(3,4) len
      by (auto intro: suffix_order.trans dest: append_prefixD)
  qed
qed

text \<open>Cutting the stream short inside the message is an end-of-file error.\<close>

lemma read_chunks_truncated:
  assumes "read_chunks tot body s = Inr (out, rest)" "length body \<le> tot" "n < length s - length rest"
  shows "read_chunks tot body (take n s) = Inl (Io ''UnexpectedEof'')"
  using assms
proof (induction tot body s arbitrary: n rule: read_chunks.induct)
  case (1 tot body s)
  show ?case
  proof (cases "length body < tot")
    case False
    with 1 show ?thesis by (simp add: read_chunks_step [of tot body s])
  next
    case True
    then obtain pre s1 bytes s2 where r: "read_exact 4 s = Inr (pre, s1)"
      "\<not> from_be_bytes pre > MAX_CHUNK_BYTES" "from_be_bytes pre \<noteq> 0"
      "\<not> length body + from_be_bytes pre > tot" "read_exact (from_be_bytes pre) s1 = Inr (bytes, s2)"
      "read_chunks tot (body @ bytes) s2 = Inr (out, rest)"
      using 1(2) by (auto simp: read_chunks_step [of tot body s] Let_def split: if_splits)
    let ?k = "from_be_bytes pre"
    have parts: "pre = take 4 s" "s1 = drop 4 s" "bytes = take ?k s1" "s2 = drop ?k s1" "4 \<le> length s" "?k \<le> length s1"
      using r(1,5) by (auto simp: read_exact_Inr)
    show ?thesis
    proof (cases "n < 4 + ?k")
      case short: True
      show ?thesis
      proof (cases "n < 4")
        case True
        with \<open>length body < tot\<close> show ?thesis
          by (subst read_chunks_step) (simp add: read_exact_def min_less_iff_disj)
      next
        case False
        have e1: "read_exact 4 (take n s) = Inr (pre, take (n - 4) s1)"
          using False parts by (simp add: read_exact_def min_def drop_take)
        have e2: "read_exact ?k (take (n - 4) s1) = Inl (Io ''UnexpectedEof'')"
          using False short by (auto simp: read_exact_def min_less_iff_disj)
        from True r(2-4) show ?thesis
          by (subst read_chunks_step) (simp add: e1 e2 Let_def)
      qed
    next
      case False
      have "read_chunks tot (body @ bytes) (take (n - 4 - ?k) s2) = Inl (Io ''UnexpectedEof'')"
        using r parts False 1(4) True by (intro 1(1)) auto
      moreover have "read_exact 4 (take n s) = Inr (pre, take (n - 4) s1)"
        using False parts by (simp add: read_exact_def min_def drop_take)
      moreover have "read_exact ?k (take (n - 4) s1) = Inr (bytes, take (n - 4 - ?k) s2)"
        using False parts by (auto simp: read_exact_def min_def drop_take)
      ultimately show ?thesis using True r(2-4)
        by (subst read_chunks_step) (simp add: Let_def)
    qed
  qed
qed

section \<open>Properties\<close>

text \<open>C24: frames round-trip: any sequence of messages that the writer accepts is read back message by
  message, in order, from the concatenated frames, and the reader stops exactly at the end of
  the last frame. The JSON codec is assumed to decode what it encodes.\<close>

theorem frame_sequence_roundtrip:
  assumes "\<And>v body. to_vec v = Inr body \<Longrightarrow> from_slice body = Inr v"
    "write_all (write_frame to_vec) vs = Inr bs"
  shows "read_many (read_frame from_slice) (length vs) (bs @ rest) = Inr (vs, rest)"
proof -
  have "json_codec to_vec from_slice" by (rule json_codec.intro) (rule assms(1))
  then show ?thesis using assms(2) by (rule json_codec.frames_read_back)
qed

theorem frame_sequence_roundtrip_witness:
  "\<exists>bs. write_all (write_frame Inr) [''{}'', ''[1]''] = Inr bs
     \<and> read_many (read_frame Inr) 2 (bs @ ''tail'') = Inr ([''{}'', ''[1]''], ''tail'')"
proof -
  obtain bs where bs: "write_all (write_frame Inr) [''{}'', ''[1]''] = Inr bs"
    by (simp add: write_frame_def MAX_MESSAGE_BYTES_def)
  have "read_many (read_frame Inr) (length [''{}'', ''[1]'']) (bs @ ''tail'') = Inr ([''{}'', ''[1]''], ''tail'')"
    by (rule frame_sequence_roundtrip [OF _ bs]) simp
  with bs show ?thesis by (simp add: eval_nat_numeral del: read_many.simps write_all.simps)
qed

text \<open>A frame that is cut off anywhere is reported as an unexpected end of file, never as a shorter
  message: every proper prefix of the bytes of a readable frame fails that way.\<close>

theorem truncated_frame_is_eof:
  assumes "read_frame from_slice s = Inr (v, rest)" "n < length s - length rest"
  shows "read_frame from_slice (take n s) = Inl (Io ''UnexpectedEof'')"
proof -
  from assms(1) obtain pre s1 body where r: "read_exact 4 s = Inr (pre, s1)"
    "\<not> from_be_bytes pre > MAX_MESSAGE_BYTES" "read_chunks (from_be_bytes pre) [] s1 = Inr (body, rest)"
    by (auto simp: read_frame_def Let_def split: if_splits)
  have parts: "pre = take 4 s" "s1 = drop 4 s" "4 \<le> length s" using r(1) by (auto simp: read_exact_Inr)
  show ?thesis
  proof (cases "n < 4")
    case True
    then show ?thesis by (simp add: read_frame_def read_exact_def min_less_iff_disj)
  next
    case False
    have "read_exact 4 (take n s) = Inr (pre, take (n - 4) s1)"
      using False parts by (simp add: read_exact_def min_def drop_take)
    moreover have "read_chunks (from_be_bytes pre) [] (take (n - 4) s1) = Inl (Io ''UnexpectedEof'')"
      using assms(2) parts False by (intro read_chunks_truncated [OF r(3)]) auto
    ultimately show ?thesis using r(2) by (simp add: read_frame_def Let_def)
  qed
qed

theorem truncated_frame_is_eof_witness:
  "read_frame Inr (take 9 (to_be_bytes 2 @ to_be_bytes 2 @ ''{}'')) = Inl (Io ''UnexpectedEof'')"
proof (rule truncated_frame_is_eof)
  have "write_frame Inr ''{}'' = Inr (to_be_bytes 2 @ to_be_bytes 2 @ ''{}'')"
    by (simp add: write_frame_def MAX_MESSAGE_BYTES_def MAX_CHUNK_BYTES_def chunks.simps as_u32_def numeral_2_eq_2)
  from raw_frame.read_write [OF this, of "[]"]
  show "read_frame Inr (to_be_bytes 2 @ to_be_bytes 2 @ ''{}'') = Inr (''{}'', [])" by simp
qed simp

text \<open>\<open>fits_one_frame\<close> is exactly the writer's acceptance test: a response fits one frame if and
  only if \<open>write_frame\<close> writes it, and otherwise the writer reports the encoder's error or the size.\<close>

theorem fits_one_frame_iff_written:
  "(fits_one_frame to_vec v \<longleftrightarrow> (\<exists>bs. write_frame to_vec v = Inr bs))
   \<and> (\<not> fits_one_frame to_vec v \<longleftrightarrow>
        (\<exists>e. to_vec v = Inl e \<and> write_frame to_vec v = Inl (JsonError e))
        \<or> (\<exists>body. to_vec v = Inr body \<and> write_frame to_vec v = Inl (TooLarge (length body))))"
  by (cases "to_vec v") (auto simp: fits_one_frame_def write_frame_def)

text \<open>Reading a frame consumes a bounded part of the stream: a message of \<open>n\<close> bytes is at most 256
  MiB and costs at most \<open>4 + 5 * n\<close> bytes on the wire, so the loop cannot run away; and a larger
  announced size is refused after its four prefix bytes.\<close>

theorem read_frame_bounded:
  "(\<forall>v rest. read_frame from_slice s = Inr (v, rest) \<longrightarrow>
     (\<exists>body. from_slice body = Inr v \<and> length body \<le> MAX_MESSAGE_BYTES \<and> suffix rest s
        \<and> length s \<le> length rest + 4 + 5 * length body))
   \<and> (4 \<le> length s \<longrightarrow> from_be_bytes (take 4 s) > MAX_MESSAGE_BYTES \<longrightarrow>
        read_frame from_slice s = Inl (TooLarge (from_be_bytes (take 4 s))))"
proof (intro conjI allI impI)
  fix v rest
  assume "read_frame from_slice s = Inr (v, rest)"
  then obtain pre s1 body where r: "read_exact 4 s = Inr (pre, s1)"
    "\<not> from_be_bytes pre > MAX_MESSAGE_BYTES" "read_chunks (from_be_bytes pre) [] s1 = Inr (body, rest)"
    "from_slice body = Inr v"
    by (auto simp: read_frame_def Let_def split: if_splits)
  from read_chunks_sound [OF r(3)] have
    "length body = from_be_bytes pre" "suffix rest s1" "length s1 \<le> length rest + 5 * from_be_bytes pre"
    by auto
  moreover have "s1 = drop 4 s" "4 \<le> length s" using r(1) by (auto simp: read_exact_Inr)
  ultimately show "\<exists>body. from_slice body = Inr v \<and> length body \<le> MAX_MESSAGE_BYTES \<and> suffix rest s
        \<and> length s \<le> length rest + 4 + 5 * length body"
    using r(2,4) suffix_order.trans [OF _ suffix_drop [of 4 s]] by (intro exI [of _ body]) auto
next
  assume "4 \<le> length s" "from_be_bytes (take 4 s) > MAX_MESSAGE_BYTES"
  then show "read_frame from_slice s = Inl (TooLarge (from_be_bytes (take 4 s)))"
    by (simp add: read_frame_def read_exact_def Let_def)
qed

theorem read_frame_bounded_witness:
  "read_frame Inr [of_byte 255, of_byte 255, of_byte 255, of_byte 255]
     = (Inl (TooLarge 4294967295) :: (string \<times> string, wire_error) result)"
proof -
  let ?s = "[of_byte 255, of_byte 255, of_byte 255, of_byte 255]"
  have "from_be_bytes (take 4 ?s) = 4294967295" by (simp add: from_be_bytes_def)
  with read_frame_bounded [THEN conjunct2, of ?s Inr] show ?thesis
    by (simp add: MAX_MESSAGE_BYTES_def)
qed

end
