(* ===== verification/RateLimit.thy ===== *)
theory RateLimit
  imports Prelude
begin

text \<open>
  \<open>livtet-sync-server/src/rate_limit.rs\<close>: the fixed-window budget of pairing claims per node id.
  An \<open>Instant\<close> and a \<open>Duration\<close> are numbers of nanoseconds; \<open>duration_since\<close> saturates at zero, as natural
  subtraction does. The counter is a \<open>u32\<close> below the budget, so its increment cannot overflow.
\<close>

definition from_secs :: "nat \<Rightarrow> nat" where "from_secs n = n * 1000000000"

record claim_rate_limiter =
  rl_window :: nat
  rl_max :: nat
  rl_windows :: "string \<rightharpoonup> nat \<times> nat"

definition new_limiter :: "nat \<Rightarrow> nat \<Rightarrow> claim_rate_limiter" where
  "new_limiter w m = \<lparr>rl_window = w, rl_max = m, rl_windows = (\<lambda>_. None)\<rparr>"

definition default_limiter :: claim_rate_limiter where
  "default_limiter = new_limiter (from_secs 60) 10"

text \<open>\<open>windows.retain(..)\<close>.\<close>

definition open_windows :: "nat \<Rightarrow> claim_rate_limiter \<Rightarrow> string \<rightharpoonup> nat \<times> nat" where
  "open_windows now l n =
     (case rl_windows l n of
        Some (start, cnt) \<Rightarrow> if now - start < rl_window l then Some (start, cnt) else None
      | None \<Rightarrow> None)"

definition allow_at :: "claim_rate_limiter \<Rightarrow> string \<Rightarrow> nat \<Rightarrow> claim_rate_limiter \<times> bool" where
  "allow_at l node now =
     (let ws = open_windows now l;
          (start, cnt) = (case ws node of Some e \<Rightarrow> e | None \<Rightarrow> (now, 0))
      in if cnt \<ge> rl_max l then (l\<lparr>rl_windows := ws(node \<mapsto> (start, cnt))\<rparr>, False)
         else (l\<lparr>rl_windows := ws(node \<mapsto> (start, cnt + 1))\<rparr>, True))"

text \<open>How many of a node's claims a run of claims grants.\<close>

fun granted :: "claim_rate_limiter \<Rightarrow> string \<Rightarrow> (string \<times> nat) list \<Rightarrow> nat" where
  "granted l n [] = 0"
| "granted l n ((node, now) # cs) =
     (if node = n \<and> snd (allow_at l node now) then 1 else 0) + granted (fst (allow_at l node now)) n cs"

section \<open>One claim\<close>

lemma allow_at_params [simp]:
  "rl_window (fst (allow_at l node now)) = rl_window l" "rl_max (fst (allow_at l node now)) = rl_max l"
  by (simp_all add: allow_at_def Let_def split: prod.splits option.splits)

lemma allow_at_other:
  "n \<noteq> node \<Longrightarrow> rl_windows (fst (allow_at l node now)) n = open_windows now l n"
  by (simp add: allow_at_def Let_def split: prod.splits option.splits)

text \<open>The remaining budget of a node at a time.\<close>

definition used :: "claim_rate_limiter \<Rightarrow> string \<Rightarrow> nat \<Rightarrow> nat" where
  "used l n now = (case open_windows now l n of Some (_, c) \<Rightarrow> c | None \<Rightarrow> 0)"

lemma allow_at_granted: "snd (allow_at l node now) \<longleftrightarrow> used l node now < rl_max l"
  by (auto simp: allow_at_def used_def Let_def split: option.splits prod.splits)

lemma allow_at_entry:
  "rl_windows (fst (allow_at l node now)) node =
     Some (case open_windows now l node of Some (s, _) \<Rightarrow> s | None \<Rightarrow> now,
           used l node now + (if snd (allow_at l node now) then 1 else 0))"
  by (auto simp: allow_at_def used_def Let_def split: option.splits prod.splits)

text \<open>Counters never exceed the budget.\<close>

definition limiter_wf :: "claim_rate_limiter \<Rightarrow> bool" where
  "limiter_wf l \<longleftrightarrow> (\<forall>n s c. rl_windows l n = Some (s, c) \<longrightarrow> c \<le> rl_max l)"

lemma used_le: "limiter_wf l \<Longrightarrow> used l n now \<le> rl_max l"
  by (auto simp: limiter_wf_def used_def open_windows_def split: option.splits prod.splits if_splits)

lemma allow_at_wf:
  assumes "limiter_wf l"
  shows "limiter_wf (fst (allow_at l node now))"
  unfolding limiter_wf_def
proof (intro allI impI)
  fix n s c
  assume e: "rl_windows (fst (allow_at l node now)) n = Some (s, c)"
  show "c \<le> rl_max (fst (allow_at l node now))"
  proof (cases "n = node")
    case True
    with e have "c = used l node now + (if snd (allow_at l node now) then 1 else 0)"
      by (simp add: allow_at_entry)
    with used_le [OF assms, of node now] allow_at_granted [of l node now] show ?thesis
      by (auto split: if_splits)
  next
    case False
    with e assms show ?thesis
      by (auto simp: allow_at_other limiter_wf_def open_windows_def split: option.splits if_splits prod.splits)
  qed
qed

section \<open>Runs\<close>

definition claims_of :: "string \<Rightarrow> (string \<times> nat) list \<Rightarrow> nat" where
  "claims_of n cs = length (filter (\<lambda>(node, _). node = n) cs)"

lemma claims_of_simps [simp]:
  "claims_of n [] = 0" "claims_of n ((node, now) # cs) = (if node = n then 1 else 0) + claims_of n cs"
  by (simp_all add: claims_of_def)

text \<open>While a window of the node stays open, the grants are what is left of its budget.\<close>

lemma granted_within_window:
  assumes "limiter_wf l" "rl_windows l n = Some (s, c)"
    "\<And>node now. (node, now) \<in> set cs \<Longrightarrow> now - s < rl_window l"
  shows "granted l n cs = min (rl_max l - c) (claims_of n cs)"
  using assms
proof (induction cs arbitrary: l c)
  case Nil
  then show ?case by simp
next
  case (Cons x cs)
  obtain node now where x: "x = (node, now)" by (cases x)
  let ?l = "fst (allow_at l node now)"
  have openw: "open_windows now l n = Some (s, c)"
    using Cons.prems(2) Cons.prems(3) [of node now] x by (simp add: open_windows_def)
  have wf: "limiter_wf ?l" by (rule allow_at_wf [OF Cons.prems(1)])
  have within: "now' - s < rl_window ?l" if "(node', now') \<in> set cs" for node' now'
    using Cons.prems(3) [of node' now'] that by auto
  show ?case
  proof (cases "node = n")
    case True
    let ?g = "if snd (allow_at l node now) then 1 else 0 :: nat"
    have "rl_windows ?l n = Some (s, c + ?g)"
      using allow_at_entry [of l node now] openw True by (simp add: used_def)
    from Cons.IH [OF wf this within] allow_at_granted [of l node now] openw show ?thesis
      using True x by (auto simp: used_def)
  next
    case False
    then have "rl_windows ?l n = Some (s, c)" using allow_at_other [of n node] openw by simp
    from Cons.IH [OF wf this within] show ?thesis using False x by simp
  qed
qed

lemma open_windows_mono: "open_windows now l n = None \<Longrightarrow> now \<le> now' \<Longrightarrow> open_windows now' l n = None"
  by (auto simp: open_windows_def split: option.splits if_splits prod.splits)

text \<open>A node without an open window is granted its budget in a span shorter than the window.\<close>

lemma granted_fresh:
  assumes "limiter_wf l" "sorted (map snd cs)"
    "\<And>node now. (node, now) \<in> set cs \<Longrightarrow> t \<le> now \<and> now < t + rl_window l"
    "\<And>node now. (node, now) \<in> set cs \<Longrightarrow> open_windows now l n = None"
  shows "granted l n cs = min (rl_max l) (claims_of n cs)"
  using assms
proof (induction cs arbitrary: l)
  case Nil
  then show ?case by simp
next
  case (Cons x cs)
  obtain node now where x: "x = (node, now)" by (cases x)
  let ?l = "fst (allow_at l node now)"
  have none: "open_windows now l n = None" using Cons.prems(4) [of node now] x by simp
  have wf: "limiter_wf ?l" by (rule allow_at_wf [OF Cons.prems(1)])
  have span: "t \<le> now' \<and> now' < t + rl_window ?l" if "(node', now') \<in> set cs" for node' now'
    using Cons.prems(3) [of node' now'] that by auto
  show ?case
  proof (cases "node = n")
    case True
    let ?g = "if snd (allow_at l node now) then 1 else 0 :: nat"
    have "rl_windows ?l n = Some (now, ?g)"
      using allow_at_entry [of l node now] none True by (simp add: used_def)
    moreover have "now' - now < rl_window ?l" if "(node', now') \<in> set cs" for node' now'
      using span [OF that] Cons.prems(3) [of node now] x by auto
    ultimately have "granted ?l n cs = min (rl_max ?l - ?g) (claims_of n cs)"
      by (rule granted_within_window [OF wf])
    then show ?thesis using True x none allow_at_granted [of l node now] by (auto simp: used_def)
  next
    case False
    have "open_windows now' ?l n = None" if "(node', now') \<in> set cs" for node' now'
      using allow_at_other [OF False [symmetric], of l now] none by (simp add: open_windows_def)
    then have "granted ?l n cs = min (rl_max ?l) (claims_of n cs)"
      using Cons.prems(2) x span by (intro Cons.IH wf) auto
    then show ?thesis using False x by simp
  qed
qed

text \<open>Whatever window is open when the span starts, it can only add its own budget.\<close>

lemma granted_span_open:
  assumes "limiter_wf l" "rl_windows l n = Some (s, c)" "sorted (map snd cs)"
    "\<And>node now. (node, now) \<in> set cs \<Longrightarrow> t \<le> now \<and> now < t + rl_window l"
  shows "granted l n cs + c \<le> 2 * rl_max l"
  using assms
proof (induction cs arbitrary: l c)
  case Nil
  then have "c \<le> rl_max l" by (auto simp: limiter_wf_def)
  then show ?case by simp
next
  case (Cons x cs)
  obtain node now where x: "x = (node, now)" by (cases x)
  let ?l = "fst (allow_at l node now)"
  let ?g = "if node = n \<and> snd (allow_at l node now) then 1 else 0 :: nat"
  show ?case
  proof (cases "open_windows now l n")
    case None
    have "open_windows now' l n = None" if "(node', now') \<in> set (x # cs)" for node' now'
    proof (rule open_windows_mono [OF None])
      show "now \<le> now'" using that Cons.prems(3) x by force
    qed
    then have "granted l n (x # cs) \<le> rl_max l"
      using granted_fresh [OF Cons.prems(1,3,4)] by simp
    moreover have "c \<le> rl_max l" using Cons.prems(1,2) by (auto simp: limiter_wf_def)
    ultimately show ?thesis by simp
  next
    case (Some e)
    then have "open_windows now l n = Some (s, c)"
      using Cons.prems(2) by (auto simp: open_windows_def split: if_splits)
    then have "rl_windows ?l n = Some (s, c + ?g)"
      using allow_at_entry [of l node now] allow_at_other [of n node l now]
      by (cases "node = n") (simp_all add: used_def)
    moreover have "t \<le> now' \<and> now' < t + rl_window ?l" if "(node', now') \<in> set cs" for node' now'
      using Cons.prems(4) [of node' now'] that by auto
    ultimately have "granted ?l n cs + (c + ?g) \<le> 2 * rl_max ?l"
      using Cons.prems(3) x by (intro Cons.IH [OF allow_at_wf [OF Cons.prems(1)]]) auto
    then show ?thesis using x by simp
  qed
qed

definition after_claims :: "claim_rate_limiter \<Rightarrow> (string \<times> nat) list \<Rightarrow> claim_rate_limiter" where
  "after_claims l cs = foldl (\<lambda>l (node, now). fst (allow_at l node now)) l cs"

lemma after_claims_wf: "limiter_wf l \<Longrightarrow> limiter_wf (after_claims l cs)"
  unfolding after_claims_def
  by (induction cs arbitrary: l) (auto simp: allow_at_wf)

lemma after_claims_params [simp]:
  "rl_window (after_claims l cs) = rl_window l" "rl_max (after_claims l cs) = rl_max l"
  unfolding after_claims_def
  by (induction cs arbitrary: l) auto

lemma new_limiter_wf [simp]: "limiter_wf (new_limiter w m)"
  by (simp add: limiter_wf_def new_limiter_def)

lemma new_limiter_params [simp]:
  "rl_window (new_limiter w m) = w" "rl_max (new_limiter w m) = m"
  "open_windows now (new_limiter w m) n = None"
  by (simp_all add: new_limiter_def open_windows_def)

section \<open>The budget\<close>

text \<open>A fresh limiter grants a node exactly its budget: of the claims a node files in a span shorter
  than the window, whatever other nodes file between them, the granted ones are the first \<open>m\<close>, or
  all of them when there are fewer.\<close>

theorem fresh_node_is_granted_its_budget:
  assumes "sorted (map snd cs)"
    and "list_all (\<lambda>(_, now). t \<le> now \<and> now < t + w) cs"
  shows "granted (new_limiter w m) n cs = min m (claims_of n cs)"
  using granted_fresh [of "new_limiter w m" cs t n] assms by (auto simp: list_all_iff)

theorem fresh_node_is_granted_its_budget_witness:
  "granted (new_limiter 60 1) ''a'' [(''a'', 100), (''b'', 110), (''a'', 120)] = 1"
proof -
  have "granted (new_limiter 60 1) ''a'' [(''a'', 100), (''b'', 110), (''a'', 120)] =
    min 1 (claims_of ''a'' [(''a'', 100), (''b'', 110), (''a'', 120)])"
    by (rule fresh_node_is_granted_its_budget [where t = 100]) simp_all
  then show ?thesis by simp
qed

text \<open>C34: whatever was claimed before, in any span shorter than the window a node is granted at most
  twice its budget: once from the window that is open when the span starts and once from the
  window that opens in it.\<close>

theorem any_span_grants_at_most_twice_the_budget:
  assumes "sorted (map snd cs)"
    and "list_all (\<lambda>(_, now). t \<le> now \<and> now < t + w) cs"
  shows "granted (after_claims (new_limiter w m) before) n cs \<le> 2 * m"
proof -
  let ?l = "after_claims (new_limiter w m) before"
  have wf: "limiter_wf ?l" by (simp add: after_claims_wf)
  have span: "t \<le> now \<and> now < t + rl_window ?l" if "(node, now) \<in> set cs" for node now
    using assms(2) that by (auto simp: list_all_iff)
  show ?thesis
  proof (cases "rl_windows ?l n")
    case None
    then have "open_windows now ?l n = None" for now by (simp add: open_windows_def)
    with granted_fresh [OF wf assms(1) span] show ?thesis by simp
  next
    case (Some e)
    then have "granted ?l n cs + snd e \<le> 2 * rl_max ?l"
      using span by (intro granted_span_open [OF wf, of n "fst e" _ cs t]) (simp_all add: assms(1))
    then show ?thesis by simp
  qed
qed

theorem any_span_grants_at_most_twice_the_budget_witness:
  "granted (after_claims (new_limiter 60 1) [(''a'', 0)]) ''a'' [(''a'', 59), (''a'', 60), (''a'', 61)] \<le> 2"
  using any_span_grants_at_most_twice_the_budget
    [of "[(''a'', 59), (''a'', 60), (''a'', 61)]" 59 60 1 "[(''a'', 0)]" "''a''"]
  by simp

end
