(* ===== verification/Pairing.thy ===== *)
theory Pairing
  imports Frames RateLimit
begin

text \<open>
  \<open>livtet-sync-server/src/pairing.rs\<close>: the claims a node has outstanding and the decisions kept for
  a claimant to poll. The instants one call reads from the clock are taken as equal. The map of
  decisions is an association list in the order the hash map iterates; an insertion of a new key may
  go anywhere, and the model puts it last. A waiter's broadcast channel has no receiver (\<open>pair\<close>
  drops it), so sending on it has no effect and the model keeps the claim only.
\<close>

definition PAIR_DECISION_TTL :: nat where "PAIR_DECISION_TTL = from_secs 300"
definition PAIR_DECISION_CAP :: nat where "PAIR_DECISION_CAP = 256"

record pairing_waiter =
  pw_claim :: string

type_synonym pair_waiters = "string \<rightharpoonup> pairing_waiter"

definition new_pair_waiters :: pair_waiters where "new_pair_waiters = (\<lambda>_. None)"

record decided_pairing =
  dp_node_id :: string
  dp_approved :: bool
  dp_device_id :: "string option"
  dp_session_token :: string
  dp_decided_at :: nat

type_synonym pair_decisions = "(string \<times> decided_pairing) list"

definition new_pair_decisions :: pair_decisions where "new_pair_decisions = []"

definition decided_response :: "decided_pairing \<Rightarrow> response" where
  "decided_response dp =
     (if dp_approved dp
      then RspPaired (case dp_device_id dp of Some i \<Rightarrow> i | None \<Rightarrow> []) (dp_session_token dp)
      else RspRefused ''the pairing was rejected'')"

definition prune :: "nat \<Rightarrow> pair_decisions \<Rightarrow> pair_decisions" where
  "prune now m = filter (\<lambda>(_, dp). now - dp_decided_at dp < PAIR_DECISION_TTL) m"

text \<open>\<open>min_by_key\<close>: the first of the entries decided earliest.\<close>

fun oldest :: "pair_decisions \<Rightarrow> (string \<times> decided_pairing) option" where
  "oldest [] = None"
| "oldest (e # m) =
     (case oldest m of
        None \<Rightarrow> Some e
      | Some f \<Rightarrow> if dp_decided_at (snd e) \<le> dp_decided_at (snd f) then Some e else Some f)"

definition remove_claim :: "string \<Rightarrow> pair_decisions \<Rightarrow> pair_decisions" where
  "remove_claim c m = filter (\<lambda>(c', _). c' \<noteq> c) m"

lemma oldest_in: "oldest m = Some e \<Longrightarrow> e \<in> set m"
  by (induction m arbitrary: e) (auto split: option.splits if_splits)

lemma remove_oldest_length: "oldest m = Some e \<Longrightarrow> length (remove_claim (fst e) m) < length m"
  unfolding remove_claim_def
  by (drule oldest_in, rule length_filter_less [of e]) (auto simp: case_prod_unfold)

function evict_oldest :: "pair_decisions \<Rightarrow> pair_decisions" where
  "evict_oldest m =
     (if length m \<ge> PAIR_DECISION_CAP then
        (case oldest m of Some e \<Rightarrow> evict_oldest (remove_claim (fst e) m) | None \<Rightarrow> m)
      else m)"
  by pat_completeness auto

termination by (relation "measure length") (auto dest: remove_oldest_length)

declare evict_oldest.simps [simp del]

text \<open>\<open>HashMap::insert\<close>.\<close>

fun put_claim :: "pair_decisions \<Rightarrow> string \<times> decided_pairing \<Rightarrow> pair_decisions" where
  "put_claim [] e = [e]"
| "put_claim (f # m) e = (if fst f = fst e then e # m else f # put_claim m e)"

definition record_decision ::
  "nat \<Rightarrow> pair_decisions \<Rightarrow> string \<Rightarrow> string \<Rightarrow> bool \<Rightarrow> string \<Rightarrow> string option \<Rightarrow> pair_decisions" where
  "record_decision now m claim node_id approved session_token device_id =
     put_claim (evict_oldest (prune now m))
       (claim, \<lparr>dp_node_id = node_id, dp_approved = approved, dp_device_id = device_id,
                dp_session_token = session_token, dp_decided_at = now\<rparr>)"

definition apply_pairing_decision ::
  "nat \<Rightarrow> pair_waiters \<times> pair_decisions \<Rightarrow> string \<Rightarrow> string \<Rightarrow> string \<Rightarrow> string option
    \<Rightarrow> (pair_waiters \<times> pair_decisions) \<times> bool" where
  "apply_pairing_decision now st node_id decision session_token device_id =
     (case st of (waiters, decisions) \<Rightarrow>
      case waiters node_id of
        None \<Rightarrow> (st, False)
      | Some waiter \<Rightarrow>
          ((waiters(node_id := None),
            record_decision now decisions (pw_claim waiter) node_id (decision = ''approved'')
              session_token device_id), True))"

definition decided :: "nat \<Rightarrow> pair_decisions \<Rightarrow> string \<Rightarrow> string \<Rightarrow> pair_decisions \<times> decided_pairing option" where
  "decided now m claim node_id =
     (let m' = prune now m in
      (m', case map_of m' claim of
             Some dp \<Rightarrow> if dp_node_id dp = node_id then Some dp else None
           | None \<Rightarrow> None))"

section \<open>The map of decisions\<close>

lemma oldest_None [simp]: "oldest m = None \<longleftrightarrow> m = []"
  by (cases m) (auto split: option.splits)

lemma oldest_le: "oldest m = Some e \<Longrightarrow> f \<in> set m \<Longrightarrow> dp_decided_at (snd e) \<le> dp_decided_at (snd f)"
proof (induction m arbitrary: e)
  case Nil
  then show ?case by simp
next
  case (Cons g m)
  show ?case
  proof (cases "oldest m")
    case None
    with Cons.prems show ?thesis by auto
  next
    case (Some h)
    with Cons.prems Cons.IH [OF Some] show ?thesis by (auto split: if_splits intro: order_trans)
  qed
qed

lemma put_claim_lookup [simp]: "map_of (put_claim m e) = (map_of m)(fst e \<mapsto> snd e)"
  by (induction m) auto

lemma put_claim_set: "f \<in> set (put_claim m e) \<Longrightarrow> f = e \<or> f \<in> set m"
  by (induction m) (auto split: if_splits)

lemma put_claim_keys: "fst ` set (put_claim m e) = insert (fst e) (fst ` set m)"
  by (induction m) auto

lemma put_claim_distinct: "distinct (map fst m) \<Longrightarrow> distinct (map fst (put_claim m e))"
proof (induction m)
  case (Cons f m)
  then show ?case using put_claim_keys [of m e] by (cases "fst f = fst e") (auto simp: image_iff)
qed simp

lemma put_claim_length: "length (put_claim m e) \<le> Suc (length m)"
  by (induction m) auto

lemma distinct_fst_filter: "distinct (map fst m) \<Longrightarrow> distinct (map fst (filter P m))"
  by (simp add: distinct_map_filter)

lemma evict_oldest_induct [consumes 0, case_names keep drop]:
  assumes "\<And>m. length m < PAIR_DECISION_CAP \<Longrightarrow> evict_oldest m = m \<Longrightarrow> P m"
    and "\<And>m e. oldest m = Some e \<Longrightarrow> evict_oldest m = evict_oldest (remove_claim (fst e) m) \<Longrightarrow>
      P (remove_claim (fst e) m) \<Longrightarrow> P m"
  shows "P m"
proof (induction m rule: evict_oldest.induct)
  case (1 m)
  show ?case
  proof (cases "length m \<ge> PAIR_DECISION_CAP")
    case True
    then have "oldest m \<noteq> None" by (auto simp: PAIR_DECISION_CAP_def)
    then obtain e where "oldest m = Some e" by (cases "oldest m") simp_all
    with True 1 show ?thesis by (intro assms(2) [of m e]) (simp_all add: evict_oldest.simps [of m])
  next
    case False
    then show ?thesis by (intro assms(1) [of m]) (simp_all add: evict_oldest.simps [of m])
  qed
qed

lemma evict_oldest_length: "length (evict_oldest m) < PAIR_DECISION_CAP"
  by (induction m rule: evict_oldest_induct) simp_all

lemma evict_oldest_length_le: "length (evict_oldest m) \<le> length m"
proof (induction m rule: evict_oldest_induct)
  case (drop m e)
  then show ?case using remove_oldest_length [of m e] by simp
qed simp

lemma evict_oldest_subset: "set (evict_oldest m) \<subseteq> set m"
  by (induction m rule: evict_oldest_induct) (auto simp: remove_claim_def)

lemma evict_oldest_distinct: "distinct (map fst m) \<Longrightarrow> distinct (map fst (evict_oldest m))"
proof (induction m rule: evict_oldest_induct)
  case (drop m e)
  then show ?case by (simp add: remove_claim_def distinct_fst_filter)
qed simp

text \<open>What is evicted was decided no later than anything that stays.\<close>

lemma evict_oldest_order:
  "distinct (map fst m) \<Longrightarrow> e \<in> set m \<Longrightarrow> e \<notin> set (evict_oldest m) \<Longrightarrow> f \<in> set (evict_oldest m) \<Longrightarrow>
   dp_decided_at (snd e) \<le> dp_decided_at (snd f)"
proof (induction m rule: evict_oldest_induct)
  case (keep m)
  then show ?case by simp
next
  case (drop m g)
  have f: "f \<in> set m" using drop.prems(4) evict_oldest_subset by blast
  show ?case
  proof (cases "fst e = fst g")
    case True
    with drop.prems(1,2) oldest_in [OF drop.hyps(1)] have "e = g"
      by (metis eq_key_imp_eq_value prod.collapse)
    with oldest_le [OF drop.hyps(1) f] show ?thesis by simp
  next
    case False
    then have "e \<in> set (remove_claim (fst g) m)" using drop.prems(2) by (auto simp: remove_claim_def)
    with drop show ?thesis by (simp add: remove_claim_def distinct_fst_filter)
  qed
qed

interpretation decision_map: bounded_collection length PAIR_DECISION_CAP evict_oldest put_claim
  by unfold_locales (simp_all add: evict_oldest_length evict_oldest_length_le put_claim_length)

section \<open>Pruning and polling\<close>

lemma prune_distinct: "distinct (map fst m) \<Longrightarrow> distinct (map fst (prune now m))"
  by (simp add: prune_def distinct_fst_filter)

lemma prune_in: "e \<in> set (prune now m) \<longleftrightarrow> e \<in> set m \<and> now - dp_decided_at (snd e) < PAIR_DECISION_TTL"
  by (auto simp: prune_def)

lemma record_decision_distinct:
  "distinct (map fst m) \<Longrightarrow> distinct (map fst (record_decision now m c n a t d))"
  by (simp add: record_decision_def put_claim_distinct evict_oldest_distinct prune_distinct)

lemma record_decision_lookup:
  "map_of (record_decision now m c n a t d) c =
     Some \<lparr>dp_node_id = n, dp_approved = a, dp_device_id = d, dp_session_token = t, dp_decided_at = now\<rparr>"
  by (simp add: record_decision_def)

lemma map_of_filter_distinct:
  "distinct (map fst m) \<Longrightarrow> map_of (filter P m) k =
     (case map_of m k of Some v \<Rightarrow> if P (k, v) then Some v else None | None \<Rightarrow> None)"
proof (induction m)
  case (Cons e m)
  have "map_of m (fst e) = None" using Cons.prems by (simp add: map_of_eq_None_iff)
  with Cons show ?case by (cases e) (auto split: option.splits)
qed simp

text \<open>What a poll answers, from the map before pruning.\<close>

lemma decided_spec:
  assumes "distinct (map fst m)"
  shows "snd (decided now m c n) = Some dp \<longleftrightarrow>
    map_of m c = Some dp \<and> now - dp_decided_at dp < PAIR_DECISION_TTL \<and> dp_node_id dp = n"
  by (auto simp: decided_def Let_def prune_def map_of_filter_distinct [OF assms]
      split: option.splits if_splits)


section \<open>What the decisions promise\<close>

text \<open>Recording a decision keeps the map within its bound and its keys distinct, makes the
  decision the one found under its claim, and drops of the decisions still in their window only
  such as were decided no later than any older decision that stays.\<close>

theorem record_decision_evicts_oldest_first:
  assumes "distinct (map fst m)" "m' = record_decision now m claim node approved token device"
  shows "length m' \<le> PAIR_DECISION_CAP \<and> distinct (map fst m')
    \<and> map_of m' claim = Some \<lparr>dp_node_id = node, dp_approved = approved, dp_device_id = device,
                               dp_session_token = token, dp_decided_at = now\<rparr>
    \<and> (\<forall>e f. e \<in> set m - set m' \<and> now - dp_decided_at (snd e) < PAIR_DECISION_TTL
             \<and> f \<in> set m' \<and> fst e \<noteq> claim \<and> fst f \<noteq> claim
             \<longrightarrow> dp_decided_at (snd e) \<le> dp_decided_at (snd f))"
proof (intro conjI allI impI)
  let ?kept = "evict_oldest (prune now m)"
  let ?dp = "\<lparr>dp_node_id = node, dp_approved = approved, dp_device_id = device,
    dp_session_token = token, dp_decided_at = now\<rparr>"
  let ?new = "(claim, ?dp)"
  have m': "m' = put_claim ?kept ?new" by (simp add: assms(2) record_decision_def)
  show "length m' \<le> PAIR_DECISION_CAP" unfolding m' by (rule decision_map.put_bound)
  show "distinct (map fst m')" using assms by (simp add: record_decision_distinct)
  show "map_of m' claim = Some ?dp" by (simp add: assms(2) record_decision_lookup)
  fix e f
  assume a: "e \<in> set m - set m' \<and> now - dp_decided_at (snd e) < PAIR_DECISION_TTL
    \<and> f \<in> set m' \<and> fst e \<noteq> claim \<and> fst f \<noteq> claim"
  then have f: "f \<in> set ?kept" using put_claim_set [of f ?kept ?new] by (auto simp: m')
  have "e \<notin> set ?kept"
  proof
    assume "e \<in> set ?kept"
    moreover have "distinct (map fst ?kept)" by (intro evict_oldest_distinct prune_distinct assms(1))
    ultimately have "map_of ?kept (fst e) = Some (snd e)" by simp
    then have "map_of m' (fst e) = Some (snd e)" using a by (simp add: m')
    then have "e \<in> set m'" by (metis map_of_SomeD prod.collapse)
    with a show False by simp
  qed
  moreover have "e \<in> set (prune now m)" using a by (simp add: prune_in)
  ultimately show "dp_decided_at (snd e) \<le> dp_decided_at (snd f)"
    by (intro evict_oldest_order [OF prune_distinct [OF assms(1)] _ _ f])
qed

theorem record_decision_evicts_oldest_first_witness:
  "length (record_decision 7 [] ''c'' ''n'' True ''t'' None) \<le> PAIR_DECISION_CAP"
  using record_decision_evicts_oldest_first [of "[]" _ 7 "''c''" "''n''" True "''t''" None] by simp

text \<open>C25: once a node's outstanding claim is answered, a poll with the claim's secret learns the answer
  exactly when it comes from that node and within the decision's time to live; no other node learns
  it, and the claim is outstanding no more.\<close>

theorem answered_claim_is_polled_by_its_node_only:
  assumes "distinct (map fst decisions)" "waiters node = Some w"
    and "apply_pairing_decision now (waiters, decisions) node decision token device =
           ((waiters', decisions'), signalled)"
  shows "signalled \<and> waiters' node = None
    \<and> map_option decided_response (snd (decided later decisions' (pw_claim w) poller)) =
        (if poller = node \<and> later - now < PAIR_DECISION_TTL
         then Some (if decision = ''approved'' then RspPaired (case device of Some i \<Rightarrow> i | None \<Rightarrow> []) token
                    else RspRefused ''the pairing was rejected'')
         else None)"
proof -
  let ?dp = "\<lparr>dp_node_id = node, dp_approved = (decision = ''approved''), dp_device_id = device,
    dp_session_token = token, dp_decided_at = now\<rparr>"
  have r: "signalled" "waiters' = waiters(node := None)"
    "decisions' = record_decision now decisions (pw_claim w) node (decision = ''approved'') token device"
    using assms(2,3) by (auto simp: apply_pairing_decision_def)
  have dist: "distinct (map fst decisions')" using assms(1) r(3) by (simp add: record_decision_distinct)
  have lk: "map_of decisions' (pw_claim w) = Some ?dp" by (simp add: r(3) record_decision_lookup)
  have "snd (decided later decisions' (pw_claim w) poller) =
    (if poller = node \<and> later - now < PAIR_DECISION_TTL then Some ?dp else None)"
  proof (cases "snd (decided later decisions' (pw_claim w) poller)")
    case None
    then show ?thesis using decided_spec [OF dist, of later "pw_claim w" poller ?dp] lk by auto
  next
    case (Some dp)
    then show ?thesis using decided_spec [OF dist, of later "pw_claim w" poller dp] lk by auto
  qed
  with r(1,2) show ?thesis by (simp add: decided_response_def)
qed

theorem answered_claim_is_polled_by_its_node_only_witness:
  "map_option decided_response (snd (decided 9
      (snd (fst (apply_pairing_decision 7 ([''n'' \<mapsto> \<lparr>pw_claim = ''c''\<rparr>], []) ''n'' ''approved'' ''t'' (Some ''d''))))
      ''c'' ''n'')) = Some (RspPaired ''d'' ''t'')"
proof -
  let ?r = "apply_pairing_decision 7 ([''n'' \<mapsto> \<lparr>pw_claim = ''c''\<rparr>], []) ''n'' ''approved'' ''t'' (Some ''d'')"
  have "?r = ((fst (fst ?r), snd (fst ?r)), snd ?r)" by simp
  from answered_claim_is_polled_by_its_node_only [OF _ _ this, of "\<lparr>pw_claim = ''c''\<rparr>" 9 "''n''"]
  show ?thesis by (simp add: PAIR_DECISION_TTL_def from_secs_def)
qed

end
