(* ===== verification/Requests.thy ===== *)
theory Requests
  imports Prelude
begin

text \<open>
  \<open>livtet-sync-server/src/requests.rs\<close>: the bounded log of answered requests. The queue is a list,
  oldest first. The log refines the unbounded history of all requests: it holds its last
  \<open>REQUEST_LOG_CAP\<close> entries.
\<close>

definition REQUEST_LOG_CAP :: nat where "REQUEST_LOG_CAP = 200"

record request_record =
  rr_op :: string
  rr_node_id :: string
  rr_device_id :: "string option"
  rr_outcome :: string
  rr_at :: string
  rr_elapsed_ms :: nat

type_synonym request_log = "request_record list"

definition new_request_log :: request_log where "new_request_log = []"

text \<open>The eviction loop \<open>while queue.len() >= REQUEST_LOG_CAP { queue.pop_front(); }\<close>.\<close>

function evict_front :: "request_log \<Rightarrow> request_log" where
  "evict_front queue = (if length queue \<ge> REQUEST_LOG_CAP then evict_front (tl queue) else queue)"
  by pat_completeness auto

termination by (relation "measure length") (auto simp: REQUEST_LOG_CAP_def)

declare evict_front.simps [simp del]

definition record_request :: "request_log \<Rightarrow> request_record \<Rightarrow> request_log" where
  "record_request log r = evict_front log @ [r]"

definition recent :: "request_log \<Rightarrow> nat \<Rightarrow> request_record list" where
  "recent log limit = take limit (rev log)"

section \<open>The log as a window on the history\<close>

text \<open>The last \<open>n\<close> elements of a list.\<close>

definition last_n :: "nat \<Rightarrow> 'a list \<Rightarrow> 'a list" where
  "last_n n xs = drop (length xs - n) xs"

lemma last_n_length [simp]: "length (last_n n xs) = min n (length xs)"
  by (simp add: last_n_def)

lemma last_n_all: "length xs \<le> n \<Longrightarrow> last_n n xs = xs"
  by (simp add: last_n_def)

lemma rev_last_n: "rev (last_n n xs) = take n (rev xs)"
  by (cases "n \<le> length xs") (simp_all add: last_n_def rev_drop)

lemma last_n_snoc: "0 < n \<Longrightarrow> last_n n (xs @ [x]) = last_n (n - 1) xs @ [x]"
  by (cases n) (simp_all add: last_n_def)

lemma last_n_last_n: "m \<le> n \<Longrightarrow> last_n m (last_n n xs) = last_n m xs"
  by (simp add: last_n_def) (rule arg_cong [where f = "\<lambda>k. drop k xs"], linarith)

lemma evict_front_eq: "evict_front queue = last_n (REQUEST_LOG_CAP - 1) queue"
proof (induction queue rule: evict_front.induct)
  case (1 queue)
  show ?case
  proof (cases "length queue \<ge> REQUEST_LOG_CAP")
    case True
    then obtain x xs where q: "queue = x # xs" by (cases queue) (auto simp: REQUEST_LOG_CAP_def)
    with True have "length xs \<ge> REQUEST_LOG_CAP - 1" by simp
    then have "last_n (REQUEST_LOG_CAP - 1) (x # xs) = last_n (REQUEST_LOG_CAP - 1) xs"
      by (simp add: last_n_def Suc_diff_le)
    with 1 True q show ?thesis by (simp add: evict_front.simps [of "x # xs"])
  next
    case False
    then show ?thesis by (simp add: evict_front.simps [of queue] last_n_all)
  qed
qed

interpretation request_ring: bounded_collection length REQUEST_LOG_CAP evict_front "\<lambda>queue r. queue @ [r]"
  by unfold_locales (simp_all add: evict_front_eq REQUEST_LOG_CAP_def)

lemma record_request_last:
  "record_request (last_n REQUEST_LOG_CAP history) r = last_n REQUEST_LOG_CAP (history @ [r])"
  by (simp add: record_request_def evict_front_eq last_n_last_n last_n_snoc REQUEST_LOG_CAP_def)

lemma record_all_last:
  "foldl record_request (last_n REQUEST_LOG_CAP before) rs = last_n REQUEST_LOG_CAP (before @ rs)"
proof (induction rs arbitrary: before)
  case Nil
  show ?case by simp
next
  case (Cons r rs)
  from Cons [of "before @ [r]"] show ?case by (simp add: record_request_last)
qed

text \<open>The ring buffer refines the unbounded history. After any sequence of requests it holds the
  last \<open>REQUEST_LOG_CAP\<close> of them, never more, and \<open>recent\<close> returns the newest first.\<close>

theorem request_log_refines_history:
  "let log = foldl record_request new_request_log history in
     length log \<le> REQUEST_LOG_CAP
     \<and> recent log limit = take (min limit REQUEST_LOG_CAP) (rev history)"
proof -
  have log: "foldl record_request new_request_log history = last_n REQUEST_LOG_CAP history"
    using record_all_last [of "[]" history] by (simp add: new_request_log_def last_n_def)
  have "length (foldl record_request new_request_log history) \<le> REQUEST_LOG_CAP"
    using request_ring.run_bound [of "[]" history]
    by (simp add: new_request_log_def record_request_def [abs_def])
  with log show ?thesis by (simp add: Let_def recent_def rev_last_n)
qed

end
