(* ===== verification/DeviceTypes.thy ===== *)
theory DeviceTypes
  imports Json
begin

text \<open>
  \<open>livtet-types/src/device_type.rs\<close> and \<open>livtet-types/src/pairing_status.rs\<close> with the macro
  \<open>urn_enum!\<close> of \<open>livtet-types/src/lib.rs\<close>: device categories, pairing states and the fixed ids
  of their seeded rows. \<open>Ulid::from_parts\<close> is the parameter \<open>parts\<close>, the standard library's default
  hasher is \<open>hash\<close> and its Unicode \<open>to_lowercase\<close> is \<open>lower\<close>.
\<close>

unbundle bit_operations_syntax

definition KNOWN_FORMAT_TIME_MS :: nat where "KNOWN_FORMAT_TIME_MS = 1778544000000"
definition KNOWN_LANGUAGE_TIME_MS :: nat where "KNOWN_LANGUAGE_TIME_MS = KNOWN_FORMAT_TIME_MS + 1"
definition KNOWN_GENRE_TIME_MS :: nat where "KNOWN_GENRE_TIME_MS = KNOWN_LANGUAGE_TIME_MS + 1"
definition DEVICE_TYPE_TIME_MS :: nat where "DEVICE_TYPE_TIME_MS = KNOWN_GENRE_TIME_MS + 1"
definition PAIRING_STATUS_TIME_MS :: nat where "PAIRING_STATUS_TIME_MS = DEVICE_TYPE_TIME_MS + 1"

text \<open>Documented behaviour of \<open>Ulid::from_parts\<close>: a timestamp of 48 bits and a random part of 80.\<close>

definition parts_ok :: "(nat \<Rightarrow> nat \<Rightarrow> string) \<Rightarrow> bool" where
  "parts_ok parts \<longleftrightarrow>
     (\<forall>t r. length (parts t r) = 16)
     \<and> (\<forall>t t' r r'. t < 2 ^ 48 \<and> t' < 2 ^ 48 \<and> r < 2 ^ 80 \<and> r' < 2 ^ 80 \<and> parts t r = parts t' r'
          \<longrightarrow> t = t' \<and> r = r')"

section \<open>Device types\<close>

definition CANONICAL_DESKTOP :: string where "CANONICAL_DESKTOP = ''Desktop''"
definition CANONICAL_MOBILE :: string where "CANONICAL_MOBILE = ''Mobile''"
definition CANONICAL_WEB :: string where "CANONICAL_WEB = ''Web''"
definition CANONICAL_EREADER :: string where "CANONICAL_EREADER = ''E-Reader''"

datatype device_type = Desktop string | Mobile string | Web string | Ereader string

fun discriminant :: "device_type \<Rightarrow> nat" where
  "discriminant (Desktop _) = 400"
| "discriminant (Mobile _) = 401"
| "discriminant (Web _) = 402"
| "discriminant (Ereader _) = 403"

fun device_name :: "device_type \<Rightarrow> string" where
  "device_name (Desktop s) = s"
| "device_name (Mobile s) = s"
| "device_name (Web s) = s"
| "device_name (Ereader s) = s"

fun device_tag :: "device_type \<Rightarrow> string" where
  "device_tag (Desktop _) = ''desktop''"
| "device_tag (Mobile _) = ''mobile''"
| "device_tag (Web _) = ''web''"
| "device_tag (Ereader _) = ''ereader''"

fun is_canonical :: "device_type \<Rightarrow> bool" where
  "is_canonical (Desktop s) \<longleftrightarrow> s = CANONICAL_DESKTOP"
| "is_canonical (Mobile s) \<longleftrightarrow> s = CANONICAL_MOBILE"
| "is_canonical (Web s) \<longleftrightarrow> s = CANONICAL_WEB"
| "is_canonical (Ereader s) \<longleftrightarrow> s = CANONICAL_EREADER"

definition device_ulid :: "(nat \<Rightarrow> nat \<Rightarrow> string) \<Rightarrow> (string \<Rightarrow> nat) \<Rightarrow> device_type \<Rightarrow> string" where
  "device_ulid parts hash t =
     parts DEVICE_TYPE_TIME_MS
       (if is_canonical t then discriminant t else discriminant t XOR hash (device_name t))"

definition device_type_id :: "(nat \<Rightarrow> nat \<Rightarrow> string) \<Rightarrow> (string \<Rightarrow> nat) \<Rightarrow> device_type \<Rightarrow> db_id" where
  "device_type_id parts hash t = DbId (device_ulid parts hash t)"

definition all_device_types :: "device_type list" where
  "all_device_types =
     [Desktop CANONICAL_DESKTOP, Mobile CANONICAL_MOBILE, Web CANONICAL_WEB, Ereader CANONICAL_EREADER]"

definition from_tag :: "(string \<Rightarrow> string) \<Rightarrow> string \<Rightarrow> device_type" where
  "from_tag lower s =
     (let t = lower s in
      if t \<in> set [''desktop'', ''windows'', ''macos'', ''linux''] then Desktop CANONICAL_DESKTOP
      else if t \<in> set [''mobile'', ''android'', ''ios'', ''iphone'', ''ipad''] then Mobile CANONICAL_MOBILE
      else if t \<in> set [''web'', ''browser''] then Web CANONICAL_WEB
      else if t \<in> set [''ereader'', ''e-reader'', ''koreader'', ''kobo'', ''kindle'']
        then Ereader CANONICAL_EREADER
      else Mobile CANONICAL_MOBILE)"

section \<open>Pairing states\<close>

datatype pairing_status = Pending | Approved | Rejected

fun status_discriminant :: "pairing_status \<Rightarrow> nat" where
  "status_discriminant Pending = 500"
| "status_discriminant Approved = 501"
| "status_discriminant Rejected = 502"

definition status_db_id :: "(nat \<Rightarrow> nat \<Rightarrow> string) \<Rightarrow> pairing_status \<Rightarrow> db_id" where
  "status_db_id parts s = DbId (parts PAIRING_STATUS_TIME_MS (status_discriminant s))"

lemma from_tag_canonical: "is_canonical (from_tag lower s)" "from_tag lower s \<in> set all_device_types"
  by (simp_all add: from_tag_def all_device_types_def Let_def)

lemma status_db_id_inject:
  assumes "parts_ok parts"
  shows "status_db_id parts s = status_db_id parts t \<longleftrightarrow> s = t"
proof
  assume "status_db_id parts s = status_db_id parts t"
  then have eq: "parts PAIRING_STATUS_TIME_MS (status_discriminant s) =
    parts PAIRING_STATUS_TIME_MS (status_discriminant t)"
    by (simp add: status_db_id_def)
  have lt: "PAIRING_STATUS_TIME_MS < 2 ^ 48" "status_discriminant x < 2 ^ 80" for x
    by (simp add: PAIRING_STATUS_TIME_MS_def DEVICE_TYPE_TIME_MS_def KNOWN_GENRE_TIME_MS_def
        KNOWN_LANGUAGE_TIME_MS_def KNOWN_FORMAT_TIME_MS_def) (cases x, simp_all)
  have "status_discriminant s = status_discriminant t"
    using assms eq lt unfolding parts_ok_def by blast
  then show "s = t" by (cases s; cases t) simp_all
qed simp

text \<open>The id and the tag of a category are read back from the tag text itself.\<close>

lemma from_tag_device_tag:
  "t \<in> set all_device_types \<Longrightarrow> lower (device_tag t) = device_tag t \<Longrightarrow> from_tag lower (device_tag t) = t"
  by (auto simp: all_device_types_def from_tag_def Let_def)

text \<open>A concrete \<open>parts\<close>: six bytes of time and ten of randomness, big-endian.\<close>

fun be_bytes :: "nat \<Rightarrow> nat \<Rightarrow> string" where
  "be_bytes 0 n = []"
| "be_bytes (Suc k) n = be_bytes k (n div 256) @ [of_byte (n mod 256)]"

definition ref_parts :: "nat \<Rightarrow> nat \<Rightarrow> string" where
  "ref_parts t r = be_bytes 6 t @ be_bytes 10 r"

lemma be_bytes_length [simp]: "length (be_bytes k n) = k"
  by (induction k arbitrary: n) simp_all

lemma of_byte_inject: "m < 256 \<Longrightarrow> n < 256 \<Longrightarrow> of_byte m = of_byte n \<Longrightarrow> m = n"
  by (metis byte_of_byte)

lemma be_bytes_inject: "m < 256 ^ k \<Longrightarrow> n < 256 ^ k \<Longrightarrow> be_bytes k m = be_bytes k n \<Longrightarrow> m = n"
proof (induction k arbitrary: m n)
  case 0
  then show ?case by simp
next
  case (Suc k)
  have "m div 256 = n div 256"
    using Suc.prems by (intro Suc.IH) (auto simp: less_mult_imp_div_less mult.commute)
  moreover have "m mod 256 = n mod 256" using Suc.prems(3) by (auto intro: of_byte_inject)
  ultimately show ?case by (metis div_mult_mod_eq)
qed

lemma ref_parts_ok [simp]: "parts_ok ref_parts"
  unfolding parts_ok_def ref_parts_def
proof (intro conjI allI impI)
  fix t t' r r' :: nat
  assume a: "t < 2 ^ 48 \<and> t' < 2 ^ 48 \<and> r < 2 ^ 80 \<and> r' < 2 ^ 80 \<and>
    be_bytes 6 t @ be_bytes 10 r = be_bytes 6 t' @ be_bytes 10 r'"
  then have "be_bytes 6 t = be_bytes 6 t'" "be_bytes 10 r = be_bytes 10 r'" by simp_all
  then show "t = t'" "r = r'"
    using a be_bytes_inject [of t 6 t'] be_bytes_inject [of r 10 r'] by simp_all
qed simp

end
