(* ===== verification/Entities.thy ===== *)
theory Entities
  imports SyncTypes
begin

text \<open>
  The sea-orm entities of the syncable tables (\<open>livtet-data/src/entities\<close>): for each, the
  columns of its \<open>Model\<close> in field order with the column type sea-orm derives from the field's
  Rust type (an \<open>Option\<close> has the type of its content), and the primary-key columns in order.
\<close>

datatype column_type =
    Binary | VarBinary | Blob
  | TinyInteger | SmallInteger | Integer | BigInteger
  | TinyUnsigned | SmallUnsigned | Unsigned | BigUnsigned
  | Float | Double | Decimal
  | Boolean
  | StringType | TextType | DateTime | Date | JsonType

record entity_def =
  en_columns :: "(string \<times> column_type) list"
  en_primary_key :: "string list"

definition works_entity :: entity_def where
  "works_entity =
    \<lparr>en_columns =
      [(''id'', Binary), (''title'', StringType), (''description'', StringType),
       (''sort_title'', StringType), (''series_type'', StringType),
       (''language_id'', Binary), (''preferred_edition_id'', Binary),
       (''created_at'', DateTime), (''updated_at'', DateTime)],
     en_primary_key = [''id'']\<rparr>"

definition editions_entity :: entity_def where
  "editions_entity =
    \<lparr>en_columns =
      [(''id'', Binary), (''work_id'', Binary), (''group_id'', Binary),
       (''title'', StringType), (''published_date'', Date), (''format_id'', Binary),
       (''language_id'', Binary), (''notes'', StringType), (''description'', StringType),
       (''format_metadata'', JsonType), (''cover_image_url'', StringType),
       (''created_at'', DateTime), (''updated_at'', DateTime)],
     en_primary_key = [''id'']\<rparr>"

definition series_entries_entity :: entity_def where
  "series_entries_entity =
    \<lparr>en_columns =
      [(''series_id'', Binary), (''edition_id'', Binary), (''position'', Integer),
       (''created_at'', DateTime)],
     en_primary_key = [''series_id'', ''edition_id'']\<rparr>"

definition digital_inventory_entity :: entity_def where
  "digital_inventory_entity =
    \<lparr>en_columns =
      [(''id'', Binary), (''edition_id'', Binary), (''file_path'', StringType),
       (''cover_path'', StringType), (''blurhash'', StringType),
       (''dominant_color'', StringType), (''file_hash'', StringType),
       (''file_size_bytes'', BigInteger), (''file_format'', StringType),
       (''notes'', StringType), (''added_at'', DateTime), (''updated_at'', DateTime)],
     en_primary_key = [''id'']\<rparr>"

definition owned_edition_entity :: entity_def where
  "owned_edition_entity =
    \<lparr>en_columns =
      [(''id'', Binary), (''edition_id'', Binary), (''acquired_at'', Date),
       (''condition_id'', Binary), (''notes'', StringType), (''created_at'', DateTime),
       (''updated_at'', DateTime)],
     en_primary_key = [''id'']\<rparr>"

definition editions_loans_entity :: entity_def where
  "editions_loans_entity =
    \<lparr>en_columns =
      [(''id'', Binary), (''edition_id'', Binary), (''loan_entity_id'', Binary),
       (''owned_edition_id'', Binary), (''loaned_date'', Date), (''due_date'', Date),
       (''returned_date'', Date)],
     en_primary_key = [''id'']\<rparr>"

definition annotations_entity :: entity_def where
  "annotations_entity =
    \<lparr>en_columns =
      [(''id'', Binary), (''edition_id'', Binary), (''user_id'', Binary),
       (''content'', StringType), (''location'', StringType), (''created_at'', DateTime),
       (''updated_at'', DateTime)],
     en_primary_key = [''id'']\<rparr>"

definition reading_lists_entity :: entity_def where
  "reading_lists_entity =
    \<lparr>en_columns =
      [(''id'', Binary), (''name'', StringType), (''description'', StringType),
       (''created_at'', DateTime), (''updated_at'', DateTime)],
     en_primary_key = [''id'']\<rparr>"

definition reading_list_book_entity :: entity_def where
  "reading_list_book_entity =
    \<lparr>en_columns =
      [(''reading_list_id'', Binary), (''edition_id'', Binary), (''position'', Integer),
       (''added_at'', DateTime)],
     en_primary_key = [''reading_list_id'', ''edition_id'']\<rparr>"

definition reading_progress_entity :: entity_def where
  "reading_progress_entity =
    \<lparr>en_columns =
      [(''id'', Binary), (''edition_id'', Binary), (''format_id'', Binary),
       (''progress'', Double), (''progress_unit'', StringType),
       (''last_location'', StringType), (''total_reading_time_secs'', BigInteger),
       (''annotations'', StringType), (''created_at'', DateTime)],
     en_primary_key = [''id'']\<rparr>"

definition work_authors_entity :: entity_def where
  "work_authors_entity =
    \<lparr>en_columns =
      [(''work_id'', Binary), (''author_id'', Binary), (''role'', StringType)],
     en_primary_key = [''work_id'', ''author_id'', ''role'']\<rparr>"

definition work_tags_entity :: entity_def where
  "work_tags_entity =
    \<lparr>en_columns =
      [(''work_id'', Binary), (''tag_id'', Binary)],
     en_primary_key = [''work_id'', ''tag_id'']\<rparr>"

definition work_genres_entity :: entity_def where
  "work_genres_entity =
    \<lparr>en_columns =
      [(''work_id'', Binary), (''genre_id'', Binary)],
     en_primary_key = [''work_id'', ''genre_id'']\<rparr>"

definition work_subjects_entity :: entity_def where
  "work_subjects_entity =
    \<lparr>en_columns =
      [(''work_id'', Binary), (''subject_id'', Binary)],
     en_primary_key = [''work_id'', ''subject_id'']\<rparr>"

definition work_publishers_entity :: entity_def where
  "work_publishers_entity =
    \<lparr>en_columns =
      [(''work_id'', Binary), (''publisher_id'', Binary)],
     en_primary_key = [''work_id'', ''publisher_id'']\<rparr>"

definition edition_authors_entity :: entity_def where
  "edition_authors_entity =
    \<lparr>en_columns =
      [(''edition_id'', Binary), (''author_id'', Binary), (''role'', StringType)],
     en_primary_key = [''edition_id'', ''author_id'', ''role'']\<rparr>"

definition edition_tags_entity :: entity_def where
  "edition_tags_entity =
    \<lparr>en_columns =
      [(''edition_id'', Binary), (''tag_id'', Binary)],
     en_primary_key = [''edition_id'', ''tag_id'']\<rparr>"

definition edition_genres_entity :: entity_def where
  "edition_genres_entity =
    \<lparr>en_columns =
      [(''edition_id'', Binary), (''genre_id'', Binary)],
     en_primary_key = [''edition_id'', ''genre_id'']\<rparr>"

definition edition_subjects_entity :: entity_def where
  "edition_subjects_entity =
    \<lparr>en_columns =
      [(''edition_id'', Binary), (''subject_id'', Binary)],
     en_primary_key = [''edition_id'', ''subject_id'']\<rparr>"

definition edition_publishers_entity :: entity_def where
  "edition_publishers_entity =
    \<lparr>en_columns =
      [(''edition_id'', Binary), (''publisher_id'', Binary), (''place'', StringType)],
     en_primary_key = [''edition_id'', ''publisher_id'']\<rparr>"

definition edition_groups_entity :: entity_def where
  "edition_groups_entity =
    \<lparr>en_columns =
      [(''id'', Binary), (''label'', StringType), (''description'', StringType),
       (''created_at'', DateTime), (''updated_at'', DateTime)],
     en_primary_key = [''id'']\<rparr>"

text \<open>The entity the registry associates with an entity type.\<close>

definition entity_of :: "string \<Rightarrow> entity_def option" where
  "entity_of t =
    (if t = ''work'' then Some works_entity
     else if t = ''edition'' then Some editions_entity
     else if t = ''series_entry'' then Some series_entries_entity
     else if t = ''digital_inventory'' then Some digital_inventory_entity
     else if t = ''owned_edition'' then Some owned_edition_entity
     else if t = ''edition_loan'' then Some editions_loans_entity
     else if t = ''annotation'' then Some annotations_entity
     else if t = ''reading_list'' then Some reading_lists_entity
     else if t = ''reading_list_book'' then Some reading_list_book_entity
     else if t = ''reading_progress'' then Some reading_progress_entity
     else if t = ''work_author'' then Some work_authors_entity
     else if t = ''work_tag'' then Some work_tags_entity
     else if t = ''work_genre'' then Some work_genres_entity
     else if t = ''work_subject'' then Some work_subjects_entity
     else if t = ''work_publisher'' then Some work_publishers_entity
     else if t = ''edition_author'' then Some edition_authors_entity
     else if t = ''edition_tag'' then Some edition_tags_entity
     else if t = ''edition_genre'' then Some edition_genres_entity
     else if t = ''edition_subject'' then Some edition_subjects_entity
     else if t = ''edition_publisher'' then Some edition_publishers_entity
     else if t = ''edition_group'' then Some edition_groups_entity
     else None)"

text \<open>A sound definition: distinct columns, and a non-empty primary key among them.\<close>

definition entity_ok :: "entity_def \<Rightarrow> bool" where
  "entity_ok e \<longleftrightarrow> distinct (map fst (en_columns e)) \<and> distinct (en_primary_key e)
     \<and> en_primary_key e \<noteq> [] \<and> list_all (\<lambda>k. k \<in> set (map fst (en_columns e))) (en_primary_key e)"

lemmas entity_defs = works_entity_def editions_entity_def series_entries_entity_def digital_inventory_entity_def
  owned_edition_entity_def editions_loans_entity_def annotations_entity_def reading_lists_entity_def
  reading_list_book_entity_def reading_progress_entity_def work_authors_entity_def work_tags_entity_def
  work_genres_entity_def work_subjects_entity_def work_publishers_entity_def edition_authors_entity_def
  edition_tags_entity_def edition_genres_entity_def edition_subjects_entity_def edition_publishers_entity_def
  edition_groups_entity_def

lemma entities_ok:
  "entity_ok works_entity"
  "entity_ok editions_entity"
  "entity_ok series_entries_entity"
  "entity_ok digital_inventory_entity"
  "entity_ok owned_edition_entity"
  "entity_ok editions_loans_entity"
  "entity_ok annotations_entity"
  "entity_ok reading_lists_entity"
  "entity_ok reading_list_book_entity"
  "entity_ok reading_progress_entity"
  "entity_ok work_authors_entity"
  "entity_ok work_tags_entity"
  "entity_ok work_genres_entity"
  "entity_ok work_subjects_entity"
  "entity_ok work_publishers_entity"
  "entity_ok edition_authors_entity"
  "entity_ok edition_tags_entity"
  "entity_ok edition_genres_entity"
  "entity_ok edition_subjects_entity"
  "entity_ok edition_publishers_entity"
  "entity_ok edition_groups_entity"
  by code_simp+

lemma entity_of_dom: "entity_of t \<noteq> None \<longleftrightarrow> entity_type_to_table t \<noteq> None"
  by (simp add: entity_of_def entity_type_to_table_def)

lemma entity_of_ok: "entity_of t = Some e \<Longrightarrow> entity_ok e"
  unfolding entity_of_def by (auto intro: entities_ok split: if_splits)

end
