(* ===== verification/ChangeLog.thy ===== *)
theory ChangeLog
  imports SyncTypes
begin

text \<open>
  The client-owned tables the sync engine reads and writes: \<open>change_log\<close>, \<open>conflicts\<close> and
  \<open>client_settings\<close>, with the SQL statements of \<open>livtet-sync/src/engine.rs\<close> on them. The
  schema is that of \<open>livtet-data/src/client_migration\<close>: both tables have an AUTOINCREMENT
  key, \<open>change_log.device_id\<close> is nullable, and the index of \<open>m0012_change_log_identity\<close> makes
  the identity of a remote row unique.

  A table is the list of its rows in insertion order. The business tables are SQLite's and
  stay abstract (type \<open>'db\<close>); \<open>sqlite\<close> is the record of what the engine asks of SQLite:
  running a statement on the business tables, ordering the rows of a query, the current time,
  and the SQL functions the triggers call. \<open>order_ok\<close> is what ORDER BY guarantees.
\<close>

section \<open>Rows and state\<close>

record log_row =
  lr_id :: int
  lr_entity_type :: string
  lr_entity_id :: string
  lr_operation :: string
  lr_version :: int
  lr_payload :: string
  lr_changed_at :: string
  lr_device_id :: "string option"

record 'db store =
  change_log :: "log_row list"
  log_seq :: int
  conflicts :: "conflict list"
  conflict_seq :: int
  client_settings :: "string \<rightharpoonup> string"
  tables :: 'db

datatype row_op = RowInsert | RowUpdate | RowDelete

text \<open>A row a statement inserted, updated (its new values) or deleted (its old values).\<close>

record row_event =
  ev_op :: row_op
  ev_table :: string
  ev_row :: "(string \<times> sql_value) list"

record 'db sqlite =
  sql_exec :: "'db \<Rightarrow> string \<Rightarrow> sql_value list \<Rightarrow> ('db \<times> row_event list, string) result"
  sql_select :: "'db \<Rightarrow> string \<Rightarrow> ((string \<times> sql_value) list list, string) result"
  sql_order_by :: "(log_row \<Rightarrow> int) \<Rightarrow> log_row list \<Rightarrow> log_row list"
  sql_now :: string
  sql_hex :: "sql_value \<Rightarrow> string"
  sql_json_object :: "(string \<times> sql_value) list \<Rightarrow> (string, string) result"

definition order_ok :: "((log_row \<Rightarrow> int) \<Rightarrow> log_row list \<Rightarrow> log_row list) \<Rightarrow> bool" where
  "order_ok ord \<longleftrightarrow> (\<forall>key rows. mset (ord key rows) = mset rows \<and> sorted (map key (ord key rows)))"

text \<open>The order SQLite's sorter gives when it scans by row id: a stable sort.\<close>

definition rowid_order :: "(log_row \<Rightarrow> int) \<Rightarrow> log_row list \<Rightarrow> log_row list" where
  "rowid_order key rows = sort_key key rows"

lemma rowid_order_ok [simp]: "order_ok rowid_order"
  by (simp add: order_ok_def rowid_order_def)

lemma order_set: "order_ok ord \<Longrightarrow> set (ord key rows) = set rows"
  by (metis order_ok_def mset_eq_setD)

lemma order_length: "order_ok ord \<Longrightarrow> length (ord key rows) = length rows"
  by (metis order_ok_def mset_eq_length)

lemma order_sorted: "order_ok ord \<Longrightarrow> sorted (map key (ord key rows))"
  by (simp add: order_ok_def)

text \<open>\<open>LIMIT n\<close>: a negative limit is no limit.\<close>

definition sql_limit :: "int \<Rightarrow> 'a list \<Rightarrow> 'a list" where
  "sql_limit n xs = (if n < 0 then xs else take (nat n) xs)"

section \<open>Statements on the change log\<close>

text \<open>\<open>SELECT MAX(version) FROM change_log\<close>, with 0 for NULL.\<close>

definition max_version :: "'db store \<Rightarrow> int" where
  "max_version s = (case change_log s of [] \<Rightarrow> 0
     | r # rows \<Rightarrow> fold (\<lambda>r m. max (lr_version r) m) rows (lr_version r))"

text \<open>The identity of a change: entity, version, device and operation.\<close>

type_synonym identity = "string \<times> string \<times> int \<times> string option \<times> string"

definition row_identity :: "log_row \<Rightarrow> identity" where
  "row_identity r =
     (lr_entity_type r, lr_entity_id r, lr_version r, lr_device_id r, lr_operation r)"

definition is_remote :: "log_row \<Rightarrow> bool" where
  "is_remote r \<longleftrightarrow> lr_device_id r \<noteq> None \<and> lr_device_id r \<noteq> Some ''local''"

text \<open>\<open>INSERT INTO change_log\<close>: the key is the next of the AUTOINCREMENT sequence; the partial
  unique index refuses a second remote row with the same identity.\<close>

definition UNIQUE_VIOLATION :: string where
  "UNIQUE_VIOLATION = ''UNIQUE constraint failed: change_log''"

definition insert_log :: "'db store \<Rightarrow> log_row \<Rightarrow> ('db store, sync_error) result" where
  "insert_log s r =
     (if is_remote r \<and> (\<exists>r' \<in> set (change_log s). row_identity r' = row_identity r)
      then Inl (Db UNIQUE_VIOLATION)
      else Inr (s\<lparr>change_log := change_log s @ [r\<lparr>lr_id := log_seq s + 1\<rparr>],
                  log_seq := log_seq s + 1\<rparr>))"

definition of_entity :: "string \<Rightarrow> string \<Rightarrow> log_row \<Rightarrow> bool" where
  "of_entity t i r \<longleftrightarrow> lr_entity_type r = t \<and> lr_entity_id r = i"

text \<open>\<open>SELECT version, payload .. ORDER BY version DESC LIMIT 1\<close>.\<close>

definition latest_row :: "'db sqlite \<Rightarrow> 'db store \<Rightarrow> string \<Rightarrow> string \<Rightarrow> log_row option" where
  "latest_row q s t i =
     (case sql_order_by q (\<lambda>r. - lr_version r) (filter (of_entity t i) (change_log s)) of
        [] \<Rightarrow> None | r # _ \<Rightarrow> Some r)"

section \<open>Statements on the conflicts table\<close>

definition insert_conflict :: "'db sqlite \<Rightarrow> 'db store \<Rightarrow> string \<Rightarrow> string \<Rightarrow> string \<Rightarrow> string \<Rightarrow> 'db store"
  where
  "insert_conflict q s t i local_payload remote_payload =
     s\<lparr>conflicts := conflicts s @
         [\<lparr>cf_id = conflict_seq s + 1, cf_entity_type = t, cf_entity_id = i,
           cf_local_payload = local_payload, cf_remote_payload = remote_payload,
           cf_resolved = False, cf_resolution = None, cf_merged_payload = None,
           cf_detected_at = sql_now q\<rparr>],
       conflict_seq := conflict_seq s + 1\<rparr>"

text \<open>\<open>.. WHERE resolved = 0 ORDER BY id DESC\<close>; the ids are a primary key, so the order is
  determined.\<close>

definition unresolved_desc :: "conflict list \<Rightarrow> conflict list" where
  "unresolved_desc cs = rev (sort_key cf_id (filter (\<lambda>c. \<not> cf_resolved c) cs))"

definition fetch_conflict :: "'db store \<Rightarrow> string \<Rightarrow> string \<Rightarrow> conflict option" where
  "fetch_conflict s t i =
     (case unresolved_desc (filter (\<lambda>c. cf_entity_type c = t \<and> cf_entity_id c = i) (conflicts s)) of
        [] \<Rightarrow> None | c # _ \<Rightarrow> Some c)"

section \<open>Well-formed stores\<close>

text \<open>Keys are positive, increasing and below the sequence; remote identities are unique.\<close>

definition log_wf :: "'db store \<Rightarrow> bool" where
  "log_wf s \<longleftrightarrow> sorted_wrt (<) (map lr_id (change_log s))
     \<and> (\<forall>r \<in> set (change_log s). lr_id r \<le> log_seq s)
     \<and> distinct (map row_identity (filter is_remote (change_log s)))"

definition conflicts_wf :: "'db store \<Rightarrow> bool" where
  "conflicts_wf s \<longleftrightarrow> sorted_wrt (<) (map cf_id (conflicts s))
     \<and> (\<forall>c \<in> set (conflicts s). cf_id c \<le> conflict_seq s)"

definition store_wf :: "'db store \<Rightarrow> bool" where
  "store_wf s \<longleftrightarrow> log_wf s \<and> conflicts_wf s"

lemma insert_log_wf:
  assumes "log_wf s" "insert_log s r = Inr s'"
  shows "log_wf s'"
proof -
  let ?r = "r\<lparr>lr_id := log_seq s + 1\<rparr>"
  have s': "s' = s\<lparr>change_log := change_log s @ [?r], log_seq := log_seq s + 1\<rparr>"
    and fresh: "is_remote r \<Longrightarrow> row_identity r \<notin> row_identity ` set (change_log s)"
    using assms(2) by (auto simp: insert_log_def split: if_splits)
  have same: "is_remote ?r = is_remote r" "row_identity ?r = row_identity r"
    by (simp_all add: is_remote_def row_identity_def)
  from assms(1) show ?thesis
    using fresh by (auto simp: log_wf_def s' same sorted_wrt_append)
qed

lemma insert_log_frame:
  assumes "insert_log s r = Inr s'"
  shows "conflicts s' = conflicts s" "conflict_seq s' = conflict_seq s"
    "client_settings s' = client_settings s" "tables s' = tables s"
    "\<exists>r'. change_log s' = change_log s @ [r'] \<and> r' = r\<lparr>lr_id := log_seq s + 1\<rparr>"
  using assms by (auto simp: insert_log_def split: if_splits)

lemma insert_log_local:
  "lr_device_id r = Some ''local'' \<Longrightarrow> \<exists>s'. insert_log s r = Inr s'"
  by (simp add: insert_log_def is_remote_def)

lemma insert_conflict_frame [simp]:
  "change_log (insert_conflict q s t i l m) = change_log s"
  "log_seq (insert_conflict q s t i l m) = log_seq s"
  "client_settings (insert_conflict q s t i l m) = client_settings s"
  "tables (insert_conflict q s t i l m) = tables s"
  by (simp_all add: insert_conflict_def)

lemma insert_conflict_wf: "conflicts_wf s \<Longrightarrow> conflicts_wf (insert_conflict q s t i l m)"
  by (auto simp: conflicts_wf_def insert_conflict_def sorted_wrt_append)

lemma log_wf_cong: "change_log s' = change_log s \<Longrightarrow> log_seq s' = log_seq s \<Longrightarrow> log_wf s' = log_wf s"
  by (simp add: log_wf_def)

lemma conflicts_wf_cong:
  "conflicts s' = conflicts s \<Longrightarrow> conflict_seq s' = conflict_seq s \<Longrightarrow> conflicts_wf s' = conflicts_wf s"
  by (simp add: conflicts_wf_def)

lemma max_version_Max:
  assumes "change_log s \<noteq> []"
  shows "max_version s = Max (lr_version ` set (change_log s))"
proof -
  obtain r rows where log: "change_log s = r # rows" using assms by (cases "change_log s") auto
  have "max_version s = fold max (map lr_version rows) (lr_version r)"
    by (simp add: max_version_def log fold_map comp_def)
  also have "\<dots> = Max (set (lr_version r # map lr_version rows))"
    by (rule Max.set_eq_fold [symmetric])
  finally show ?thesis by (simp add: log)
qed

lemma max_version_ge: "r \<in> set (change_log s) \<Longrightarrow> lr_version r \<le> max_version s"
  by (subst max_version_Max) auto

lemma latest_row_None:
  "order_ok (sql_order_by q) \<Longrightarrow>
   latest_row q s t i = None \<longleftrightarrow> (\<forall>r \<in> set (change_log s). \<not> of_entity t i r)"
  using order_set [of "sql_order_by q" "\<lambda>r. - lr_version r" "filter (of_entity t i) (change_log s)"]
  by (auto simp: latest_row_def filter_empty_conv split: list.splits)

lemma latest_row_Some:
  assumes "order_ok (sql_order_by q)" "latest_row q s t i = Some r"
  shows "r \<in> set (change_log s)" "of_entity t i r"
    "\<And>r'. r' \<in> set (change_log s) \<Longrightarrow> of_entity t i r' \<Longrightarrow> lr_version r' \<le> lr_version r"
proof -
  let ?rows = "filter (of_entity t i) (change_log s)"
  let ?ord = "sql_order_by q (\<lambda>r. - lr_version r) ?rows"
  obtain rest where ord: "?ord = r # rest"
    using assms(2) by (auto simp: latest_row_def split: list.splits)
  have set: "set ?ord = set ?rows" by (rule order_set [OF assms(1)])
  show "r \<in> set (change_log s)" "of_entity t i r" using set ord by auto
  fix r' assume "r' \<in> set (change_log s)" "of_entity t i r'"
  then have "r' \<in> set (r # rest)" using set ord by auto
  moreover have "sorted (map (\<lambda>r. - lr_version r) (r # rest))"
    using order_sorted [OF assms(1), of "\<lambda>r. - lr_version r" ?rows] ord by simp
  ultimately show "lr_version r' \<le> lr_version r" by auto
qed

lemma sort_filter_id:
  assumes "sorted_wrt (<) (map f xs)"
  shows "sort_key (f :: 'a \<Rightarrow> int) (filter P xs) = filter P xs"
proof (rule sort_key_id_if_sorted)
  from assms have "sorted (map f xs)" by (simp add: strict_sorted_imp_sorted)
  then show "sorted (map f (filter P xs))" by (rule sorted_filter)
qed

lemma unresolved_desc_wf:
  "conflicts_wf s \<Longrightarrow> unresolved_desc (filter P (conflicts s)) =
     rev (filter (\<lambda>c. \<not> cf_resolved c) (filter P (conflicts s)))"
  unfolding unresolved_desc_def filter_filter conflicts_wf_def by (simp add: sort_filter_id)

text \<open>A conflict just recorded is the one the engine reads back.\<close>

lemma fetch_insert_conflict:
  assumes "conflicts_wf s"
  shows "fetch_conflict (insert_conflict q s t i l m) t i =
    Some \<lparr>cf_id = conflict_seq s + 1, cf_entity_type = t, cf_entity_id = i, cf_local_payload = l,
          cf_remote_payload = m, cf_resolved = False, cf_resolution = None,
          cf_merged_payload = None, cf_detected_at = sql_now q\<rparr>"
  unfolding fetch_conflict_def unresolved_desc_wf [OF insert_conflict_wf [OF assms]]
  by (simp add: insert_conflict_def)

end
