(* ===== verification/Triggers.thy ===== *)
theory Triggers
  imports ChangeLog
begin

text \<open>
  \<open>livtet-data/src/client_migration/m0005_sync_triggers.rs\<close> and
  \<open>m0011_trigger_suppression.rs\<close>: the audit triggers that append a \<open>change_log\<close> row for every
  row inserted, updated or deleted in a syncable table, and the guard that silences them while
  a pushed change is applied.

  The statements for one table differ only in the event, in its name, and in reading \<open>new\<close> or
  \<open>old\<close>; \<open>triggers_for\<close> builds them. \<open>fire\<close> runs the triggers of one row event: the entity id
  and payload are computed from the row, the version is one above the greatest in the log.
\<close>

section \<open>Trigger bodies\<close>

text \<open>Value expressions: \<open>row.c\<close>, \<open>lower(hex(row.c))\<close>, and the latter guarded by
  \<open>CASE WHEN row.c IS NOT NULL\<close>. An id is the hex key or a JSON object of the key columns.\<close>

datatype col_expr = Col string | LowerHex string | LowerHexOrNull string

datatype id_expr =
    IdHex string
  | IdJson "(string \<times> col_expr) list"
  | IdLowerJson "(string \<times> col_expr) list"

record trigger =
  tg_name :: string
  tg_op :: row_op
  tg_table :: string
  tg_type :: string
  tg_id :: id_expr
  tg_payload :: "(string \<times> col_expr) list"

fun op_suffix :: "row_op \<Rightarrow> string" where
  "op_suffix RowInsert = ''insert''"
| "op_suffix RowUpdate = ''update''"
| "op_suffix RowDelete = ''delete''"

fun op_name :: "row_op \<Rightarrow> string" where
  "op_name RowInsert = ''INSERT''"
| "op_name RowUpdate = ''UPDATE''"
| "op_name RowDelete = ''DELETE''"

definition all_ops :: "row_op list" where "all_ops = [RowInsert, RowUpdate, RowDelete]"
definition link_ops :: "row_op list" where "link_ops = [RowInsert, RowDelete]"

definition triggers_for ::
  "row_op list \<Rightarrow> string \<Rightarrow> string \<Rightarrow> id_expr \<Rightarrow> (string \<times> col_expr) list \<Rightarrow> trigger list" where
  "triggers_for evs t tbl i payload =
     map (\<lambda>p. \<lparr>tg_name = ''sync_'' @ t @ ''_changelog_'' @ op_suffix p, tg_op = p, tg_table = tbl,
                tg_type = t, tg_id = i, tg_payload = payload\<rparr>) evs"

definition work_triggers :: "trigger list" where
  "work_triggers =
     triggers_for all_ops ''work'' ''works''
       (IdHex ''id'')
       [(''id'', LowerHex ''id''), (''title'', Col ''title''),
        (''description'', Col ''description''), (''sort_title'', Col ''sort_title''),
        (''series_type'', Col ''series_type''),
        (''language_id'', LowerHexOrNull ''language_id''),
        (''created_at'', Col ''created_at''), (''updated_at'', Col ''updated_at'')]"

definition edition_triggers :: "trigger list" where
  "edition_triggers =
     triggers_for all_ops ''edition'' ''editions''
       (IdHex ''id'')
       [(''id'', LowerHex ''id''), (''work_id'', LowerHex ''work_id''),
        (''title'', Col ''title''), (''published_date'', Col ''published_date''),
        (''format_id'', LowerHex ''format_id''),
        (''language_id'', LowerHex ''language_id''), (''notes'', Col ''notes''),
        (''description'', Col ''description''), (''created_at'', Col ''created_at''),
        (''updated_at'', Col ''updated_at'')]"

definition series_entry_triggers :: "trigger list" where
  "series_entry_triggers =
     triggers_for all_ops ''series_entry'' ''series_entries''
       (IdLowerJson
       [(''series_id'', LowerHex ''series_id''), (''edition_id'', LowerHex ''edition_id'')])
       [(''series_id'', LowerHex ''series_id''),
        (''edition_id'', LowerHex ''edition_id''), (''position'', Col ''position''),
        (''created_at'', Col ''created_at'')]"

definition annotation_triggers :: "trigger list" where
  "annotation_triggers =
     triggers_for all_ops ''annotation'' ''annotations''
       (IdHex ''id'')
       [(''id'', LowerHex ''id''), (''edition_id'', LowerHex ''edition_id''),
        (''user_id'', LowerHex ''user_id''), (''content'', Col ''content''),
        (''location'', Col ''location''), (''created_at'', Col ''created_at''),
        (''updated_at'', Col ''updated_at'')]"

definition reading_list_triggers :: "trigger list" where
  "reading_list_triggers =
     triggers_for all_ops ''reading_list'' ''reading_lists''
       (IdHex ''id'')
       [(''id'', LowerHex ''id''), (''name'', Col ''name''),
        (''description'', Col ''description''), (''created_at'', Col ''created_at''),
        (''updated_at'', Col ''updated_at'')]"

definition reading_progress_triggers :: "trigger list" where
  "reading_progress_triggers =
     triggers_for all_ops ''reading_progress'' ''reading_progress''
       (IdHex ''id'')
       [(''id'', LowerHex ''id''), (''edition_id'', LowerHex ''edition_id''),
        (''format_id'', LowerHex ''format_id''), (''progress'', Col ''progress''),
        (''last_location'', Col ''last_location''),
        (''total_reading_time_secs'', Col ''total_reading_time_secs''),
        (''created_at'', Col ''created_at'')]"

definition digital_inventory_triggers :: "trigger list" where
  "digital_inventory_triggers =
     triggers_for all_ops ''digital_inventory'' ''digital_inventory''
       (IdHex ''id'')
       [(''id'', LowerHex ''id''), (''edition_id'', LowerHex ''edition_id''),
        (''file_path'', Col ''file_path''), (''cover_path'', Col ''cover_path''),
        (''file_hash'', Col ''file_hash''),
        (''file_size_bytes'', Col ''file_size_bytes''), (''notes'', Col ''notes''),
        (''added_at'', Col ''added_at''), (''updated_at'', Col ''updated_at'')]"

definition owned_edition_triggers :: "trigger list" where
  "owned_edition_triggers =
     triggers_for all_ops ''owned_edition'' ''owned_editions''
       (IdHex ''id'')
       [(''id'', LowerHex ''id''), (''edition_id'', LowerHex ''edition_id''),
        (''acquired_at'', Col ''acquired_at''), (''condition_id'', Col ''condition_id''),
        (''notes'', Col ''notes''), (''created_at'', Col ''created_at''),
        (''updated_at'', Col ''updated_at'')]"

definition edition_loan_triggers :: "trigger list" where
  "edition_loan_triggers =
     triggers_for all_ops ''edition_loan'' ''editions_loans''
       (IdHex ''id'')
       [(''id'', LowerHex ''id''), (''edition_id'', LowerHex ''edition_id''),
        (''loan_entity_id'', LowerHex ''loan_entity_id''),
        (''owned_edition_id'', LowerHex ''owned_edition_id''),
        (''loaned_date'', Col ''loaned_date''), (''due_date'', Col ''due_date''),
        (''returned_date'', Col ''returned_date'')]"

definition work_author_triggers :: "trigger list" where
  "work_author_triggers =
     triggers_for link_ops ''work_author'' ''work_authors''
       (IdJson
       [(''work_id'', LowerHex ''work_id''), (''author_id'', LowerHex ''author_id''),
        (''role'', Col ''role'')])
       [(''work_id'', LowerHex ''work_id''), (''author_id'', LowerHex ''author_id''),
        (''role'', Col ''role'')]"

definition work_tag_triggers :: "trigger list" where
  "work_tag_triggers =
     triggers_for link_ops ''work_tag'' ''work_tags''
       (IdJson
       [(''work_id'', LowerHex ''work_id''), (''tag_id'', LowerHex ''tag_id'')])
       [(''work_id'', LowerHex ''work_id''), (''tag_id'', LowerHex ''tag_id'')]"

definition work_genre_triggers :: "trigger list" where
  "work_genre_triggers =
     triggers_for link_ops ''work_genre'' ''work_genres''
       (IdJson
       [(''work_id'', LowerHex ''work_id''), (''genre_id'', LowerHex ''genre_id'')])
       [(''work_id'', LowerHex ''work_id''), (''genre_id'', LowerHex ''genre_id'')]"

definition work_subject_triggers :: "trigger list" where
  "work_subject_triggers =
     triggers_for link_ops ''work_subject'' ''work_subjects''
       (IdJson
       [(''work_id'', LowerHex ''work_id''), (''subject_id'', LowerHex ''subject_id'')])
       [(''work_id'', LowerHex ''work_id''), (''subject_id'', LowerHex ''subject_id'')]"

definition work_publisher_triggers :: "trigger list" where
  "work_publisher_triggers =
     triggers_for link_ops ''work_publisher'' ''work_publishers''
       (IdJson
       [(''work_id'', LowerHex ''work_id''), (''publisher_id'', LowerHex ''publisher_id'')])
       [(''work_id'', LowerHex ''work_id''), (''publisher_id'', LowerHex ''publisher_id'')]"

definition edition_author_triggers :: "trigger list" where
  "edition_author_triggers =
     triggers_for link_ops ''edition_author'' ''edition_authors''
       (IdJson
       [(''edition_id'', LowerHex ''edition_id''),
        (''author_id'', LowerHex ''author_id''), (''role'', Col ''role'')])
       [(''edition_id'', LowerHex ''edition_id''),
        (''author_id'', LowerHex ''author_id''), (''role'', Col ''role'')]"

definition edition_tag_triggers :: "trigger list" where
  "edition_tag_triggers =
     triggers_for link_ops ''edition_tag'' ''edition_tags''
       (IdJson
       [(''edition_id'', LowerHex ''edition_id''), (''tag_id'', LowerHex ''tag_id'')])
       [(''edition_id'', LowerHex ''edition_id''), (''tag_id'', LowerHex ''tag_id'')]"

definition edition_genre_triggers :: "trigger list" where
  "edition_genre_triggers =
     triggers_for link_ops ''edition_genre'' ''edition_genres''
       (IdJson
       [(''edition_id'', LowerHex ''edition_id''), (''genre_id'', LowerHex ''genre_id'')])
       [(''edition_id'', LowerHex ''edition_id''), (''genre_id'', LowerHex ''genre_id'')]"

definition edition_subject_triggers :: "trigger list" where
  "edition_subject_triggers =
     triggers_for link_ops ''edition_subject'' ''edition_subjects''
       (IdJson
       [(''edition_id'', LowerHex ''edition_id''),
        (''subject_id'', LowerHex ''subject_id'')])
       [(''edition_id'', LowerHex ''edition_id''),
        (''subject_id'', LowerHex ''subject_id'')]"

definition edition_publisher_triggers :: "trigger list" where
  "edition_publisher_triggers =
     triggers_for link_ops ''edition_publisher'' ''edition_publishers''
       (IdJson
       [(''edition_id'', LowerHex ''edition_id''),
        (''publisher_id'', LowerHex ''publisher_id'')])
       [(''edition_id'', LowerHex ''edition_id''),
        (''publisher_id'', LowerHex ''publisher_id'')]"

definition edition_group_triggers :: "trigger list" where
  "edition_group_triggers =
     triggers_for all_ops ''edition_group'' ''edition_groups''
       (IdHex ''id'')
       [(''id'', LowerHex ''id''), (''label'', Col ''label''),
        (''description'', Col ''description''), (''created_at'', Col ''created_at''),
        (''updated_at'', Col ''updated_at'')]"

definition reading_list_book_triggers :: "trigger list" where
  "reading_list_book_triggers =
     triggers_for all_ops ''reading_list_book'' ''reading_list_book''
       (IdJson
       [(''reading_list_id'', LowerHex ''reading_list_id''),
        (''edition_id'', LowerHex ''edition_id'')])
       [(''reading_list_id'', LowerHex ''reading_list_id''),
        (''edition_id'', LowerHex ''edition_id''), (''position'', Col ''position''),
        (''added_at'', Col ''added_at'')]"

definition TRIGGER_STATEMENTS :: "trigger list" where
  "TRIGGER_STATEMENTS =
     work_triggers @ edition_triggers @ series_entry_triggers @ annotation_triggers @
     reading_list_triggers @ reading_progress_triggers @ digital_inventory_triggers @
     owned_edition_triggers @ edition_loan_triggers @ work_author_triggers @
     work_tag_triggers @ work_genre_triggers @ work_subject_triggers @
     work_publisher_triggers @ edition_author_triggers @ edition_tag_triggers @
     edition_genre_triggers @ edition_subject_triggers @ edition_publisher_triggers @
     edition_group_triggers @ reading_list_book_triggers"

lemmas trigger_lists = work_triggers_def edition_triggers_def series_entry_triggers_def annotation_triggers_def
  reading_list_triggers_def reading_progress_triggers_def digital_inventory_triggers_def
  owned_edition_triggers_def edition_loan_triggers_def work_author_triggers_def
  work_tag_triggers_def work_genre_triggers_def work_subject_triggers_def
  work_publisher_triggers_def edition_author_triggers_def
  edition_tag_triggers_def edition_genre_triggers_def edition_subject_triggers_def
  edition_publisher_triggers_def edition_group_triggers_def reading_list_book_triggers_def

section \<open>Firing\<close>

definition row_get :: "(string \<times> sql_value) list \<Rightarrow> string \<Rightarrow> sql_value" where
  "row_get row c = (case map_of row c of Some v \<Rightarrow> v | None \<Rightarrow> SqlString None)"

definition sql_null :: "sql_value \<Rightarrow> bool" where
  "sql_null v \<longleftrightarrow> v \<in> {SqlBytes None, SqlString None, SqlBool None, SqlBigInt None, SqlDouble None}"

fun eval_col :: "'db sqlite \<Rightarrow> (string \<times> sql_value) list \<Rightarrow> col_expr \<Rightarrow> sql_value" where
  "eval_col q row (Col c) = row_get row c"
| "eval_col q row (LowerHex c) = SqlString (Some (to_ascii_lowercase (sql_hex q (row_get row c))))"
| "eval_col q row (LowerHexOrNull c) =
     (if sql_null (row_get row c) then SqlString None
      else SqlString (Some (to_ascii_lowercase (sql_hex q (row_get row c)))))"

definition eval_object ::
  "'db sqlite \<Rightarrow> (string \<times> sql_value) list \<Rightarrow> (string \<times> col_expr) list \<Rightarrow> (string, sync_error) result"
  where
  "eval_object q row kvs = map_err Db (sql_json_object q (map (\<lambda>(k, x). (k, eval_col q row x)) kvs))"

fun eval_id :: "'db sqlite \<Rightarrow> (string \<times> sql_value) list \<Rightarrow> id_expr \<Rightarrow> (string, sync_error) result" where
  "eval_id q row (IdHex c) = Inr (to_ascii_lowercase (sql_hex q (row_get row c)))"
| "eval_id q row (IdJson kvs) = eval_object q row kvs"
| "eval_id q row (IdLowerJson kvs) =
     result_bind (eval_object q row kvs) (\<lambda>t. Inr (to_ascii_lowercase t))"

definition run_trigger ::
  "'db sqlite \<Rightarrow> row_event \<Rightarrow> 'db store \<Rightarrow> trigger \<Rightarrow> ('db store, sync_error) result" where
  "run_trigger q ev s tg =
     result_bind (eval_id q (ev_row ev) (tg_id tg)) (\<lambda>i.
     result_bind (eval_object q (ev_row ev) (tg_payload tg)) (\<lambda>payload.
       insert_log s
         \<lparr>lr_id = 0, lr_entity_type = tg_type tg, lr_entity_id = i, lr_operation = op_name (tg_op tg),
          lr_version = max_version s + 1, lr_payload = payload, lr_changed_at = sql_now q,
          lr_device_id = Some ''local''\<rparr>))"

text \<open>The guard of \<open>m0011\<close>: \<open>COALESCE((SELECT value .. WHERE key = 'sync_apply'), '0') <> '1'\<close>.\<close>

definition GUARD :: "'db store \<Rightarrow> bool" where
  "GUARD s \<longleftrightarrow> (case client_settings s ''sync_apply'' of Some v \<Rightarrow> v | None \<Rightarrow> ''0'') \<noteq> ''1''"

definition fires :: "row_event \<Rightarrow> trigger \<Rightarrow> bool" where
  "fires ev tg \<longleftrightarrow> tg_op tg = ev_op ev \<and> tg_table tg = ev_table ev"

definition fire :: "'db sqlite \<Rightarrow> 'db store \<Rightarrow> row_event \<Rightarrow> ('db store, sync_error) result" where
  "fire q s ev =
     (if GUARD s then try_fold (run_trigger q ev) s (filter (fires ev) TRIGGER_STATEMENTS) else Inr s)"

text \<open>\<open>execute_raw\<close> of a statement on a business table: SQLite changes the table and runs the
  triggers of each row it touched; an error in either fails the statement.\<close>

definition execute_raw ::
  "'db sqlite \<Rightarrow> 'db store \<Rightarrow> string \<Rightarrow> sql_value list \<Rightarrow> ('db store, sync_error) result" where
  "execute_raw q s sql vals =
     (case sql_exec q (tables s) sql vals of
        Inl e \<Rightarrow> Inl (Db e)
      | Inr (db, evs) \<Rightarrow> try_fold (fire q) (s\<lparr>tables := db\<rparr>) evs)"

section \<open>Facts about the trigger set\<close>

lemma trigger_count: "length TRIGGER_STATEMENTS = 53"
  by code_simp

lemma trigger_keys_distinct: "distinct (map (\<lambda>tg. (tg_table tg, tg_op tg)) TRIGGER_STATEMENTS)"
  by code_simp

lemma triggers_registered_all:
  "list_all (\<lambda>tg. entity_type_to_table (tg_type tg) = Some (tg_table tg)) TRIGGER_STATEMENTS"
  by code_simp

lemma trigger_registered:
  "tg \<in> set TRIGGER_STATEMENTS \<Longrightarrow> entity_type_to_table (tg_type tg) = Some (tg_table tg)"
  using triggers_registered_all by (simp add: list_all_iff)

lemma inserting_tables:
  "map tg_table (filter (\<lambda>tg. tg_op tg = RowInsert) TRIGGER_STATEMENTS) =
    [''works'', ''editions'', ''series_entries'', ''annotations'', ''reading_lists'',
     ''reading_progress'', ''digital_inventory'', ''owned_editions'', ''editions_loans'',
     ''work_authors'', ''work_tags'', ''work_genres'', ''work_subjects'', ''work_publishers'',
     ''edition_authors'', ''edition_tags'', ''edition_genres'', ''edition_subjects'',
     ''edition_publishers'', ''edition_groups'', ''reading_list_book'']"
  by code_simp

lemma deleting_tables:
  "map tg_table (filter (\<lambda>tg. tg_op tg = RowDelete) TRIGGER_STATEMENTS) =
   map tg_table (filter (\<lambda>tg. tg_op tg = RowInsert) TRIGGER_STATEMENTS)"
  by code_simp

lemma registered_tables_fire:
  assumes "p \<in> set link_ops"
  shows "set (map snd syncable_entities) \<subseteq>
         set (map tg_table (filter (\<lambda>tg. tg_op tg = p) TRIGGER_STATEMENTS))"
proof -
  have "map tg_table (filter (\<lambda>tg. tg_op tg = p) TRIGGER_STATEMENTS) =
        map tg_table (filter (\<lambda>tg. tg_op tg = RowInsert) TRIGGER_STATEMENTS)"
    using assms by (auto simp: link_ops_def deleting_tables)
  then show ?thesis
    unfolding inserting_tables by (simp add: syncable_entities_def)
qed

lemma registered_insert_delete:
  assumes "entity_type_to_table t = Some tbl" "p \<in> set link_ops"
  shows "\<exists>tg \<in> set TRIGGER_STATEMENTS. tg_table tg = tbl \<and> tg_op tg = p \<and> tg_type tg = t"
proof -
  have "(t, tbl) \<in> set syncable_entities"
    using assms(1) unfolding registry_table by (rule map_of_SomeD)
  then have "tbl \<in> set (map snd syncable_entities)" by force
  then have "tbl \<in> set (map tg_table (filter (\<lambda>tg. tg_op tg = p) TRIGGER_STATEMENTS))"
    using registered_tables_fire [OF assms(2)] by (rule subsetD [rotated])
  then obtain tg where tg: "tg \<in> set TRIGGER_STATEMENTS" "tg_table tg = tbl" "tg_op tg = p"
    by auto
  moreover have "tg_type tg = t"
    using trigger_registered [OF tg(1)] tg(2) assms(1) by (simp add: entity_type_to_table_inj)
  ultimately show ?thesis by blast
qed

text \<open>At most one trigger answers a row event, and it is registered for the event's table.\<close>

lemma distinct_filter_key:
  assumes "distinct (map f xs)" "x \<in> set xs" "f x = k"
  shows "filter (\<lambda>y. f y = k) xs = [x]"
  using assms
proof (induction xs)
  case Nil
  then show ?case by simp
next
  case (Cons y ys)
  then show ?case by (auto simp: filter_empty_conv) (metis imageI)
qed

lemma fires_key: "fires ev tg \<longleftrightarrow> (tg_table tg, tg_op tg) = (ev_table ev, ev_op ev)"
  by (auto simp: fires_def)

lemma fires_unique:
  assumes "tg \<in> set TRIGGER_STATEMENTS" "fires ev tg"
  shows "filter (fires ev) TRIGGER_STATEMENTS = [tg]"
  unfolding fires_key
  by (rule distinct_filter_key [OF trigger_keys_distinct assms(1)]) (use assms(2) in \<open>simp add: fires_key\<close>)

section \<open>What firing does to the log\<close>

lemma run_trigger_insert:
  assumes "run_trigger q ev s tg = Inr s'"
  obtains r where "insert_log s r = Inr s'" "lr_version r = max_version s + 1"
    "lr_device_id r = Some ''local''" "lr_entity_type r = tg_type tg"
    "lr_operation r = op_name (tg_op tg)" "eval_id q (ev_row ev) (tg_id tg) = Inr (lr_entity_id r)"
    "eval_object q (ev_row ev) (tg_payload tg) = Inr (lr_payload r)"
  using assms by (fastforce simp: run_trigger_def)

lemma run_trigger_wf: "log_wf s \<Longrightarrow> run_trigger q ev s tg = Inr s' \<Longrightarrow> log_wf s'"
  by (elim run_trigger_insert) (rule insert_log_wf)

interpretation trigger_wf: keeps_invariant "run_trigger q ev" log_wf for q ev
  by unfold_locales (rule run_trigger_wf)

lemma fire_wf: "log_wf s \<Longrightarrow> fire q s ev = Inr s' \<Longrightarrow> log_wf s'"
  by (auto simp: fire_def split: if_splits intro: trigger_wf.run_inv)

interpretation fire_keeps: keeps_invariant "fire q" log_wf for q
  by unfold_locales (rule fire_wf)

text \<open>Everything but the log and its sequence is left alone; the log only grows, by rows of
  the local device.\<close>

definition log_extends :: "'db store \<Rightarrow> 'db store \<Rightarrow> bool" where
  "log_extends s s' \<longleftrightarrow>
     conflicts s' = conflicts s \<and> conflict_seq s' = conflict_seq s
     \<and> client_settings s' = client_settings s
     \<and> (\<exists>new. change_log s' = change_log s @ new
              \<and> (\<forall>r \<in> set new. lr_device_id r = Some ''local'' \<and> lr_version r > max_version s))"

lemma insert_log_max:
  assumes "insert_log s r = Inr s'" "lr_version r \<ge> max_version s"
  shows "max_version s' = lr_version r"
proof -
  obtain r' where r': "change_log s' = change_log s @ [r']" "lr_version r' = lr_version r"
    using insert_log_frame(5) [OF assms(1)] by auto
  have "Max (lr_version ` set (change_log s')) = lr_version r"
  proof (rule Max_eqI)
    show "y \<le> lr_version r" if "y \<in> lr_version ` set (change_log s')" for y
      using that r' assms(2) max_version_ge [of _ s] by fastforce
  qed (use r' in auto)
  then show ?thesis using r' by (simp add: max_version_Max)
qed

lemma log_extends_refl: "log_extends s s"
  by (simp add: log_extends_def)

lemma log_extends_max: "log_extends s s' \<Longrightarrow> max_version s \<le> max_version s'"
proof -
  assume "log_extends s s'"
  then obtain new where log: "change_log s' = change_log s @ new"
    and new: "\<And>r. r \<in> set new \<Longrightarrow> lr_version r > max_version s"
    unfolding log_extends_def by auto
  show ?thesis
  proof (cases new)
    case Nil
    with log show ?thesis by (simp add: max_version_def)
  next
    case (Cons r rest)
    with log have "lr_version r \<le> max_version s'" by (intro max_version_ge) simp
    with new [of r] Cons show ?thesis by simp
  qed
qed

lemma log_extends_trans: "log_extends s t \<Longrightarrow> log_extends t u \<Longrightarrow> log_extends s u"
  using log_extends_max [of s t] unfolding log_extends_def by fastforce

lemma run_trigger_extends: "run_trigger q ev s tg = Inr s' \<Longrightarrow> log_extends s s'"
proof (elim run_trigger_insert)
  fix r
  assume "insert_log s r = Inr s'" "lr_version r = max_version s + 1"
    "lr_device_id r = Some ''local''"
  then show "log_extends s s'"
    using insert_log_frame [of s r s'] by (auto simp: log_extends_def)
qed

interpretation trigger_log: ordered_step "run_trigger q ev" log_extends for q ev
  by unfold_locales (fact log_extends_refl, erule (1) log_extends_trans, erule run_trigger_extends)

lemma fire_extends: "fire q s ev = Inr s' \<Longrightarrow> log_extends s s'"
  by (auto simp: fire_def log_extends_refl split: if_splits intro: trigger_log.run_rel)

interpretation fire_log: ordered_step "fire q" log_extends for q
  by unfold_locales (fact log_extends_refl, erule (1) log_extends_trans, erule fire_extends)

lemma execute_raw_cases:
  assumes "execute_raw q s sql vals = Inr s'"
  obtains db evs where "sql_exec q (tables s) sql vals = Inr (db, evs)"
    "try_fold (fire q) (s\<lparr>tables := db\<rparr>) evs = Inr s'"
  using assms by (auto simp: execute_raw_def split: sum.splits)

lemma execute_raw_wf: "log_wf s \<Longrightarrow> execute_raw q s sql vals = Inr s' \<Longrightarrow> log_wf s'"
  by (elim execute_raw_cases fire_keeps.run_inv) (simp add: log_wf_def)

lemma execute_raw_extends: "execute_raw q s sql vals = Inr s' \<Longrightarrow> log_extends s s'"
proof (elim execute_raw_cases)
  fix db evs
  assume "try_fold (fire q) (s\<lparr>tables := db\<rparr>) evs = Inr s'"
  then have "log_extends (s\<lparr>tables := db\<rparr>) s'" by (rule fire_log.run_rel)
  then show "log_extends s s'" by (simp add: log_extends_def max_version_def)
qed

text \<open>While the apply flag is set no statement writes to the log.\<close>

lemma fire_suppressed: "\<not> GUARD s \<Longrightarrow> fire q s ev = Inr s"
  by (simp add: fire_def)

lemma fires_suppressed: "\<not> GUARD s \<Longrightarrow> try_fold (fire q) s evs = Inr s"
  by (induction evs) (simp_all add: fire_suppressed)

lemma GUARD_tables [simp]: "GUARD (s\<lparr>tables := db\<rparr>) = GUARD s"
  by (simp add: GUARD_def)

lemma execute_raw_suppressed:
  "\<not> GUARD s \<Longrightarrow> execute_raw q s sql vals =
     (case sql_exec q (tables s) sql vals of
        Inl e \<Rightarrow> Inl (Db e) | Inr (db, evs) \<Rightarrow> Inr (s\<lparr>tables := db\<rparr>))"
  by (simp add: execute_raw_def fires_suppressed split: sum.splits prod.splits)

section \<open>Entity ids in the log and in the model\<close>

text \<open>The key columns of a row, as its trigger reads them.\<close>

fun key_row :: "'m syncable_entity_kind \<Rightarrow> (string \<times> sql_value) list" where
  "key_row (SeriesEntry a b _) = [(''series_id'', SqlBytes (Some (to_bytes a))), (''edition_id'', SqlBytes (Some (to_bytes b)))]"
| "key_row (ReadingListBook a b _) = [(''reading_list_id'', SqlBytes (Some (to_bytes a))), (''edition_id'', SqlBytes (Some (to_bytes b)))]"
| "key_row (WorkAuthor a b r) = [(''work_id'', SqlBytes (Some (to_bytes a))), (''author_id'', SqlBytes (Some (to_bytes b))), (''role'', SqlString (Some r))]"
| "key_row (WorkTag a b) = [(''work_id'', SqlBytes (Some (to_bytes a))), (''tag_id'', SqlBytes (Some (to_bytes b)))]"
| "key_row (WorkGenre a b) = [(''work_id'', SqlBytes (Some (to_bytes a))), (''genre_id'', SqlBytes (Some (to_bytes b)))]"
| "key_row (WorkSubject a b) = [(''work_id'', SqlBytes (Some (to_bytes a))), (''subject_id'', SqlBytes (Some (to_bytes b)))]"
| "key_row (WorkPublisher a b) = [(''work_id'', SqlBytes (Some (to_bytes a))), (''publisher_id'', SqlBytes (Some (to_bytes b)))]"
| "key_row (EditionAuthor a b r) = [(''edition_id'', SqlBytes (Some (to_bytes a))), (''author_id'', SqlBytes (Some (to_bytes b))), (''role'', SqlString (Some r))]"
| "key_row (EditionTag a b) = [(''edition_id'', SqlBytes (Some (to_bytes a))), (''tag_id'', SqlBytes (Some (to_bytes b)))]"
| "key_row (EditionGenre a b) = [(''edition_id'', SqlBytes (Some (to_bytes a))), (''genre_id'', SqlBytes (Some (to_bytes b)))]"
| "key_row (EditionSubject a b) = [(''edition_id'', SqlBytes (Some (to_bytes a))), (''subject_id'', SqlBytes (Some (to_bytes b)))]"
| "key_row (EditionPublisher a b _) = [(''edition_id'', SqlBytes (Some (to_bytes a))), (''publisher_id'', SqlBytes (Some (to_bytes b)))]"
| "key_row (Work a _) = [(''id'', SqlBytes (Some (to_bytes a)))]"
| "key_row (Edition a _) = [(''id'', SqlBytes (Some (to_bytes a)))]"
| "key_row (DigitalInventory a _) = [(''id'', SqlBytes (Some (to_bytes a)))]"
| "key_row (OwnedEdition a _) = [(''id'', SqlBytes (Some (to_bytes a)))]"
| "key_row (EditionLoan a _) = [(''id'', SqlBytes (Some (to_bytes a)))]"
| "key_row (Annotation a _) = [(''id'', SqlBytes (Some (to_bytes a)))]"
| "key_row (ReadingList a _) = [(''id'', SqlBytes (Some (to_bytes a)))]"
| "key_row (ReadingProgress a _) = [(''id'', SqlBytes (Some (to_bytes a)))]"
| "key_row (EditionGroup a _) = [(''id'', SqlBytes (Some (to_bytes a)))]"

text \<open>The id the INSERT trigger of the entity's table writes for that row.\<close>

definition insert_ids :: "(string \<times> id_expr) list" where
  "insert_ids =
     map (\<lambda>tg. (tg_table tg, tg_id tg)) (filter (\<lambda>tg. tg_op tg = RowInsert) TRIGGER_STATEMENTS)"

definition trigger_entity_id :: "'db sqlite \<Rightarrow> 'm syncable_entity_kind \<Rightarrow> (string, sync_error) result" where
  "trigger_entity_id q k =
     (case map_of insert_ids (table_name k) of
        Some i \<Rightarrow> eval_id q (key_row k) i
      | None \<Rightarrow> Inl (UnknownEntityType (table_name k)))"

text \<open>Documented behaviour of the two JSON printers on an object of strings that need no
  escaping: compact text, members in the order of the object (serde_json) or of the arguments
  (SQLite's \<open>json_object\<close>); and \<open>hex\<close> of the id columns agrees with the hex crate up to case.\<close>

definition printers_ok :: "deps \<Rightarrow> 'db sqlite \<Rightarrow> bool" where
  "printers_ok d q \<longleftrightarrow>
     (\<forall>ms. list_all (\<lambda>(k, v). plain k \<and> plain v) ms \<longrightarrow>
        json_to_string d (JObject (map (\<lambda>(k, v). (k, JString v)) ms)) = compact_object ms
        \<and> sql_json_object q (map (\<lambda>(k, v). (k, SqlString (Some v))) ms) = Inr (compact_object ms))
     \<and> (\<forall>b. to_ascii_lowercase (sql_hex q (SqlBytes (Some b))) = hex_encode d b)
     \<and> (\<forall>b. plain (hex_encode d b))"

text \<open>The compound ids whose key columns the trigger lists in alphabetical order.\<close>

fun alphabetical_key :: "'m syncable_entity_kind \<Rightarrow> bool" where
  "alphabetical_key (SeriesEntry _ _ _) = False"
| "alphabetical_key (ReadingListBook _ _ _) = False"
| "alphabetical_key (WorkAuthor _ _ _) = False"
| "alphabetical_key (WorkTag _ _) = False"
| "alphabetical_key (WorkGenre _ _) = False"
| "alphabetical_key (WorkSubject _ _) = False"
| "alphabetical_key (WorkPublisher _ _) = False"
| "alphabetical_key (EditionAuthor _ _ _) = False"
| "alphabetical_key _ = True"

fun role_plain :: "'m syncable_entity_kind \<Rightarrow> bool" where
  "role_plain (WorkAuthor _ _ r) = plain r"
| "role_plain (EditionAuthor _ _ r) = plain r"
| "role_plain _ = True"

lemma insert_ids_eq:
  "insert_ids =
    [(''works'', IdHex ''id''),
     (''editions'', IdHex ''id''),
     (''series_entries'', IdLowerJson [(''series_id'', LowerHex ''series_id''), (''edition_id'', LowerHex ''edition_id'')]),
     (''annotations'', IdHex ''id''),
     (''reading_lists'', IdHex ''id''),
     (''reading_progress'', IdHex ''id''),
     (''digital_inventory'', IdHex ''id''),
     (''owned_editions'', IdHex ''id''),
     (''editions_loans'', IdHex ''id''),
     (''work_authors'', IdJson [(''work_id'', LowerHex ''work_id''), (''author_id'', LowerHex ''author_id''), (''role'', Col ''role'')]),
     (''work_tags'', IdJson [(''work_id'', LowerHex ''work_id''), (''tag_id'', LowerHex ''tag_id'')]),
     (''work_genres'', IdJson [(''work_id'', LowerHex ''work_id''), (''genre_id'', LowerHex ''genre_id'')]),
     (''work_subjects'', IdJson [(''work_id'', LowerHex ''work_id''), (''subject_id'', LowerHex ''subject_id'')]),
     (''work_publishers'', IdJson [(''work_id'', LowerHex ''work_id''), (''publisher_id'', LowerHex ''publisher_id'')]),
     (''edition_authors'', IdJson [(''edition_id'', LowerHex ''edition_id''), (''author_id'', LowerHex ''author_id''), (''role'', Col ''role'')]),
     (''edition_tags'', IdJson [(''edition_id'', LowerHex ''edition_id''), (''tag_id'', LowerHex ''tag_id'')]),
     (''edition_genres'', IdJson [(''edition_id'', LowerHex ''edition_id''), (''genre_id'', LowerHex ''genre_id'')]),
     (''edition_subjects'', IdJson [(''edition_id'', LowerHex ''edition_id''), (''subject_id'', LowerHex ''subject_id'')]),
     (''edition_publishers'', IdJson [(''edition_id'', LowerHex ''edition_id''), (''publisher_id'', LowerHex ''publisher_id'')]),
     (''edition_groups'', IdHex ''id''),
     (''reading_list_book'', IdJson [(''reading_list_id'', LowerHex ''reading_list_id''), (''edition_id'', LowerHex ''edition_id'')])]"
  by code_simp

lemma to_ascii_lowercase_Cons: "to_ascii_lowercase (c # s) = lower_char c # to_ascii_lowercase s"
  by (simp add: to_ascii_lowercase_def)

lemma kind_table:
  "table_name (Work a m) = ''works''" "table_name (Edition a m) = ''editions''"
  "table_name (SeriesEntry a b m) = ''series_entries''"
  "table_name (DigitalInventory a m) = ''digital_inventory''"
  "table_name (OwnedEdition a m) = ''owned_editions''"
  "table_name (EditionLoan a m) = ''editions_loans''"
  "table_name (Annotation a m) = ''annotations''" "table_name (ReadingList a m) = ''reading_lists''"
  "table_name (ReadingListBook a b m) = ''reading_list_book''"
  "table_name (ReadingProgress a m) = ''reading_progress''"
  "table_name (WorkAuthor a b r) = ''work_authors''" "table_name (WorkTag a b) = ''work_tags''"
  "table_name (WorkGenre a b) = ''work_genres''" "table_name (WorkSubject a b) = ''work_subjects''"
  "table_name (WorkPublisher a b) = ''work_publishers''"
  "table_name (EditionAuthor a b r) = ''edition_authors''"
  "table_name (EditionTag a b) = ''edition_tags''"
  "table_name (EditionGenre a b) = ''edition_genres''"
  "table_name (EditionSubject a b) = ''edition_subjects''"
  "table_name (EditionPublisher a b m) = ''edition_publishers''"
  "table_name (EditionGroup a m) = ''edition_groups''"
  by (simp_all add: table_name_def syncable_entities_def)

lemma printers_okD:
  assumes "printers_ok d q"
  shows "to_ascii_lowercase (sql_hex q (SqlBytes (Some b))) = hex_encode d b"
    "plain (hex_encode d b)"
    "list_all (\<lambda>(k, v). plain k \<and> plain v) ms \<Longrightarrow>
       json_to_string d (JObject (map (\<lambda>(k, v). (k, JString v)) ms)) = compact_object ms"
    "list_all (\<lambda>(k, v). plain k \<and> plain v) ms \<Longrightarrow>
       sql_json_object q (map (\<lambda>(k, v). (k, SqlString (Some v))) ms) = Inr (compact_object ms)"
  using assms by (auto simp: printers_ok_def)

lemma print2:
  assumes "printers_ok d q" "plain k" "plain v" "plain k'" "plain v'"
  shows "json_to_string d (JObject [(k, JString v), (k', JString v')]) = compact_object [(k, v), (k', v')]"
    "sql_json_object q [(k, SqlString (Some v)), (k', SqlString (Some v'))]
       = Inr (compact_object [(k, v), (k', v')])"
  using printers_okD(3,4) [OF assms(1), of "[(k, v), (k', v')]"] assms by simp_all

lemma print3:
  assumes "printers_ok d q" "plain k" "plain v" "plain k'" "plain v'" "plain k''" "plain v''"
  shows "json_to_string d (JObject [(k, JString v), (k', JString v'), (k'', JString v'')])
       = compact_object [(k, v), (k', v'), (k'', v'')]"
    "sql_json_object q [(k, SqlString (Some v)), (k', SqlString (Some v')), (k'', SqlString (Some v''))]
       = Inr (compact_object [(k, v), (k', v'), (k'', v'')])"
  using printers_okD(3,4) [OF assms(1), of "[(k, v), (k', v'), (k'', v'')]"] assms by simp_all

lemma plain_keys:
  "plain ''series_id''" "plain ''edition_id''" "plain ''reading_list_id''" "plain ''work_id''"
  "plain ''author_id''" "plain ''role''" "plain ''tag_id''" "plain ''genre_id''"
  "plain ''subject_id''" "plain ''publisher_id''"
  by code_simp+

lemmas entity_id_eval = trigger_entity_id_def insert_ids_eq kind_table row_get_def eval_object_def
  to_hex_def json_object_text_def plain_keys compact_object_def to_ascii_lowercase_Cons

text \<open>The id \<open>SyncableEntityKind::entity_id\<close> computes for an entity is the id its table's audit
  trigger writes to the change log exactly when the trigger lists the key columns in
  alphabetical order: for every single-key entity and for the tag, genre, subject and publisher
  links of editions. For the other eight kinds the two texts always differ, since serde_json
  prints the members of an object in key order and SQLite's json_object in argument order.\<close>

theorem entity_id_matches_trigger:
  assumes "printers_ok d q" "role_plain k"
  shows "trigger_entity_id q k = Inr (entity_id_of d k) \<longleftrightarrow> alphabetical_key k"
proof -
  note p = printers_okD(1,2) [OF assms(1)] print2 [OF assms(1)] print3 [OF assms(1)]
  from assms(2) show ?thesis
    by (cases k) (simp_all add: entity_id_eval p lower_char_def ascii_defs byte_def)
qed
text \<open>A SQLite whose business tables are the journal of the statements run, with the SQL
  functions the triggers use; its statements touch no row of a business table.\<close>

definition ref_sqlite :: "(string \<times> sql_value list) list sqlite" where
  "ref_sqlite =
     \<lparr>sql_exec = (\<lambda>db sql vals. Inr (db @ [(sql, vals)], [])),
      sql_select = (\<lambda>db sql. Inr []),
      sql_order_by = rowid_order, sql_now = ''now'',
      sql_hex = (\<lambda>v. case v of SqlBytes (Some b) \<Rightarrow> map upper_char (ref_hex_encode b) | _ \<Rightarrow> []),
      sql_json_object = (\<lambda>kvs. Inr (compact_object
        (map (\<lambda>(k, v). (k, case v of SqlString (Some s) \<Rightarrow> s | _ \<Rightarrow> [])) kvs)))\<rparr>"

lemma ref_sqlite_simps [simp]:
  "sql_exec ref_sqlite db sql vals = Inr (db @ [(sql, vals)], [])"
  "sql_order_by ref_sqlite = rowid_order" "sql_now ref_sqlite = ''now''"
  by (simp_all add: ref_sqlite_def)

lemma hex_lower_upper: "n < 16 \<Longrightarrow> lower_char (upper_char (hex_lower n)) = hex_lower n"
  by (simp add: hex_lower_def hex_upper_def digit_char_def lower_char_def upper_char_def ascii_defs)

lemma ref_printers_ok [simp]: "printers_ok (ref_deps parse) ref_sqlite"
proof -
  have "to_ascii_lowercase (map upper_char (ref_hex_encode b)) = ref_hex_encode b" for b
    by (induction b)
       (simp_all add: ref_hex_encode_def to_ascii_lowercase_def hex_lower_upper byte_div_16)
  then show ?thesis
    by (simp add: printers_ok_def ref_deps_def ref_sqlite_def ref_hex_plain ref_json_text_strings
        case_prod_unfold comp_def del: ref_json_text.simps)
       (simp add: comp_def case_prod_unfold)
qed

theorem entity_id_matches_trigger_witness:
  "trigger_entity_id ref_sqlite (EditionTag (DbId ''AAAAAAAAAAAAAAAA'') (DbId ''BBBBBBBBBBBBBBBB''))
     = Inr (entity_id_of (ref_deps (\<lambda>_. Inl []))
             (EditionTag (DbId ''AAAAAAAAAAAAAAAA'') (DbId ''BBBBBBBBBBBBBBBB'')))
   \<and> trigger_entity_id ref_sqlite (WorkTag (DbId ''AAAAAAAAAAAAAAAA'') (DbId ''BBBBBBBBBBBBBBBB''))
     \<noteq> Inr (entity_id_of (ref_deps (\<lambda>_. Inl []))
             (WorkTag (DbId ''AAAAAAAAAAAAAAAA'') (DbId ''BBBBBBBBBBBBBBBB'')))"
  using entity_id_matches_trigger [OF ref_printers_ok [of "\<lambda>_. Inl []"],
      of "EditionTag (DbId ''AAAAAAAAAAAAAAAA'') (DbId ''BBBBBBBBBBBBBBBB'')"]
    entity_id_matches_trigger [OF ref_printers_ok [of "\<lambda>_. Inl []"],
      of "WorkTag (DbId ''AAAAAAAAAAAAAAAA'') (DbId ''BBBBBBBBBBBBBBBB'')"]
  by simp

text \<open>The audit triggers cover the registry: every registered table has exactly one INSERT and
  one DELETE trigger, which logs under the registered entity type, and no trigger exists for an
  unregistered table. The change log therefore misses no creation or removal.\<close>

theorem triggers_cover_registry:
  assumes "entity_type_to_table t = Some tbl" "p \<in> {RowInsert, RowDelete}"
  shows "(\<exists>tg. filter (\<lambda>tg. tg_table tg = tbl \<and> tg_op tg = p) TRIGGER_STATEMENTS = [tg] \<and> tg_type tg = t)
    \<and> (\<forall>tg \<in> set TRIGGER_STATEMENTS. entity_type_to_table (tg_type tg) = Some (tg_table tg))"
proof (intro conjI)
  from assms obtain tg where tg: "tg \<in> set TRIGGER_STATEMENTS" "tg_table tg = tbl" "tg_op tg = p"
    "tg_type tg = t"
    using registered_insert_delete [OF assms(1), of p] by (auto simp: link_ops_def)
  have "filter (\<lambda>tg. (tg_table tg, tg_op tg) = (tbl, p)) TRIGGER_STATEMENTS = [tg]"
    by (rule distinct_filter_key [OF trigger_keys_distinct tg(1)]) (simp add: tg)
  with tg show "\<exists>tg. filter (\<lambda>tg. tg_table tg = tbl \<and> tg_op tg = p) TRIGGER_STATEMENTS = [tg]
      \<and> tg_type tg = t"
    by auto
  show "\<forall>tg \<in> set TRIGGER_STATEMENTS. entity_type_to_table (tg_type tg) = Some (tg_table tg)"
    using trigger_registered by blast
qed

theorem triggers_cover_registry_witness:
  "\<exists>tg. filter (\<lambda>tg. tg_table tg = ''works'' \<and> tg_op tg = RowDelete) TRIGGER_STATEMENTS = [tg]
     \<and> tg_type tg = ''work''"
  by (rule triggers_cover_registry [THEN conjunct1]) (simp_all add: entity_type_to_table_def)

end
