(* ===== verification/SyncApply.thy ===== *)
theory SyncApply
  imports Entities Triggers
begin

text \<open>
  \<open>livtet-sync/src/apply.rs\<close>: how a pushed change becomes one statement on its entity's table.
  \<open>apply_one\<close> builds the SQL text and the bound values from the entity definition, the change's
  id and its payload, and runs it. Error messages are kept up to the Debug text of a column
  type.
\<close>

section \<open>Text helpers\<close>

fun join :: "string \<Rightarrow> string list \<Rightarrow> string" where
  "join sep [] = []"
| "join sep [x] = x"
| "join sep (x # xs) = x @ sep @ join sep xs"

text \<open>\<open>str::parse::<i64>\<close>.\<close>

definition parse_i64 :: "string \<Rightarrow> int option" where
  "parse_i64 s =
     (let (neg, digits) = (case s of c # rest \<Rightarrow> if c = CHR ''-'' then (True, rest)
                              else if c = CHR ''+'' then (False, rest) else (False, s)
                            | [] \<Rightarrow> (False, s));
          n = (if neg then - int (decimal_value digits) else int (decimal_value digits))
      in if digits \<noteq> [] \<and> list_all is_ascii_digit digits \<and> in_i64 n then Some n else None)"

section \<open>Binding values\<close>

definition blob_type :: "column_type \<Rightarrow> bool" where
  "blob_type c \<longleftrightarrow> c \<in> {Binary, VarBinary, Blob}"

definition integer_type :: "column_type \<Rightarrow> bool" where
  "integer_type c \<longleftrightarrow> c \<in> {TinyInteger, SmallInteger, Integer, BigInteger,
                          TinyUnsigned, SmallUnsigned, Unsigned, BigUnsigned}"

definition real_type :: "column_type \<Rightarrow> bool" where
  "real_type c \<longleftrightarrow> c \<in> {Float, Double, Decimal}"

fun as_f64 :: "deps \<Rightarrow> json \<Rightarrow> f64 option" where
  "as_f64 d (JInt n) = Some (f64_of_int d n)"
| "as_f64 d (JFloat x) = Some x"
| "as_f64 d _ = None"

definition or_else :: "'a option \<Rightarrow> 'a option \<Rightarrow> 'a option" where
  "or_else x y = (case x of Some v \<Rightarrow> Some v | None \<Rightarrow> y)"

definition null_of :: "column_type \<Rightarrow> sql_value" where
  "null_of c =
     (if blob_type c then SqlBytes None
      else if integer_type c then SqlBigInt None
      else if real_type c then SqlDouble None
      else if c = Boolean then SqlBool None
      else SqlString None)"

definition bool_of_int :: "int option \<Rightarrow> bool option" where
  "bool_of_int n = (if n = Some 0 then Some False else if n = Some 1 then Some True else None)"

definition json_to_sql ::
  "deps \<Rightarrow> column_type \<Rightarrow> json \<Rightarrow> string \<Rightarrow> (sql_value, sync_error) result" where
  "json_to_sql d c v t =
     (let invalid = InvalidPayload t (''cannot bind '' @ json_to_string d v) in
      if v = JNull then Inr (null_of c)
      else if blob_type c then
        result_bind (ok_or invalid (as_str v)) (\<lambda>text.
        result_bind (ok_or invalid (from_wire d text)) (\<lambda>i.
          Inr (SqlBytes (Some (to_bytes i)))))
      else if integer_type c then
        result_bind (ok_or invalid (or_else (as_i64 v) (Option.bind (as_str v) parse_i64))) (\<lambda>n.
          Inr (SqlBigInt (Some n)))
      else if real_type c then
        result_bind (ok_or invalid (or_else (as_f64 d v) (Option.bind (as_str v) (f64_from_str d)))) (\<lambda>x.
          Inr (SqlDouble (Some x)))
      else if c = Boolean then
        result_bind (ok_or invalid (or_else (as_bool v) (bool_of_int (as_i64 v)))) (\<lambda>b.
          Inr (SqlBool (Some b)))
      else Inr (SqlString (Some (case v of JString s \<Rightarrow> s | _ \<Rightarrow> json_to_string d v))))"

section \<open>Payload and primary key\<close>

definition payload_object :: "deps \<Rightarrow> sync_change \<Rightarrow> ((string \<times> json) list, sync_error) result" where
  "payload_object d c =
     result_bind (map_err (InvalidPayload (ch_entity_type c)) (json_from_str d (ch_payload c)))
       (\<lambda>v. case v of
              JObject kvs \<Rightarrow> Inr kvs
            | _ \<Rightarrow> Inl (InvalidPayload (ch_entity_type c)
                         (''expected a JSON object, got '' @ json_to_string d v)))"

text \<open>One key column: the payload's value, else the one in the entity id, read as a JSON object,
  or, for a single-column key, as the id itself.\<close>

definition resolve_key ::
  "deps \<Rightarrow> sync_change \<Rightarrow> (string \<times> json) list option \<Rightarrow> bool \<Rightarrow> string \<Rightarrow> (json, sync_error) result" where
  "resolve_key d c payload single name =
     (case Option.bind payload (\<lambda>p. map_of p name) of
        Some v \<Rightarrow> Inr v
      | None \<Rightarrow>
          ok_or (InvalidEntityId (ch_entity_type c)
                  (''missing key `'' @ name @ ''` in entity_id `'' @ ch_entity_id c @ ''`''))
            (case ok (json_from_str d (ch_entity_id c)) of
               Some (JObject m) \<Rightarrow> map_of m name
             | Some (JString i) \<Rightarrow> if single then Some (JString i) else None
             | _ \<Rightarrow> if single then Some (JString (ch_entity_id c)) else None))"

definition resolve_primary_keys ::
  "deps \<Rightarrow> entity_def \<Rightarrow> sync_change \<Rightarrow> (string \<times> json) list option \<Rightarrow> (json list, sync_error) result" where
  "resolve_primary_keys d e c payload =
     try_map (resolve_key d c payload (length (en_primary_key e) = 1)) (en_primary_key e)"

section \<open>Statements\<close>

definition column_type_of :: "entity_def \<Rightarrow> string \<Rightarrow> column_type" where
  "column_type_of e name =
     (case map_of (en_columns e) name of Some c \<Rightarrow> c | None \<Rightarrow> StringType)"

definition delete_sql :: "string \<Rightarrow> entity_def \<Rightarrow> string" where
  "delete_sql table e =
     ''DELETE FROM '' @ table @ '' WHERE '' @
       join '' AND '' (map (\<lambda>name. name @ '' = ?'') (en_primary_key e))"

definition upsert_sql :: "string \<Rightarrow> entity_def \<Rightarrow> string list \<Rightarrow> string" where
  "upsert_sql table e columns =
     (let updates = map (\<lambda>name. name @ '' = excluded.'' @ name)
                        (filter (\<lambda>name. name \<notin> set (en_primary_key e)) columns);
          conflict = (if updates = [] then ''DO NOTHING'' else ''DO UPDATE SET '' @ join '', '' updates)
      in ''INSERT INTO '' @ table @ '' ('' @ join '', '' columns @ '') VALUES ('' @
         join '', '' (map (\<lambda>_. ''?'') columns) @ '') ON CONFLICT ('' @
         join '', '' (en_primary_key e) @ '') '' @ conflict)"

definition delete_values ::
  "deps \<Rightarrow> entity_def \<Rightarrow> sync_change \<Rightarrow> (sql_value list, sync_error) result" where
  "delete_values d e c =
     result_bind (resolve_primary_keys d e c None) (\<lambda>keys.
       try_map (\<lambda>(name, v). json_to_sql d (column_type_of e name) v (ch_entity_type c))
         (zip (en_primary_key e) keys))"

text \<open>The columns an INSERT or UPDATE writes: those of the entity that the payload names, and the
  key columns, in column order.\<close>

definition bound_columns ::
  "entity_def \<Rightarrow> (string \<times> json) list \<Rightarrow> json list \<Rightarrow> ((string \<times> column_type) \<times> json) list" where
  "bound_columns e payload keys =
     List.map_filter (\<lambda>(name, ct).
        map_option (Pair (name, ct))
          (or_else (map_of payload name) (map_of (rev (zip (en_primary_key e) keys)) name)))
       (en_columns e)"

definition upsert_values ::
  "deps \<Rightarrow> entity_def \<Rightarrow> sync_change \<Rightarrow> (string list \<times> sql_value list, sync_error) result" where
  "upsert_values d e c =
     result_bind (payload_object d c) (\<lambda>payload.
     result_bind (resolve_primary_keys d e c (Some payload)) (\<lambda>keys.
     let cols = bound_columns e payload keys in
     result_bind (try_map (\<lambda>((name, ct), v). json_to_sql d ct v (ch_entity_type c)) cols) (\<lambda>vals.
       Inr (map (fst \<circ> fst) cols, vals))))"

definition apply_one ::
  "deps \<Rightarrow> 'db sqlite \<Rightarrow> entity_def \<Rightarrow> string \<Rightarrow> 'db store \<Rightarrow> sync_change \<Rightarrow> ('db store, sync_error) result"
  where
  "apply_one d q e table s c =
     (let operation = to_ascii_uppercase (ch_operation c) in
      if operation = ''DELETE'' then
        result_bind (delete_values d e c) (\<lambda>vals. execute_raw q s (delete_sql table e) vals)
      else if operation \<in> {''INSERT'', ''UPDATE''} then
        result_bind (upsert_values d e c) (\<lambda>(columns, vals).
          if columns = [] then Inr s
          else execute_raw q s (upsert_sql table e columns) vals)
      else Inl (InvalidOperation (ch_entity_type c) (ch_operation c)))"

definition dispatch_apply ::
  "deps \<Rightarrow> 'db sqlite \<Rightarrow> 'db store \<Rightarrow> sync_change \<Rightarrow> ('db store, sync_error) result" where
  "dispatch_apply d q s c =
     (case (entity_of (ch_entity_type c), entity_type_to_table (ch_entity_type c)) of
        (Some e, Some table) \<Rightarrow> apply_one d q e table s c
      | _ \<Rightarrow> Inl (UnknownEntityType (ch_entity_type c)))"

section \<open>Facts about the statements\<close>

lemma count_list_join:
  "count_list (join sep xs) c = sum_list (map (\<lambda>x. count_list x c) xs) + (length xs - 1) * count_list sep c"
proof (induction sep xs rule: join.induct)
  case (3 sep x y xs)
  then show ?case by (simp add: algebra_simps)
qed simp_all

lemma sum_list_const: "(\<And>x. x \<in> set xs \<Longrightarrow> f x = k) \<Longrightarrow> sum_list (map f xs) = length xs * (k::nat)"
  by (induction xs) auto

text \<open>Names without a question mark, as all identifiers are.\<close>

definition no_mark :: "string \<Rightarrow> bool" where
  "no_mark s \<longleftrightarrow> count_list s (CHR ''?'') = 0"

lemma entity_names_no_mark_all:
  "list_all (\<lambda>(t, tbl). no_mark tbl \<and> (case entity_of t of None \<Rightarrow> True
     | Some e \<Rightarrow> list_all (\<lambda>(n, c). no_mark n) (en_columns e))) syncable_entities"
  by code_simp

lemma entity_names_no_mark:
  assumes "entity_of t = Some e" "entity_type_to_table t = Some tbl"
  shows "no_mark tbl" "n \<in> set (map fst (en_columns e)) \<Longrightarrow> no_mark n"
proof -
  have "(t, tbl) \<in> set syncable_entities"
    using assms(2) unfolding registry_table by (rule map_of_SomeD)
  with entity_names_no_mark_all assms(1)
  have *: "no_mark tbl \<and> list_all (\<lambda>(n, c). no_mark n) (en_columns e)"
    by (fastforce simp: list_all_iff)
  then show "no_mark tbl" by simp
  show "no_mark n" if "n \<in> set (map fst (en_columns e))"
    using * that by (auto simp: list_all_iff)
qed

lemma delete_sql_marks:
  assumes "no_mark table" "\<And>n. n \<in> set (en_primary_key e) \<Longrightarrow> no_mark n"
  shows "count_list (delete_sql table e) (CHR ''?'') = length (en_primary_key e)"
  using assms by (simp add: delete_sql_def count_list_join sum_list_const [where k = 1] comp_def no_mark_def)

lemma upsert_sql_marks:
  assumes "no_mark table" "\<And>n. n \<in> set (en_primary_key e) \<Longrightarrow> no_mark n"
    "\<And>n. n \<in> set columns \<Longrightarrow> no_mark n"
  shows "count_list (upsert_sql table e columns) (CHR ''?'') = length columns"
  using assms
  by (simp add: upsert_sql_def Let_def count_list_join comp_def no_mark_def
      sum_list_const [where k = 0] sum_list_const [where k = 1] sum_list_const [where xs = columns and k = 0])

lemma bound_columns_names: "set (map (fst \<circ> fst) (bound_columns e payload keys)) \<subseteq> set (map fst (en_columns e))"
  by (force simp: bound_columns_def List.map_filter_def or_else_def split: option.splits if_splits)

lemma resolve_primary_keys_length:
  "resolve_primary_keys d e c payload = Inr keys \<Longrightarrow> length keys = length (en_primary_key e)"
  by (simp add: resolve_primary_keys_def try_map_length)

lemma bound_columns_keys:
  assumes "entity_ok e" "length keys = length (en_primary_key e)"
  shows "set (en_primary_key e) \<subseteq> set (map (fst \<circ> fst) (bound_columns e payload keys))"
proof
  fix k assume k: "k \<in> set (en_primary_key e)"
  then have "k \<in> set (map fst (en_columns e))"
    using assms(1) by (auto simp: entity_ok_def list_all_iff)
  then obtain ct where ct: "(k, ct) \<in> set (en_columns e)" by auto
  have "k \<in> dom (map_of (rev (zip (en_primary_key e) keys)))"
    using k assms(2) by (simp add: dom_map_of_conv_image_fst image_image [symmetric] set_zip_leftD)
       (metis (no_types, lifting) in_set_impl_in_set_zip1 fst_conv image_eqI set_zip_rightD prod.collapse)
  then obtain v where "or_else (map_of payload k) (map_of (rev (zip (en_primary_key e) keys)) k) = Some v"
    by (cases "map_of payload k") (auto simp: or_else_def)
  with ct show "k \<in> set (map (fst \<circ> fst) (bound_columns e payload keys))"
    by (force simp: bound_columns_def List.map_filter_def)
qed

lemma upsert_values_shape:
  assumes "entity_ok e" "upsert_values d e c = Inr (columns, vals)"
  shows "length columns = length vals" "set columns \<subseteq> set (map fst (en_columns e))"
    "set (en_primary_key e) \<subseteq> set columns" "columns \<noteq> []"
proof -
  from assms(2) obtain payload keys where
    keys: "resolve_primary_keys d e c (Some payload) = Inr keys"
    and cols: "columns = map (fst \<circ> fst) (bound_columns e payload keys)"
    and vals: "try_map (\<lambda>((name, ct), v). json_to_sql d ct v (ch_entity_type c))
                 (bound_columns e payload keys) = Inr vals"
    by (auto simp: upsert_values_def Let_def)
  show "length columns = length vals" using cols try_map_length [OF vals] by simp
  show "set columns \<subseteq> set (map fst (en_columns e))" unfolding cols by (rule bound_columns_names)
  show sub: "set (en_primary_key e) \<subseteq> set columns"
    unfolding cols by (rule bound_columns_keys [OF assms(1) resolve_primary_keys_length [OF keys]])
  show "columns \<noteq> []" using sub assms(1) by (auto simp: entity_ok_def)
qed

lemma delete_values_length:
  "delete_values d e c = Inr vals \<Longrightarrow> length vals = length (en_primary_key e)"
  by (auto simp: delete_values_def dest!: try_map_length resolve_primary_keys_length)

lemma dispatch_apply_cases:
  assumes "dispatch_apply d q s c = Inr s'"
  obtains e table where "entity_of (ch_entity_type c) = Some e"
    "entity_type_to_table (ch_entity_type c) = Some table" "apply_one d q e table s c = Inr s'"
  using assms by (auto simp: dispatch_apply_def split: option.splits)

lemma apply_one_cases:
  assumes "apply_one d q e table s c = Inr s'" "entity_ok e"
  obtains
    (delete) vals where "to_ascii_uppercase (ch_operation c) = ''DELETE''"
      "delete_values d e c = Inr vals" "execute_raw q s (delete_sql table e) vals = Inr s'"
  | (upsert) columns vals where "to_ascii_uppercase (ch_operation c) \<in> {''INSERT'', ''UPDATE''}"
      "upsert_values d e c = Inr (columns, vals)"
      "execute_raw q s (upsert_sql table e columns) vals = Inr s'"
proof (cases "to_ascii_uppercase (ch_operation c) = ''DELETE''")
  case True
  with assms(1) delete show thesis by (auto simp: apply_one_def Let_def)
next
  case False
  with assms(1) obtain columns vals where
    *: "to_ascii_uppercase (ch_operation c) \<in> {''INSERT'', ''UPDATE''}"
    "upsert_values d e c = Inr (columns, vals)"
    "(if columns = [] then Inr s else execute_raw q s (upsert_sql table e columns) vals) = Inr s'"
    by (auto simp: apply_one_def Let_def split: if_splits)
  with upsert_values_shape(4) [OF assms(2) *(2)] upsert show thesis by auto
qed

lemma dispatch_apply_executes:
  assumes "dispatch_apply d q s c = Inr s'"
  obtains sql vals where "execute_raw q s sql vals = Inr s'"
  using assms
  by (elim dispatch_apply_cases) (blast elim: apply_one_cases intro: entity_of_ok that)

text \<open>A pushed change that is applied runs exactly one statement on its table. The statement has
  as many placeholders as bound values, and the columns of an upsert are columns of the entity
  with every primary-key column among them, so the upsert always has a conflict target.\<close>

theorem apply_runs_one_bound_statement:
  assumes "dispatch_apply d q s c = Inr s'"
  shows "\<exists>e table sql vals. entity_of (ch_entity_type c) = Some e
    \<and> entity_type_to_table (ch_entity_type c) = Some table
    \<and> execute_raw q s sql vals = Inr s' \<and> count_list sql (CHR ''?'') = length vals
    \<and> (to_ascii_uppercase (ch_operation c) = ''DELETE''
         \<and> sql = delete_sql table e \<and> length vals = length (en_primary_key e)
       \<or> (\<exists>columns. sql = upsert_sql table e columns \<and> length columns = length vals
           \<and> set columns \<subseteq> fst ` set (en_columns e) \<and> set (en_primary_key e) \<subseteq> set columns))"
proof -
  from assms obtain e table where e: "entity_of (ch_entity_type c) = Some e"
    and tbl: "entity_type_to_table (ch_entity_type c) = Some table"
    and run: "apply_one d q e table s c = Inr s'"
    by (rule dispatch_apply_cases)
  have okE: "entity_ok e" by (rule entity_of_ok [OF e])
  note marks = entity_names_no_mark [OF e tbl]
  have pk: "no_mark n" if "n \<in> set (en_primary_key e)" for n
    using that okE marks(2) by (auto simp: entity_ok_def list_all_iff)
  from run okE show ?thesis
  proof (cases rule: apply_one_cases)
    case (delete vals)
    with e tbl delete_sql_marks [OF marks(1) pk, of e] delete_values_length [OF delete(2)]
    show ?thesis by metis
  next
    case (upsert columns vals)
    note shape = upsert_values_shape [OF okE upsert(2)]
    have "no_mark n" if "n \<in> set columns" for n using that shape(2) marks(2) by blast
    then have "count_list (upsert_sql table e columns) (CHR ''?'') = length vals"
      using upsert_sql_marks [OF marks(1) pk, of e columns] shape(1) by simp
    with e tbl upsert shape show ?thesis by (auto simp del: set_map simp: set_map [symmetric]) 
  qed
qed

definition demo_change :: sync_change where
  "demo_change =
     \<lparr>ch_id = 0, ch_entity_type = ''work'', ch_entity_id = ref_hex_encode ''AAAAAAAAAAAAAAAA'',
      ch_operation = ''delete'', ch_version = 3, ch_payload = [], ch_changed_at = ''now'',
      ch_device_id = ''phone''\<rparr>"

lemma demo_change_simps [simp]:
  "ch_entity_type demo_change = ''work''" "ch_operation demo_change = ''delete''"
  "ch_entity_id demo_change = ref_hex_encode ''AAAAAAAAAAAAAAAA''" "ch_version demo_change = 3"
  "ch_payload demo_change = []" "ch_device_id demo_change = ''phone''"
  by (simp_all add: demo_change_def)

definition empty_store :: "(string \<times> sql_value list) list store" where
  "empty_store = \<lparr>change_log = [], log_seq = 0, conflicts = [], conflict_seq = 0,
     client_settings = (\<lambda>_. None), tables = []\<rparr>"

text \<open>The keys of a pushed deletion with a bare hex id.\<close>

lemma delete_values_hex:
  assumes "hex_ok d" "db_id_wf i" "ch_entity_id c = to_hex d i"
    "\<And>v. json_from_str d (to_hex d i) = Inr v \<Longrightarrow> as_object v = None \<and> as_str v = None"
    "en_primary_key e = [k]" "column_type_of e k = Binary"
  shows "delete_values d e c = Inr [SqlBytes (Some (to_bytes i))]"
proof -
  have "resolve_key d c None True k = Inr (JString (ch_entity_id c))"
    using assms(3,4) by (fastforce simp: resolve_key_def ok_def split: sum.splits json.splits)
  moreover have "json_to_sql d Binary (JString (to_hex d i)) (ch_entity_type c) = Inr (SqlBytes (Some (to_bytes i)))"
    by (simp add: json_to_sql_def blob_type_def from_wire_hex [OF assms(1,2)])
  ultimately show ?thesis
    using assms(3,5,6) by (simp add: delete_values_def resolve_primary_keys_def)
qed

text \<open>Pushing a deletion whose entity id is the hex form of an id runs
  \<open>DELETE FROM <table> WHERE id = ?\<close> with that id's sixteen bytes, whatever the case of the
  operation, for every single-key entity. The hypothesis on the parser is that the hex text is
  not itself JSON text of an object or a string.\<close>

theorem push_delete_by_hex_id:
  assumes "hex_ok d" "db_id_wf i" "ch_entity_id c = to_hex d i"
    "\<And>v. json_from_str d (to_hex d i) = Inr v \<Longrightarrow> as_object v = None \<and> as_str v = None"
    "to_ascii_uppercase (ch_operation c) = ''DELETE''"
    "entity_of (ch_entity_type c) = Some e" "entity_type_to_table (ch_entity_type c) = Some table"
    "en_primary_key e = [''id'']"
  shows "dispatch_apply d q s c =
    execute_raw q s (''DELETE FROM '' @ table @ '' WHERE id = ?'') [SqlBytes (Some (to_bytes i))]"
proof -
  have "column_type_of e ''id'' = Binary"
    using assms(6,8) by (auto simp: entity_of_def column_type_of_def entity_defs split: if_splits)
  then have "delete_values d e c = Inr [SqlBytes (Some (to_bytes i))]"
    using delete_values_hex [OF assms(1-4,8)] by blast
  then show ?thesis
    using assms(5-8) by (simp add: dispatch_apply_def apply_one_def delete_sql_def)
qed

lemma upper_delete: "to_ascii_uppercase ''delete'' = ''DELETE''"
  by code_simp

theorem push_delete_by_hex_id_witness:
  "dispatch_apply (ref_deps (\<lambda>_. Inl ''expected value'')) ref_sqlite empty_store demo_change =
     execute_raw ref_sqlite empty_store ''DELETE FROM works WHERE id = ?''
       [SqlBytes (Some ''AAAAAAAAAAAAAAAA'')]"
  using push_delete_by_hex_id [of "ref_deps (\<lambda>_. Inl ''expected value'')" "DbId ''AAAAAAAAAAAAAAAA''"
      demo_change works_entity "''works''" ref_sqlite empty_store]
  by (simp add: demo_change_def db_id_wf_def to_hex_def entity_of_def works_entity_def
      entity_type_to_table_def upper_delete)

theorem apply_runs_one_bound_statement_witness:
  "\<exists>s'. dispatch_apply (ref_deps (\<lambda>_. Inl ''expected value'')) ref_sqlite empty_store demo_change = Inr s'
     \<and> (\<exists>sql vals. execute_raw ref_sqlite empty_store sql vals = Inr s'
          \<and> count_list sql (CHR ''?'') = length vals)"
proof -
  have "\<exists>s'. dispatch_apply (ref_deps (\<lambda>_. Inl ''expected value'')) ref_sqlite empty_store demo_change = Inr s'"
    by (simp add: demo_change_def entity_of_def works_entity_def entity_type_to_table_def upper_delete
        dispatch_apply_def apply_one_def delete_values_def resolve_primary_keys_def resolve_key_def
        column_type_of_def json_to_sql_def blob_type_def from_wire_def from_hex_def
        ref_hex_decode_encode execute_raw_def ref_sqlite_def)
  then show ?thesis using apply_runs_one_bound_statement by blast
qed

text \<open>Every column an audit trigger puts in a payload is a column of the entity the payload is
  applied to, so applying a logged change drops none of its values.\<close>

theorem trigger_payload_columns:
  assumes "tg \<in> set TRIGGER_STATEMENTS"
  shows "\<exists>e. entity_of (tg_type tg) = Some e
           \<and> set (map fst (tg_payload tg)) \<subseteq> set (map fst (en_columns e))"
proof -
  have "list_all (\<lambda>tg. case entity_of (tg_type tg) of None \<Rightarrow> False
      | Some e \<Rightarrow> list_all (\<lambda>(k, _). k \<in> set (map fst (en_columns e))) (tg_payload tg)) TRIGGER_STATEMENTS"
    by code_simp
  with assms show ?thesis by (fastforce simp: list_all_iff split: option.splits)
qed

theorem trigger_payload_columns_witness:
  "hd work_tag_triggers \<in> set TRIGGER_STATEMENTS
   \<and> (\<exists>e. entity_of (tg_type (hd work_tag_triggers)) = Some e
        \<and> set (map fst (tg_payload (hd work_tag_triggers))) \<subseteq> set (map fst (en_columns e)))"
proof -
  have "hd work_tag_triggers \<in> set TRIGGER_STATEMENTS"
    by (simp add: TRIGGER_STATEMENTS_def work_tag_triggers_def triggers_for_def link_ops_def)
  then show ?thesis using trigger_payload_columns by blast
qed

lemma bound_columns_payload:
  assumes "(n, ct) \<in> set (en_columns e)" "map_of payload n = Some v"
  shows "((n, ct), v) \<in> set (bound_columns e payload keys)"
  using assms by (force simp: bound_columns_def List.map_filter_def or_else_def)

lemma from_wire_empty:
  assumes "hex_ok d" "\<And>b. ulid_from_str d [] \<noteq> Inr b"
  shows "from_wire d [] = None"
proof -
  have "from_hex d [] \<noteq> Inr i" for i using from_hex_length [OF assms(1), of "[]" i] by auto
  then have "ok (from_hex d []) = None" by (cases "from_hex d []") auto
  moreover have "ok (db_id_from_str d []) = None"
    using assms(2) by (cases "ulid_from_str d []") (auto simp: db_id_from_str_def)
  ultimately show ?thesis by (simp add: from_wire_def)
qed

lemma upper_insert: "to_ascii_uppercase ''INSERT'' = ''INSERT''"
  by code_simp

text \<open>A pushed edition without a format is rejected. The trigger logs an absent id as
  \<open>lower(hex(NULL))\<close>, the empty text; binding the empty text to an id column is an error, since it
  decodes to no sixteen bytes and is no ULID.\<close>

theorem push_rejects_absent_id:
  assumes "hex_ok d" "\<And>b. ulid_from_str d [] \<noteq> Inr b"
    "ch_entity_type c = ''edition''" "to_ascii_uppercase (ch_operation c) \<in> {''INSERT'', ''UPDATE''}"
    "payload_object d c = Inr payload" "map_of payload ''format_id'' = Some (JString [])"
  shows "\<exists>err. dispatch_apply d q s c = Inl err"
proof -
  have "\<exists>err. upsert_values d editions_entity c = Inl err"
  proof (cases "upsert_values d editions_entity c")
    case (Inr out)
    then obtain keys vals where
      vals: "try_map (\<lambda>((name, ct), v). json_to_sql d ct v (ch_entity_type c))
               (bound_columns editions_entity payload keys) = Inr vals"
      using assms(5) by (auto simp: upsert_values_def Let_def)
    have "((''format_id'', Binary), JString []) \<in> set (bound_columns editions_entity payload keys)"
      by (rule bound_columns_payload) (use assms(6) in \<open>simp_all add: editions_entity_def\<close>)
    then obtain n where "n < length (bound_columns editions_entity payload keys)"
      "bound_columns editions_entity payload keys ! n = ((''format_id'', Binary), JString [])"
      by (auto simp: in_set_conv_nth)
    with try_map_nth [OF vals, of n] from_wire_empty [OF assms(1,2)] show ?thesis
      by (simp add: json_to_sql_def blob_type_def)
  qed simp
  with assms(3,4) show ?thesis
    by (auto simp: dispatch_apply_def apply_one_def entity_of_def entity_type_to_table_def)
qed

theorem push_rejects_absent_id_witness:
  "\<exists>err. dispatch_apply (ref_deps (\<lambda>_. Inr (JObject [(''format_id'', JString []), (''id'', JString [])])))
     ref_sqlite empty_store (demo_change\<lparr>ch_entity_type := ''edition'', ch_operation := ''INSERT''\<rparr>) = Inl err"
  by (rule push_rejects_absent_id [where payload = "[(''format_id'', JString []), (''id'', JString [])]"])
     (simp_all add: ref_ulid_from_str_def payload_object_def upper_insert)

end
