(* ===== verification/SyncEngine.thy ===== *)
theory SyncEngine
  imports SyncApply
begin

text \<open>
  \<open>livtet-sync/src/engine.rs\<close>: pulling, pushing, applying pulled changes, and conflicts. Each
  operation takes the store and returns it changed; one that runs in a transaction returns the
  store it was given when it fails. A connection error is not modelled; an error of a statement
  on a business table or of a constraint is.
\<close>

section \<open>Pulling\<close>

definition get_latest_version :: "'db store \<Rightarrow> int" where
  "get_latest_version s = max_version s"

text \<open>A row is read into a \<open>SyncChange\<close>, or dropped when its device id is NULL.\<close>

definition to_change :: "log_row \<Rightarrow> sync_change option" where
  "to_change r =
     map_option (\<lambda>dev.
       \<lparr>ch_id = lr_id r, ch_entity_type = lr_entity_type r, ch_entity_id = lr_entity_id r,
        ch_operation = lr_operation r, ch_version = lr_version r, ch_payload = lr_payload r,
        ch_changed_at = lr_changed_at r, ch_device_id = dev\<rparr>) (lr_device_id r)"

definition pull_changes :: "'db sqlite \<Rightarrow> 'db store \<Rightarrow> int \<Rightarrow> int \<Rightarrow> pull_response" where
  "pull_changes q s since limit =
     (let rows = sql_limit limit
                   (sql_order_by q lr_version (filter (\<lambda>r. lr_version r > since) (change_log s)));
          changes = List.map_filter to_change rows
      in \<lparr>pr_changes = changes,
          pr_has_more = (int (length changes) = limit),
          pr_latest_version = (if changes = [] then since else ch_version (last changes))\<rparr>)"

section \<open>The full dump\<close>

text \<open>A finite float has not all exponent bits set.\<close>

definition f64_finite :: "f64 \<Rightarrow> bool" where
  "f64_finite x \<longleftrightarrow> (drop_bit 52 x) mod 2048 \<noteq> 2047"

text \<open>The cascade of \<open>try_get\<close> attempts on one cell; \<open>None\<close> leaves the column out.\<close>

fun cell_json :: "deps \<Rightarrow> sql_value \<Rightarrow> json option" where
  "cell_json d (SqlBigInt (Some n)) = Some (JInt n)"
| "cell_json d (SqlDouble (Some x)) = (if f64_finite x then Some (JFloat x) else None)"
| "cell_json d (SqlString (Some t)) = Some (JString t)"
| "cell_json d (SqlBytes (Some b)) =
     (if length b = 16 then Some (JString (db_id_display d (DbId b))) else None)"
| "cell_json d _ = None"

definition row_json :: "deps \<Rightarrow> string list \<Rightarrow> (string \<times> sql_value) list \<Rightarrow> json" where
  "row_json d cols row =
     JObject (fold (\<lambda>col obj. case cell_json d (row_get row col) of
                                Some v \<Rightarrow> obj_insert col v obj | None \<Rightarrow> obj) cols [])"

definition query_table ::
  "deps \<Rightarrow> 'db sqlite \<Rightarrow> 'db store \<Rightarrow> string \<Rightarrow> string list \<Rightarrow> (json list, sync_error) result" where
  "query_table d q s table cols =
     result_bind (map_err Db (sql_select q (tables s) (''SELECT '' @ join '', '' cols @ '' FROM '' @ table)))
       (\<lambda>rows. Inr (map (row_json d cols) rows))"

definition dump_works :: "string list" where
  "dump_works = [''id'', ''title'', ''description'', ''sort_title'', ''series_type'', ''created_at'', ''updated_at'']"

definition dump_editions :: "string list" where
  "dump_editions = [''id'', ''work_id'', ''title'', ''published_date'', ''format_id'', ''language_id'',
     ''notes'', ''description'', ''created_at'', ''updated_at'']"

definition dump_edition_groups :: "string list" where
  "dump_edition_groups = [''id'', ''label'', ''description'', ''created_at'', ''updated_at'']"

definition dump_series_entries :: "string list" where
  "dump_series_entries = [''series_id'', ''edition_id'', ''position'', ''created_at'']"

definition dump_digital_inventory :: "string list" where
  "dump_digital_inventory = [''id'', ''edition_id'', ''file_path'', ''cover_path'', ''file_hash'',
     ''file_size_bytes'', ''notes'', ''added_at'', ''updated_at'']"

definition dump_owned_editions :: "string list" where
  "dump_owned_editions = [''id'', ''edition_id'', ''acquired_at'', ''condition_id'', ''notes'',
     ''created_at'', ''updated_at'']"

definition dump_editions_loans :: "string list" where
  "dump_editions_loans = [''id'', ''edition_id'', ''loan_entity_id'', ''owned_edition_id'',
     ''loaned_date'', ''due_date'', ''returned_date'']"

definition dump_annotations :: "string list" where
  "dump_annotations = [''id'', ''edition_id'', ''user_id'', ''content'', ''location'', ''created_at'',
     ''updated_at'']"

definition dump_reading_lists :: "string list" where
  "dump_reading_lists = [''id'', ''name'', ''description'', ''created_at'', ''updated_at'']"

definition dump_reading_list_book :: "string list" where
  "dump_reading_list_book = [''reading_list_id'', ''edition_id'', ''position'', ''added_at'']"

definition dump_reading_progress :: "string list" where
  "dump_reading_progress = [''id'', ''edition_id'', ''format_id'', ''progress'', ''last_location'',
     ''total_reading_time_secs'', ''created_at'']"

definition pull_full ::
  "deps \<Rightarrow> 'db sqlite \<Rightarrow> string \<Rightarrow> 'db store \<Rightarrow> (full_dump, sync_error) result" where
  "pull_full d q device s =
     (let version = get_latest_version s; query = query_table d q s in
      result_bind (query ''works'' dump_works) (\<lambda>works.
      result_bind (query ''editions'' dump_editions) (\<lambda>editions.
      result_bind (query ''edition_groups'' dump_edition_groups) (\<lambda>edition_groups.
      result_bind (query ''series_entries'' dump_series_entries) (\<lambda>series_entries.
      result_bind (query ''digital_inventory'' dump_digital_inventory) (\<lambda>digital_inventory.
      result_bind (query ''owned_editions'' dump_owned_editions) (\<lambda>owned_editions.
      result_bind (query ''editions_loans'' dump_editions_loans) (\<lambda>editions_loans.
      result_bind (query ''annotations'' dump_annotations) (\<lambda>annotations.
      result_bind (query ''reading_lists'' dump_reading_lists) (\<lambda>reading_lists.
      result_bind (query ''reading_list_book'' dump_reading_list_book) (\<lambda>reading_list_book.
      result_bind (query ''reading_progress'' dump_reading_progress) (\<lambda>reading_progress.
        Inr \<lparr>fd_version = version, fd_device_id = device,
             fd_entities = \<lparr>ed_works = works, ed_editions = editions,
               ed_edition_groups = edition_groups, ed_series_entries = series_entries,
               ed_digital_inventory = digital_inventory, ed_owned_editions = owned_editions,
               ed_editions_loans = editions_loans, ed_annotations = annotations,
               ed_reading_lists = reading_lists, ed_reading_list_book = reading_list_book,
               ed_reading_progress = reading_progress\<rparr>\<rparr>))))))))))))"

section \<open>Pushing\<close>

definition set_apply_flag :: "'db store \<Rightarrow> 'db store" where
  "set_apply_flag s = s\<lparr>client_settings := (client_settings s)(''sync_apply'' \<mapsto> ''1'')\<rparr>"

definition clear_apply_flag :: "'db store \<Rightarrow> 'db store" where
  "clear_apply_flag s = s\<lparr>client_settings := (client_settings s)(''sync_apply'' := None)\<rparr>"

text \<open>The row \<open>SELECT 1 .. WHERE entity_type = ? AND .. AND operation = ?\<close> looks for.\<close>

definition push_identity :: "sync_change \<Rightarrow> identity" where
  "push_identity c =
     (ch_entity_type c, ch_entity_id c, ch_version c, Some (ch_device_id c),
      to_ascii_uppercase (ch_operation c))"

definition seen :: "'db store \<Rightarrow> sync_change \<Rightarrow> bool" where
  "seen s c \<longleftrightarrow> (\<exists>r \<in> set (change_log s). row_identity r = push_identity c)"

text \<open>The log row of a remote change recorded with the given operation text.\<close>

definition remote_row :: "'db sqlite \<Rightarrow> sync_change \<Rightarrow> string \<Rightarrow> log_row" where
  "remote_row q c operation =
     \<lparr>lr_id = 0, lr_entity_type = ch_entity_type c, lr_entity_id = ch_entity_id c,
      lr_operation = operation, lr_version = ch_version c, lr_payload = ch_payload c,
      lr_changed_at = sql_now q, lr_device_id = Some (ch_device_id c)\<rparr>"

definition push_conflicts :: "log_row \<Rightarrow> sync_change \<Rightarrow> bool" where
  "push_conflicts r c \<longleftrightarrow>
     lr_version r > ch_version c \<or> (lr_version r = ch_version c \<and> lr_payload r \<noteq> ch_payload c)"

definition push_step ::
  "deps \<Rightarrow> 'db sqlite \<Rightarrow> 'db store \<times> conflict list \<Rightarrow> sync_change
    \<Rightarrow> ('db store \<times> conflict list, sync_error) result" where
  "push_step d q st c =
     (case st of (s, cs) \<Rightarrow>
      if entity_type_to_table (ch_entity_type c) = None then Inl (UnknownEntityType (ch_entity_type c))
      else if seen s c then Inr (s, cs)
      else
        let accept = result_bind (dispatch_apply d q s c) (\<lambda>s1.
              result_bind (insert_log s1 (remote_row q c (to_ascii_uppercase (ch_operation c))))
                (\<lambda>s2. Inr (s2, cs)))
        in case latest_row q s (ch_entity_type c) (ch_entity_id c) of
             Some r \<Rightarrow>
               if push_conflicts r c then
                 let s' = insert_conflict q s (ch_entity_type c) (ch_entity_id c) (lr_payload r) (ch_payload c)
                 in Inr (s', cs @ (case fetch_conflict s' (ch_entity_type c) (ch_entity_id c) of
                                     Some x \<Rightarrow> [x] | None \<Rightarrow> []))
               else accept
           | None \<Rightarrow> accept)"

definition push_changes ::
  "deps \<Rightarrow> 'db sqlite \<Rightarrow> 'db store \<Rightarrow> sync_change list \<Rightarrow> 'db store \<times> (push_response, sync_error) result"
  where
  "push_changes d q s changes =
     (case try_fold (push_step d q) (set_apply_flag s, []) changes of
        Inl e \<Rightarrow> (s, Inl e)
      | Inr (s', cs) \<Rightarrow>
          let s'' = clear_apply_flag s' in
          (s'', Inr \<lparr>ps_accepted = (cs = []), ps_conflicts = cs,
                     ps_latest_version = get_latest_version s''\<rparr>))"

section \<open>Applying pulled changes\<close>

record inventory_paths =
  ip_file_path :: "string option"
  ip_cover_path :: "string option"

type_synonym apply_options = "string \<rightharpoonup> inventory_paths"

record apply_outcome =
  ao_applied :: nat
  ao_skipped :: nat
  ao_conflicts :: "conflict list"

definition apply_rank :: "string \<Rightarrow> nat" where
  "apply_rank t =
     (if t \<in> set [''work'', ''edition_group'', ''reading_list''] then 0
      else if t = ''edition'' then 1
      else if t \<in> set [''digital_inventory'', ''owned_edition'', ''work_author'', ''work_genre'',
             ''work_subject'', ''work_publisher'', ''work_tag'', ''edition_author'', ''edition_genre'',
             ''edition_subject'', ''edition_publisher'', ''edition_tag'', ''series_entry'',
             ''reading_list_book''] then 2
      else if t \<in> set [''edition_loan'', ''annotation''] then 3
      else if t = ''reading_progress'' then 4
      else 5)"

definition optional_string :: "string option \<Rightarrow> json" where
  "optional_string v = (case v of None \<Rightarrow> JNull | Some t \<Rightarrow> JString t)"

definition apply_inventory_paths :: "json \<Rightarrow> sync_change \<Rightarrow> apply_options \<Rightarrow> json" where
  "apply_inventory_paths payload c options =
     (case or_else (options (ch_entity_id c))
             (Option.bind (Option.bind (json_get payload ''id'') as_str) options) of
        None \<Rightarrow> payload
      | Some paths \<Rightarrow>
          (case payload of
             JObject kvs \<Rightarrow>
               JObject (obj_insert ''cover_path'' (optional_string (ip_cover_path paths))
                 (obj_insert ''file_path'' (optional_string (ip_file_path paths)) kvs))
           | _ \<Rightarrow> payload))"

definition latest_version_in :: "'db store \<Rightarrow> int" where
  "latest_version_in s = max_version s"

definition latest_change :: "'db sqlite \<Rightarrow> 'db store \<Rightarrow> string \<Rightarrow> string \<Rightarrow> (int \<times> string) option" where
  "latest_change q s t i = map_option (\<lambda>r. (lr_version r, lr_payload r)) (latest_row q s t i)"

definition record_conflict :: "'db sqlite \<Rightarrow> 'db store \<Rightarrow> sync_change \<Rightarrow> string \<Rightarrow> 'db store" where
  "record_conflict q s c local_payload =
     insert_conflict q s (ch_entity_type c) (ch_entity_id c) local_payload (ch_payload c)"

definition fetch_latest_conflict :: "'db store \<Rightarrow> sync_change \<Rightarrow> conflict option" where
  "fetch_latest_conflict s c = fetch_conflict s (ch_entity_type c) (ch_entity_id c)"

definition discard_echoes :: "'db store \<Rightarrow> sync_change \<Rightarrow> int \<Rightarrow> 'db store" where
  "discard_echoes s c baseline =
     s\<lparr>change_log := filter (\<lambda>r. \<not> (of_entity (ch_entity_type c) (ch_entity_id c) r
                                   \<and> lr_version r > baseline)) (change_log s)\<rparr>"

definition insert_change_row ::
  "'db sqlite \<Rightarrow> 'db store \<Rightarrow> sync_change \<Rightarrow> ('db store, sync_error) result" where
  "insert_change_row q s c = insert_log s (remote_row q c (ch_operation c))"

definition is_identifier :: "string \<Rightarrow> bool" where
  "is_identifier v \<longleftrightarrow> v \<noteq> [] \<and> list_all (\<lambda>c. is_ascii_alphanumeric c \<or> c = CHR ''_'') v"

definition is_id_column :: "string \<Rightarrow> bool" where
  "is_id_column c \<longleftrightarrow> c = ''id'' \<or> suffix ''_id'' c"

definition sql_value_of :: "deps \<Rightarrow> string \<Rightarrow> json \<Rightarrow> sql_value" where
  "sql_value_of d column v =
     (let plain_value = (case v of
            JString t \<Rightarrow> SqlString (Some t)
          | JBool b \<Rightarrow> SqlBool (Some b)
          | JInt n \<Rightarrow> (if in_i64 n then SqlBigInt (Some n) else SqlDouble (as_f64 d v))
          | JFloat x \<Rightarrow> SqlDouble (Some x)
          | JNull \<Rightarrow> SqlString None
          | _ \<Rightarrow> SqlString (Some (json_to_string d v)))
      in if is_id_column column then
           (case v of
              JString t \<Rightarrow>
                if t = [] then SqlBytes None
                else (case from_wire d t of
                        Some i \<Rightarrow> SqlBytes (Some (to_bytes i)) | None \<Rightarrow> plain_value)
            | _ \<Rightarrow> plain_value)
         else plain_value)"

text \<open>\<open>delete_entity\<close>: a JSON-object id names the key columns, any other id is hex.\<close>

definition key_conditions ::
  "deps \<Rightarrow> string \<Rightarrow> (string \<times> json) list \<Rightarrow> ((string \<times> sql_value) list, sync_error) result" where
  "key_conditions d table key =
     try_map (\<lambda>(column, v).
       if is_identifier column then Inr (column @ '' = ?'', sql_value_of d column v)
       else Inl (Deserialization table (''unsafe key column in entity id: '' @ column))) key"

definition delete_entity ::
  "deps \<Rightarrow> 'db sqlite \<Rightarrow> 'db store \<Rightarrow> string \<Rightarrow> string \<Rightarrow> ('db store, sync_error) result" where
  "delete_entity d q s table i =
     (case json_from_str d i of
        Inr (JObject key) \<Rightarrow>
          result_bind (key_conditions d table key) (\<lambda>conds.
            if conds = [] then Inl (Deserialization table ''empty compound entity id'')
            else execute_raw q s
                   (''DELETE FROM '' @ table @ '' WHERE '' @ join '' AND '' (map fst conds)) (map snd conds))
      | _ \<Rightarrow>
          result_bind (map_err (\<lambda>x. Deserialization table (''invalid entity id '' @ i @ '': '' @ from_hex_error_text x)) (from_hex d i))
            (\<lambda>x. execute_raw q s (''DELETE FROM '' @ table @ '' WHERE id = ?'')
                   [SqlBytes (Some (to_bytes x))]))"

definition quoted :: "string \<Rightarrow> string" where
  "quoted c = CHR 0x22 # c @ [CHR 0x22]"

definition payload_columns ::
  "deps \<Rightarrow> string \<Rightarrow> (string \<times> json) list \<Rightarrow> ((string \<times> sql_value) list, sync_error) result" where
  "payload_columns d table obj =
     try_map (\<lambda>(column, v).
       if is_identifier column then Inr (column, sql_value_of d column v)
       else Inl (Deserialization table (''unsafe column name in payload: '' @ column))) obj"

definition payload_sql :: "string \<Rightarrow> string list \<Rightarrow> string" where
  "payload_sql table columns =
     ''INSERT INTO '' @ table @ '' ('' @ join '', '' (map quoted columns) @ '') VALUES ('' @
     join '', '' (map (\<lambda>_. ''?'') columns) @ '') ON CONFLICT DO UPDATE SET '' @
     join '', '' (map (\<lambda>c. quoted c @ '' = excluded.'' @ quoted c) columns)"

definition upsert_payload ::
  "deps \<Rightarrow> 'db sqlite \<Rightarrow> 'db store \<Rightarrow> string \<Rightarrow> json \<Rightarrow> ('db store, sync_error) result" where
  "upsert_payload d q s table payload =
     (case payload of
        JObject obj \<Rightarrow>
          result_bind (payload_columns d table obj) (\<lambda>cols.
            if cols = [] then Inl (Deserialization table ''empty sync payload'')
            else execute_raw q s (payload_sql table (map fst cols)) (map snd cols))
      | _ \<Rightarrow> Inl (Deserialization table ''sync payload is not an object''))"

text \<open>The statement of one pulled change on its table.\<close>

definition apply_statement ::
  "deps \<Rightarrow> 'db sqlite \<Rightarrow> apply_options \<Rightarrow> string \<Rightarrow> 'db store \<Rightarrow> sync_change \<Rightarrow> ('db store, sync_error) result"
  where
  "apply_statement d q options table s c =
     (if ch_operation c = ''DELETE'' then delete_entity d q s table (ch_entity_id c)
      else result_bind (map_err (Deserialization (ch_entity_type c)) (json_from_str d (ch_payload c)))
             (\<lambda>payload. upsert_payload d q s table
                (if ch_entity_type c = ''digital_inventory''
                 then apply_inventory_paths payload c options else payload)))"

definition apply_step ::
  "deps \<Rightarrow> 'db sqlite \<Rightarrow> apply_options \<Rightarrow> 'db store \<times> apply_outcome \<Rightarrow> sync_change
    \<Rightarrow> ('db store \<times> apply_outcome, sync_error) result" where
  "apply_step d q options st c =
     (case st of (s, out) \<Rightarrow>
      let skip = Inr (s, out\<lparr>ao_skipped := ao_skipped out + 1\<rparr>);
          run = (\<lambda>table.
            if ch_operation c \<notin> {''INSERT'', ''UPDATE'', ''DELETE''} then skip
            else
              let baseline = latest_version_in s in
              result_bind (apply_statement d q options table s c) (\<lambda>s1.
              result_bind (insert_change_row q (discard_echoes s1 c baseline) c) (\<lambda>s2.
                Inr (s2, out\<lparr>ao_applied := ao_applied out + 1\<rparr>))))
      in if ch_entity_type c = ''file_offer'' then skip
         else case entity_type_to_table (ch_entity_type c) of
           None \<Rightarrow> skip
         | Some table \<Rightarrow>
             (case latest_change q s (ch_entity_type c) (ch_entity_id c) of
                Some (local_version, local_payload) \<Rightarrow>
                  if local_version > ch_version c then
                    let s' = record_conflict q s c local_payload in
                    Inr (s', out\<lparr>ao_conflicts := ao_conflicts out @
                               (case fetch_latest_conflict s' c of Some x \<Rightarrow> [x] | None \<Rightarrow> [])\<rparr>)
                  else run table
              | None \<Rightarrow> run table))"

definition apply_changes ::
  "deps \<Rightarrow> 'db sqlite \<Rightarrow> 'db store \<Rightarrow> sync_change list \<Rightarrow> apply_options
    \<Rightarrow> 'db store \<times> (apply_outcome, sync_error) result" where
  "apply_changes d q s changes options =
     (case try_fold (apply_step d q options)
             (s, \<lparr>ao_applied = 0, ao_skipped = 0, ao_conflicts = []\<rparr>)
             (sort_key (\<lambda>c. apply_rank (ch_entity_type c)) changes) of
        Inl e \<Rightarrow> (s, Inl e)
      | Inr (s', out) \<Rightarrow> (s', Inr out))"

section \<open>Conflicts\<close>

definition list_conflicts :: "'db store \<Rightarrow> conflict list" where
  "list_conflicts s = unresolved_desc (conflicts s)"

definition resolve_conflict ::
  "'db store \<Rightarrow> int \<Rightarrow> string \<Rightarrow> string option \<Rightarrow> 'db store \<times> bool" where
  "resolve_conflict s i resolution merged =
     (let hit = (\<lambda>c. cf_id c = i \<and> \<not> cf_resolved c) in
      (s\<lparr>conflicts := map (\<lambda>c. if hit c then c\<lparr>cf_resolved := True, cf_resolution := Some resolution,
                                             cf_merged_payload := merged\<rparr> else c) (conflicts s)\<rparr>,
       length (filter hit (conflicts s)) > 0))"

end
