(* ===== verification/WireState.thy ===== *)
theory WireState
  imports Frames Pairing Requests DeviceTypes SyncEngine
begin

text \<open>
  \<open>livtet-sync-server/src/wire_state.rs\<close>: the state one sync endpoint answers from, with the two
  client-owned tables the pairing code reads and writes (\<open>paired_devices\<close> and \<open>pending_pairings\<close> of
  \<open>livtet-data/src/client_entities\<close>, the columns of later client migrations included).

  The maps behind locks are fields of the state. The offer sink and the notifier are modelled by what
  they were given, in order. The process-wide claim limiter is a field too. What an endpoint
  reads from outside (the clock, fresh ULIDs, the file system, the desktop process, SQLite,
  serde, SeaORM's queries on the catalog) is the record \<open>wire_env\<close>, one for each call. Failures of
  the database connection are not modelled.
\<close>

section \<open>Rows\<close>

text \<open>\<open>device_id\<close> is the blob as stored; the token and node columns are nullable text.\<close>

record paired_device =
  pd_device_id :: string
  pd_name :: "string option"
  pd_listen_on :: "string option"
  pd_device_type_id :: "db_id option"
  pd_paired_at :: nat
  pd_last_sync_at :: "nat option"
  pd_outbound :: bool
  pd_session_token :: "string option"
  pd_node_id :: "string option"
  pd_peer_session_token :: "string option"

record pending_pairing =
  pp_token :: string
  pp_desktop_id :: db_id
  pp_listen_on :: "string option"
  pp_status_id :: "db_id option"
  pp_device_name :: "string option"
  pp_device_type_id :: "db_id option"
  pp_device_id :: "db_id option"
  pp_origin_addr :: "string option"
  pp_created_at :: nat
  pp_expires_at :: nat

record offer_decision_row =
  od_offer_id :: string
  od_device_id :: string
  od_accepted :: bool

section \<open>State\<close>

record request_counters =
  rc_served :: nat
  rc_last_at :: "string option"

record 'db wire_state =
  ws_store :: "'db store"
  ws_engine_device_id :: string
  ws_paired :: "paired_device list"
  ws_pending :: "pending_pairing list"
  ws_device_id :: string
  ws_node_id :: "string option"
  ws_waiters :: pair_waiters
  ws_decisions :: pair_decisions
  ws_offers :: "offer_decision_row list"
  ws_notifications :: "(string \<times> json) list option"
  ws_request_log :: "request_log option"
  ws_counters :: "request_counters option"
  ws_limiter :: claim_rate_limiter

definition new_wire_state ::
  "'db store \<Rightarrow> string \<Rightarrow> paired_device list \<Rightarrow> pending_pairing list \<Rightarrow> string \<Rightarrow> 'db wire_state" where
  "new_wire_state store engine_device paired pending device =
     \<lparr>ws_store = store, ws_engine_device_id = engine_device, ws_paired = paired, ws_pending = pending,
      ws_device_id = device, ws_node_id = None, ws_waiters = new_pair_waiters,
      ws_decisions = new_pair_decisions, ws_offers = [], ws_notifications = None,
      ws_request_log = None, ws_counters = None, ws_limiter = default_limiter\<rparr>"

definition self_node :: "'db wire_state \<Rightarrow> string" where
  "self_node s = (case ws_node_id s of Some n \<Rightarrow> n | None \<Rightarrow> ws_device_id s)"

section \<open>What a call reads from outside\<close>

record inventory_row =
  iv_id :: db_id
  iv_file_path :: "string option"
  iv_cover_path :: "string option"
  iv_file_hash :: "string option"
  iv_file_size_bytes :: "int option"

record edition_row =
  er_work_id :: db_id
  er_title :: "string option"

text \<open>\<open>we_metadata\<close> gives a file's size and its modification time in nanoseconds from the epoch,
  \<open>we_contents\<close> its bytes; \<open>we_authors\<close> the names of the authors linked to a work;
  \<open>we_sql_error\<close> the text of an sqlx error.\<close>

record 'db wire_env =
  we_deps :: deps
  we_sqlite :: "'db sqlite"
  we_inventory :: "'db \<Rightarrow> db_id \<Rightarrow> inventory_row option"
  we_inventory_of :: "'db \<Rightarrow> db_id \<Rightarrow> inventory_row option"
  we_edition :: "'db \<Rightarrow> db_id \<Rightarrow> edition_row option"
  we_work_title :: "'db \<Rightarrow> db_id \<Rightarrow> string option"
  we_authors :: "'db \<Rightarrow> db_id \<Rightarrow> string list"
  we_sql_error :: "string \<Rightarrow> string"
  we_json_extract :: "string \<Rightarrow> (string option, string) result"
  we_metadata :: "string \<Rightarrow> (nat \<times> int option) option"
  we_contents :: "string \<Rightarrow> string option"
  we_file_name :: "string \<Rightarrow> string option"
  we_host :: "(string \<Rightarrow> json \<Rightarrow> (json, string) result) option"
  we_opds_headers_value :: "opds_headers \<Rightarrow> json"
  we_opds_from_value :: "json \<Rightarrow> (opds_response, string) result"
  we_request_from_slice :: "string \<Rightarrow> (request, string) result"
  we_response_to_vec :: "response \<Rightarrow> (string, string) result"
  we_parts :: "nat \<Rightarrow> nat \<Rightarrow> string"
  we_hash :: "string \<Rightarrow> nat"
  we_lower :: "string \<Rightarrow> string"
  we_instant :: nat
  we_now :: nat
  we_now_string :: string
  we_elapsed_ms :: nat
  we_ulid :: string
  we_new_id :: db_id

definition is_file :: "'db wire_env \<Rightarrow> string \<Rightarrow> bool" where
  "is_file e p \<longleftrightarrow> we_contents e p \<noteq> None"

definition status_id :: "'db wire_env \<Rightarrow> pairing_status \<Rightarrow> db_id" where
  "status_id e st = status_db_id (we_parts e) st"

text \<open>\<open>json!({..})\<close>: a map keeps its keys in order.\<close>

definition json_obj :: "(string \<times> json) list \<Rightarrow> json" where
  "json_obj kvs = JObject (fold (\<lambda>(k, v). obj_insert k v) kvs [])"

definition opt_str :: "string option \<Rightarrow> json" where
  "opt_str v = (case v of Some t \<Rightarrow> JString t | None \<Rightarrow> JNull)"

definition notify :: "'db wire_state \<Rightarrow> string \<Rightarrow> json \<Rightarrow> 'db wire_state" where
  "notify s m v = s\<lparr>ws_notifications := map_option (\<lambda>ns. ns @ [(m, v)]) (ws_notifications s)\<rparr>"

lemma map_of_rev_distinct: "distinct (map fst kvs) \<Longrightarrow> map_of (rev kvs) = map_of kvs"
  by (subst map_of_inject_set) (simp_all add: rev_map [symmetric])

lemma map_of_fold_insert:
  "map_of (fold (\<lambda>(k, v). obj_insert k v) kvs acc) = map_of acc ++ map_of (rev kvs)"
  by (induction kvs arbitrary: acc) auto

lemma json_get_obj: "distinct (map fst kvs) \<Longrightarrow> json_get (json_obj kvs) k = map_of kvs k"
  by (simp add: json_get_def json_obj_def map_of_fold_insert map_of_rev_distinct)

end
