(* ===== verification/WireServer.thy ===== *)
theory WireServer
  imports WireState
begin

text \<open>
  \<open>livtet-sync-server/src/wire.rs\<close>: framed requests answered from the local engine, one handler for
  each request, and \<open>exchange\<close> of \<open>livtet-sync-iroh/src/server.rs\<close>, which carries one of them over a
  stream. A handler takes the state and returns it changed with its answer.
\<close>

section \<open>Failures and answers\<close>

record failure =
  f_code :: error_code
  f_message :: string

definition unauthorized :: failure where
  "unauthorized = \<lparr>f_code = Unauthorized, f_message = ''the session token is not recognised''\<rparr>"

record file_body =
  fb_path :: string
  fb_offset :: nat
  fb_length :: nat

record outcome =
  oc_response :: response
  oc_body :: "file_body option"

definition outcome_reply :: "response \<Rightarrow> outcome" where
  "outcome_reply r = \<lparr>oc_response = r, oc_body = None\<rparr>"

definition outcome_file :: "file_header \<Rightarrow> string \<Rightarrow> outcome" where
  "outcome_file h path =
     \<lparr>oc_response = RspFile h,
      oc_body = Some \<lparr>fb_path = path, fb_offset = fh_offset h, fb_length = fh_length h\<rparr>\<rparr>"

definition outcome_cover :: "file_header \<Rightarrow> string \<Rightarrow> outcome" where
  "outcome_cover h path =
     \<lparr>oc_response = RspCover h,
      oc_body = Some \<lparr>fb_path = path, fb_offset = fh_offset h, fb_length = fh_length h\<rparr>\<rparr>"

record answered =
  an_outcome :: outcome
  an_device_id :: "string option"

definition reply :: "response \<Rightarrow> answered" where
  "reply r = \<lparr>an_outcome = outcome_reply r, an_device_id = None\<rparr>"

definition failed :: "failure \<Rightarrow> answered" where
  "failed f = reply (RspError (f_code f) (f_message f))"

definition error :: "error_code \<Rightarrow> string \<Rightarrow> answered" where
  "error code message = failed \<lparr>f_code = code, f_message = message\<rparr>"

definition with_device :: "answered \<Rightarrow> string \<Rightarrow> answered" where
  "with_device a d = a\<lparr>an_device_id := Some d\<rparr>"

fun sync_error_text :: "deps \<Rightarrow> sync_error \<Rightarrow> string" where
  "sync_error_text d (Db m) = ''database error: '' @ m"
| "sync_error_text d (UnknownEntityType t) = ''unknown sync entity type: '' @ t"
| "sync_error_text d (ConflictError t i m) = ''sync conflict on '' @ t @ ''/'' @ db_id_display d i @ '': '' @ m"
| "sync_error_text d (Serialization t m) = ''serialization error for '' @ t @ '': '' @ m"
| "sync_error_text d (Deserialization t m) = ''deserialization error for '' @ t @ '': '' @ m"
| "sync_error_text d (InvalidPayload t m) = ''invalid payload for '' @ t @ '': '' @ m"
| "sync_error_text d (InvalidOperation t op) = ''invalid operation '' @ op @ '' for '' @ t"
| "sync_error_text d (InvalidEntityId t m) = ''invalid entity id for '' @ t @ '': '' @ m"

fun op_name :: "request \<Rightarrow> string" where
  "op_name ReqIdentity = ''identity''"
| "op_name (ReqStatus _) = ''status''"
| "op_name (ReqChanges _ _ _) = ''changes''"
| "op_name (ReqPullFull _) = ''pull_full''"
| "op_name (ReqPush _ _) = ''push''"
| "op_name (ReqPair _ _ _) = ''pair''"
| "op_name (ReqPairStatus _) = ''pair_status''"
| "op_name (ReqConflicts _) = ''conflicts''"
| "op_name (ReqResolveConflict _ _ _ _) = ''resolve_conflict''"
| "op_name (ReqFile _ _ _ _ _) = ''file''"
| "op_name (ReqFileInfo _ _) = ''file_info''"
| "op_name (ReqCover _ _) = ''cover''"
| "op_name (ReqOpds _ _ _ _) = ''opds''"
| "op_name (ReqOfferDecision _ _ _) = ''offer_decision''"

fun outcome_label :: "response \<Rightarrow> string" where
  "outcome_label (RspError code _) = ''error:'' @ label code"
| "outcome_label (RspRefused _) = ''refused''"
| "outcome_label _ = ''ok''"

definition sync_completed :: "response \<Rightarrow> string option \<Rightarrow> json option" where
  "sync_completed r device =
     (case device of None \<Rightarrow> None | Some dev \<Rightarrow>
      (case r of
         RspChanges pull \<Rightarrow> Some (json_obj
           [(''op'', JString ''changes''), (''device_id'', JString dev),
            (''changes'', JInt (int (length (pr_changes pull)))), (''has_more'', JBool (pr_has_more pull)),
            (''latest_version'', JInt (pr_latest_version pull))])
       | RspPushed push \<Rightarrow> Some (json_obj
           [(''op'', JString ''push''), (''device_id'', JString dev),
            (''accepted'', JBool (ps_accepted push)), (''conflicts'', JInt (int (length (ps_conflicts push)))),
            (''latest_version'', JInt (ps_latest_version push))])
       | RspFull dump \<Rightarrow> Some (json_obj
           [(''op'', JString ''pull_full''), (''device_id'', JString dev),
            (''version'', JInt (fd_version dump))])
       | _ \<Rightarrow> None))"

section \<open>Who is calling\<close>

text \<open>\<open>SELECT device_id FROM paired_devices WHERE session_token = ? AND node_id = ? LIMIT 1\<close>.\<close>

definition authorize :: "'db wire_env \<Rightarrow> 'db wire_state \<Rightarrow> string \<Rightarrow> string \<Rightarrow> (string, failure) result" where
  "authorize e s token remote =
     (let token = trim token in
      if token = [] then Inl unauthorized
      else case find (\<lambda>r. pd_session_token r = Some token \<and> pd_node_id r = Some remote) (ws_paired s) of
        Some row \<Rightarrow>
          if length (pd_device_id row) = 16
          then Inr (db_id_display (we_deps e) (DbId (pd_device_id row)))
          else Inl \<lparr>f_code = InternalError, f_message = ''device id is not 16 bytes''\<rparr>
      | None \<Rightarrow> Inl unauthorized)"

definition paired_node :: "'db wire_state \<Rightarrow> string \<Rightarrow> bool" where
  "paired_node s remote \<longleftrightarrow>
     (\<exists>r \<in> set (ws_paired s). pd_node_id r = Some remote
        \<and> pd_session_token r \<noteq> None \<and> pd_session_token r \<noteq> Some [])"

definition change_is_for :: "deps \<Rightarrow> sync_change \<Rightarrow> string \<Rightarrow> bool" where
  "change_is_for d c device \<longleftrightarrow>
     ch_entity_type c \<noteq> ''file_offer''
     \<or> (case Option.bind (ok (json_from_str d (ch_payload c)))
               (\<lambda>payload. Option.bind (json_get payload ''to_device_id'') as_str) of
          None \<Rightarrow> True | Some target \<Rightarrow> target = device)"

section \<open>Files\<close>

definition parse_inventory_id :: "deps \<Rightarrow> string \<Rightarrow> db_id option" where
  "parse_inventory_id d raw =
     (case hex_decode d raw of
        Inr bytes \<Rightarrow> if length bytes = 16 then Some (DbId bytes) else None
      | Inl _ \<Rightarrow> None)"

definition inventory_paths_of ::
  "'db wire_env \<Rightarrow> 'db wire_state \<Rightarrow> string \<Rightarrow> (string option \<times> string option, failure) result" where
  "inventory_paths_of e s inventory_id =
     result_bind (ok_or \<lparr>f_code = BadRequest, f_message = ''invalid inventory id''\<rparr>
                   (parse_inventory_id (we_deps e) inventory_id)) (\<lambda>i.
     result_bind (ok_or \<lparr>f_code = NotFound, f_message = ''no such inventory''\<rparr>
                   (we_inventory e (tables (ws_store s)) i)) (\<lambda>row.
       Inr (iv_file_path row, iv_cover_path row)))"

definition content_type_for :: "string \<Rightarrow> string" where
  "content_type_for path =
     (let lower = to_ascii_lowercase path in
      if suffix ''.pdf'' lower then ''application/pdf''
      else if suffix ''.png'' lower then ''image/png''
      else if suffix ''.jpg'' lower \<or> suffix ''.jpeg'' lower then ''image/jpeg''
      else if suffix ''.webp'' lower then ''image/webp''
      else ''application/epub+zip'')"

text \<open>The format \<open>{:x}\<close>.\<close>

fun show_hex :: "nat \<Rightarrow> string" where
  "show_hex n = (if n < 16 then [hex_lower n] else show_hex (n div 16) @ [hex_lower (n mod 16)])"

declare show_hex.simps [simp del]

definition file_etag :: "nat \<Rightarrow> int option \<Rightarrow> string" where
  "file_etag sz modified =
     (case modified of
        Some nanos \<Rightarrow> show_hex sz @ ''-'' @ show_hex (nat nanos)
      | None \<Rightarrow> show_hex sz)"

definition file_metadata_of :: "'db wire_env \<Rightarrow> string \<Rightarrow> (nat \<times> string, failure) result" where
  "file_metadata_of e path =
     result_bind (ok_or \<lparr>f_code = NotFound, f_message = ''the file is not on disk''\<rparr> (we_metadata e path))
       (\<lambda>(sz, modified). Inr (sz, file_etag sz modified))"

definition serve_file ::
  "'db wire_env \<Rightarrow> 'db wire_state \<Rightarrow> string \<Rightarrow> string \<Rightarrow> string \<Rightarrow> nat \<Rightarrow> nat option \<Rightarrow> string option \<Rightarrow> answered"
  where
  "serve_file e s token remote inventory_id offset len if_range =
     (case authorize e s token remote of Inl f \<Rightarrow> failed f | Inr device \<Rightarrow>
     (case inventory_paths_of e s inventory_id of Inl f \<Rightarrow> failed f | Inr (file_path, _) \<Rightarrow>
     (case file_path of None \<Rightarrow> error NotFound ''this inventory has no file'' | Some path \<Rightarrow>
     (case file_metadata_of e path of Inl f \<Rightarrow> failed f | Inr (bytes_total, etag) \<Rightarrow>
       if offset > bytes_total then
         with_device (error (RangeNotSatisfiable bytes_total)
           (''offset '' @ show_nat offset @ '' is past the '' @ show_nat bytes_total @ ''-byte file'')) device
       else
         let (start, sz) =
               (if if_range = Some etag
                then let available = bytes_total - offset in
                     (offset, min (case len of Some l \<Rightarrow> l | None \<Rightarrow> available) available)
                else (0, bytes_total));
             header = \<lparr>fh_content_type = content_type_for path, fh_offset = start, fh_length = sz,
                       fh_total = bytes_total, fh_etag = etag\<rparr>
         in with_device \<lparr>an_outcome = outcome_file header path, an_device_id = None\<rparr> device))))"

definition file_info :: "'db wire_env \<Rightarrow> 'db wire_state \<Rightarrow> string \<Rightarrow> string \<Rightarrow> string \<Rightarrow> answered" where
  "file_info e s token remote inventory_id =
     (case authorize e s token remote of Inl f \<Rightarrow> failed f | Inr device \<Rightarrow>
     (case inventory_paths_of e s inventory_id of Inl f \<Rightarrow> failed f | Inr (file_path, _) \<Rightarrow>
     (case file_path of None \<Rightarrow> error NotFound ''this inventory has no file'' | Some path \<Rightarrow>
     (case file_metadata_of e path of Inl f \<Rightarrow> failed f | Inr (sz, etag) \<Rightarrow>
       with_device (reply (RspFileInfo
         \<lparr>fm_content_type = content_type_for path, fm_size = sz, fm_etag = etag\<rparr>)) device))))"

definition cover :: "'db wire_env \<Rightarrow> 'db wire_state \<Rightarrow> string \<Rightarrow> string \<Rightarrow> string \<Rightarrow> answered" where
  "cover e s token remote inventory_id =
     (case authorize e s token remote of Inl f \<Rightarrow> failed f | Inr device \<Rightarrow>
     (case inventory_paths_of e s inventory_id of Inl f \<Rightarrow> failed f | Inr (_, cover_path) \<Rightarrow>
     (case cover_path of None \<Rightarrow> error NotFound ''this inventory has no cover'' | Some path \<Rightarrow>
     (case file_metadata_of e path of Inl f \<Rightarrow> failed f | Inr (bytes_total, etag) \<Rightarrow>
       let header = \<lparr>fh_content_type = content_type_for path, fh_offset = 0, fh_length = bytes_total,
                     fh_total = bytes_total, fh_etag = etag\<rparr>
       in with_device \<lparr>an_outcome = outcome_cover header path, an_device_id = None\<rparr> device))))"

section \<open>OPDS pass-through\<close>

definition OPDS_FETCH :: string where "OPDS_FETCH = ''opds.fetch''"

definition opds :: "'db wire_env \<Rightarrow> string \<Rightarrow> string \<Rightarrow> opds_headers \<Rightarrow> string \<Rightarrow> answered" where
  "opds e meth path headers body =
     (let params = json_obj
            [(''method'', JString meth), (''path'', JString path),
             (''headers'', we_opds_headers_value e headers),
             (''body'', JArray (map (\<lambda>b. JInt (int (byte b))) body))]
      in case we_host e of
        None \<Rightarrow> error InternalError ''opds: this endpoint serves no route table''
      | Some request \<Rightarrow>
         (case request OPDS_FETCH params of
            Inl message \<Rightarrow> error InternalError (''opds: '' @ message)
          | Inr v \<Rightarrow>
             (case we_opds_from_value e v of
                Inl m \<Rightarrow> error InternalError
                  (''opds: the desktop answered with an unreadable response: '' @ m)
              | Inr response \<Rightarrow>
                  let body_len = length (or_body response) in
                  if body_len > MAX_MESSAGE_BYTES then
                    error BadRequest (''opds: a '' @ show_nat body_len @ ''-byte body exceeds the '' @
                      show_nat MAX_MESSAGE_BYTES @ ''-byte message limit; request the body in ranges'')
                  else if \<not> fits_one_frame (we_response_to_vec e) (RspOpds response) then
                    error BadRequest (''opds: the answer exceeds the '' @ show_nat MAX_MESSAGE_BYTES @
                      ''-byte message limit; request the body in ranges'')
                  else reply (RspOpds response))))"

section \<open>Offers\<close>

text \<open>\<open>SELECT payload FROM change_log WHERE entity_type = 'file_offer' AND json_extract(payload,
  '$.offer_id') = ? LIMIT 1\<close>: rows are scanned until one matches or its payload is not JSON.\<close>

fun find_offer :: "'db wire_env \<Rightarrow> string \<Rightarrow> log_row list \<Rightarrow> (string option, string) result" where
  "find_offer e offer_id [] = Inr None"
| "find_offer e offer_id (r # rows) =
     (if lr_entity_type r = ''file_offer'' then
        result_bind (we_json_extract e (lr_payload r)) (\<lambda>v.
          if v = Some offer_id then Inr (Some (lr_payload r)) else find_offer e offer_id rows)
      else find_offer e offer_id rows)"

definition offer_decision ::
  "'db wire_env \<Rightarrow> 'db wire_state \<Rightarrow> string \<Rightarrow> string \<Rightarrow> bool \<Rightarrow> ('db wire_state, failure) result" where
  "offer_decision e s offer_id device_id accepted =
     result_bind (map_err (\<lambda>m. \<lparr>f_code = InternalError, f_message = ''offer lookup: '' @ m\<rparr>)
                   (find_offer e offer_id (change_log (ws_store s)))) (\<lambda>row.
     result_bind (ok_or \<lparr>f_code = NotFound, f_message = ''no such offer''\<rparr> row) (\<lambda>text.
       let payload = (case json_from_str (we_deps e) text of Inr v \<Rightarrow> v | Inl _ \<Rightarrow> JNull) in
       if Option.bind (json_get payload ''to_device_id'') as_str \<noteq> Some device_id
       then Inl \<lparr>f_code = Unauthorized, f_message = ''the offer is addressed to another device''\<rparr>
       else Inr (s\<lparr>ws_offers := ws_offers s @
                    [\<lparr>od_offer_id = offer_id, od_device_id = device_id, od_accepted = accepted\<rparr>]\<rparr>)))"

section \<open>Pairing\<close>

definition NOTIFY_PAIRING_REQUESTED :: string where "NOTIFY_PAIRING_REQUESTED = ''pairing.requested''"
definition NOTIFY_REQUEST_RECEIVED :: string where "NOTIFY_REQUEST_RECEIVED = ''request.received''"
definition NOTIFY_SYNC_COMPLETED :: string where "NOTIFY_SYNC_COMPLETED = ''sync.completed''"

definition find_pending :: "'db wire_state \<Rightarrow> string \<Rightarrow> pending_pairing option" where
  "find_pending s token = find (\<lambda>r. pp_token r = token) (ws_pending s)"

definition update_pending :: "'db wire_state \<Rightarrow> pending_pairing \<Rightarrow> 'db wire_state" where
  "update_pending s row =
     s\<lparr>ws_pending := map (\<lambda>r. if pp_token r = pp_token row then row else r) (ws_pending s)\<rparr>"

text \<open>The row a claim writes: the existing one with the claim's values, or a new one.\<close>

definition claim_row ::
  "'db wire_env \<Rightarrow> string \<Rightarrow> db_id \<Rightarrow> db_id \<Rightarrow> string \<Rightarrow> string \<Rightarrow> pending_pairing" where
  "claim_row e remote desktop_id peer_device_id name device_type =
     \<lparr>pp_token = remote, pp_desktop_id = desktop_id, pp_listen_on = None,
      pp_status_id = Some (status_id e Pending), pp_device_name = Some name,
      pp_device_type_id = Some (device_type_id (we_parts e) (we_hash e) (from_tag (we_lower e) device_type)),
      pp_device_id = Some peer_device_id, pp_origin_addr = None,
      pp_created_at = we_now e, pp_expires_at = we_now e + from_secs 300\<rparr>"

definition pair ::
  "'db wire_env \<Rightarrow> 'db wire_state \<Rightarrow> string \<Rightarrow> string \<Rightarrow> string \<Rightarrow> string \<Rightarrow> 'db wire_state \<times> answered" where
  "pair e s remote device_id name device_type =
     (let d = we_deps e in
      case or_else (ok (db_id_from_str d device_id)) (ok (from_hex d device_id)) of
        None \<Rightarrow> (s, error BadRequest (''not a device id: '' @ device_id))
      | Some peer_device_id \<Rightarrow>
         (case db_id_from_str d (ws_device_id s) of
            Inl _ \<Rightarrow> (s, error InternalError ''this device has no valid id'')
          | Inr desktop_id \<Rightarrow>
              let row = claim_row e remote desktop_id peer_device_id name device_type;
                  filed = (\<lambda>s1.
                    let claim = we_ulid e;
                        s2 = s1\<lparr>ws_waiters := (ws_waiters s1)(remote \<mapsto> \<lparr>pw_claim = claim\<rparr>)\<rparr>;
                        s3 = notify s2 NOTIFY_PAIRING_REQUESTED (json_obj
                               [(''node_id'', JString remote), (''device_id'', JString device_id),
                                (''name'', JString name)])
                    in (s3, reply (RspPairingPending claim)))
              in case find_pending s remote of
                   Some old \<Rightarrow>
                     if pp_status_id old \<noteq> Some (status_id e Pending)
                     then (s, reply (RspRefused ''this pairing was already decided''))
                     else filed (update_pending s row)
                 | None \<Rightarrow> filed (s\<lparr>ws_pending := ws_pending s @ [row]\<rparr>)))"

definition pair_status :: "'db wire_env \<Rightarrow> 'db wire_state \<Rightarrow> string \<Rightarrow> string \<Rightarrow> 'db wire_state \<times> answered" where
  "pair_status e s remote claim =
     (let waiting = (case ws_waiters s remote of Some w \<Rightarrow> pw_claim w = claim | None \<Rightarrow> False) in
      if waiting then (s, reply (RspPairingPending claim))
      else case decided (we_instant e) (ws_decisions s) claim remote of
        (decisions, found) \<Rightarrow>
          (s\<lparr>ws_decisions := decisions\<rparr>,
           case found of
             Some dp \<Rightarrow> reply (decided_response dp)
           | None \<Rightarrow> error NotFound ''no pairing claim with that id''))"

section \<open>Dispatch\<close>

definition dispatch :: "'db wire_env \<Rightarrow> 'db wire_state \<Rightarrow> request \<Rightarrow> string \<Rightarrow> 'db wire_state \<times> answered" where
  "dispatch e s request remote =
     (let d = we_deps e; q = we_sqlite e; store = ws_store s;
          authorized = (\<lambda>token run. case authorize e s token remote of
             Inl f \<Rightarrow> (s, failed f) | Inr device \<Rightarrow> run device)
      in if remote = self_node s then (s, error BadRequest ''a device cannot sync with itself'')
      else case request of
        ReqIdentity \<Rightarrow>
          (s, reply (RspIdentity \<lparr>id_protocol = PROTOCOL_VERSION, id_node_id = self_node s,
                                  id_device_id = ws_device_id s\<rparr>))
      | ReqStatus token \<Rightarrow> authorized token (\<lambda>device.
          (s, with_device (reply (RspStatus \<lparr>st_latest_version = get_latest_version store,
                                             st_device_id = ws_device_id s\<rparr>)) device))
      | ReqChanges token since_version limit \<Rightarrow> authorized token (\<lambda>device.
          let response = pull_changes q store since_version (case limit of Some l \<Rightarrow> l | None \<Rightarrow> 100) in
          (s, with_device (reply (RspChanges (response\<lparr>pr_changes :=
                filter (\<lambda>c. change_is_for d c device) (pr_changes response)\<rparr>))) device))
      | ReqPullFull token \<Rightarrow> authorized token (\<lambda>device.
          (s, case pull_full d q (ws_engine_device_id s) store of
                Inr dump \<Rightarrow> with_device (reply (RspFull dump)) device
              | Inl x \<Rightarrow> error InternalError (''pull-full: '' @ sync_error_text d x)))
      | ReqPush token changes \<Rightarrow> authorized token (\<lambda>device.
          case push_changes d q store changes of (store', r) \<Rightarrow>
          (s\<lparr>ws_store := store'\<rparr>,
           case r of
             Inr response \<Rightarrow> with_device (reply (RspPushed response)) device
           | Inl x \<Rightarrow> error InternalError (''push: '' @ sync_error_text d x)))
      | ReqPair device_id name device_type \<Rightarrow>
          (case allow_at (ws_limiter s) remote (we_instant e) of (limiter, allowed) \<Rightarrow>
            let s1 = s\<lparr>ws_limiter := limiter\<rparr> in
            if \<not> allowed
            then (s1, error TooManyRequests ''too many pairing attempts; try again in a minute'')
            else pair e s1 remote device_id name device_type)
      | ReqPairStatus claim \<Rightarrow> pair_status e s remote claim
      | ReqConflicts token \<Rightarrow> authorized token (\<lambda>device.
          (s, with_device (reply (RspConflicts (list_conflicts store))) device))
      | ReqResolveConflict token i resolution merged_payload \<Rightarrow> authorized token (\<lambda>device.
          if resolution \<notin> set [''local'', ''remote'', ''merged'']
          then (s, error BadRequest (''unknown resolution: '' @ resolution))
          else case resolve_conflict store i resolution merged_payload of (store', resolved) \<Rightarrow>
            (s\<lparr>ws_store := store'\<rparr>, with_device (reply (RspResolved resolved)) device))
      | ReqFile token inventory_id offset len if_range \<Rightarrow>
          (s, serve_file e s token remote inventory_id offset len if_range)
      | ReqFileInfo token inventory_id \<Rightarrow> (s, file_info e s token remote inventory_id)
      | ReqCover token inventory_id \<Rightarrow> (s, cover e s token remote inventory_id)
      | ReqOpds meth path headers body \<Rightarrow>
          (s, if paired_node s remote then opds e meth path headers body
              else error Unauthorized ''this node is not paired with this device'')
      | ReqOfferDecision token offer_id accepted \<Rightarrow> authorized token (\<lambda>device.
          case offer_decision e s offer_id device accepted of
            Inr s' \<Rightarrow> (s', with_device (reply RspOfferDecided) device)
          | Inl f \<Rightarrow> (s, with_device (failed f) device)))"

section \<open>Answering and reporting\<close>

definition u64_succ :: "nat \<Rightarrow> nat" where "u64_succ n = (n + 1) mod 2 ^ 64"

definition answer :: "'db wire_env \<Rightarrow> 'db wire_state \<Rightarrow> request \<Rightarrow> string \<Rightarrow> 'db wire_state \<times> outcome" where
  "answer e s request remote =
     (case dispatch e s request remote of (s1, a) \<Rightarrow>
      let op = op_name request; response = oc_response (an_outcome a);
          outcome = outcome_label response; at = we_now_string e;
          s2 = s1\<lparr>ws_counters := map_option (\<lambda>c. \<lparr>rc_served = u64_succ (rc_served c), rc_last_at = Some at\<rparr>)
                                    (ws_counters s1)\<rparr>;
          s3 = s2\<lparr>ws_request_log := map_option (\<lambda>log. record_request log
                  \<lparr>rr_op = op, rr_node_id = remote, rr_device_id = an_device_id a, rr_outcome = outcome,
                   rr_at = at, rr_elapsed_ms = we_elapsed_ms e\<rparr>) (ws_request_log s2)\<rparr>;
          s4 = notify s3 NOTIFY_REQUEST_RECEIVED (json_obj
                 [(''op'', JString op), (''node_id'', JString remote),
                  (''device_id'', opt_str (an_device_id a)), (''outcome'', JString outcome),
                  (''at'', JString at), (''elapsed_ms'', JInt (int (we_elapsed_ms e)))]);
          s5 = (case sync_completed response (an_device_id a) of
                  Some completed \<Rightarrow> notify s4 NOTIFY_SYNC_COMPLETED completed
                | None \<Rightarrow> s4)
      in (s5, an_outcome a))"

text \<open>\<open>exchange\<close>: one request read from the peer's stream, the answer and the file's window
  written back. \<open>take\<close> stops at the end of the file.\<close>

definition exchange ::
  "'db wire_env \<Rightarrow> 'db wire_state \<Rightarrow> string \<Rightarrow> string \<Rightarrow> 'db wire_state \<times> (string, wire_error) result" where
  "exchange e s recv remote =
     (case read_frame (we_request_from_slice e) recv of
        Inl x \<Rightarrow> (s, Inl x)
      | Inr (request, _) \<Rightarrow>
         (case answer e s request remote of (s', out) \<Rightarrow>
          (s', result_bind (write_frame (we_response_to_vec e) (oc_response out)) (\<lambda>frame.
                 case oc_body out of
                   None \<Rightarrow> Inr frame
                 | Some body \<Rightarrow>
                    (case we_contents e (fb_path body) of
                       None \<Rightarrow> Inl (Io ''No such file or directory'')
                     | Some bytes \<Rightarrow>
                         Inr (frame @ take (fb_length body) (drop (fb_offset body) bytes)))))))"

end
