(* ===== verification/Pairs.thy ===== *)
theory Pairs
  imports WireServer
begin

text \<open>
  \<open>livtet-sync-server/src/pairs.rs\<close>: approving and rejecting a pairing claim, listing the claims and
  offering a book to a paired device. Statements run one by one, without a transaction: an error
  leaves what the earlier statements wrote.
\<close>

datatype claim_error =
    UnknownClaim string
  | InvalidDevice string
  | InvalidEdition string
  | NotPaired string
  | NoFile string
  | ClaimDb string

record claim_approval =
  ca_device_id :: string
  ca_session_token :: string

record pending_claim =
  pc_node_id :: string
  pc_device_id :: "string option"
  pc_name :: "string option"

record created_offer =
  co_offer_id :: string
  co_inventory_id :: string

definition find_paired :: "'db wire_state \<Rightarrow> string \<Rightarrow> paired_device option" where
  "find_paired s device = find (\<lambda>r. pd_device_id r = device) (ws_paired s)"

section \<open>Decisions\<close>

text \<open>\<open>INSERT INTO paired_devices .. ON CONFLICT (device_id) DO UPDATE SET ..\<close>.\<close>

definition upsert_paired :: "paired_device list \<Rightarrow> paired_device \<Rightarrow> paired_device list" where
  "upsert_paired rows new =
     (if \<exists>r \<in> set rows. pd_device_id r = pd_device_id new
      then map (\<lambda>r. if pd_device_id r = pd_device_id new
                    then r\<lparr>pd_name := pd_name new, pd_listen_on := pd_listen_on new,
                           pd_device_type_id := pd_device_type_id new, pd_paired_at := pd_paired_at new,
                           pd_outbound := pd_outbound new\<rparr>
                    else r) rows
      else rows @ [new])"

text \<open>\<open>UPDATE paired_devices SET session_token = ?, node_id = ? WHERE device_id = ?\<close>, refused when
  another row has the token (the index \<open>uq_paired_devices_session_token\<close>).\<close>

definition set_token ::
  "paired_device list \<Rightarrow> string \<Rightarrow> string \<Rightarrow> string \<Rightarrow> (paired_device list, string) result" where
  "set_token rows token node_id device =
     (if \<exists>r \<in> set rows. pd_session_token r = Some token \<and> pd_device_id r \<noteq> device
      then Inl ''UNIQUE constraint failed: paired_devices.session_token''
      else Inr (map (\<lambda>r. if pd_device_id r = device
                         then r\<lparr>pd_session_token := Some token, pd_node_id := Some node_id\<rparr> else r) rows))"

definition decide ::
  "'db wire_env \<Rightarrow> 'db wire_state \<Rightarrow> string \<Rightarrow> string \<Rightarrow> string \<Rightarrow> string option \<Rightarrow> 'db wire_state" where
  "decide e s node_id decision token device =
     (case fst (apply_pairing_decision (we_instant e) (ws_waiters s, ws_decisions s) node_id decision
                  token device) of
        (waiters, decisions) \<Rightarrow> s\<lparr>ws_waiters := waiters, ws_decisions := decisions\<rparr>)"

definition approve_claim ::
  "'db wire_env \<Rightarrow> 'db wire_state \<Rightarrow> string \<Rightarrow> 'db wire_state \<times> (claim_approval, claim_error) result" where
  "approve_claim e s node_id =
     (case find_pending s node_id of
        None \<Rightarrow> (s, Inl (UnknownClaim node_id))
      | Some pending \<Rightarrow>
          let session_token = we_ulid e;
              device_id = (case pp_device_id pending of Some i \<Rightarrow> i | None \<Rightarrow> we_new_id e);
              decided_device_id = db_id_display (we_deps e) device_id;
              model = \<lparr>pd_device_id = to_bytes device_id, pd_name = pp_device_name pending,
                       pd_listen_on = None, pd_device_type_id = pp_device_type_id pending,
                       pd_paired_at = we_now e, pd_last_sync_at = None, pd_outbound = True,
                       pd_session_token = None, pd_node_id = None, pd_peer_session_token = None\<rparr>;
              s1 = s\<lparr>ws_paired := upsert_paired (ws_paired s) model\<rparr>
          in case set_token (ws_paired s1) session_token node_id (to_bytes device_id) of
               Inl m \<Rightarrow> (s1, Inl (ClaimDb (we_sql_error e m)))
             | Inr rows \<Rightarrow>
                 let s2 = s1\<lparr>ws_paired := rows\<rparr>;
                     s3 = update_pending s2 (pending\<lparr>pp_status_id := Some (status_id e Approved)\<rparr>);
                     s4 = decide e s3 node_id ''approved'' session_token (Some decided_device_id)
                 in (s4, Inr \<lparr>ca_device_id = decided_device_id, ca_session_token = session_token\<rparr>))"

definition reject_claim ::
  "'db wire_env \<Rightarrow> 'db wire_state \<Rightarrow> string \<Rightarrow> 'db wire_state \<times> (unit, claim_error) result" where
  "reject_claim e s node_id =
     (case find_pending s node_id of
        None \<Rightarrow> (s, Inl (UnknownClaim node_id))
      | Some pending \<Rightarrow>
          let decided_device_id = map_option (db_id_display (we_deps e)) (pp_device_id pending);
              s1 = update_pending s (pending\<lparr>pp_status_id := Some (status_id e Rejected)\<rparr>)
          in (decide e s1 node_id ''rejected'' [] decided_device_id, Inr ()))"

definition pending_claims :: "'db wire_env \<Rightarrow> 'db wire_state \<Rightarrow> pending_claim list" where
  "pending_claims e s =
     map (\<lambda>r. \<lparr>pc_node_id = pp_token r,
               pc_device_id = map_option (db_id_display (we_deps e)) (pp_device_id r),
               pc_name = pp_device_name r\<rparr>)
       (filter (\<lambda>r. pp_status_id r = Some (status_id e Pending)) (ws_pending s))"

definition set_device_type :: "'db wire_env \<Rightarrow> 'db wire_state \<Rightarrow> db_id \<Rightarrow> string \<Rightarrow> 'db wire_state" where
  "set_device_type e s device tag =
     (let type_id = device_type_id (we_parts e) (we_hash e) (from_tag (we_lower e) tag) in
      s\<lparr>ws_paired := map (\<lambda>r. if pd_device_id r = to_bytes device
                              then r\<lparr>pd_device_type_id := Some type_id\<rparr> else r) (ws_paired s)\<rparr>)"

definition parse_id :: "deps \<Rightarrow> string \<Rightarrow> db_id option" where
  "parse_id d raw = or_else (ok (db_id_from_str d raw)) (ok (from_hex d raw))"

section \<open>Offers\<close>

definition no_file :: claim_error where
  "no_file = NoFile ''this edition has no file to send''"

text \<open>The file an edition has to send, with its inventory row, or why it has none.\<close>

definition offered_file ::
  "'db wire_env \<Rightarrow> 'db wire_state \<Rightarrow> db_id \<Rightarrow> (inventory_row \<times> string, claim_error) result" where
  "offered_file e s edition_id =
     result_bind (ok_or no_file (we_inventory_of e (tables (ws_store s)) edition_id)) (\<lambda>inventory.
     result_bind (ok_or no_file (iv_file_path inventory)) (\<lambda>path.
       if \<not> is_file e path then Inl (NoFile ''the book file is missing from disk'')
       else Inr (inventory, path)))"

definition offer_payload ::
  "'db wire_env \<Rightarrow> 'db wire_state \<Rightarrow> db_id \<Rightarrow> db_id \<Rightarrow> edition_row \<Rightarrow> inventory_row \<Rightarrow> string \<Rightarrow> string \<Rightarrow> json"
  where
  "offer_payload e s device_id edition_id edition inventory path work_title =
     (let d = we_deps e;
          title = (case er_title edition of
                     Some t \<Rightarrow> if trim t = [] then work_title else t | None \<Rightarrow> work_title);
          authors = sort (we_authors e (tables (ws_store s)) (er_work_id edition))
      in json_obj
        [(''offer_id'', JString (we_ulid e)),
         (''inventory_id'', JString (to_hex d (iv_id inventory))),
         (''edition_id'', JString (to_hex d edition_id)),
         (''work_id'', JString (to_hex d (er_work_id edition))),
         (''to_device_id'', JString (db_id_display d device_id)),
         (''title'', JString title),
         (''authors'', JArray (map JString authors)),
         (''file_name'', JString (case we_file_name e path of Some n \<Rightarrow> n | None \<Rightarrow> ''book'')),
         (''file_size_bytes'', case iv_file_size_bytes inventory of Some n \<Rightarrow> JInt n | None \<Rightarrow> JNull),
         (''file_hash'', opt_str (iv_file_hash inventory)),
         (''has_cover'', JBool (case iv_cover_path inventory of Some p \<Rightarrow> is_file e p | None \<Rightarrow> False))])"

definition offer_row :: "'db wire_env \<Rightarrow> 'db wire_state \<Rightarrow> string \<Rightarrow> json \<Rightarrow> log_row" where
  "offer_row e s inventory_id payload =
     \<lparr>lr_id = 0, lr_entity_type = ''file_offer'', lr_entity_id = inventory_id, lr_operation = ''OFFER'',
      lr_version = max_version (ws_store s) + 1, lr_payload = json_to_string (we_deps e) payload,
      lr_changed_at = sql_now (we_sqlite e), lr_device_id = Some (ws_device_id s)\<rparr>"

text \<open>The statements that touch the catalog rows; their triggers log the rows.\<close>

definition touch_statements :: "db_id \<Rightarrow> db_id \<Rightarrow> (string \<times> sql_value list) list" where
  "touch_statements inventory_id edition_id =
     [(''UPDATE digital_inventory SET updated_at = datetime('' @ [CHR 0x27] @ ''now'' @ [CHR 0x27] @
         '') WHERE id = ?'', [SqlBytes (Some (to_bytes inventory_id))]),
      (''UPDATE editions SET updated_at = datetime('' @ [CHR 0x27] @ ''now'' @ [CHR 0x27] @
         '') WHERE id = ?'', [SqlBytes (Some (to_bytes edition_id))]),
      (''UPDATE works SET updated_at = datetime('' @ [CHR 0x27] @ ''now'' @ [CHR 0x27] @
         '') WHERE id = (SELECT work_id FROM editions WHERE id = ?)'',
       [SqlBytes (Some (to_bytes edition_id))])]"

fun run_touches ::
  "'db sqlite \<Rightarrow> 'db store \<Rightarrow> (string \<times> sql_value list) list \<Rightarrow> 'db store \<times> (unit, sync_error) result" where
  "run_touches q store [] = (store, Inr ())"
| "run_touches q store ((sql, vals) # rest) =
     (case execute_raw q store sql vals of
        Inl x \<Rightarrow> (store, Inl x)
      | Inr store' \<Rightarrow> run_touches q store' rest)"

text \<open>The checks before anything is written.\<close>

definition offer_checks ::
  "'db wire_env \<Rightarrow> 'db wire_state \<Rightarrow> string \<Rightarrow> string \<Rightarrow> (db_id \<times> inventory_row \<times> json, claim_error) result"
  where
  "offer_checks e s edition_id device_id =
     (let d = we_deps e; db = tables (ws_store s) in
      result_bind (ok_or (InvalidDevice device_id) (parse_id d device_id)) (\<lambda>device.
      result_bind (ok_or (InvalidEdition edition_id) (parse_id d edition_id)) (\<lambda>eid.
      if find_paired s (to_bytes device) = None then Inl (NotPaired (db_id_display d device))
      else
      result_bind (ok_or (InvalidEdition (db_id_display d eid)) (we_edition e db eid)) (\<lambda>edition.
      result_bind (offered_file e s eid) (\<lambda>(inventory, path).
      result_bind (ok_or (InvalidEdition (db_id_display d eid))
                     (we_work_title e db (er_work_id edition))) (\<lambda>title.
        Inr (eid, inventory, offer_payload e s device eid edition inventory path title)))))))"

definition offer_book ::
  "'db wire_env \<Rightarrow> 'db wire_state \<Rightarrow> string \<Rightarrow> string \<Rightarrow> 'db wire_state \<times> (created_offer, claim_error) result"
  where
  "offer_book e s edition_id device_id =
     (case offer_checks e s edition_id device_id of
        Inl x \<Rightarrow> (s, Inl x)
      | Inr (eid, inventory, payload) \<Rightarrow>
          let d = we_deps e; inventory_id = to_hex d (iv_id inventory) in
          (case insert_log (ws_store s) (offer_row e s inventory_id payload) of
             Inl x \<Rightarrow>
               (s, Inl (ClaimDb (''could not record the file offer: '' @ we_sql_error e (sync_error_text d x))))
           | Inr store1 \<Rightarrow>
              (case run_touches (we_sqlite e) store1 (touch_statements (iv_id inventory) eid) of
                 (store2, Inl x) \<Rightarrow>
                   (s\<lparr>ws_store := store2\<rparr>,
                    Inl (ClaimDb (''could not stage the book metadata: '' @ we_sql_error e (sync_error_text d x))))
               | (store2, Inr _) \<Rightarrow>
                   (s\<lparr>ws_store := store2\<rparr>,
                    Inr \<lparr>co_offer_id = we_ulid e, co_inventory_id = inventory_id\<rparr>))))"

end
