(* ===== verification/PushCorrect.thy ===== *)
theory PushCorrect
  imports SyncEngine
begin

text \<open>
  Correctness of pushing: what a push does to the log, the business tables and the conflicts,
  that it is atomic, that it keeps the store well-formed, and that replaying an accepted push
  changes nothing. The step of the push loop meets two contracts of the prelude (an invariant
  and a preorder); the batch facts are their consequences.
\<close>

section \<open>The step of the loop\<close>

lemma push_step_cases:
  assumes "push_step d q (s, cs) c = Inr st"
  obtains
    (replay) "seen s c" "st = (s, cs)"
  | (conflict) r where "\<not> seen s c" "latest_row q s (ch_entity_type c) (ch_entity_id c) = Some r"
      "push_conflicts r c"
      "fst st = insert_conflict q s (ch_entity_type c) (ch_entity_id c) (lr_payload r) (ch_payload c)"
      "snd st = cs @ (case fetch_conflict (fst st) (ch_entity_type c) (ch_entity_id c) of
                        Some x \<Rightarrow> [x] | None \<Rightarrow> [])"
  | (accept) s1 where "\<not> seen s c"
      "\<And>r. latest_row q s (ch_entity_type c) (ch_entity_id c) = Some r \<Longrightarrow> \<not> push_conflicts r c"
      "dispatch_apply d q s c = Inr s1"
      "insert_log s1 (remote_row q c (to_ascii_uppercase (ch_operation c))) = Inr (fst st)"
      "snd st = cs"
  using assms by (auto simp: push_step_def Let_def split: if_splits option.splits)

lemma push_step_registered:
  "push_step d q (s, cs) c = Inr st \<Longrightarrow> entity_type_to_table (ch_entity_type c) \<noteq> None"
  by (auto simp: push_step_def split: if_splits)

lemma dispatch_apply_suppressed:
  assumes "\<not> GUARD s" "dispatch_apply d q s c = Inr s1"
  obtains db where "s1 = s\<lparr>tables := db\<rparr>"
  using assms(2)
  by (elim dispatch_apply_executes)
     (auto simp: execute_raw_suppressed [OF assms(1)] split: sum.splits intro: that)

lemma remote_row_identity [simp]:
  "row_identity (remote_row q c (to_ascii_uppercase (ch_operation c))) = push_identity c"
  by (simp add: row_identity_def remote_row_def push_identity_def)

lemma seen_cong: "change_log s' = change_log s \<Longrightarrow> seen s' c = seen s c"
  by (simp add: seen_def)

lemma GUARD_cong: "client_settings s' = client_settings s \<Longrightarrow> GUARD s' = GUARD s"
  by (simp add: GUARD_def)

lemma store_wf_tables [simp]: "store_wf (s\<lparr>tables := db\<rparr>) = store_wf s"
  by (simp add: store_wf_def log_wf_def conflicts_wf_def)

text \<open>The invariant: the store is well-formed and the triggers are silenced.\<close>

fun push_inv :: "'db store \<times> conflict list \<Rightarrow> bool" where
  "push_inv (s, cs) \<longleftrightarrow> store_wf s \<and> \<not> GUARD s"

lemma insert_log_store_wf: "store_wf s \<Longrightarrow> insert_log s r = Inr s' \<Longrightarrow> store_wf s'"
  using insert_log_frame(1,2) [of s r s']
  by (auto simp: store_wf_def conflicts_wf_def intro: insert_log_wf)

lemma push_step_inv:
  assumes "push_inv st" "push_step d q st c = Inr st'"
  shows "push_inv st'"
proof -
  obtain s cs s' cs' where [simp]: "st = (s, cs)" "st' = (s', cs')" by (cases st, cases st')
  from assms(1) have wf: "store_wf s" "\<not> GUARD s" by auto
  from assms(2) [simplified] show ?thesis
  proof (cases rule: push_step_cases)
    case replay
    with wf show ?thesis by simp
  next
    case (conflict r)
    with wf show ?thesis
      by (auto simp: store_wf_def insert_conflict_wf log_wf_def GUARD_def)
  next
    case (accept s1)
    from wf(2) accept(3) obtain db where s1: "s1 = s\<lparr>tables := db\<rparr>"
      by (rule dispatch_apply_suppressed)
    then have "store_wf s1" using wf(1) by simp
    with accept(4) have "store_wf s'" by (auto intro: insert_log_store_wf)
    with s1 wf(2) insert_log_frame(3) [OF accept(4)] show ?thesis by (simp add: GUARD_def)
  qed
qed

interpretation push_keeps: keeps_invariant "push_step d q" push_inv for d q
  by unfold_locales (rule push_step_inv)

text \<open>The preorder: the log, the conflicts and the reported conflicts only grow, the settings stay.\<close>

fun push_le :: "'db store \<times> conflict list \<Rightarrow> 'db store \<times> conflict list \<Rightarrow> bool" where
  "push_le (s, cs) (s', cs') \<longleftrightarrow>
     prefix (change_log s) (change_log s') \<and> prefix (conflicts s) (conflicts s')
     \<and> client_settings s' = client_settings s \<and> prefix cs cs'"

lemma dispatch_apply_extends: "dispatch_apply d q s c = Inr s1 \<Longrightarrow> log_extends s s1"
  by (elim dispatch_apply_executes execute_raw_extends)

lemma push_step_le:
  assumes "push_step d q st c = Inr st'"
  shows "push_le st st'"
proof -
  obtain s cs s' cs' where [simp]: "st = (s, cs)" "st' = (s', cs')" by (cases st, cases st')
  from assms [simplified] show ?thesis
  proof (cases rule: push_step_cases)
    case (conflict r)
    then show ?thesis by (auto simp: insert_conflict_def)
  next
    case (accept s1)
    with dispatch_apply_extends [OF accept(3)] insert_log_frame [OF accept(4)] show ?thesis
      by (auto simp: log_extends_def)
  qed simp
qed

interpretation push_grows: ordered_step "push_step d q" push_le for d q
proof unfold_locales
  fix s t u :: "'a store \<times> conflict list"
  show "push_le s s" by (cases s) simp
  show "push_le s t \<Longrightarrow> push_le t u \<Longrightarrow> push_le s u"
    by (cases s, cases t, cases u) (auto intro: prefix_order.trans)
qed (rule push_step_le)

lemma seen_mono: "prefix (change_log s) (change_log s') \<Longrightarrow> seen s c \<Longrightarrow> seen s' c"
  by (auto simp: seen_def dest: set_mono_prefix)

section \<open>Batches\<close>

text \<open>A change that raised no conflict is in the log afterwards.\<close>

lemma push_step_seen:
  assumes "push_inv (s, cs)" "push_step d q (s, cs) c = Inr (s', cs)"
  shows "seen s' c"
  using assms(2)
proof (cases rule: push_step_cases)
  case (conflict r)
  have "conflicts_wf s" using assms(1) by (simp add: store_wf_def)
  from conflict fetch_insert_conflict [OF this] show ?thesis by simp
next
  case (accept s1)
  from insert_log_frame(5) [OF accept(4)] have
    "\<exists>r. r \<in> set (change_log s') \<and> row_identity r = row_identity (remote_row q c (to_ascii_uppercase (ch_operation c)))"
    by (auto simp: row_identity_def)
  then show ?thesis by (auto simp: seen_def)
qed simp

lemma push_fold_seen:
  assumes "try_fold (push_step d q) (s, cs) xs = Inr (s', cs)" "push_inv (s, cs)"
  shows "\<forall>c \<in> set xs. seen s' c \<and> entity_type_to_table (ch_entity_type c) \<noteq> None"
  using assms
proof (induction xs arbitrary: s)
  case Nil
  then show ?case by simp
next
  case (Cons c xs)
  then obtain s1 cs1 where step: "push_step d q (s, cs) c = Inr (s1, cs1)"
    and rest: "try_fold (push_step d q) (s1, cs1) xs = Inr (s', cs)" by auto
  have le: "push_le (s, cs) (s1, cs1)" "push_le (s1, cs1) (s', cs)"
    using push_step_le [OF step] push_grows.run_rel [OF rest] by auto
  then have [simp]: "cs1 = cs" by (auto dest: prefix_order.antisym)
  have "seen s1 c" using push_step_seen Cons.prems(2) step by simp
  then have "seen s' c" using le(2) by (auto intro: seen_mono)
  moreover have "push_inv (s1, cs)"
    using push_step_inv [OF Cons.prems(2) step] by (simp del: push_inv.simps)
  ultimately show ?case using Cons.IH [of s1] rest push_step_registered [OF step] by simp
qed

lemma push_fold_replay:
  "(\<And>c. c \<in> set xs \<Longrightarrow> seen s c \<and> entity_type_to_table (ch_entity_type c) \<noteq> None) \<Longrightarrow>
   try_fold (push_step d q) (s, cs) xs = Inr (s, cs)"
  by (induction xs) (simp_all add: push_step_def)

lemma flag_simps [simp]:
  "change_log (set_apply_flag s) = change_log s" "conflicts (set_apply_flag s) = conflicts s"
  "tables (set_apply_flag s) = tables s"
  "change_log (clear_apply_flag s) = change_log s" "conflicts (clear_apply_flag s) = conflicts s"
  "tables (clear_apply_flag s) = tables s"
  "\<not> GUARD (set_apply_flag s)"
  "store_wf (set_apply_flag s) = store_wf s" "store_wf (clear_apply_flag s) = store_wf s"
  "clear_apply_flag (set_apply_flag (clear_apply_flag s)) = clear_apply_flag s"
  "client_settings (clear_apply_flag s) ''sync_apply'' = None"
  by (simp_all add: set_apply_flag_def clear_apply_flag_def GUARD_def store_wf_def log_wf_def
      conflicts_wf_def fun_upd_idem)

lemma push_changes_Inr:
  assumes "push_changes d q s xs = (s', Inr r)"
  obtains s1 where "try_fold (push_step d q) (set_apply_flag s, []) xs = Inr (s1, ps_conflicts r)"
    "s' = clear_apply_flag s1" "ps_accepted r \<longleftrightarrow> ps_conflicts r = []"
    "ps_latest_version r = get_latest_version s'"
  using assms by (auto simp: push_changes_def Let_def split: sum.splits)

lemma push_changes_store_wf:
  assumes "store_wf s"
  shows "store_wf (fst (push_changes d q s xs))"
proof (cases "push_changes d q s xs")
  case (Pair s' r)
  show ?thesis
  proof (cases r)
    case (Inl x)
    with Pair assms show ?thesis by (auto simp: push_changes_def Let_def split: sum.splits prod.splits)
  next
    case (Inr resp)
    from Pair [unfolded Inr] obtain s1
      where run: "try_fold (push_step d q) (set_apply_flag s, []) xs = Inr (s1, ps_conflicts resp)"
        and s': "s' = clear_apply_flag s1" by (rule push_changes_Inr)
    from push_keeps.run_inv [OF run] assms have "store_wf s1" by simp
    with Pair s' show ?thesis by simp
  qed
qed

section \<open>Properties\<close>

text \<open>C2: replaying a push that was accepted without conflict changes nothing: the second push
  leaves the log, the conflicts and every business table as they are and gives the same
  response.\<close>

theorem push_replay_idempotent:
  assumes "store_wf s" "push_changes d q s xs = (s', Inr r)" "ps_accepted r"
  shows "push_changes d q s' xs = (s', Inr r)"
proof -
  from assms(2) obtain s1 where run: "try_fold (push_step d q) (set_apply_flag s, []) xs = Inr (s1, ps_conflicts r)"
    and r: "s' = clear_apply_flag s1" "ps_accepted r \<longleftrightarrow> ps_conflicts r = []"
      "ps_latest_version r = get_latest_version s'"
    by (rule push_changes_Inr)
  from assms(3) r(2) have [simp]: "ps_conflicts r = []" by simp
  have "\<forall>c \<in> set xs. seen s1 c \<and> entity_type_to_table (ch_entity_type c) \<noteq> None"
    using push_fold_seen [OF run [simplified]] assms(1) by simp
  then have "try_fold (push_step d q) (set_apply_flag s', []) xs = Inr (set_apply_flag s', [])"
    by (intro push_fold_replay) (simp add: r(1) seen_cong [of "set_apply_flag (clear_apply_flag s1)" s1])
  then show ?thesis
    using r assms(3) by (cases r) (simp add: push_changes_def Let_def)
qed

text \<open>Pushing keeps the store well-formed (increasing keys, unique remote identities) and always
  ends with the triggers enabled again.\<close>

theorem push_keeps_store_wf:
  assumes "store_wf s" "push_changes d q s xs = (s', Inr r)"
  shows "store_wf s' \<and> client_settings s' ''sync_apply'' = None"
  using push_changes_store_wf [OF assms(1), of d q xs] assms(2)
  by (auto elim: push_changes_Inr)

text \<open>A push is atomic: one change of an unregistered entity type anywhere in the batch makes the
  whole push fail, and the store is the one before the push.\<close>

theorem push_unknown_type_rolls_back:
  assumes "c \<in> set xs" "entity_type_to_table (ch_entity_type c) = None"
  shows "\<exists>e. push_changes d q s xs = (s, Inl e)"
proof -
  have "try_fold (push_step d q) st xs \<noteq> Inr st'" for st st'
    using assms
  proof (induction xs arbitrary: st)
    case (Cons x xs)
    then show ?case
      by (cases st) (auto dest: push_step_registered)
  qed simp
  then show ?thesis
    by (auto simp: push_changes_def split: sum.splits)
qed

text \<open>The rows a run of the loop adds to the log.\<close>

lemma push_fold_log:
  assumes "try_fold (push_step d q) (s, cs) xs = Inr (s1, cs1)" "push_inv (s, cs)"
  shows "\<exists>new ys. change_log s1 = change_log s @ new \<and> subseq ys xs
      \<and> map row_identity new = map push_identity ys \<and> distinct (map row_identity new)
      \<and> row_identity ` set new \<inter> row_identity ` set (change_log s) = {}
      \<and> length new + length cs1 \<le> length cs + length xs"
  using assms
proof (induction xs arbitrary: s cs)
  case Nil
  then show ?case by simp
next
  case (Cons c xs)
  then obtain s2 cs2 where step: "push_step d q (s, cs) c = Inr (s2, cs2)"
    and rest: "try_fold (push_step d q) (s2, cs2) xs = Inr (s1, cs1)" by auto
  have "push_inv (s2, cs2)" by (rule push_step_inv [OF Cons.prems(2) step])
  from Cons.IH [OF rest this] obtain new ys where IH: "change_log s1 = change_log s2 @ new"
    "subseq ys xs" "map row_identity new = map push_identity ys" "distinct (map row_identity new)"
    "row_identity ` set new \<inter> row_identity ` set (change_log s2) = {}"
    "length new + length cs1 \<le> length cs2 + length xs" by blast
  from step show ?case
  proof (cases rule: push_step_cases)
    case replay
    with IH show ?thesis by (intro exI [of _ new] exI [of _ ys]) auto
  next
    case (conflict r)
    then have "length cs2 \<le> length cs + 1" by (auto split: option.splits)
    with conflict IH show ?thesis by (intro exI [of _ new] exI [of _ ys]) auto
  next
    case (accept sx)
    from Cons.prems(2) have "\<not> GUARD s" by simp
    from this accept(3) obtain db where "sx = s\<lparr>tables := db\<rparr>" by (rule dispatch_apply_suppressed)
    with insert_log_frame(5) [OF accept(4)] obtain row where
      row: "change_log s2 = change_log s @ [row]" "row_identity row = push_identity c"
      by (auto simp: row_identity_def remote_row_def push_identity_def)
    moreover from accept(1) have "push_identity c \<notin> row_identity ` set (change_log s)"
      by (auto simp: seen_def)
    moreover have "row_identity ` set new = push_identity ` set ys"
      using IH(3) by (metis list.set_map)
    ultimately show ?thesis using accept IH
      by (intro exI [of _ "row # new"] exI [of _ "c # ys"]) auto
  qed
qed

text \<open>The log after a push is the log before it followed by one row for each accepted change, in
  batch order, with the change's identity: no audit trigger adds a row of its own, no identity is
  logged twice, and the other changes were replays or conflicts.\<close>

theorem push_logs_accepted_changes:
  assumes "store_wf s" "push_changes d q s xs = (s', Inr r)"
  shows "\<exists>new ys. change_log s' = change_log s @ new \<and> subseq ys xs
           \<and> map row_identity new = map push_identity ys \<and> distinct (map row_identity new)
           \<and> length new + length (ps_conflicts r) \<le> length xs"
proof -
  from assms(2) obtain s1 where
    run: "try_fold (push_step d q) (set_apply_flag s, []) xs = Inr (s1, ps_conflicts r)"
    and s': "s' = clear_apply_flag s1" by (rule push_changes_Inr)
  from push_fold_log [OF run] assms(1) show ?thesis by (auto simp: s')
qed

text \<open>C8: a pushed change never overwrites newer local state: when the log holds a later version of
  the entity, the push leaves the business tables and the log alone, records both payloads as an
  unresolved conflict, and reports exactly that conflict.\<close>

theorem push_conflict_keeps_local:
  assumes "order_ok (sql_order_by q)" "store_wf s" "\<not> seen s c"
    "entity_type_to_table (ch_entity_type c) \<noteq> None"
    "r \<in> set (change_log s)" "of_entity (ch_entity_type c) (ch_entity_id c) r"
    "lr_version r > ch_version c"
  shows "\<exists>s' x res. push_changes d q s [c] = (s', Inr res)
    \<and> change_log s' = change_log s \<and> tables s' = tables s \<and> conflicts s' = conflicts s @ [x]
    \<and> \<not> ps_accepted res \<and> ps_conflicts res = [x] \<and> \<not> cf_resolved x
    \<and> cf_entity_type x = ch_entity_type c \<and> cf_entity_id x = ch_entity_id c
    \<and> cf_remote_payload x = ch_payload c
    \<and> (\<exists>l \<in> set (change_log s). of_entity (ch_entity_type c) (ch_entity_id c) l
          \<and> lr_version l \<ge> lr_version r \<and> cf_local_payload x = lr_payload l)"
proof -
  let ?t = "ch_entity_type c" and ?i = "ch_entity_id c" and ?s = "set_apply_flag s"
  obtain l where l: "latest_row q ?s ?t ?i = Some l"
    using latest_row_None [OF assms(1), of ?s ?t ?i] assms(5,6) by (cases "latest_row q ?s ?t ?i") auto
  note latest = latest_row_Some [OF assms(1) l]
  have ver: "lr_version l \<ge> lr_version r" using latest(3) assms(5,6) by simp
  then have conf: "push_conflicts l c" using assms(7) by (simp add: push_conflicts_def)
  have wf: "conflicts_wf ?s" using assms(2) by (simp add: store_wf_def set_apply_flag_def conflicts_wf_def)
  let ?s' = "insert_conflict q ?s ?t ?i (lr_payload l) (ch_payload c)"
  have "push_step d q (?s, []) c =
    Inr (?s', [\<lparr>cf_id = conflict_seq ?s + 1, cf_entity_type = ?t, cf_entity_id = ?i,
      cf_local_payload = lr_payload l, cf_remote_payload = ch_payload c, cf_resolved = False,
      cf_resolution = None, cf_merged_payload = None, cf_detected_at = sql_now q\<rparr>])"
    using assms(3,4) l conf fetch_insert_conflict [OF wf, of q ?t ?i]
    by (auto simp: push_step_def seen_cong [of ?s s] Let_def)
  with latest(1,2) ver show ?thesis
    by (auto simp: push_changes_def insert_conflict_def Let_def)
qed

section \<open>Evaluation on concrete pushes\<close>

abbreviation "demo_deps \<equiv> ref_deps (\<lambda>_. Inl ''expected value'')"

definition demo_store :: "(string \<times> sql_value list) list store" where
  "demo_store = empty_store
     \<lparr>change_log := [\<lparr>lr_id = 1, lr_entity_type = ''work'', lr_entity_id = ref_hex_encode ''AAAAAAAAAAAAAAAA'',
        lr_operation = ''DELETE'', lr_version = 3, lr_payload = [], lr_changed_at = ''now'',
        lr_device_id = Some ''phone''\<rparr>],
      log_seq := 1,
      tables := [(''DELETE FROM works WHERE id = ?'', [SqlBytes (Some ''AAAAAAAAAAAAAAAA'')])]\<rparr>"

lemma demo_dispatch:
  "dispatch_apply demo_deps ref_sqlite s demo_change =
     execute_raw ref_sqlite s ''DELETE FROM works WHERE id = ?'' [SqlBytes (Some ''AAAAAAAAAAAAAAAA'')]"
  by (simp add: entity_of_def works_entity_def entity_type_to_table_def upper_delete
      dispatch_apply_def apply_one_def delete_values_def resolve_primary_keys_def resolve_key_def
      column_type_of_def json_to_sql_def blob_type_def from_wire_def from_hex_def
      ref_hex_decode_encode delete_sql_def)

lemma demo_push:
  "push_changes demo_deps ref_sqlite empty_store [demo_change] =
     (demo_store, Inr \<lparr>ps_accepted = True, ps_conflicts = [], ps_latest_version = 3\<rparr>)"
proof -
  let ?s = "set_apply_flag empty_store"
  have "push_step demo_deps ref_sqlite (?s, []) demo_change = Inr (set_apply_flag demo_store, [])"
    by (simp add: push_step_def demo_dispatch seen_def latest_row_def execute_raw_suppressed
        rowid_order_def insert_log_def remote_row_def entity_type_to_table_def upper_delete)
       (simp add: demo_store_def empty_store_def set_apply_flag_def)
  then show ?thesis
    by (simp add: push_changes_def Let_def get_latest_version_def max_version_def)
       (simp add: demo_store_def empty_store_def set_apply_flag_def clear_apply_flag_def)
qed

lemma empty_store_wf [simp]: "store_wf empty_store"
  by (simp add: empty_store_def store_wf_def log_wf_def conflicts_wf_def)

lemma demo_store_wf [simp]: "store_wf demo_store"
  by (simp add: demo_store_def empty_store_def store_wf_def log_wf_def conflicts_wf_def)

theorem push_replay_idempotent_witness:
  "push_changes demo_deps ref_sqlite demo_store [demo_change] =
     (demo_store, Inr \<lparr>ps_accepted = True, ps_conflicts = [], ps_latest_version = 3\<rparr>)"
  by (rule push_replay_idempotent [OF empty_store_wf demo_push]) simp

theorem push_keeps_store_wf_witness:
  "store_wf demo_store \<and> client_settings demo_store ''sync_apply'' = None"
  by (rule push_keeps_store_wf [OF empty_store_wf demo_push])

theorem push_unknown_type_rolls_back_witness:
  "\<exists>e. push_changes demo_deps ref_sqlite empty_store
     [demo_change, demo_change\<lparr>ch_entity_type := ''bookmark''\<rparr>] = (empty_store, Inl e)"
  by (rule push_unknown_type_rolls_back [where c = "demo_change\<lparr>ch_entity_type := ''bookmark''\<rparr>"])
     (simp_all add: entity_type_to_table_def)

theorem push_logs_accepted_changes_witness:
  "\<exists>new ys. change_log demo_store = change_log empty_store @ new \<and> subseq ys [demo_change]
     \<and> map row_identity new = map push_identity ys \<and> distinct (map row_identity new)
     \<and> length new + length ([] :: conflict list) \<le> length [demo_change]"
  using push_logs_accepted_changes [OF empty_store_wf demo_push] by simp

theorem push_conflict_keeps_local_witness:
  "\<exists>s' x res. push_changes demo_deps ref_sqlite demo_store [demo_change\<lparr>ch_version := 2\<rparr>] = (s', Inr res)
     \<and> change_log s' = change_log demo_store \<and> ps_conflicts res = [x]"
proof -
  let ?c = "demo_change\<lparr>ch_version := 2\<rparr>"
  have "\<not> seen demo_store ?c" "hd (change_log demo_store) \<in> set (change_log demo_store)"
    "of_entity (ch_entity_type ?c) (ch_entity_id ?c) (hd (change_log demo_store))"
    "lr_version (hd (change_log demo_store)) > ch_version ?c"
    "entity_type_to_table (ch_entity_type ?c) \<noteq> None" "order_ok (sql_order_by ref_sqlite)"
    by (simp_all add: demo_store_def seen_def row_identity_def push_identity_def of_entity_def
        entity_type_to_table_def)
  then show ?thesis
    using push_conflict_keeps_local [of ref_sqlite demo_store ?c "hd (change_log demo_store)" demo_deps]
      demo_store_wf by blast
qed

end
