(* ===== verification/PullCorrect.thy ===== *)
theory PullCorrect
  imports PushCorrect
begin

text \<open>
  Correctness of pulling: what one page of changes holds, when the pages are complete, the two
  ways a change escapes every page, and the shape of the full dump.
\<close>

section \<open>One page\<close>

text \<open>The rows a pull after \<open>since\<close> should deliver, in delivery order.\<close>

definition pending_rows :: "'db sqlite \<Rightarrow> 'db store \<Rightarrow> int \<Rightarrow> log_row list" where
  "pending_rows q s since = sql_order_by q lr_version (filter (\<lambda>r. lr_version r > since) (change_log s))"

definition has_device :: "'db store \<Rightarrow> bool" where
  "has_device s \<longleftrightarrow> (\<forall>r \<in> set (change_log s). lr_device_id r \<noteq> None)"

lemma pending_set:
  "order_ok (sql_order_by q) \<Longrightarrow>
   set (pending_rows q s since) = {r \<in> set (change_log s). lr_version r > since}"
  by (simp add: pending_rows_def order_set)

lemma pending_sorted: "order_ok (sql_order_by q) \<Longrightarrow> sorted (map lr_version (pending_rows q s since))"
  by (simp add: pending_rows_def order_sorted)

lemma map_filter_all_Some:
  "(\<And>x. x \<in> set xs \<Longrightarrow> f x \<noteq> None) \<Longrightarrow> List.map_filter f xs = map (the \<circ> f) xs"
  by (induction xs) (auto simp: List.map_filter_simps split: option.splits)

lemma pull_page:
  assumes "order_ok (sql_order_by q)" "has_device s" "0 \<le> limit"
  shows "pr_changes (pull_changes q s since limit) =
    map (the \<circ> to_change) (take (nat limit) (pending_rows q s since))"
proof -
  have "to_change r \<noteq> None" if "r \<in> set (take (nat limit) (pending_rows q s since))" for r
  proof -
    from that have "r \<in> set (pending_rows q s since)" by (rule in_set_takeD)
    with assms(1,2) show ?thesis by (simp add: pending_set has_device_def to_change_def)
  qed
  with assms(3) show ?thesis
    by (simp add: pull_changes_def Let_def sql_limit_def map_filter_all_Some
        flip: pending_rows_def)
qed

lemma version_of_change:
  "to_change r = Some c \<Longrightarrow> ch_version c = lr_version r"
  by (auto simp: to_change_def)

definition distinct_versions :: "'db store \<Rightarrow> bool" where
  "distinct_versions s \<longleftrightarrow> distinct (map lr_version (change_log s))"

lemma sorted_mset_unique:
  assumes "mset xs = mset ys" "sorted (map f xs)" "sorted (map f ys)" "distinct (map f xs)"
  shows "xs = ys"
proof (rule map_inj_on)
  have "mset (map f xs) = mset (map f ys)" using assms(1) by simp
  then show "map f xs = map f ys" using assms(2,3) by (metis properties_for_sort)
  have "set xs = set ys" using assms(1) by (rule mset_eq_setD)
  then show "inj_on f (set xs \<union> set ys)" using assms(4) by (simp add: distinct_map)
qed

lemma pending_distinct:
  assumes "order_ok (sql_order_by q)" "distinct_versions s"
  shows "distinct (map lr_version (pending_rows q s since))"
proof -
  let ?f = "filter (\<lambda>r. lr_version r > since) (change_log s)"
  have "mset (pending_rows q s since) = mset ?f"
    using assms(1) by (simp add: order_ok_def pending_rows_def)
  then have "mset (map lr_version (pending_rows q s since)) = mset (map lr_version ?f)" by simp
  moreover have "distinct (map lr_version ?f)"
    using assms(2) by (simp add: distinct_versions_def distinct_map_filter)
  ultimately show ?thesis by (metis mset_eq_imp_distinct_iff)
qed

lemma pending_mset:
  "order_ok (sql_order_by q) \<Longrightarrow>
   mset (pending_rows q s v) = filter_mset (\<lambda>r. lr_version r > v) (mset (change_log s))"
  by (simp add: order_ok_def pending_rows_def)

text \<open>Moving the cursor to the last version of a page leaves the rest of the pending rows.\<close>

lemma pending_advance:
  assumes "order_ok (sql_order_by q)" "distinct_versions s" "0 < n" "n \<le> length (pending_rows q s since)"
  shows "pending_rows q s (lr_version (pending_rows q s since ! (n - 1))) = drop n (pending_rows q s since)"
proof -
  let ?p = "pending_rows q s since" and ?v = "lr_version (pending_rows q s since ! (n - 1))"
  have strict: "sorted_wrt (<) (map lr_version ?p)"
    using pending_sorted [OF assms(1)] pending_distinct [OF assms(1,2)] by (simp add: strict_sorted_iff)
  have "since < ?v" using pending_set [OF assms(1)] assms(3,4) nth_mem [of "n - 1" ?p] by auto
  then have "mset (pending_rows q s ?v) = mset (filter (\<lambda>r. lr_version r > ?v) ?p)"
    unfolding mset_filter pending_mset [OF assms(1)] filter_filter_mset
    by (intro filter_mset_cong refl) auto
  also have "filter (\<lambda>r. lr_version r > ?v) ?p = drop n ?p"
  proof -
    have low: "\<not> ?v < lr_version r" if "r \<in> set (take n ?p)" for r
    proof -
      from that obtain k where "k < n" "r = ?p ! k" by (auto simp: in_set_conv_nth)
      moreover then have "k = n - 1 \<or> lr_version (?p ! k) < ?v"
        using strict assms(3,4) sorted_wrt_nth_less [of "(<)" "map lr_version ?p" k "n - 1"] by fastforce
      ultimately show ?thesis by auto
    qed
    have high: "?v < lr_version r" if "r \<in> set (drop n ?p)" for r
    proof -
      from that obtain k where "k < length (drop n ?p)" "r = drop n ?p ! k"
        by (metis in_set_conv_nth)
      then have "n + k < length ?p" "r = ?p ! (n + k)" by auto
      with strict assms(3) sorted_wrt_nth_less [of "(<)" "map lr_version ?p" "n - 1" "n + k"]
      show ?thesis by simp
    qed
    have "filter (\<lambda>r. lr_version r > ?v) (take n ?p @ drop n ?p) = drop n ?p"
      using low high by (simp del: append_take_drop_id add: filter_empty_conv filter_id_conv)
    then show ?thesis by simp
  qed
  finally have "mset (pending_rows q s ?v) = mset (drop n ?p)" .
  then show ?thesis
  proof (rule sorted_mset_unique)
    show "sorted (map lr_version (drop n ?p))"
      using pending_sorted [OF assms(1)] by (simp add: sorted_wrt_drop flip: drop_map)
  qed (rule pending_sorted [OF assms(1)], rule pending_distinct [OF assms(1,2)])
qed

lemma pull_latest_version:
  assumes "order_ok (sql_order_by q)" "has_device s" "0 < limit" "pending_rows q s since \<noteq> []"
  shows "pr_latest_version (pull_changes q s since limit) =
    lr_version (pending_rows q s since ! (min (nat limit) (length (pending_rows q s since)) - 1))"
proof -
  let ?p = "pending_rows q s since"
  let ?page = "take (nat limit) ?p"
  have page: "pr_changes (pull_changes q s since limit) = map (the \<circ> to_change) ?page"
    using assms(3) by (intro pull_page assms) simp
  have ne: "?page \<noteq> []" using assms(3,4) by simp
  have "last ?page \<in> set ?p" using ne by (meson in_set_takeD last_in_set)
  then have "to_change (last ?page) \<noteq> None"
    using assms(1,2) by (simp add: pending_set has_device_def to_change_def)
  then have "ch_version (the (to_change (last ?page))) = lr_version (last ?page)"
    by (auto intro: version_of_change)
  moreover have "last ?page = ?p ! (min (nat limit) (length ?p) - 1)"
    using assms(3) by (subst last_conv_nth [OF ne]) (simp add: min.commute nth_take [of "min _ _ - 1"] assms(4) less_nat_zero_code)
  moreover have "pr_latest_version (pull_changes q s since limit) =
      ch_version (last (pr_changes (pull_changes q s since limit)))"
    using page ne by (auto simp: pull_changes_def Let_def)
  ultimately show ?thesis using page ne by (simp add: last_map)
qed

text \<open>The cursor loop of a puller: ask for a page after the cursor, move the cursor to the page's
  latest version, stop at an empty page or one that says there is no more. The first argument
  bounds the number of pages.\<close>

fun page_walk :: "nat \<Rightarrow> 'db sqlite \<Rightarrow> 'db store \<Rightarrow> int \<Rightarrow> int \<Rightarrow> (sync_change list \<times> int) option" where
  "page_walk 0 q s limit since = None"
| "page_walk (Suc n) q s limit since =
     (let p = pull_changes q s since limit in
      if pr_changes p = [] then Some ([], since)
      else if pr_has_more p then
        map_option (\<lambda>(cs, v). (pr_changes p @ cs, v)) (page_walk n q s limit (pr_latest_version p))
      else Some (pr_changes p, pr_latest_version p))"

text \<open>C6: when the versions in the log are distinct, the page walk ends, and it delivers every change
  above the cursor exactly once, in version order, whatever the page size; the final cursor is
  the greatest version in the log, or the initial cursor if nothing was pending. The number of
  pages needed is at most one more than the number of pending changes.\<close>

theorem page_walk_complete:
  assumes "order_ok (sql_order_by q)" "distinct_versions s" "has_device s" "0 < limit"
    "length (pending_rows q s since) < fuel"
  shows "page_walk fuel q s limit since =
    Some (map (the \<circ> to_change) (pending_rows q s since),
          if pending_rows q s since = [] then since else lr_version (last (pending_rows q s since)))"
  using assms(5)
proof (induction fuel arbitrary: since)
  case 0
  then show ?case by simp
next
  case (Suc n)
  let ?p = "pending_rows q s since" and ?l = "nat limit"
  have page: "pr_changes (pull_changes q s since limit) = map (the \<circ> to_change) (take ?l ?p)"
    using assms(4) by (intro pull_page assms(1,3)) simp
  have more: "pr_has_more (pull_changes q s since limit) \<longleftrightarrow> ?l \<le> length ?p"
  proof -
    have "pr_has_more (pull_changes q s since limit) \<longleftrightarrow>
        int (length (pr_changes (pull_changes q s since limit))) = limit"
      by (simp add: pull_changes_def Let_def)
    with page assms(4) show ?thesis by auto
  qed
  show ?case
  proof (cases "?p = []")
    case True
    with page show ?thesis by simp
  next
    case False
    note latest = pull_latest_version [OF assms(1,3,4) False]
    show ?thesis
    proof (cases "?l \<le> length ?p")
      case True
      let ?v = "lr_version (?p ! (?l - 1))"
      have adv: "pending_rows q s ?v = drop ?l ?p"
        using assms(4) True by (intro pending_advance assms(1,2)) auto
      have "length (pending_rows q s ?v) < n" using adv Suc.prems assms(4) True by auto
      from Suc.IH [OF this] adv have walk: "page_walk n q s limit ?v =
          Some (map (the \<circ> to_change) (drop ?l ?p), if drop ?l ?p = [] then ?v else lr_version (last (drop ?l ?p)))"
        by simp
      have "(if drop ?l ?p = [] then ?v else lr_version (last (drop ?l ?p))) = lr_version (last ?p)"
        using False True by (auto simp: last_conv_nth [OF False])
      with page more latest True False walk assms(4) show ?thesis
        by (simp add: Let_def min_def flip: map_append)
    next
      case False
      with page more latest \<open>?p \<noteq> []\<close> show ?thesis
        by (simp add: Let_def last_conv_nth min_def)
    qed
  qed
qed

lemma demo_pending: "pending_rows ref_sqlite demo_store 0 = change_log demo_store"
  by (simp add: pending_rows_def demo_store_def rowid_order_def)

theorem page_walk_complete_witness:
  "page_walk 2 ref_sqlite demo_store 1 0 =
     Some (map (the \<circ> to_change) (change_log demo_store), 3)"
proof -
  have "distinct_versions demo_store" "has_device demo_store" "length (change_log demo_store) = 1"
    "change_log demo_store \<noteq> []" "lr_version (last (change_log demo_store)) = 3"
    by (simp_all add: demo_store_def distinct_versions_def has_device_def)
  with page_walk_complete [of ref_sqlite demo_store 1 0 2] show ?thesis
    by (simp add: demo_pending del: page_walk.simps)
qed

text \<open>A pull delivers only changes above the cursor, so a change that is pushed with a version at
  or below a puller's cursor is accepted and logged, and never reaches that puller.\<close>

theorem pushed_below_cursor_not_pulled:
  assumes "store_wf s" "push_changes d q s [c] = (s', Inr r)" "ps_accepted r" "ch_version c \<le> since"
    "order_ok (sql_order_by q)"
  shows "seen s' c \<and> (\<forall>p \<in> set (pr_changes (pull_changes q s' since limit)). push_identity p \<noteq> push_identity c)"
proof -
  from assms(2) obtain s1 where run: "try_fold (push_step d q) (set_apply_flag s, []) [c] = Inr (s1, ps_conflicts r)"
    and s': "s' = clear_apply_flag s1" "ps_accepted r \<longleftrightarrow> ps_conflicts r = []" by (rule push_changes_Inr)
  have "seen s' c"
    using push_fold_seen [of d q "set_apply_flag s" "[]" "[c]" s1] run assms(1,3) s'
    by (simp add: seen_cong [of "clear_apply_flag s1" s1])
  moreover have "ch_version p > since" if "p \<in> set (pr_changes (pull_changes q s' since limit))" for p
  proof -
    from that obtain row where "row \<in> set (sql_limit limit (pending_rows q s' since))" "to_change row = Some p"
      by (auto simp: pull_changes_def Let_def List.map_filter_def pending_rows_def)
    moreover then have "row \<in> set (pending_rows q s' since)"
      by (auto simp: sql_limit_def split: if_splits dest: in_set_takeD)
    ultimately show ?thesis using pending_set [OF assms(5)] version_of_change by auto
  qed
  ultimately show ?thesis using assms(4) by (fastforce simp: push_identity_def)
qed

theorem pushed_below_cursor_not_pulled_witness:
  "seen demo_store demo_change
   \<and> push_identity demo_change \<notin> push_identity ` set (pr_changes (pull_changes ref_sqlite demo_store 7 100))"
  using pushed_below_cursor_not_pulled [OF empty_store_wf demo_push, of 7 100] by force

text \<open>A log with a local edition at version 3, to which the work deletion of version 3 is pushed.\<close>

definition tie_store :: "(string \<times> sql_value list) list store" where
  "tie_store = empty_store
     \<lparr>change_log := [\<lparr>lr_id = 1, lr_entity_type = ''edition'', lr_entity_id = ''e'',
        lr_operation = ''INSERT'', lr_version = 3, lr_payload = ''{}'', lr_changed_at = ''now'',
        lr_device_id = Some ''local''\<rparr>],
      log_seq := 1\<rparr>"

text \<open>Versions in the log need not be distinct, and then a page boundary loses a change: pushing a
  change whose version equals that of a local change of another entity is accepted, and a walk
  with pages of one change delivers only one of the two.\<close>

theorem page_walk_loses_tied_version:
  "\<exists>s' r cs. push_changes demo_deps ref_sqlite tie_store [demo_change] = (s', Inr r) \<and> ps_accepted r
     \<and> length (change_log s') = 2 \<and> page_walk 5 ref_sqlite s' 1 0 = Some (cs, 3) \<and> length cs = 1"
proof -
  let ?row = "\<lparr>lr_id = 2, lr_entity_type = ''work'', lr_entity_id = ref_hex_encode ''AAAAAAAAAAAAAAAA'',
     lr_operation = ''DELETE'', lr_version = 3, lr_payload = [], lr_changed_at = ''now'',
     lr_device_id = Some ''phone''\<rparr>"
  let ?s = "set_apply_flag tie_store"
  have fresh: "\<not> seen ?s demo_change"
    "latest_row ref_sqlite ?s ''work'' (ref_hex_encode ''AAAAAAAAAAAAAAAA'') = None"
    by (simp_all add: seen_def tie_store_def row_identity_def push_identity_def latest_row_def
        of_entity_def rowid_order_def)
  have "push_step demo_deps ref_sqlite (?s, []) demo_change =
      Inr (?s\<lparr>change_log := change_log tie_store @ [?row], log_seq := 2,
             tables := [(''DELETE FROM works WHERE id = ?'', [SqlBytes (Some ''AAAAAAAAAAAAAAAA'')])]\<rparr>, [])"
    using fresh
    by (simp add: push_step_def demo_dispatch execute_raw_suppressed insert_log_def remote_row_def
        entity_type_to_table_def upper_delete)
       (simp add: tie_store_def empty_store_def set_apply_flag_def row_identity_def)
  then show ?thesis
    by (simp add: push_changes_def Let_def)
       (simp add: tie_store_def clear_apply_flag_def set_apply_flag_def eval_nat_numeral
        pull_changes_def sql_limit_def rowid_order_def List.map_filter_simps to_change_def)
qed

end
