(* ===== verification/ApplyCorrect.thy ===== *)
theory ApplyCorrect
  imports PullCorrect
begin

text \<open>
  Correctness of applying pulled changes and of conflict resolution: the log's history is never
  rewritten, echoes of the local triggers are removed, every change is accounted for, parents
  are applied before the rows that reference them, the SQL text built from a payload carries no
  foreign syntax, and a conflict is resolved once.
\<close>

section \<open>The step of the loop\<close>

lemma delete_entity_executes:
  assumes "delete_entity d q s table i = Inr s'"
  obtains sql vals where "execute_raw q s sql vals = Inr s'"
  using assms by (auto simp: delete_entity_def split: sum.splits json.splits if_splits)

lemma upsert_payload_executes:
  assumes "upsert_payload d q s table payload = Inr s'"
  obtains sql vals where "execute_raw q s sql vals = Inr s'"
  using assms by (auto simp: upsert_payload_def split: json.splits if_splits)

lemma apply_statement_executes:
  assumes "apply_statement d q options table s c = Inr s'"
  obtains sql vals where "execute_raw q s sql vals = Inr s'"
  using assms
  by (auto simp: apply_statement_def split: if_splits
      elim: delete_entity_executes upsert_payload_executes)

lemma apply_step_cases:
  assumes "apply_step d q options (s, out) c = Inr (s', out')"
  obtains
    (skip) "s' = s" "out' = out\<lparr>ao_skipped := ao_skipped out + 1\<rparr>"
  | (conflict) r where "latest_row q s (ch_entity_type c) (ch_entity_id c) = Some r"
      "lr_version r > ch_version c" "s' = record_conflict q s c (lr_payload r)"
      "out' = out\<lparr>ao_conflicts := ao_conflicts out @
                 (case fetch_latest_conflict s' c of Some x \<Rightarrow> [x] | None \<Rightarrow> [])\<rparr>"
  | (run) table s1 where "entity_type_to_table (ch_entity_type c) = Some table"
      "\<And>r. latest_row q s (ch_entity_type c) (ch_entity_id c) = Some r \<Longrightarrow> lr_version r \<le> ch_version c"
      "apply_statement d q options table s c = Inr s1"
      "insert_change_row q (discard_echoes s1 c (latest_version_in s)) c = Inr s'"
      "out' = out\<lparr>ao_applied := ao_applied out + 1\<rparr>"
proof -
  let ?t = "ch_entity_type c" and ?i = "ch_entity_id c"
  show thesis
  proof (cases "?t = ''file_offer'' \<or> entity_type_to_table ?t = None")
    case True
    then have "apply_step d q options (s, out) c = Inr (s, out\<lparr>ao_skipped := ao_skipped out + 1\<rparr>)"
      by (elim disjE) (simp_all add: apply_step_def Let_def)
    with assms show thesis by (intro skip) auto
  next
    case False
    then obtain table where table: "entity_type_to_table ?t = Some table" "?t \<noteq> ''file_offer''" by auto
    show thesis
    proof (cases "\<exists>r. latest_row q s ?t ?i = Some r \<and> lr_version r > ch_version c")
      case True
      then obtain r where "latest_row q s ?t ?i = Some r" "lr_version r > ch_version c" by blast
      with assms table show thesis
        by (intro conflict) (auto simp: apply_step_def latest_change_def Let_def)
    next
      case False
      show thesis
      proof (cases "ch_operation c \<in> {''INSERT'', ''UPDATE'', ''DELETE''}")
        case True
        have "apply_step d q options (s, out) c =
          result_bind (apply_statement d q options table s c) (\<lambda>s1.
            result_bind (insert_change_row q (discard_echoes s1 c (latest_version_in s)) c) (\<lambda>s2.
              Inr (s2, out\<lparr>ao_applied := ao_applied out + 1\<rparr>)))"
          using table \<open>\<not> (\<exists>r. _ r)\<close> True
          by (cases "latest_row q s ?t ?i") (simp_all add: apply_step_def latest_change_def Let_def)
        with assms obtain s1 where "apply_statement d q options table s c = Inr s1"
          "insert_change_row q (discard_echoes s1 c (latest_version_in s)) c = Inr s'"
          "out' = out\<lparr>ao_applied := ao_applied out + 1\<rparr>" by auto
        with table \<open>\<not> (\<exists>r. _ r)\<close> show thesis by (intro run) (auto simp: not_less)
      next
        case op: False
        then have "apply_step d q options (s, out) c = Inr (s, out\<lparr>ao_skipped := ao_skipped out + 1\<rparr>)"
          using table \<open>\<not> (\<exists>r. _ r)\<close>
          by (cases "latest_row q s ?t ?i") (simp_all add: apply_step_def latest_change_def Let_def)
        with assms show thesis by (intro skip) auto
      qed
    qed
  qed
qed

text \<open>Only rows the statement's triggers wrote are discarded.\<close>

lemma discard_echoes_keeps:
  assumes "log_extends s s1"
  shows "\<exists>rest. change_log (discard_echoes s1 c (latest_version_in s)) = change_log s @ rest
           \<and> rest = filter (\<lambda>r. \<not> of_entity (ch_entity_type c) (ch_entity_id c) r)
                      (drop (length (change_log s)) (change_log s1))"
proof -
  from assms obtain new where new: "change_log s1 = change_log s @ new"
    and above: "\<And>r. r \<in> set new \<Longrightarrow> lr_version r > max_version s"
    by (auto simp: log_extends_def)
  let ?drop = "\<lambda>r. of_entity (ch_entity_type c) (ch_entity_id c) r \<and> lr_version r > max_version s"
  have "filter (\<lambda>r. \<not> ?drop r) (change_log s) = change_log s"
    by (auto simp: filter_id_conv not_less dest!: max_version_ge)
  moreover have "filter (\<lambda>r. \<not> ?drop r) new
      = filter (\<lambda>r. \<not> of_entity (ch_entity_type c) (ch_entity_id c) r) new"
    using above by (intro filter_cong) auto
  ultimately show ?thesis
    by (simp add: discard_echoes_def latest_version_in_def new)
qed

lemma discard_echoes_frame [simp]:
  "conflicts (discard_echoes s c b) = conflicts s" "conflict_seq (discard_echoes s c b) = conflict_seq s"
  "log_seq (discard_echoes s c b) = log_seq s" "tables (discard_echoes s c b) = tables s"
  by (simp_all add: discard_echoes_def)

lemma log_wf_filter: "log_wf s \<Longrightarrow> log_wf (s\<lparr>change_log := filter P (change_log s)\<rparr>)"
proof -
  assume wf: "log_wf s"
  have swap: "filter is_remote (filter P (change_log s)) = filter P (filter is_remote (change_log s))"
    by (simp add: conj_commute)
  from wf show ?thesis
    unfolding log_wf_def
    by (auto simp: swap sorted_wrt_map filter_sorted_wrt simp del: filter_filter
        intro: distinct_map_filter)
qed

lemma discard_echoes_wf: "log_wf s \<Longrightarrow> log_wf (discard_echoes s c b)"
  unfolding discard_echoes_def by (rule log_wf_filter)

fun apply_inv :: "'db store \<times> apply_outcome \<Rightarrow> bool" where
  "apply_inv (s, out) \<longleftrightarrow> store_wf s"

lemma execute_raw_conflicts:
  "execute_raw q s sql vals = Inr s' \<Longrightarrow> conflicts_wf s \<Longrightarrow> conflicts_wf s'"
  by (drule execute_raw_extends) (auto simp: log_extends_def conflicts_wf_def)

lemma apply_step_inv:
  assumes "apply_inv st" "apply_step d q options st c = Inr st'"
  shows "apply_inv st'"
proof -
  obtain s out s' out' where [simp]: "st = (s, out)" "st' = (s', out')" by (cases st, cases st')
  from assms(1) have wf: "log_wf s" "conflicts_wf s" by (auto simp: store_wf_def)
  from assms(2) [simplified] show ?thesis
  proof (cases rule: apply_step_cases)
    case (conflict r)
    with wf show ?thesis
      by (simp add: record_conflict_def store_wf_def insert_conflict_wf log_wf_def)
  next
    case (run table s1)
    from run(3) obtain sql vals where exec: "execute_raw q s sql vals = Inr s1"
      by (rule apply_statement_executes)
    have "store_wf (discard_echoes s1 c (latest_version_in s))"
      using execute_raw_wf [OF wf(1) exec] execute_raw_conflicts [OF exec wf(2)]
      by (simp add: store_wf_def discard_echoes_wf conflicts_wf_def)
    with run(4) show ?thesis
      by (auto simp: insert_change_row_def intro: insert_log_store_wf)
  qed (use assms(1) in simp)
qed

interpretation apply_keeps: keeps_invariant "apply_step d q options" apply_inv for d q options
  by unfold_locales (rule apply_step_inv)

fun apply_le :: "'db store \<times> apply_outcome \<Rightarrow> 'db store \<times> apply_outcome \<Rightarrow> bool" where
  "apply_le (s, out) (s', out') \<longleftrightarrow>
     prefix (change_log s) (change_log s') \<and> prefix (conflicts s) (conflicts s')"

lemma apply_step_le:
  assumes "apply_step d q options st c = Inr st'"
  shows "apply_le st st'"
proof -
  obtain s out s' out' where [simp]: "st = (s, out)" "st' = (s', out')" by (cases st, cases st')
  from assms [simplified] show ?thesis
  proof (cases rule: apply_step_cases)
    case (conflict r)
    then show ?thesis by (auto simp: record_conflict_def insert_conflict_def)
  next
    case (run table s1)
    from run(3) obtain sql vals where exec: "execute_raw q s sql vals = Inr s1"
      by (rule apply_statement_executes)
    have ext: "log_extends s s1" by (rule execute_raw_extends [OF exec])
    from discard_echoes_keeps [OF ext, of c] insert_log_frame [OF run(4) [unfolded insert_change_row_def]] ext
    show ?thesis by (auto simp: log_extends_def)
  qed simp
qed

interpretation apply_grows: ordered_step "apply_step d q options" apply_le for d q options
proof unfold_locales
  fix s t u :: "'a store \<times> apply_outcome"
  show "apply_le s s" by (cases s) simp
  show "apply_le s t \<Longrightarrow> apply_le t u \<Longrightarrow> apply_le s u"
    by (cases s, cases t, cases u) (auto intro: prefix_order.trans)
qed (rule apply_step_le)

section \<open>Accounting\<close>

definition accounted :: "apply_outcome \<Rightarrow> nat" where
  "accounted out = ao_applied out + ao_skipped out + length (ao_conflicts out)"

lemma apply_step_accounts:
  assumes "apply_inv (s, out)" "apply_step d q options (s, out) c = Inr (s', out')"
  shows "accounted out' = accounted out + 1"
  using assms(2)
proof (cases rule: apply_step_cases)
  case (conflict r)
  have "conflicts_wf s" using assms(1) by (simp add: store_wf_def)
  from conflict fetch_insert_conflict [OF this] show ?thesis
    by (simp add: accounted_def fetch_latest_conflict_def record_conflict_def)
qed (simp_all add: accounted_def)

lemma apply_fold_accounts:
  assumes "try_fold (apply_step d q options) (s, out) xs = Inr (s', out')" "apply_inv (s, out)"
  shows "accounted out' = accounted out + length xs"
  using assms
proof (induction xs arbitrary: s out)
  case Nil
  then show ?case by simp
next
  case (Cons c xs)
  then obtain s1 out1 where step: "apply_step d q options (s, out) c = Inr (s1, out1)"
    and rest: "try_fold (apply_step d q options) (s1, out1) xs = Inr (s', out')" by auto
  with Cons.IH [OF rest apply_step_inv [OF Cons.prems(2) step]]
    apply_step_accounts [OF Cons.prems(2) step] show ?case by simp
qed

lemma apply_changes_Inr:
  assumes "apply_changes d q s xs options = (s', Inr out)"
  shows "try_fold (apply_step d q options) (s, \<lparr>ao_applied = 0, ao_skipped = 0, ao_conflicts = []\<rparr>)
           (sort_key (\<lambda>c. apply_rank (ch_entity_type c)) xs) = Inr (s', out)"
  using assms by (auto simp: apply_changes_def split: sum.splits)

section \<open>Properties of applying\<close>

text \<open>C29: applying pulled changes never rewrites history: every log row and every conflict that was
  there stays, in place and in order, whatever echoes the triggers wrote in between, and the
  store stays well-formed. On an error the store is untouched.\<close>

theorem apply_preserves_history:
  assumes "store_wf s" "apply_changes d q s xs options = (s', res)"
  shows "store_wf s' \<and> prefix (change_log s) (change_log s') \<and> prefix (conflicts s) (conflicts s')
    \<and> (\<forall>e. res = Inl e \<longrightarrow> s' = s)"
proof (cases res)
  case (Inl e)
  with assms show ?thesis by (auto simp: apply_changes_def split: sum.splits)
next
  case (Inr out)
  note run = apply_changes_Inr [OF assms(2) [unfolded Inr]]
  have "apply_inv (s', out)" by (rule apply_keeps.run_inv [OF run]) (simp add: assms(1))
  moreover have "apply_le (s, \<lparr>ao_applied = 0, ao_skipped = 0, ao_conflicts = []\<rparr>) (s', out)"
    by (rule apply_grows.run_rel [OF run])
  ultimately show ?thesis using Inr by simp
qed

theorem apply_preserves_history_witness:
  "store_wf (fst (apply_changes demo_deps ref_sqlite demo_store [demo_change] (\<lambda>_. None)))
   \<and> prefix (change_log demo_store)
       (change_log (fst (apply_changes demo_deps ref_sqlite demo_store [demo_change] (\<lambda>_. None))))"
  using apply_preserves_history [OF demo_store_wf, of demo_deps ref_sqlite "[demo_change]" "\<lambda>_. None"]
  by (metis prod.collapse)

text \<open>An apply pass accounts for every change it was given: the numbers of applied and skipped
  changes and of recorded conflicts add up to the batch.\<close>

theorem apply_accounts_every_change:
  assumes "store_wf s" "apply_changes d q s xs options = (s', Inr out)"
  shows "ao_applied out + ao_skipped out + length (ao_conflicts out) = length xs"
  using apply_fold_accounts [OF apply_changes_Inr [OF assms(2)]] assms(1)
  by (simp add: accounted_def)

lemma demo_apply:
  "apply_changes demo_deps ref_sqlite demo_store [demo_change\<lparr>ch_version := 2\<rparr>, demo_change] (\<lambda>_. None) =
     (record_conflict ref_sqlite demo_store (demo_change\<lparr>ch_version := 2\<rparr>) [],
      Inr \<lparr>ao_applied = 0, ao_skipped = 1,
           ao_conflicts = [\<lparr>cf_id = 1, cf_entity_type = ''work'',
             cf_entity_id = ref_hex_encode ''AAAAAAAAAAAAAAAA'', cf_local_payload = [],
             cf_remote_payload = [], cf_resolved = False, cf_resolution = None,
             cf_merged_payload = None, cf_detected_at = ''now''\<rparr>]\<rparr>)"
proof -
  have latest: "latest_row ref_sqlite s ''work'' (ref_hex_encode ''AAAAAAAAAAAAAAAA'') =
      Some (hd (change_log demo_store))" if "change_log s = change_log demo_store" for s
    using that by (simp add: demo_store_def latest_row_def of_entity_def rowid_order_def)
  have row: "lr_version (hd (change_log demo_store)) = 3" "lr_payload (hd (change_log demo_store)) = []"
    "conflicts demo_store = []" "conflict_seq demo_store = 0"
    by (simp_all add: demo_store_def empty_store_def)
  show ?thesis
    by (simp add: apply_changes_def apply_step_def latest_change_def latest row entity_type_to_table_def
        Let_def record_conflict_def fetch_latest_conflict_def fetch_conflict_def unresolved_desc_def
        insert_conflict_def)
qed

theorem apply_accounts_every_change_witness:
  "0 + 1 + length ([\<lparr>cf_id = 1, cf_entity_type = ''work'',
     cf_entity_id = ref_hex_encode ''AAAAAAAAAAAAAAAA'', cf_local_payload = [],
     cf_remote_payload = [], cf_resolved = False, cf_resolution = None,
     cf_merged_payload = None, cf_detected_at = ''now''\<rparr>] :: conflict list)
   = length [demo_change\<lparr>ch_version := 2\<rparr>, demo_change]"
  using apply_accounts_every_change [OF demo_store_wf demo_apply] by simp

text \<open>C7: a pulled change is not echoed back: when the log rows the statement's triggers wrote belong
  to the change's own entity, applying the change adds exactly one row to the log, the remote
  change under its own version and device, so a peer that pulls later receives the change once.\<close>

theorem apply_suppresses_echo:
  assumes "entity_type_to_table (ch_entity_type c) = Some table" "ch_entity_type c \<noteq> ''file_offer''"
    "ch_operation c \<in> {''INSERT'', ''UPDATE'', ''DELETE''}"
    "\<And>r. latest_row q s (ch_entity_type c) (ch_entity_id c) = Some r \<Longrightarrow> lr_version r \<le> ch_version c"
    "apply_statement d q options table s c = Inr s1"
    "\<forall>r \<in> set (drop (length (change_log s)) (change_log s1)). of_entity (ch_entity_type c) (ch_entity_id c) r"
    "apply_changes d q s [c] options = (s', Inr out)"
  shows "ao_applied out = 1 \<and> tables s' = tables s1
    \<and> change_log s' = change_log s @ [(remote_row q c (ch_operation c))\<lparr>lr_id := log_seq s1 + 1\<rparr>]"
proof -
  from apply_changes_Inr [OF assms(7)] have
    step: "apply_step d q options (s, \<lparr>ao_applied = 0, ao_skipped = 0, ao_conflicts = []\<rparr>) c = Inr (s', out)"
    by auto
  have "apply_step d q options (s, o0) c =
      result_bind (insert_change_row q (discard_echoes s1 c (latest_version_in s)) c) (\<lambda>s2.
        Inr (s2, o0\<lparr>ao_applied := ao_applied o0 + 1\<rparr>))" for o0
    using assms(1-5)
    by (cases "latest_row q s (ch_entity_type c) (ch_entity_id c)")
       (auto simp: apply_step_def latest_change_def Let_def not_less)
  with step have ins: "insert_change_row q (discard_echoes s1 c (latest_version_in s)) c = Inr s'"
    and out: "ao_applied out = 1" by auto
  obtain sql vals where "execute_raw q s sql vals = Inr s1"
    using assms(5) by (rule apply_statement_executes)
  then have ext: "log_extends s s1" by (rule execute_raw_extends)
  have "change_log (discard_echoes s1 c (latest_version_in s)) = change_log s"
    using discard_echoes_keeps [OF ext, of c] assms(6) by (auto simp: filter_empty_conv)
  with insert_log_frame(4,5) [OF ins [unfolded insert_change_row_def]] out show ?thesis by auto
qed

text \<open>A SQLite whose statement deletes one work, so that its audit trigger fires.\<close>

definition echo_event :: row_event where
  "echo_event = \<lparr>ev_op = RowDelete, ev_table = ''works'',
     ev_row = [(''id'', SqlBytes (Some ''AAAAAAAAAAAAAAAA''))]\<rparr>"

definition echo_sqlite :: "(string \<times> sql_value list) list sqlite" where
  "echo_sqlite = ref_sqlite\<lparr>sql_exec := (\<lambda>db sql vals. Inr (db @ [(sql, vals)], [echo_event]))\<rparr>"

definition echo_change :: sync_change where
  "echo_change = demo_change\<lparr>ch_operation := ''DELETE'', ch_version := 9\<rparr>"

lemma fire_echo:
  "fire echo_sqlite s echo_event =
     (if GUARD s then run_trigger echo_sqlite echo_event s (work_triggers ! 2) else Inr s)"
proof -
  have "work_triggers ! 2 \<in> set TRIGGER_STATEMENTS" "fires echo_event (work_triggers ! 2)"
    by (simp_all add: TRIGGER_STATEMENTS_def work_triggers_def triggers_for_def all_ops_def
        fires_def echo_event_def)
  from fires_unique [OF this] show ?thesis by (simp add: fire_def)
qed

lemma echo_id:
  "to_ascii_lowercase (sql_hex echo_sqlite (SqlBytes (Some b))) = ref_hex_encode b"
  using printers_okD(1) [OF ref_printers_ok, of b] by (simp add: echo_sqlite_def)

lemma echo_row:
  "\<exists>payload s1. apply_statement demo_deps echo_sqlite (\<lambda>_. None) ''works'' empty_store echo_change = Inr s1
     \<and> change_log s1 = [\<lparr>lr_id = 1, lr_entity_type = ''work'',
         lr_entity_id = ref_hex_encode ''AAAAAAAAAAAAAAAA'', lr_operation = ''DELETE'', lr_version = 1,
         lr_payload = payload, lr_changed_at = ''now'', lr_device_id = Some ''local''\<rparr>]"
proof -
  have tg: "tg_id (work_triggers ! 2) = IdHex ''id''" "tg_type (work_triggers ! 2) = ''work''"
    "tg_op (work_triggers ! 2) = RowDelete"
    by (simp_all add: work_triggers_def triggers_for_def all_ops_def)
  have "\<exists>payload. eval_object echo_sqlite row (tg_payload (work_triggers ! 2)) = Inr payload" for row
    by (simp add: eval_object_def echo_sqlite_def ref_sqlite_def)
  then obtain payload where
    "eval_object echo_sqlite (ev_row echo_event) (tg_payload (work_triggers ! 2)) = Inr payload" by blast
  moreover have "GUARD (empty_store\<lparr>tables := db\<rparr>)" for db
    by (simp add: empty_store_def GUARD_def)
  ultimately show ?thesis
    by (simp add: apply_statement_def echo_change_def delete_entity_def from_hex_def
        ref_hex_decode_encode execute_raw_def echo_sqlite_def [THEN arg_cong, of sql_exec] fire_echo run_trigger_def tg echo_id
        row_get_def echo_event_def [THEN arg_cong, of ev_row] insert_log_def is_remote_def)
       (simp add: empty_store_def max_version_def echo_sqlite_def)
qed

theorem apply_suppresses_echo_witness:
  "\<exists>s1 s' out. apply_statement demo_deps echo_sqlite (\<lambda>_. None) ''works'' empty_store echo_change = Inr s1
     \<and> length (change_log s1) = 1
     \<and> apply_changes demo_deps echo_sqlite empty_store [echo_change] (\<lambda>_. None) = (s', Inr out)
     \<and> change_log s' = [(remote_row echo_sqlite echo_change ''DELETE'')\<lparr>lr_id := log_seq s1 + 1\<rparr>]"
proof -
  have hyps: "entity_type_to_table (ch_entity_type echo_change) = Some ''works''"
    "ch_entity_type echo_change \<noteq> ''file_offer''" "ch_operation echo_change = ''DELETE''"
    "latest_row echo_sqlite empty_store (ch_entity_type echo_change) (ch_entity_id echo_change) = None"
    "change_log empty_store = []"
    by (simp_all add: echo_change_def entity_type_to_table_def latest_row_def empty_store_def
        echo_sqlite_def rowid_order_def)
  from echo_row obtain payload s1 where s1:
    "apply_statement demo_deps echo_sqlite (\<lambda>_. None) ''works'' empty_store echo_change = Inr s1"
    "change_log s1 = [\<lparr>lr_id = 1, lr_entity_type = ''work'',
         lr_entity_id = ref_hex_encode ''AAAAAAAAAAAAAAAA'', lr_operation = ''DELETE'', lr_version = 1,
         lr_payload = payload, lr_changed_at = ''now'', lr_device_id = Some ''local''\<rparr>]"
    by blast
  have "\<exists>s' out. apply_changes demo_deps echo_sqlite empty_store [echo_change] (\<lambda>_. None) = (s', Inr out)"
    using hyps s1
    by (simp add: apply_changes_def apply_step_def latest_change_def Let_def insert_change_row_def
        insert_log_def discard_echoes_def of_entity_def echo_change_def latest_version_in_def max_version_def)
  then obtain s' out where run:
    "apply_changes demo_deps echo_sqlite empty_store [echo_change] (\<lambda>_. None) = (s', Inr out)" by blast
  have "change_log s' = change_log empty_store @
      [(remote_row echo_sqlite echo_change (ch_operation echo_change))\<lparr>lr_id := log_seq s1 + 1\<rparr>]"
    using apply_suppresses_echo [OF hyps(1,2) _ _ s1(1) _ run] hyps s1(2)
    by (simp add: of_entity_def echo_change_def)
  with s1 run hyps show ?thesis by auto
qed
section \<open>Parents before children\<close>

text \<open>The entity type a key column of a payload refers to, when that type is synced.\<close>

definition parent_of :: "string \<Rightarrow> string option" where
  "parent_of column =
     (if column = ''work_id'' then Some ''work''
      else if column = ''edition_id'' then Some ''edition''
      else if column = ''group_id'' then Some ''edition_group''
      else if column = ''reading_list_id'' then Some ''reading_list''
      else if column = ''owned_edition_id'' then Some ''owned_edition''
      else None)"

lemma rank_parents:
  "list_all (\<lambda>tg. list_all (\<lambda>(k, _). case parent_of k of None \<Rightarrow> True
      | Some p \<Rightarrow> apply_rank p < apply_rank (tg_type tg)) (tg_payload tg)) TRIGGER_STATEMENTS"
  by code_simp

lemma sort_key_order:
  assumes "i < length xs" "j < length xs" "f (sort_key f xs ! i) < (f (sort_key f xs ! j) :: nat)"
  shows "i < j"
proof (rule ccontr)
  assume "\<not> i < j"
  then have "j \<le> i" by simp
  have "sorted (map f (sort_key f xs))" by simp
  then have "map f (sort_key f xs) ! j \<le> map f (sort_key f xs) ! i"
    using \<open>j \<le> i\<close> assms(1) by (intro sorted_nth_mono) auto
  with assms show False by simp
qed

text \<open>Changes are applied parents first: in the order an apply pass uses, a change of an entity
  that a payload references by a key column (an edition's work, a loan's owned edition, ..) comes
  before the change that carries the reference, and no change is lost or duplicated by the
  reordering.\<close>

theorem apply_parents_first:
  assumes "ordered = sort_key (\<lambda>c. apply_rank (ch_entity_type c)) xs"
    "tg \<in> set TRIGGER_STATEMENTS" "(k, e) \<in> set (tg_payload tg)" "parent_of k = Some p"
    "i < length ordered" "j < length ordered"
    "ch_entity_type (ordered ! i) = p" "ch_entity_type (ordered ! j) = tg_type tg"
  shows "i < j \<and> mset ordered = mset xs"
proof -
  have "apply_rank p < apply_rank (tg_type tg)"
    using rank_parents assms(2-4) by (fastforce simp: list_all_iff)
  with assms(5-8) sort_key_order [of i xs j "\<lambda>c. apply_rank (ch_entity_type c)"]
  show ?thesis by (simp add: assms(1))
qed

theorem apply_parents_first_witness:
  "(0 :: nat) < 1 \<and> mset [demo_change, demo_change\<lparr>ch_entity_type := ''work_tag''\<rparr>]
     = mset [demo_change\<lparr>ch_entity_type := ''work_tag''\<rparr>, demo_change]"
proof (rule apply_parents_first)
  show "[demo_change, demo_change\<lparr>ch_entity_type := ''work_tag''\<rparr>] =
      sort_key (\<lambda>c. apply_rank (ch_entity_type c)) [demo_change\<lparr>ch_entity_type := ''work_tag''\<rparr>, demo_change]"
    by (simp add: apply_rank_def)
  show "hd work_tag_triggers \<in> set TRIGGER_STATEMENTS"
    by (simp add: TRIGGER_STATEMENTS_def work_tag_triggers_def triggers_for_def link_ops_def)
qed (simp_all add: work_tag_triggers_def triggers_for_def link_ops_def parent_of_def)

section \<open>Statement text\<close>

text \<open>No SQL separator, quote or placeholder hides in an identifier.\<close>

lemma identifier_no_syntax:
  "is_identifier n \<Longrightarrow> count_list n (CHR ''?'') = 0 \<and> count_list n (CHR 0x27) = 0
     \<and> count_list n (CHR '';'') = 0 \<and> count_list n (CHR 0x22) = 0"
  unfolding is_identifier_def
  by (auto simp: list_all_iff count_list_0_iff ascii_defs byte_def)

lemma payload_columns_identifiers:
  "payload_columns d table obj = Inr cols \<Longrightarrow> map fst cols = map fst obj \<and> list_all is_identifier (map fst cols)"
  unfolding payload_columns_def
  by (induction obj arbitrary: cols) (auto split: if_splits)

lemma payload_sql_counts:
  assumes "list_all is_identifier columns" "columns \<noteq> []" "count_list table (CHR ''?'') = 0"
    "count_list table (CHR '';'') = 0" "count_list table (CHR 0x27) = 0"
  shows "count_list (payload_sql table columns) (CHR ''?'') = length columns"
    "count_list (payload_sql table columns) (CHR '';'') = 0"
    "count_list (payload_sql table columns) (CHR 0x27) = 0"
proof -
  have each: "count_list n (CHR ''?'') = 0" "count_list n (CHR 0x27) = 0" "count_list n (CHR '';'') = 0"
    if "n \<in> set columns" for n
    using that assms(1) identifier_no_syntax [of n] by (auto simp: list_all_iff)
  have sums: "(\<Sum>c\<leftarrow>columns. count_list c (CHR ''?'') + count_list c (CHR ''?'')) = 0"
    "(\<Sum>c\<leftarrow>columns. count_list c (CHR ''?'')) = 0"
    "(\<Sum>c\<leftarrow>columns. count_list c (CHR 0x27) + count_list c (CHR 0x27)) = 0"
    "(\<Sum>c\<leftarrow>columns. count_list c (CHR 0x27)) = 0"
    "(\<Sum>c\<leftarrow>columns. count_list c (CHR '';'') + count_list c (CHR '';'')) = 0"
    "(\<Sum>c\<leftarrow>columns. count_list c (CHR '';'')) = 0"
    using each by (auto simp: sum_list_eq_0_iff)
  show "count_list (payload_sql table columns) (CHR ''?'') = length columns"
    "count_list (payload_sql table columns) (CHR '';'') = 0"
    "count_list (payload_sql table columns) (CHR 0x27) = 0"
    using assms(3-5) sums
    by (simp_all add: payload_sql_def count_list_join quoted_def comp_def sum_list_triv)
qed

lemma registered_table_text:
  assumes "entity_type_to_table t = Some table"
  shows "is_identifier table"
proof -
  have "list_all (\<lambda>(t, tbl). is_identifier tbl) syncable_entities" by code_simp
  moreover have "(t, table) \<in> set syncable_entities"
    using assms unfolding registry_table by (rule map_of_SomeD)
  ultimately show ?thesis by (auto simp: list_all_iff)
qed

text \<open>C33: applying a payload to a registered table cannot inject SQL. When the upsert runs, its text
  names only identifiers (letters, digits, underscores) as columns, holds no statement separator
  and no string quote, and has one placeholder per bound value; and a payload with any other
  column name runs no statement at all.\<close>

theorem upsert_payload_injection_free:
  assumes "entity_type_to_table t = Some table"
  shows "(\<forall>s'. upsert_payload d q s table payload = Inr s' \<longrightarrow>
      (\<exists>columns vals. execute_raw q s (payload_sql table columns) vals = Inr s'
         \<and> list_all is_identifier columns \<and> length vals = length columns
         \<and> count_list (payload_sql table columns) (CHR ''?'') = length vals
         \<and> count_list (payload_sql table columns) (CHR '';'') = 0
         \<and> count_list (payload_sql table columns) (CHR 0x27) = 0))
    \<and> (\<forall>obj c. payload = JObject obj \<longrightarrow> c \<in> fst ` set obj \<longrightarrow> \<not> is_identifier c \<longrightarrow>
         (\<exists>e. upsert_payload d q s table payload = Inl e))"
proof (intro conjI allI impI)
  fix s'
  assume "upsert_payload d q s table payload = Inr s'"
  then obtain obj cols where cols: "payload_columns d table obj = Inr cols" "cols \<noteq> []"
    and run: "execute_raw q s (payload_sql table (map fst cols)) (map snd cols) = Inr s'"
    by (auto simp: upsert_payload_def split: json.splits if_splits)
  have ids: "list_all is_identifier (map fst cols)"
    using payload_columns_identifiers [OF cols(1)] by blast
  have tbl: "count_list table (CHR ''?'') = 0" "count_list table (CHR '';'') = 0"
    "count_list table (CHR 0x27) = 0"
    using identifier_no_syntax [OF registered_table_text [OF assms]] by simp_all
  have "map fst cols \<noteq> []" using cols(2) by simp
  note counts = payload_sql_counts [OF ids this tbl]
  show "\<exists>columns vals. execute_raw q s (payload_sql table columns) vals = Inr s'
         \<and> list_all is_identifier columns \<and> length vals = length columns
         \<and> count_list (payload_sql table columns) (CHR ''?'') = length vals
         \<and> count_list (payload_sql table columns) (CHR '';'') = 0
         \<and> count_list (payload_sql table columns) (CHR 0x27) = 0"
    by (rule exI [of _ "map fst cols"], rule exI [of _ "map snd cols"])
       (use run ids counts in simp)
next
  fix obj c
  assume payload: "payload = JObject obj" and c: "c \<in> fst ` set obj" "\<not> is_identifier c"
  have "payload_columns d table obj \<noteq> Inr cols" for cols
    using payload_columns_identifiers [of d table obj cols] c by (metis list_all_iff list.set_map)
  then obtain e where "payload_columns d table obj = Inl e" by (cases "payload_columns d table obj") auto
  then show "\<exists>e. upsert_payload d q s table payload = Inl e"
    by (simp add: upsert_payload_def payload)
qed

theorem upsert_payload_injection_free_witness:
  "\<exists>e. upsert_payload demo_deps ref_sqlite empty_store ''works''
     (JObject [(''title = 1; --'', JNull)]) = Inl e"
proof -
  have "entity_type_to_table ''work'' = Some ''works''" by (simp add: entity_type_to_table_def)
  from upsert_payload_injection_free [OF this, THEN conjunct2, rule_format,
      of "JObject [(''title = 1; --'', JNull)]" "[(''title = 1; --'', JNull)]" "''title = 1; --''"]
  show ?thesis by (simp add: is_identifier_def ascii_defs byte_def)
qed

section \<open>Conflict resolution\<close>

lemma list_conflicts_eq:
  "conflicts_wf s \<Longrightarrow> list_conflicts s = rev (filter (\<lambda>c. \<not> cf_resolved c) (conflicts s))"
  using unresolved_desc_wf [of s "\<lambda>_. True"] by (simp add: list_conflicts_def)

lemma resolve_conflict_wf: "conflicts_wf s \<Longrightarrow> conflicts_wf (fst (resolve_conflict s i r m))"
proof -
  assume wf: "conflicts_wf s"
  have "map cf_id (conflicts (fst (resolve_conflict s i r m))) = map cf_id (conflicts s)"
    by (simp add: resolve_conflict_def)
  moreover have "conflicts_wf t \<longleftrightarrow> sorted_wrt (<) (map cf_id (conflicts t))
      \<and> (\<forall>x \<in> set (map cf_id (conflicts t)). x \<le> conflict_seq t)" for t :: "'a store"
    by (simp add: conflicts_wf_def)
  moreover have "conflict_seq (fst (resolve_conflict s i r m)) = conflict_seq s"
    by (simp add: resolve_conflict_def)
  ultimately show ?thesis using wf by metis
qed

text \<open>Resolving a conflict succeeds exactly when an unresolved conflict has the id; it takes that
  conflict and no other off the list of open conflicts, which stays newest first; and it cannot
  be resolved again: a second attempt reports failure and changes nothing, so the first
  resolution stands.\<close>

theorem resolve_conflict_once:
  assumes "store_wf s" "resolve_conflict s i r m = (s', done)"
  shows "(done \<longleftrightarrow> i \<in> cf_id ` set (list_conflicts s))
    \<and> list_conflicts s' = filter (\<lambda>c. cf_id c \<noteq> i) (list_conflicts s)
    \<and> sorted_wrt (>) (map cf_id (list_conflicts s'))
    \<and> resolve_conflict s' i r2 m2 = (s', False) \<and> store_wf s'"
proof -
  have wf: "conflicts_wf s" "log_wf s" using assms(1) by (simp_all add: store_wf_def)
  have s': "s' = fst (resolve_conflict s i r m)" using assms(2) by simp
  have wf': "conflicts_wf s'" unfolding s' by (rule resolve_conflict_wf [OF wf(1)])
  have cs: "conflicts s' = map (\<lambda>c. if cf_id c = i \<and> \<not> cf_resolved c
      then c\<lparr>cf_resolved := True, cf_resolution := Some r, cf_merged_payload := m\<rparr> else c) (conflicts s)"
    by (simp add: s' resolve_conflict_def)
  have "done \<longleftrightarrow> (\<exists>c \<in> set (conflicts s). cf_id c = i \<and> \<not> cf_resolved c)"
    using assms(2) by (auto simp: resolve_conflict_def filter_empty_conv)
  then have d: "done \<longleftrightarrow> i \<in> cf_id ` set (list_conflicts s)"
    by (auto simp: list_conflicts_eq [OF wf(1)])
  have filt: "filter (\<lambda>c. \<not> cf_resolved c) (map (\<lambda>c. if cf_id c = i \<and> \<not> cf_resolved c
      then c\<lparr>cf_resolved := True, cf_resolution := Some r, cf_merged_payload := m\<rparr> else c) xs)
    = filter (\<lambda>c. cf_id c \<noteq> i) (filter (\<lambda>c. \<not> cf_resolved c) xs)" for xs
    by (induction xs) auto
  have l: "list_conflicts s' = filter (\<lambda>c. cf_id c \<noteq> i) (list_conflicts s)"
    by (simp add: list_conflicts_eq [OF wf'] list_conflicts_eq [OF wf(1)] cs filt rev_filter
        del: filter_filter)
  have "sorted_wrt (>) (map cf_id (list_conflicts s'))"
    using wf' unfolding list_conflicts_eq [OF wf'] conflicts_wf_def sorted_wrt_map sorted_wrt_rev
    by (simp add: filter_sorted_wrt)
  moreover have "resolve_conflict s' i r2 m2 = (s', False)"
  proof -
    have none: "filter (\<lambda>c. cf_id c = i \<and> \<not> cf_resolved c) (conflicts s') = []"
    proof -
      have "filter (\<lambda>c. cf_id c = i \<and> \<not> cf_resolved c) (map (\<lambda>c. if cf_id c = i \<and> \<not> cf_resolved c
        then c\<lparr>cf_resolved := True, cf_resolution := Some r, cf_merged_payload := m\<rparr> else c) xs) = []" for xs
        by (induction xs) auto
      then show ?thesis unfolding cs .
    qed
    have "(if cf_id c = i \<and> \<not> cf_resolved c
        then c\<lparr>cf_resolved := True, cf_resolution := Some r2, cf_merged_payload := m2\<rparr> else c) = c"
      if "c \<in> set (conflicts s')" for c
      using that none unfolding filter_empty_conv by (metis (no_types, lifting))
    then have "map (\<lambda>c. if cf_id c = i \<and> \<not> cf_resolved c
        then c\<lparr>cf_resolved := True, cf_resolution := Some r2, cf_merged_payload := m2\<rparr> else c) (conflicts s')
        = conflicts s'" by (rule map_idI)
    with none show ?thesis unfolding resolve_conflict_def Let_def by simp
  qed
  moreover have "store_wf s'"
    using wf' wf(2) by (simp add: store_wf_def s' resolve_conflict_def log_wf_def)
  ultimately show ?thesis using d l by blast
qed

theorem resolve_conflict_once_witness:
  "let s = insert_conflict ref_sqlite empty_store ''work'' ''w'' ''a'' ''b'';
       s' = fst (resolve_conflict s 1 ''local'' None)
   in snd (resolve_conflict s 1 ''local'' None) \<and> resolve_conflict s' 1 ''remote'' None = (s', False)"
proof -
  let ?s = "insert_conflict ref_sqlite empty_store ''work'' ''w'' ''a'' ''b''"
  have "store_wf ?s"
    by (simp add: store_wf_def log_wf_def conflicts_wf_def insert_conflict_def empty_store_def)
  moreover have "1 \<in> cf_id ` set (list_conflicts ?s)"
    by (simp add: list_conflicts_def unresolved_desc_def insert_conflict_def empty_store_def)
  ultimately show ?thesis
    using resolve_conflict_once [of ?s 1 "''local''" None "fst (resolve_conflict ?s 1 ''local'' None)"
        "snd (resolve_conflict ?s 1 ''local'' None)" "''remote''" None]
    unfolding Let_def by (metis prod.collapse)
qed

end
