(* ===== verification/ServerCorrect.thy ===== *)
theory ServerCorrect
  imports Pairs ApplyCorrect
begin

text \<open>
  What the endpoint promises its owner: who may read and change the library over the wire, what the
  pairing handshake establishes, what a file request is served, and who sees an offer.
\<close>

section \<open>Authorization\<close>

fun request_token :: "request \<Rightarrow> string option" where
  "request_token (ReqStatus t) = Some t"
| "request_token (ReqChanges t _ _) = Some t"
| "request_token (ReqPullFull t) = Some t"
| "request_token (ReqPush t _) = Some t"
| "request_token (ReqConflicts t) = Some t"
| "request_token (ReqResolveConflict t _ _ _) = Some t"
| "request_token (ReqFile t _ _ _ _) = Some t"
| "request_token (ReqFileInfo t _) = Some t"
| "request_token (ReqCover t _) = Some t"
| "request_token (ReqOfferDecision t _ _) = Some t"
| "request_token _ = None"

text \<open>A row that lets a node in with a token.\<close>

definition admits :: "paired_device \<Rightarrow> string \<Rightarrow> string \<Rightarrow> bool" where
  "admits row token remote \<longleftrightarrow>
     trim token \<noteq> [] \<and> pd_session_token row = Some (trim token) \<and> pd_node_id row = Some remote"

lemma authorize_Inr:
  assumes "authorize e s token remote = Inr dev"
  obtains row where "row \<in> set (ws_paired s)" "admits row token remote" "length (pd_device_id row) = 16"
    "dev = db_id_display (we_deps e) (DbId (pd_device_id row))"
proof -
  let ?P = "\<lambda>r. pd_session_token r = Some (trim token) \<and> pd_node_id r = Some remote"
  from assms obtain row where "trim token \<noteq> []" "find ?P (ws_paired s) = Some row"
    "length (pd_device_id row) = 16" "dev = db_id_display (we_deps e) (DbId (pd_device_id row))"
    by (auto simp: authorize_def Let_def split: if_splits option.splits)
  with find_SomeD [of ?P "ws_paired s" row] show thesis by (intro that [of row]) (simp_all add: admits_def)
qed

lemma authorize_none:
  assumes "\<And>row. row \<in> set (ws_paired s) \<Longrightarrow> \<not> admits row token remote"
  shows "authorize e s token remote = Inl unauthorized"
  using assms
  by (auto simp: authorize_def admits_def Let_def split: option.splits dest!: find_SomeD)

lemma answered_simps [simp]:
  "an_device_id (failed f) = None" "an_device_id (reply r) = None" "an_device_id (error c m) = None"
  "an_device_id (with_device a d) = Some d"
  "oc_response (an_outcome (failed f)) = RspError (f_code f) (f_message f)"
  "oc_response (an_outcome (reply r)) = r" "oc_response (an_outcome (error c m)) = RspError c m"
  "an_outcome (with_device a d) = an_outcome a"
  "oc_body (an_outcome (failed f)) = None" "oc_body (an_outcome (reply r)) = None"
  "oc_body (an_outcome (error c m)) = None"
  by (simp_all add: failed_def reply_def error_def with_device_def outcome_reply_def)

lemma dispatch_refused:
  assumes "request_token req = Some token" "authorize e s token remote = Inl f" "remote \<noteq> self_node s"
  shows "dispatch e s req remote = (s, failed f)"
  using assms
  by (cases req) (simp_all add: dispatch_def serve_file_def file_info_def cover_def)

text \<open>How a request may change the state.\<close>

lemma dispatch_cases:
  assumes "dispatch e s req remote = (s', a)"
  obtains (same) "s' = s"
  | (push) token xs dev where "req = ReqPush token xs" "authorize e s token remote = Inr dev"
      "s' = s\<lparr>ws_store := fst (push_changes (we_deps e) (we_sqlite e) (ws_store s) xs)\<rparr>"
  | (resolve) token i r m dev where "req = ReqResolveConflict token i r m"
      "authorize e s token remote = Inr dev"
      "s' = s\<lparr>ws_store := fst (resolve_conflict (ws_store s) i r m)\<rparr>"
  | (limited) device name ty where "req = ReqPair device name ty"
      "s' = s\<lparr>ws_limiter := fst (allow_at (ws_limiter s) remote (we_instant e))\<rparr>"
  | (claimed) device name ty where "req = ReqPair device name ty"
      "(s', a) = pair e (s\<lparr>ws_limiter := fst (allow_at (ws_limiter s) remote (we_instant e))\<rparr>)
                   remote device name ty"
  | (polled) claim where "req = ReqPairStatus claim"
      "s' = s\<lparr>ws_decisions := prune (we_instant e) (ws_decisions s)\<rparr>"
  | (offer) token oid acc dev where "req = ReqOfferDecision token oid acc"
      "authorize e s token remote = Inr dev" "offer_decision e s oid dev acc = Inr s'"
proof (cases "remote = self_node s")
  case True
  with assms same show thesis by (simp add: dispatch_def)
next
  case False
  note d = assms [unfolded dispatch_def Let_def if_not_P [OF False]]
  show thesis
  proof (cases req)
    case (ReqPush token xs)
    show thesis
    proof (cases "authorize e s token remote")
      case (Inl f)
      with d ReqPush show thesis by (intro same) simp
    next
      case (Inr dev)
      with d ReqPush show thesis by (intro push) (auto split: prod.splits)
    qed
  next
    case (ReqResolveConflict token i r m)
    show thesis
    proof (cases "authorize e s token remote")
      case (Inl f)
      with d ReqResolveConflict show thesis by (intro same) simp
    next
      case (Inr dev)
      show thesis
      proof (cases "r \<in> set [''local'', ''remote'', ''merged'']")
        case True
        with d Inr ReqResolveConflict show thesis by (intro resolve) (auto split: prod.splits)
      next
        case False
        with d Inr ReqResolveConflict show thesis by (intro same) simp
      qed
    qed
  next
    case (ReqPair device name ty)
    show thesis
    proof (cases "snd (allow_at (ws_limiter s) remote (we_instant e))")
      case True
      with d ReqPair show thesis by (intro claimed) (auto split: prod.splits)
    next
      case False
      with d ReqPair show thesis by (intro limited) (auto split: prod.splits)
    qed
  next
    case (ReqPairStatus claim)
    show thesis
    proof (cases "\<exists>w. ws_waiters s remote = Some w \<and> pw_claim w = claim")
      case True
      with d ReqPairStatus show thesis by (intro same) (auto simp: pair_status_def)
    next
      case False
      with d ReqPairStatus show thesis
        by (intro polled) (auto simp: pair_status_def decided_def Let_def split: option.splits)
    qed
  next
    case (ReqOfferDecision token oid acc)
    show thesis
    proof (cases "authorize e s token remote")
      case (Inl f)
      with d ReqOfferDecision show thesis by (intro same) simp
    next
      case (Inr dev)
      show thesis
      proof (cases "offer_decision e s oid dev acc")
        case (Inl f)
        with d Inr ReqOfferDecision show thesis
          using \<open>authorize e s token remote = Inr dev\<close> by (intro same) simp
      next
        case (Inr s2)
        with d \<open>authorize e s token remote = Inr dev\<close> ReqOfferDecision show thesis by (intro offer) simp_all
      qed
    qed
  qed (use d in \<open>auto intro: same split: sum.splits\<close>)
qed

text \<open>What reporting adds: counters, the request log and notifications.\<close>

lemma answer_frame:
  assumes "dispatch e s req remote = (s1, a)" "answer e s req remote = (s', out)"
  shows "out = an_outcome a" "ws_store s' = ws_store s1" "ws_paired s' = ws_paired s1"
    "ws_pending s' = ws_pending s1" "ws_waiters s' = ws_waiters s1" "ws_decisions s' = ws_decisions s1"
    "ws_limiter s' = ws_limiter s1" "ws_offers s' = ws_offers s1"
    "ws_device_id s' = ws_device_id s1" "ws_node_id s' = ws_node_id s1"
  using assms
  by (auto simp: answer_def notify_def Let_def split: option.splits)

lemma pair_frame:
  assumes "(s', a) = pair e s remote device name ty"
  shows "ws_store s' = ws_store s" "ws_paired s' = ws_paired s" "ws_decisions s' = ws_decisions s"
    "ws_limiter s' = ws_limiter s" "ws_request_log s' = ws_request_log s" "an_device_id a = None"
  using assms
  by (auto simp: pair_def notify_def update_pending_def Let_def split: option.splits sum.splits if_splits)

lemma offer_decision_frame:
  assumes "offer_decision e s oid dev acc = Inr s'"
  shows "s' = s\<lparr>ws_offers := ws_offers s @ [\<lparr>od_offer_id = oid, od_device_id = dev, od_accepted = acc\<rparr>]\<rparr>"
  using assms by (auto simp: offer_decision_def Let_def split: if_splits)

text \<open>C1: a request with a token is refused, with one and the same answer and no effect on any state,
  unless a paired device has exactly that token and the connection's node id. A token is
  therefore useless from any node but the one it was issued to.\<close>

theorem unrecognised_token_changes_nothing:
  assumes "request_token req = Some token" "remote \<noteq> self_node s"
    and "list_all (\<lambda>row. \<not> admits row token remote) (ws_paired s)"
  shows "dispatch e s req remote =
    (s, reply (RspError Unauthorized ''the session token is not recognised''))"
proof -
  have "authorize e s token remote = Inl unauthorized"
    using assms(3) by (intro authorize_none) (simp add: list_all_iff)
  with assms(1,2) show ?thesis by (simp add: dispatch_refused failed_def unauthorized_def)
qed

text \<open>C30: no request ever pairs a device or changes a pairing, and only a push or a conflict resolution
  that presents the token of a paired device, from that device's node, changes the library.\<close>

theorem only_paired_nodes_change_the_library:
  assumes "answer e s req remote = (s', out)"
  shows "ws_paired s' = ws_paired s
    \<and> (ws_store s' \<noteq> ws_store s \<longrightarrow>
        (\<exists>token row. row \<in> set (ws_paired s) \<and> admits row token remote
           \<and> ((\<exists>xs. req = ReqPush token xs) \<or> (\<exists>i r m. req = ReqResolveConflict token i r m))))"
proof -
  obtain s1 a where d: "dispatch e s req remote = (s1, a)" by (cases "dispatch e s req remote")
  note f = answer_frame [OF d assms]
  from d show ?thesis
  proof (cases rule: dispatch_cases)
    case (push token xs dev)
    from push(2) obtain row where "row \<in> set (ws_paired s)" "admits row token remote"
      by (rule authorize_Inr)
    with f(2,3) push show ?thesis by auto
  next
    case (resolve token i r m dev)
    from resolve(2) obtain row where "row \<in> set (ws_paired s)" "admits row token remote"
      by (rule authorize_Inr)
    with f(2,3) resolve show ?thesis by auto
  next
    case (claimed device name ty)
    from pair_frame(1,2) [OF claimed(2)] f(2,3) show ?thesis by simp
  next
    case (offer token oid acc dev)
    from offer_decision_frame [OF offer(3)] f(2,3) show ?thesis by simp
  qed (use f(2,3) in simp_all)
qed

text \<open>The device an answer is logged under.\<close>

lemma dispatch_device:
  assumes "dispatch e s req remote = (s', a)" "an_device_id a = Some dev"
  obtains token where "request_token req = Some token" "authorize e s token remote = Inr dev"
proof (cases "request_token req")
  case None
  have notself: "remote \<noteq> self_node s" using assms by (auto simp: dispatch_def)
  show thesis
  proof (cases req)
    case (ReqPair device name ty)
    with assms notself show thesis
      by (auto simp: dispatch_def Let_def split: prod.splits if_splits dest!: pair_frame(6) [OF sym])
  next
    case (ReqPairStatus claim)
    with assms notself show thesis
      by (auto simp: dispatch_def pair_status_def Let_def split: prod.splits if_splits option.splits)
  next
    case (ReqOpds m p h b)
    with assms notself show thesis
      by (auto simp: dispatch_def opds_def Let_def split: if_splits option.splits sum.splits)
  qed (use assms notself None in \<open>auto simp: dispatch_def\<close>)
next
  case (Some token)
  have notself: "remote \<noteq> self_node s" using assms by (auto simp: dispatch_def)
  show thesis
  proof (cases "authorize e s token remote")
    case (Inl f)
    with dispatch_refused [OF Some Inl notself] assms show thesis by simp
  next
    case (Inr dev')
    have "an_device_id a \<in> {None, Some dev'}"
      using assms(1) Some Inr notself
      by (cases req) (auto simp: dispatch_def serve_file_def file_info_def cover_def Let_def
          split: if_splits sum.splits option.splits prod.splits)
    with assms(2) Inr Some that show thesis by simp
  qed
qed

text \<open>A request that is logged, and reported to the owner, under a device id was sent from the node
  of that paired device with the token issued to it.\<close>

theorem logged_device_is_authenticated:
  assumes "dispatch e s req remote = (s', a)" "an_device_id a = Some dev"
  shows "\<exists>token row. request_token req = Some token \<and> row \<in> set (ws_paired s)
    \<and> admits row token remote \<and> dev = db_id_display (we_deps e) (DbId (pd_device_id row))"
proof -
  from assms obtain token where t: "request_token req = Some token" "authorize e s token remote = Inr dev"
    by (rule dispatch_device)
  from t(2) obtain row where "row \<in> set (ws_paired s)" "admits row token remote"
    "dev = db_id_display (we_deps e) (DbId (pd_device_id row))" by (rule authorize_Inr)
  with t(1) show ?thesis by blast
qed

section \<open>The pairing handshake\<close>

text \<open>The state after a claim was filed.\<close>

lemma find_map_update:
  assumes "find (\<lambda>r. f r = k) xs = Some old" "f new = k"
  shows "find (\<lambda>r. f r = k) (map (\<lambda>r. if f r = f new then new else r) xs) = Some new"
  using assms by (induction xs) (auto split: if_splits)

lemma find_append_new: "find P xs = None \<Longrightarrow> P x \<Longrightarrow> find P (xs @ [x]) = Some x"
  by (induction xs) (auto split: if_splits)

lemma find_pending_frame [simp]:
  "find_pending (notify s m v) t = find_pending s t"
  "find_pending (s\<lparr>ws_waiters := w\<rparr>) t = find_pending s t"
  "ws_waiters (notify s m v) = ws_waiters s" "self_node (notify s m v) = self_node s"
  "self_node (s\<lparr>ws_waiters := w\<rparr>) = self_node s" "self_node (s\<lparr>ws_pending := p\<rparr>) = self_node s"
  "self_node (s\<lparr>ws_limiter := l\<rparr>) = self_node s"
  by (simp_all add: find_pending_def notify_def self_node_def split: option.splits)

lemma pair_filed:
  assumes "pair e s remote device name ty = (s', a)" "oc_response (an_outcome a) = RspPairingPending claim"
  obtains peer desktop where
    "or_else (ok (db_id_from_str (we_deps e) device)) (ok (from_hex (we_deps e) device)) = Some peer"
    "find_pending s' remote = Some (claim_row e remote desktop peer name ty)"
    "ws_waiters s' = (ws_waiters s)(remote \<mapsto> \<lparr>pw_claim = claim\<rparr>)"
    "claim = we_ulid e" "self_node s' = self_node s"
proof -
  let ?d = "we_deps e"
  from assms obtain peer where peer: "or_else (ok (db_id_from_str ?d device)) (ok (from_hex ?d device)) = Some peer"
    by (auto simp: pair_def Let_def split: option.splits)
  with assms obtain desktop where desk: "db_id_from_str ?d (ws_device_id s) = Inr desktop"
    by (auto simp: pair_def Let_def split: sum.splits)
  let ?row = "claim_row e remote desktop peer name ty"
  have tok: "pp_token ?row = remote" by (simp add: claim_row_def)
  let ?note = "json_obj [(''node_id'', JString remote), (''device_id'', JString device), (''name'', JString name)]"
  let ?filed = "\<lambda>s1. notify (s1\<lparr>ws_waiters := (ws_waiters s1)(remote \<mapsto> \<lparr>pw_claim = we_ulid e\<rparr>)\<rparr>)
    NOTIFY_PAIRING_REQUESTED ?note"
  show thesis
  proof (cases "find_pending s remote")
    case None
    let ?s = "s\<lparr>ws_pending := ws_pending s @ [?row]\<rparr>"
    have "find_pending ?s remote = Some ?row"
      using None tok by (simp add: find_pending_def find_append_new)
    moreover have "s' = ?filed ?s" "claim = we_ulid e"
      using assms None by (auto simp: pair_def peer desk Let_def)
    ultimately show thesis using peer by (intro that) simp_all
  next
    case (Some old)
    have "find_pending (update_pending s ?row) remote = Some ?row"
      using Some tok find_map_update [of pp_token remote "ws_pending s" old ?row]
      by (simp add: find_pending_def update_pending_def)
    moreover have "s' = ?filed (update_pending s ?row)" "claim = we_ulid e"
      using assms Some by (auto simp: pair_def peer desk Let_def split: if_splits)
    ultimately show thesis using peer by (intro that) (simp_all add: update_pending_def)
  qed
qed

lemma set_token_admits:
  assumes "set_token rows token node device = Inr rows'" "\<exists>r \<in> set rows. pd_device_id r = device"
  shows "\<exists>row \<in> set rows'. pd_session_token row = Some token \<and> pd_node_id row = Some node"
    and "\<And>row. row \<in> set rows' \<Longrightarrow> pd_session_token row = Some token \<Longrightarrow>
      pd_device_id row = device \<and> pd_node_id row = Some node"
proof -
  let ?f = "\<lambda>r. if pd_device_id r = device
    then r\<lparr>pd_session_token := Some token, pd_node_id := Some node\<rparr> else r"
  have rows': "rows' = map ?f rows"
    and uniq: "\<And>r. r \<in> set rows \<Longrightarrow> pd_session_token r = Some token \<Longrightarrow> pd_device_id r = device"
    using assms(1) by (auto simp: set_token_def split: if_splits)
  from assms(2) obtain r where r: "r \<in> set rows" "pd_device_id r = device" by blast
  then have "?f r \<in> set rows'" unfolding rows' set_map by (intro imageI)
  with r(2) show "\<exists>row \<in> set rows'. pd_session_token row = Some token \<and> pd_node_id row = Some node"
    by (intro bexI [of _ "?f r"]) simp_all
  fix row assume "row \<in> set rows'" "pd_session_token row = Some token"
  then show "pd_device_id row = device \<and> pd_node_id row = Some node"
    using uniq unfolding rows' by (auto split: if_splits)
qed

lemma upsert_paired_ids:
  "map pd_device_id (upsert_paired rows new) =
     (if pd_device_id new \<in> pd_device_id ` set rows then map pd_device_id rows
      else map pd_device_id rows @ [pd_device_id new])"
  by (auto simp: upsert_paired_def image_iff eq_commute)

lemma upsert_paired_has: "\<exists>r \<in> set (upsert_paired rows new). pd_device_id r = pd_device_id new"
proof -
  have "pd_device_id new \<in> set (map pd_device_id (upsert_paired rows new))"
    unfolding upsert_paired_ids by simp
  then show ?thesis by auto
qed

text \<open>What an approval leaves behind.\<close>

lemma approve_claim_Inr:
  assumes "approve_claim e s node = (s', Inr ap)"
  obtains pending device where "find_pending s node = Some pending"
    "device = (case pp_device_id pending of Some i \<Rightarrow> i | None \<Rightarrow> we_new_id e)"
    "ap = \<lparr>ca_device_id = db_id_display (we_deps e) device, ca_session_token = we_ulid e\<rparr>"
    "\<exists>row \<in> set (ws_paired s'). pd_session_token row = Some (we_ulid e) \<and> pd_node_id row = Some node"
    "\<forall>row \<in> set (ws_paired s'). pd_session_token row = Some (we_ulid e) \<longrightarrow>
       pd_device_id row = to_bytes device \<and> pd_node_id row = Some node"
    "find_pending s' node = Some (pending\<lparr>pp_status_id := Some (status_id e Approved)\<rparr>)"
    "(ws_waiters s', ws_decisions s') = fst (apply_pairing_decision (we_instant e)
       (ws_waiters s, ws_decisions s) node ''approved'' (we_ulid e) (Some (db_id_display (we_deps e) device)))"
    "self_node s' = self_node s"
proof -
  from assms obtain pending where p: "find_pending s node = Some pending"
    by (auto simp: approve_claim_def split: option.splits)
  have tok: "pp_token pending = node" using find_SomeD p by (fastforce simp: find_pending_def)
  let ?dev = "case pp_device_id pending of Some i \<Rightarrow> i | None \<Rightarrow> we_new_id e"
  let ?model = "\<lparr>pd_device_id = to_bytes ?dev, pd_name = pp_device_name pending,
    pd_listen_on = None, pd_device_type_id = pp_device_type_id pending,
    pd_paired_at = we_now e, pd_last_sync_at = None, pd_outbound = True,
    pd_session_token = None, pd_node_id = None, pd_peer_session_token = None\<rparr>"
  let ?rows = "upsert_paired (ws_paired s) ?model"
  from assms p obtain rows where r: "set_token ?rows (we_ulid e) node (to_bytes ?dev) = Inr rows"
    by (auto simp: approve_claim_def Let_def split: sum.splits)
  have has: "\<exists>r \<in> set ?rows. pd_device_id r = to_bytes ?dev"
    using upsert_paired_has [of "ws_paired s" ?model] by simp
  note t = set_token_admits [OF r has]
  have s': "ws_paired s' = rows" "ap = \<lparr>ca_device_id = db_id_display (we_deps e) ?dev, ca_session_token = we_ulid e\<rparr>"
    "(ws_waiters s', ws_decisions s') = fst (apply_pairing_decision (we_instant e)
       (ws_waiters s, ws_decisions s) node ''approved'' (we_ulid e) (Some (db_id_display (we_deps e) ?dev)))"
    "ws_pending s' = map (\<lambda>r. if pp_token r = pp_token pending
       then pending\<lparr>pp_status_id := Some (status_id e Approved)\<rparr> else r) (ws_pending s)"
    "self_node s' = self_node s"
    using assms p r
    by (auto simp: approve_claim_def decide_def update_pending_def self_node_def Let_def
        split: prod.splits option.splits)
  have "find_pending s' node = Some (pending\<lparr>pp_status_id := Some (status_id e Approved)\<rparr>)"
    using find_map_update [of pp_token node "ws_pending s" pending
        "pending\<lparr>pp_status_id := Some (status_id e Approved)\<rparr>"] p tok
    by (simp add: find_pending_def s'(4))
  with p t s' show thesis by (intro that [of pending ?dev]) simp_all
qed

lemma alnum_char: "is_ascii_alphanumeric c \<Longrightarrow> is_ascii c \<and> \<not> is_whitespace [c]"
  by (auto simp: ascii_defs byte_def)

lemma trim_alnum:
  assumes "list_all is_ascii_alphanumeric t"
  shows "trim t = t"
proof (rule trim_id)
  show "list_all is_ascii t" using assms alnum_char by (auto simp: list_all_iff)
  show "t = [] \<or> \<not> is_whitespace [hd t] \<and> \<not> is_whitespace [last t]"
    using assms alnum_char hd_in_set last_in_set by (metis list_all_iff)
qed

lemma dispatch_pair:
  assumes "dispatch e s (ReqPair device name ty) remote = (s', a)"
    "oc_response (an_outcome a) = RspPairingPending claim"
  shows "remote \<noteq> self_node s"
    "pair e (s\<lparr>ws_limiter := fst (allow_at (ws_limiter s) remote (we_instant e))\<rparr>) remote device name ty = (s', a)"
  using assms by (auto simp: dispatch_def Let_def split: prod.splits if_splits)

text \<open>C4: the pairing handshake. When a node files a claim, the owner approves it, and the node polls
  with the claim's secret within its time to live, it is handed the token the approval minted; with
  that token, from that node, requests are authenticated as the device the claim named, and from
  any other node the token is refused.\<close>

theorem approved_claim_authenticates_its_node:
  assumes deps: "ulid_ok d" "we_deps e1 = d" "we_deps e2 = d" "we_deps e3 = d"
    and claim: "dispatch e1 s (ReqPair device name ty) remote = (s1, a1)"
      "oc_response (an_outcome a1) = RspPairingPending secret"
    and approve: "approve_claim e2 s1 remote = (s2, Inr ap)"
    and poll: "dispatch e3 s2 (ReqPairStatus secret) remote = (s3, a3)"
      "we_instant e3 - we_instant e2 < PAIR_DECISION_TTL"
    and wf: "distinct (map fst (ws_decisions s))"
    and token: "we_ulid e2 \<noteq> []" "list_all is_ascii_alphanumeric (we_ulid e2)"
  shows "\<exists>peer. parse_id d device = Some peer
    \<and> oc_response (an_outcome a3) = RspPaired (db_id_display d peer) (we_ulid e2)
    \<and> authorize e3 s3 (we_ulid e2) remote = Inr (db_id_display d peer)
    \<and> (\<forall>node. node \<noteq> remote \<longrightarrow> authorize e3 s3 (we_ulid e2) node = Inl unauthorized)"
proof -
  note p = dispatch_pair [OF claim]
  from p(2) claim(2) obtain peer desktop where
    peer: "or_else (ok (db_id_from_str (we_deps e1) device)) (ok (from_hex (we_deps e1) device)) = Some peer"
    and row: "find_pending s1 remote = Some (claim_row e1 remote desktop peer name ty)"
    and wait: "ws_waiters s1 remote = Some \<lparr>pw_claim = secret\<rparr>" and self: "self_node s1 = self_node s"
    by (rule pair_filed) simp
  have dec: "ws_decisions s1 = ws_decisions s" using pair_frame(3) [OF p(2) [symmetric]] by simp
  have peer': "parse_id d device = Some peer" using peer deps(2) by (simp add: parse_id_def)
  have wf16: "length (to_bytes peer) = 16"
    using peer deps(1,2) from_hex_wf [of d device peer]
    by (auto simp: or_else_def ok_def db_id_from_str_def ulid_ok_def db_id_wf_def split: option.splits sum.splits)
  from approve obtain pending dev where pend: "find_pending s1 remote = Some pending"
    and dev: "dev = (case pp_device_id pending of Some i \<Rightarrow> i | None \<Rightarrow> we_new_id e2)"
    and "ap = \<lparr>ca_device_id = db_id_display (we_deps e2) dev, ca_session_token = we_ulid e2\<rparr>"
    and s2': "\<exists>r \<in> set (ws_paired s2). pd_session_token r = Some (we_ulid e2) \<and> pd_node_id r = Some remote"
    and uniq: "\<forall>r \<in> set (ws_paired s2). pd_session_token r = Some (we_ulid e2) \<longrightarrow>
       pd_device_id r = to_bytes dev \<and> pd_node_id r = Some remote"
    and "find_pending s2 remote = Some (pending\<lparr>pp_status_id := Some (status_id e2 Approved)\<rparr>)"
    and app: "(ws_waiters s2, ws_decisions s2) = fst (apply_pairing_decision (we_instant e2)
       (ws_waiters s1, ws_decisions s1) remote ''approved'' (we_ulid e2)
       (Some (db_id_display (we_deps e2) dev)))"
    and self2: "self_node s2 = self_node s1"
    by (elim approve_claim_Inr) (rule that; assumption)
  have [simp]: "dev = peer" using pend row dev by (auto simp: claim_row_def)
  have gone: "ws_waiters s2 remote = None"
    and ds: "ws_decisions s2 = record_decision (we_instant e2) (ws_decisions s1) secret remote True
      (we_ulid e2) (Some (db_id_display d peer))"
    using app wait deps(3) by (simp_all add: apply_pairing_decision_def)
  have "snd (decided (we_instant e3) (ws_decisions s2) secret remote) =
    Some \<lparr>dp_node_id = remote, dp_approved = True, dp_device_id = Some (db_id_display d peer),
          dp_session_token = we_ulid e2, dp_decided_at = we_instant e2\<rparr>"
    using poll(2) wf dec
    by (subst decided_spec) (simp_all add: ds record_decision_distinct record_decision_lookup)
  then have a3: "oc_response (an_outcome a3) = RspPaired (db_id_display d peer) (we_ulid e2)"
    and s3: "ws_paired s3 = ws_paired s2"
    using poll(1) gone p(1) self self2
    by (auto simp: dispatch_def pair_status_def decided_response_def Let_def split: prod.splits option.splits)
  have t: "trim (we_ulid e2) = we_ulid e2" by (rule trim_alnum [OF token(2)])
  have "authorize e3 s3 (we_ulid e2) node = Inl unauthorized" if "node \<noteq> remote" for node
    using uniq that s3 by (intro authorize_none) (auto simp: admits_def t)
  moreover have "authorize e3 s3 (we_ulid e2) remote = Inr (db_id_display d peer)"
  proof -
    let ?P = "\<lambda>r. pd_session_token r = Some (we_ulid e2) \<and> pd_node_id r = Some remote"
    obtain r where r: "find ?P (ws_paired s2) = Some r"
      using s2' by (cases "find ?P (ws_paired s2)") (auto simp: find_None_iff)
    with find_SomeD [OF r] uniq have "pd_device_id r = to_bytes peer" by simp
    with r show ?thesis using token(1) t s3 wf16 deps(4) by (simp add: authorize_def)
  qed
  ultimately show ?thesis using peer' a3 by blast
qed

lemma reject_claim_Inr:
  assumes "reject_claim e s node = (s', Inr u)"
  obtains pending where "find_pending s node = Some pending" "ws_paired s' = ws_paired s"
    "ws_store s' = ws_store s"
    "find_pending s' node = Some (pending\<lparr>pp_status_id := Some (status_id e Rejected)\<rparr>)"
    "(ws_waiters s', ws_decisions s') = fst (apply_pairing_decision (we_instant e)
       (ws_waiters s, ws_decisions s) node ''rejected'' []
       (map_option (db_id_display (we_deps e)) (pp_device_id pending)))"
    "self_node s' = self_node s"
proof -
  from assms obtain pending where p: "find_pending s node = Some pending"
    by (auto simp: reject_claim_def split: option.splits)
  have tok: "pp_token pending = node" using find_SomeD p by (fastforce simp: find_pending_def)
  let ?new = "pending\<lparr>pp_status_id := Some (status_id e Rejected)\<rparr>"
  have s': "ws_paired s' = ws_paired s" "ws_store s' = ws_store s" "self_node s' = self_node s"
    "ws_pending s' = map (\<lambda>r. if pp_token r = pp_token ?new then ?new else r) (ws_pending s)"
    "(ws_waiters s', ws_decisions s') = fst (apply_pairing_decision (we_instant e)
       (ws_waiters s, ws_decisions s) node ''rejected'' []
       (map_option (db_id_display (we_deps e)) (pp_device_id pending)))"
    using assms p
    by (auto simp: reject_claim_def decide_def update_pending_def self_node_def Let_def
        split: prod.splits option.splits)
  have "find_pending s' node = Some ?new"
    using find_map_update [of pp_token node "ws_pending s" pending ?new] p tok
    by (simp add: find_pending_def s'(4))
  with p s' show thesis by (intro that) simp_all
qed

text \<open>A node whose claim was decided.\<close>

lemma decided_row_refuses:
  assumes "find_pending s remote = Some row" "pp_status_id row \<noteq> Some (status_id e Pending)"
  shows "fst (pair e s remote device name ty) = s
    \<and> (\<forall>claim. oc_response (an_outcome (snd (pair e s remote device name ty))) \<noteq> RspPairingPending claim)"
  using assms by (auto simp: pair_def Let_def split: option.splits sum.splits)

text \<open>A decision is final. Once the owner approved or rejected a node's claim, a further claim
  from that node is never filed: the pairing state stays as it is. After a rejection the
  claimant's poll is answered with a refusal, and the paired devices are those before.\<close>

theorem decided_claim_is_final:
  assumes "parts_ok parts" "we_parts e = parts" "we_parts e2 = parts"
    and "approve_claim e s node = (s', Inr ap) \<or> reject_claim e s node = (s', Inr ())"
  shows "fst (pair e2 s' node device name ty) = s'
    \<and> oc_response (an_outcome (snd (pair e2 s' node device name ty))) \<noteq> RspPairingPending secret
    \<and> (\<forall>w. reject_claim e s node = (s', Inr ()) \<and> distinct (map fst (ws_decisions s))
          \<and> ws_waiters s node = Some w \<and> we_instant e3 - we_instant e < PAIR_DECISION_TTL \<longrightarrow>
         ws_paired s' = ws_paired s \<and>
         oc_response (an_outcome (snd (pair_status e3 s' node (pw_claim w)))) =
           RspRefused ''the pairing was rejected'')"
proof (intro conjI allI impI)
  have differ: "status_id e Approved \<noteq> status_id e2 Pending" "status_id e Rejected \<noteq> status_id e2 Pending"
    using assms(1-3) by (simp_all add: status_id_def status_db_id_inject)
  have "\<exists>row. find_pending s' node = Some row \<and> pp_status_id row \<noteq> Some (status_id e2 Pending)"
    using assms(4)
  proof
    assume "approve_claim e s node = (s', Inr ap)"
    then show ?thesis by (elim approve_claim_Inr) (simp add: differ)
  next
    assume "reject_claim e s node = (s', Inr ())"
    then show ?thesis by (elim reject_claim_Inr) (simp add: differ)
  qed
  then obtain row where "find_pending s' node = Some row" "pp_status_id row \<noteq> Some (status_id e2 Pending)"
    by blast
  from decided_row_refuses [OF this]
  show "fst (pair e2 s' node device name ty) = s'"
    "oc_response (an_outcome (snd (pair e2 s' node device name ty))) \<noteq> RspPairingPending secret"
    by blast+
  fix w
  assume a: "reject_claim e s node = (s', Inr ()) \<and> distinct (map fst (ws_decisions s))
    \<and> ws_waiters s node = Some w \<and> we_instant e3 - we_instant e < PAIR_DECISION_TTL"
  then obtain pending :: pending_pairing where r: "ws_paired s' = ws_paired s"
    "(ws_waiters s', ws_decisions s') = fst (apply_pairing_decision (we_instant e)
       (ws_waiters s, ws_decisions s) node ''rejected'' []
       (map_option (db_id_display (we_deps e)) (pp_device_id pending)))"
    by (elim conjE reject_claim_Inr) (rule that; assumption)
  show "ws_paired s' = ws_paired s" by (rule r(1))
  let ?dev = "map_option (db_id_display (we_deps e)) (pp_device_id pending)"
  have gone: "ws_waiters s' node = None"
    and ds: "ws_decisions s' = record_decision (we_instant e) (ws_decisions s) (pw_claim w) node False [] ?dev"
    using r(2) a by (simp_all add: apply_pairing_decision_def)
  have "snd (decided (we_instant e3) (ws_decisions s') (pw_claim w) node) =
    Some \<lparr>dp_node_id = node, dp_approved = False, dp_device_id = ?dev, dp_session_token = [],
          dp_decided_at = we_instant e\<rparr>"
    using a by (subst decided_spec) (simp_all add: ds record_decision_distinct record_decision_lookup)
  then show "oc_response (an_outcome (snd (pair_status e3 s' node (pw_claim w)))) =
    RspRefused ''the pairing was rejected''"
    using gone
    by (auto simp: pair_status_def decided_response_def Let_def split: prod.splits option.splits)
qed

section \<open>Files\<close>

lemma serve_file_header:
  assumes "serve_file e s token remote i offset len if_range = a" "oc_response (an_outcome a) = RspFile h"
  obtains dev path bytes modified where "authorize e s token remote = Inr dev"
    "we_metadata e path = Some (bytes, modified)" "offset \<le> bytes"
    "fh_total h = bytes" "fh_etag h = file_etag bytes modified"
    "(fh_offset h, fh_length h) =
       (if if_range = Some (fh_etag h)
        then (offset, min (case len of Some l \<Rightarrow> l | None \<Rightarrow> bytes - offset) (bytes - offset))
        else (0, bytes))"
    "oc_body (an_outcome a) = Some \<lparr>fb_path = path, fb_offset = fh_offset h, fb_length = fh_length h\<rparr>"
  using assms
  by (auto simp: serve_file_def file_metadata_of_def outcome_file_def Let_def
      split: sum.splits option.splits prod.splits if_splits)

text \<open>C9: the window of a served file lies within the file. A request whose \<open>if_range\<close> is the file's
  current etag is served from its own offset, at most the length asked for; any other request is
  served the whole file; and what the stream carries after the header is that window of the
  file's bytes, in full.\<close>

theorem served_window_is_within_the_file:
  assumes "serve_file e s token remote i offset len if_range = a"
    and "oc_response (an_outcome a) = RspFile h" "oc_body (an_outcome a) = Some body"
    and "\<And>path n m. we_metadata e path = Some (n, m) \<Longrightarrow> map_option length (we_contents e path) = Some n"
  shows "fh_offset h + fh_length h \<le> fh_total h
    \<and> (if_range = Some (fh_etag h) \<longrightarrow> fh_offset h = offset
         \<and> fh_length h = min (case len of Some l \<Rightarrow> l | None \<Rightarrow> fh_total h - offset) (fh_total h - offset))
    \<and> (if_range \<noteq> Some (fh_etag h) \<longrightarrow> fh_offset h = 0 \<and> fh_length h = fh_total h)
    \<and> (\<exists>bytes. we_contents e (fb_path body) = Some bytes \<and> length bytes = fh_total h
         \<and> length (take (fb_length body) (drop (fb_offset body) bytes)) = fh_length h)"
proof -
  from assms(1,2) obtain dev path bytes modified where h: "authorize e s token remote = Inr dev"
    "we_metadata e path = Some (bytes, modified)" "offset \<le> bytes"
    "fh_total h = bytes" "fh_etag h = file_etag bytes modified"
    "(fh_offset h, fh_length h) =
       (if if_range = Some (fh_etag h)
        then (offset, min (case len of Some l \<Rightarrow> l | None \<Rightarrow> bytes - offset) (bytes - offset))
        else (0, bytes))"
    "oc_body (an_outcome a) = Some \<lparr>fb_path = path, fb_offset = fh_offset h, fb_length = fh_length h\<rparr>"
    by (rule serve_file_header)
  have body: "body = \<lparr>fb_path = path, fb_offset = fh_offset h, fb_length = fh_length h\<rparr>"
    using h(7) assms(3) by simp
  have within: "fh_offset h + fh_length h \<le> fh_total h"
    using h(3,4,6) by (auto split: if_splits)
  obtain cs where "we_contents e path = Some cs" "length cs = bytes"
    using assms(4) [OF h(2)] by auto
  with within h(4,6) show ?thesis unfolding body by (cases len) (auto split: if_splits)
qed

section \<open>Offers\<close>

lemma run_touches_extends: "run_touches q s ts = (s', r) \<Longrightarrow> log_extends s s'"
proof (induction ts arbitrary: s)
  case Nil
  then show ?case by (simp add: log_extends_refl)
next
  case (Cons t ts)
  obtain sql vals where t: "t = (sql, vals)" by (cases t)
  show ?case
  proof (cases "execute_raw q s sql vals")
    case (Inl x)
    with Cons.prems t show ?thesis by (simp add: log_extends_refl)
  next
    case (Inr s1)
    with Cons.prems t have "log_extends s1 s'" by (intro Cons.IH) simp
    with execute_raw_extends [OF Inr] show ?thesis by (rule log_extends_trans)
  qed
qed

lemma offer_book_cases:
  assumes "offer_book e s edition device = (s', r)"
  obtains (refused) "s' = s" "\<exists>x. r = Inl x"
  | (written) eid iv payload store1 store2 res where "offer_checks e s edition device = Inr (eid, iv, payload)"
      "insert_log (ws_store s) (offer_row e s (to_hex (we_deps e) (iv_id iv)) payload) = Inr store1"
      "run_touches (we_sqlite e) store1 (touch_statements (iv_id iv) eid) = (store2, res)"
      "s' = s\<lparr>ws_store := store2\<rparr>"
      "\<And>offer. r = Inr offer \<Longrightarrow>
         offer = \<lparr>co_offer_id = we_ulid e, co_inventory_id = to_hex (we_deps e) (iv_id iv)\<rparr>"
proof (cases "offer_checks e s edition device")
  case (Inl x)
  with assms refused show thesis by (auto simp: offer_book_def)
next
  case (Inr c)
  obtain eid iv payload where c: "c = (eid, iv, payload)" by (cases c)
  let ?row = "offer_row e s (to_hex (we_deps e) (iv_id iv)) payload"
  show thesis
  proof (cases "insert_log (ws_store s) ?row")
    case (Inl x)
    with assms Inr c refused show thesis by (auto simp: offer_book_def Let_def)
  next
    case ins: (Inr store1)
    obtain store2 res where t: "run_touches (we_sqlite e) store1 (touch_statements (iv_id iv) eid) = (store2, res)"
      by (cases "run_touches (we_sqlite e) store1 (touch_statements (iv_id iv) eid)")
    show thesis
      using assms Inr c ins t by (intro written [of eid iv payload store1 store2 res])
        (auto simp: offer_book_def Let_def split: sum.splits)
  qed
qed

lemma offer_checks_Inr:
  assumes "offer_checks e s edition device = Inr (eid, iv, payload)"
  obtains dev er path title where "parse_id (we_deps e) device = Some dev"
    "find_paired s (to_bytes dev) \<noteq> None" "payload = offer_payload e s dev eid er iv path title"
  using assms by (auto simp: offer_checks_def Let_def split: if_splits prod.splits)

lemma offer_payload_target:
  "Option.bind (json_get (offer_payload e s dev eid er iv path title) ''to_device_id'') as_str =
     Some (db_id_display (we_deps e) dev)"
  "Option.bind (json_get (offer_payload e s dev eid er iv path title) ''offer_id'') as_str = Some (we_ulid e)"
  by (simp_all add: offer_payload_def Let_def json_get_obj)

text \<open>C32: an offer reaches its device and no other. Offering a book to a paired device records a row
  in the change log with a version above all before, whose change the filter of the pull passes
  to exactly that device.\<close>

theorem offer_is_visible_to_its_device_only:
  assumes "offer_book e s edition device = (s', Inr offer)"
    and "\<And>eid iv v. offer_checks e s edition device = Inr (eid, iv, v) \<Longrightarrow>
      json_from_str (we_deps e) (json_to_string (we_deps e) v) = Inr v"
  shows "\<exists>dev row c. parse_id (we_deps e) device = Some dev \<and> find_paired s (to_bytes dev) \<noteq> None
    \<and> row \<in> set (change_log (ws_store s')) \<and> to_change row = Some c
    \<and> ch_entity_type c = ''file_offer'' \<and> ch_entity_id c = co_inventory_id offer
    \<and> max_version (ws_store s) < ch_version c
    \<and> (\<forall>other. change_is_for (we_deps e) c other \<longleftrightarrow> other = db_id_display (we_deps e) dev)"
proof -
  obtain dev eid er iv path title store1 where
    o: "parse_id (we_deps e) device = Some dev" "find_paired s (to_bytes dev) \<noteq> None"
      "insert_log (ws_store s) (offer_row e s (co_inventory_id offer)
         (offer_payload e s dev eid er iv path title)) = Inr store1"
      "log_extends store1 (ws_store s')"
      "offer_checks e s edition device = Inr (eid, iv, offer_payload e s dev eid er iv path title)"
    using assms(1)
  proof (cases rule: offer_book_cases)
    case (written eid iv payload store1 store2 res)
    from written(1) obtain dev er path title where "parse_id (we_deps e) device = Some dev"
      "find_paired s (to_bytes dev) \<noteq> None" "payload = offer_payload e s dev eid er iv path title"
      by (rule offer_checks_Inr)
    with written run_touches_extends [OF written(3)] show ?thesis
      by (intro that [of dev eid er iv path title store1]) simp_all
  qed simp
  let ?row = "(offer_row e s (co_inventory_id offer) (offer_payload e s dev eid er iv path title))
    \<lparr>lr_id := log_seq (ws_store s) + 1\<rparr>"
  have "?row \<in> set (change_log store1)" using insert_log_frame(5) [OF o(3)] by auto
  then have "?row \<in> set (change_log (ws_store s'))" using o(4) by (auto simp: log_extends_def)
  moreover obtain c where c: "to_change ?row = Some c" by (simp add: to_change_def offer_row_def)
  moreover have "ch_entity_type c = ''file_offer''" "ch_entity_id c = co_inventory_id offer"
    "max_version (ws_store s) < ch_version c"
    "ch_payload c = json_to_string (we_deps e) (offer_payload e s dev eid er iv path title)"
    using c by (auto simp: to_change_def offer_row_def)
  moreover from this have "change_is_for (we_deps e) c other \<longleftrightarrow> other = db_id_display (we_deps e) dev" for other
    by (auto simp: change_is_for_def assms(2) [OF o(5)] offer_payload_target)
  ultimately show ?thesis using o(1,2) by blast
qed

text \<open>A peer's page of changes is the engine's page without the offers made to other devices: the
  cursor and the flag that more follows are the engine's, every change that is not an offer is
  there, and no offer to another device is.\<close>

theorem changes_hide_offers_to_others:
  assumes "dispatch e s (ReqChanges token since limit) remote = (s', a)"
    and "oc_response (an_outcome a) = RspChanges page"
  shows "\<exists>dev. authorize e s token remote = Inr dev \<and> s' = s
    \<and> (let full = pull_changes (we_sqlite e) (ws_store s) since (case limit of Some l \<Rightarrow> l | None \<Rightarrow> 100) in
       pr_has_more page = pr_has_more full \<and> pr_latest_version page = pr_latest_version full
       \<and> filter (\<lambda>c. ch_entity_type c \<noteq> ''file_offer'') (pr_changes page) =
           filter (\<lambda>c. ch_entity_type c \<noteq> ''file_offer'') (pr_changes full)
       \<and> (\<forall>c v target. c \<in> set (pr_changes page) \<and> ch_entity_type c = ''file_offer''
             \<and> json_from_str (we_deps e) (ch_payload c) = Inr v
             \<and> json_get v ''to_device_id'' = Some (JString target) \<longrightarrow> target = dev))"
proof -
  let ?full = "pull_changes (we_sqlite e) (ws_store s) since (case limit of Some l \<Rightarrow> l | None \<Rightarrow> 100)"
  have notself: "remote \<noteq> self_node s" using assms by (auto simp: dispatch_def)
  obtain dev where auth: "authorize e s token remote = Inr dev"
  proof (cases "authorize e s token remote")
    case (Inl f)
    with assms dispatch_refused [OF _ Inl notself, of "ReqChanges token since limit"] show ?thesis by auto
  next
    case (Inr dev)
    then show ?thesis by (rule that)
  qed
  have s': "s' = s"
    and page: "page = ?full\<lparr>pr_changes := filter (\<lambda>c. change_is_for (we_deps e) c dev) (pr_changes ?full)\<rparr>"
    using assms notself auth by (auto simp: dispatch_def Let_def)
  have others: "filter (\<lambda>c. ch_entity_type c \<noteq> ''file_offer'') (pr_changes page) =
    filter (\<lambda>c. ch_entity_type c \<noteq> ''file_offer'') (pr_changes ?full)"
    unfolding page by (simp add: change_is_for_def conj_commute cong: conj_cong)
  have "target = dev" if "c \<in> set (pr_changes page)" "ch_entity_type c = ''file_offer''"
    "json_from_str (we_deps e) (ch_payload c) = Inr v" "json_get v ''to_device_id'' = Some (JString target)"
    for c v target
  proof -
    have "change_is_for (we_deps e) c dev" using that(1) by (simp add: page)
    with that(2-4) show ?thesis by (simp add: change_is_for_def)
  qed
  moreover have "pr_has_more page = pr_has_more ?full" "pr_latest_version page = pr_latest_version ?full"
    by (simp_all add: page)
  ultimately show ?thesis unfolding Let_def using auth s' others by blast
qed

text \<open>The tokens issued to the paired devices.\<close>

definition tokens :: "paired_device list \<Rightarrow> string list" where
  "tokens rows = List.map_filter pd_session_token rows"

lemma tokens_Cons: "tokens (r # rows) = (case pd_session_token r of Some t \<Rightarrow> t # tokens rows | None \<Rightarrow> tokens rows)"
  by (simp add: tokens_def List.map_filter_simps split: option.splits)

lemma tokens_in: "t \<in> set (tokens rows) \<longleftrightarrow> (\<exists>r \<in> set rows. pd_session_token r = Some t)"
  by (induction rows) (auto simp: tokens_Cons tokens_def List.map_filter_simps split: option.splits)

lemma tokens_map: "(\<And>r. r \<in> set rows \<Longrightarrow> pd_session_token (f r) = pd_session_token r) \<Longrightarrow>
  tokens (map f rows) = tokens rows"
  by (induction rows) (auto simp: tokens_Cons split: option.splits)

lemma tokens_filter_distinct: "distinct (tokens rows) \<Longrightarrow> distinct (tokens (filter P rows))"
  by (induction rows) (auto simp: tokens_Cons tokens_in split: option.splits)

lemma upsert_paired_tokens:
  "pd_session_token new = None \<Longrightarrow> tokens (upsert_paired rows new) = tokens rows"
  by (auto simp: upsert_paired_def intro!: tokens_map)
     (induction rows, auto simp: tokens_Cons tokens_def List.map_filter_simps split: option.splits)

section \<open>Evaluation on a concrete endpoint\<close>

abbreviation "node_deps \<equiv> ref_deps (\<lambda>_. Inl ''expected value'')"

definition ref_env :: "nat \<Rightarrow> string \<Rightarrow> (string \<times> sql_value list) list wire_env" where
  "ref_env instant ulid =
     \<lparr>we_deps = node_deps, we_sqlite = ref_sqlite,
      we_inventory = (\<lambda>db i. Some \<lparr>iv_id = i, iv_file_path = Some ''b.epub'', iv_cover_path = None,
         iv_file_hash = None, iv_file_size_bytes = None\<rparr>),
      we_inventory_of = (\<lambda>db i. Some \<lparr>iv_id = i, iv_file_path = Some ''b.epub'', iv_cover_path = None,
         iv_file_hash = None, iv_file_size_bytes = None\<rparr>),
      we_edition = (\<lambda>db i. Some \<lparr>er_work_id = i, er_title = None\<rparr>),
      we_work_title = (\<lambda>db i. Some ''Title''), we_authors = (\<lambda>db i. []), we_sql_error = id,
      we_json_extract = (\<lambda>t. Inr None),
      we_metadata = (\<lambda>p. if p = ''b.epub'' then Some (5, None) else None),
      we_contents = (\<lambda>p. if p = ''b.epub'' then Some ''bytes'' else None),
      we_file_name = Some, we_host = None,
      we_opds_headers_value = (\<lambda>h. JNull), we_opds_from_value = (\<lambda>v. Inl ''no''),
      we_request_from_slice = (\<lambda>t. Inl ''no''), we_response_to_vec = (\<lambda>r. Inl ''no''),
      we_parts = ref_parts, we_hash = (\<lambda>s. 0), we_lower = to_ascii_lowercase,
      we_instant = instant, we_now = instant, we_now_string = ''now'', we_elapsed_ms = 0,
      we_ulid = ulid, we_new_id = DbId ''NNNNNNNNNNNNNNNN''\<rparr>"

lemma ref_env_simps [simp]:
  "we_deps (ref_env i u) = node_deps" "we_parts (ref_env i u) = ref_parts"
  "we_instant (ref_env i u) = i" "we_ulid (ref_env i u) = u"
  by (simp_all add: ref_env_def)

definition fresh_endpoint :: "(string \<times> sql_value list) list wire_state" where
  "fresh_endpoint = new_wire_state empty_store ''D'' [] [] (ref_ulid_to_string ''DDDDDDDDDDDDDDDD'')"

definition phone :: string where "phone = ref_ulid_to_string ''PPPPPPPPPPPPPPPP''"

definition phone_row :: paired_device where
  "phone_row = \<lparr>pd_device_id = ''PPPPPPPPPPPPPPPP'', pd_name = None, pd_listen_on = None,
     pd_device_type_id = None, pd_paired_at = 0, pd_last_sync_at = None, pd_outbound = True,
     pd_session_token = Some ''T1'', pd_node_id = Some ''node'', pd_peer_session_token = None\<rparr>"

definition paired_endpoint :: "(string \<times> sql_value list) list wire_state" where
  "paired_endpoint = new_wire_state empty_store ''D'' [phone_row] [] (ref_ulid_to_string ''DDDDDDDDDDDDDDDD'')"

lemma endpoint_simps [simp]:
  "ws_paired paired_endpoint = [phone_row]" "ws_store paired_endpoint = empty_store"
  "ws_decisions fresh_endpoint = []" "ws_pending fresh_endpoint = []" "ws_paired fresh_endpoint = []"
  "self_node paired_endpoint = ref_ulid_to_string ''DDDDDDDDDDDDDDDD''"
  "self_node fresh_endpoint = ref_ulid_to_string ''DDDDDDDDDDDDDDDD''"
  by (simp_all add: paired_endpoint_def fresh_endpoint_def new_wire_state_def self_node_def new_pair_decisions_def)

lemma trim_T: "trim ''T1'' = ''T1''"
  by (rule trim_alnum) (simp add: ascii_defs byte_def)

lemma authorize_phone: "authorize (ref_env i u) paired_endpoint ''T1'' ''node'' = Inr phone"
  by (simp add: authorize_def trim_T phone_row_def phone_def db_id_display_def)

theorem unrecognised_token_changes_nothing_witness:
  "dispatch (ref_env 0 ''U'') paired_endpoint (ReqPush ''T1'' []) ''thief'' =
    (paired_endpoint, reply (RspError Unauthorized ''the session token is not recognised''))"
  by (rule unrecognised_token_changes_nothing [of _ "''T1''"])
     (simp_all add: admits_def phone_row_def ref_ulid_to_string_def)

theorem only_paired_nodes_change_the_library_witness:
  "ws_paired (fst (answer (ref_env 0 ''U'') paired_endpoint (ReqStatus ''T1'') ''node'')) = [phone_row]"
  using only_paired_nodes_change_the_library [of "ref_env 0 ''U''" paired_endpoint "ReqStatus ''T1''" "''node''"]
  by (cases "answer (ref_env 0 ''U'') paired_endpoint (ReqStatus ''T1'') ''node''") simp

lemma status_phone:
  "dispatch (ref_env i u) paired_endpoint (ReqStatus ''T1'') ''node'' =
    (paired_endpoint, with_device (reply (RspStatus
       \<lparr>st_latest_version = 0, st_device_id = ws_device_id paired_endpoint\<rparr>)) phone)"
  by (simp add: dispatch_def Let_def authorize_phone get_latest_version_def max_version_def empty_store_def
      ref_ulid_to_string_def)

theorem logged_device_is_authenticated_witness:
  "\<exists>token row. request_token (ReqStatus ''T1'') = Some token \<and> row \<in> set (ws_paired paired_endpoint)
    \<and> admits row token ''node'' \<and> phone = db_id_display node_deps (DbId (pd_device_id row))"
  using logged_device_is_authenticated [OF status_phone [of 0 "''U''"], of phone] by simp

lemma approve_claim_ok:
  assumes "find_pending s node = Some p" "list_all (\<lambda>r. pd_session_token r \<noteq> Some (we_ulid e)) (ws_paired s)"
  shows "\<exists>s' ap. approve_claim e s node = (s', Inr ap)"
proof -
  have "we_ulid e \<notin> set (tokens (ws_paired s))" using assms(2) by (auto simp: tokens_in list_all_iff)
  then have fresh: False if "r \<in> set (upsert_paired (ws_paired s) m)" "pd_session_token r = Some (we_ulid e)"
    "pd_session_token m = None" for r m
    using that upsert_paired_tokens [of m "ws_paired s"] tokens_in by metis
  show ?thesis
    using assms(1) by (auto simp: approve_claim_def set_token_def Let_def dest: fresh)
qed

lemma file_claim:
  "oc_response (an_outcome (snd (dispatch (ref_env 0 ''C1'') fresh_endpoint (ReqPair phone ''p'' ''ios'') ''node''))) =
     RspPairingPending ''C1''"
  by (simp add: dispatch_def Let_def pair_def phone_def db_id_from_str_def ref_ulid_from_str_def
      ref_ulid_to_string_def or_else_def find_pending_def allow_at_def open_windows_def fresh_endpoint_def
      new_wire_state_def self_node_def default_limiter_def new_limiter_def from_secs_def)

theorem approved_claim_authenticates_its_node_witness:
  "let s1 = fst (dispatch (ref_env 0 ''C1'') fresh_endpoint (ReqPair phone ''p'' ''ios'') ''node'');
       s2 = fst (approve_claim (ref_env 1 ''T1'') s1 ''node'');
       (s3, a) = dispatch (ref_env 2 ''X'') s2 (ReqPairStatus ''C1'') ''node''
   in \<exists>peer. oc_response (an_outcome a) = RspPaired (db_id_display node_deps peer) ''T1''
      \<and> authorize (ref_env 2 ''X'') s3 ''T1'' ''node'' = Inr (db_id_display node_deps peer)
      \<and> authorize (ref_env 2 ''X'') s3 ''T1'' ''thief'' = Inl unauthorized"
proof -
  obtain s1 a1 where d1: "dispatch (ref_env 0 ''C1'') fresh_endpoint (ReqPair phone ''p'' ''ios'') ''node'' = (s1, a1)"
    by (cases "dispatch (ref_env 0 ''C1'') fresh_endpoint (ReqPair phone ''p'' ''ios'') ''node''")
  with file_claim have r1: "oc_response (an_outcome a1) = RspPairingPending ''C1''" by simp
  note p = dispatch_pair(2) [OF d1 r1]
  obtain row where row: "find_pending s1 ''node'' = Some row" using pair_filed [OF p r1] by blast
  have "ws_paired s1 = []" using pair_frame(2) [OF p [symmetric]] by simp
  then obtain s2 ap where d2: "approve_claim (ref_env 1 ''T1'') s1 ''node'' = (s2, Inr ap)"
    using approve_claim_ok [OF row, of "ref_env 1 ''T1''"] by auto
  obtain s3 a3 where d3: "dispatch (ref_env 2 ''X'') s2 (ReqPairStatus ''C1'') ''node'' = (s3, a3)"
    by (cases "dispatch (ref_env 2 ''X'') s2 (ReqPairStatus ''C1'') ''node''")
  have "\<exists>peer. parse_id node_deps phone = Some peer
    \<and> oc_response (an_outcome a3) = RspPaired (db_id_display node_deps peer) (we_ulid (ref_env 1 ''T1''))
    \<and> authorize (ref_env 2 ''X'') s3 (we_ulid (ref_env 1 ''T1'')) ''node'' = Inr (db_id_display node_deps peer)
    \<and> (\<forall>node. node \<noteq> ''node'' \<longrightarrow>
         authorize (ref_env 2 ''X'') s3 (we_ulid (ref_env 1 ''T1'')) node = Inl unauthorized)"
    by (rule approved_claim_authenticates_its_node [OF _ _ _ _ d1 r1 d2 d3])
       (simp_all add: PAIR_DECISION_TTL_def from_secs_def ascii_defs byte_def)
  then show ?thesis using d1 d2 d3 by auto
qed

lemma reject_claim_ok: "find_pending s node = Some p \<Longrightarrow> \<exists>s'. reject_claim e s node = (s', Inr ())"
  by (simp add: reject_claim_def Let_def)

theorem decided_claim_is_final_witness:
  "let s1 = fst (dispatch (ref_env 0 ''C1'') fresh_endpoint (ReqPair phone ''p'' ''ios'') ''node'');
       s2 = fst (reject_claim (ref_env 1 ''T1'') s1 ''node'')
   in fst (pair (ref_env 2 ''X'') s2 ''node'' phone ''p'' ''ios'') = s2
      \<and> oc_response (an_outcome (snd (pair_status (ref_env 2 ''X'') s2 ''node'' ''C1''))) =
          RspRefused ''the pairing was rejected''"
proof -
  obtain s1 a1 where d1: "dispatch (ref_env 0 ''C1'') fresh_endpoint (ReqPair phone ''p'' ''ios'') ''node'' = (s1, a1)"
    by (cases "dispatch (ref_env 0 ''C1'') fresh_endpoint (ReqPair phone ''p'' ''ios'') ''node''")
  with file_claim have r1: "oc_response (an_outcome a1) = RspPairingPending ''C1''" by simp
  note p = dispatch_pair(2) [OF d1 r1]
  obtain row where row: "find_pending s1 ''node'' = Some row"
    and w: "ws_waiters s1 ''node'' = Some \<lparr>pw_claim = ''C1''\<rparr>"
    using pair_filed [OF p r1] by (metis fun_upd_same)
  have ds: "ws_decisions s1 = []" using pair_frame(3) [OF p [symmetric]] by simp
  obtain s2 where d2: "reject_claim (ref_env 1 ''T1'') s1 ''node'' = (s2, Inr ())"
    using reject_claim_ok [OF row] by blast
  have "fst (pair (ref_env 2 ''X'') s2 ''node'' phone ''p'' ''ios'') = s2
    \<and> oc_response (an_outcome (snd (pair (ref_env 2 ''X'') s2 ''node'' phone ''p'' ''ios''))) \<noteq> RspPairingPending ''C2''
    \<and> (\<forall>w. reject_claim (ref_env 1 ''T1'') s1 ''node'' = (s2, Inr ()) \<and> distinct (map fst (ws_decisions s1))
          \<and> ws_waiters s1 ''node'' = Some w
          \<and> we_instant (ref_env 2 ''X'') - we_instant (ref_env 1 ''T1'') < PAIR_DECISION_TTL \<longrightarrow>
         ws_paired s2 = ws_paired s1 \<and>
         oc_response (an_outcome (snd (pair_status (ref_env 2 ''X'') s2 ''node'' (pw_claim w)))) =
           RspRefused ''the pairing was rejected'')"
    by (rule decided_claim_is_final [OF ref_parts_ok _ _ disjI2 [OF d2], of "ref_env 2 ''X''"]) simp_all
  then show ?thesis using d1 d2 ds w by (auto simp: PAIR_DECISION_TTL_def from_secs_def)
qed

lemma serve_demo:
  "serve_file (ref_env 0 ''U'') paired_endpoint ''T1'' ''node'' (ref_hex_encode ''IIIIIIIIIIIIIIII'') 2 (Some 9) (Some ''5'') =
    with_device \<lparr>an_outcome = outcome_file
      \<lparr>fh_content_type = ''application/epub+zip'', fh_offset = 2, fh_length = 3, fh_total = 5, fh_etag = ''5''\<rparr> ''b.epub'',
      an_device_id = None\<rparr> phone"
proof -
  have "file_etag 5 None = ''5''"
    by (simp add: file_etag_def show_hex.simps hex_lower_def hex_upper_def digit_char_def lower_char_def
        ascii_defs byte_def of_byte_def) code_simp
  moreover have "content_type_for ''b.epub'' = ''application/epub+zip''" by code_simp
  ultimately show ?thesis
    by (simp add: serve_file_def authorize_phone inventory_paths_of_def parse_inventory_id_def
        ref_hex_decode_encode file_metadata_of_def) (simp add: ref_env_def file_metadata_of_def)
qed

theorem served_window_is_within_the_file_witness:
  "\<exists>bytes. we_contents (ref_env 0 ''U'') ''b.epub'' = Some bytes \<and> length bytes = 5
     \<and> length (take 3 (drop 2 bytes)) = 3"
  using served_window_is_within_the_file [OF serve_demo, of
      "\<lparr>fh_content_type = ''application/epub+zip'', fh_offset = 2, fh_length = 3, fh_total = 5, fh_etag = ''5''\<rparr>"
      "\<lparr>fb_path = ''b.epub'', fb_offset = 2, fb_length = 3\<rparr>"]
  by (simp add: outcome_file_def with_device_def ref_env_def split: if_splits)

text \<open>An endpoint whose JSON parser reads every text as the payload of one offer.\<close>

definition book :: db_id where "book = DbId ''EEEEEEEEEEEEEEEE''"

definition book_row :: inventory_row where
  "book_row = \<lparr>iv_id = book, iv_file_path = Some ''b.epub'', iv_cover_path = None, iv_file_hash = None,
     iv_file_size_bytes = None\<rparr>"

definition book_payload :: json where
  "book_payload = offer_payload (ref_env 0 ''OF1'') paired_endpoint (DbId ''PPPPPPPPPPPPPPPP'') book
     \<lparr>er_work_id = book, er_title = None\<rparr> book_row ''b.epub'' ''Title''"

definition offer_env :: "(string \<times> sql_value list) list wire_env" where
  "offer_env = (ref_env 0 ''OF1'')\<lparr>we_deps := ref_deps (\<lambda>_. Inr book_payload)\<rparr>"

lemma offer_env_simps [simp]: "we_deps offer_env = ref_deps (\<lambda>_. Inr book_payload)"
  by (simp add: offer_env_def)

lemma parse_demo [simp]:
  "parse_id (ref_deps f) phone = Some (DbId ''PPPPPPPPPPPPPPPP'')"
  "parse_id (ref_deps f) (ref_ulid_to_string ''EEEEEEEEEEEEEEEE'') = Some book"
  by (simp_all add: parse_id_def or_else_def db_id_from_str_def phone_def ref_ulid_from_str_def
      ref_ulid_to_string_def book_def)

lemma demo_checks:
  "offer_checks offer_env paired_endpoint (ref_ulid_to_string ''EEEEEEEEEEEEEEEE'') phone =
     Inr (book, book_row, book_payload)"
proof -
  have payload: "offer_payload offer_env paired_endpoint = offer_payload (ref_env 0 ''OF1'') paired_endpoint"
  proof -
    have "is_file offer_env = is_file (ref_env 0 ''OF1'')" by (simp add: fun_eq_iff is_file_def offer_env_def)
    moreover have "we_authors offer_env = we_authors (ref_env 0 ''OF1'')" "we_ulid offer_env = ''OF1''"
      "we_file_name offer_env = we_file_name (ref_env 0 ''OF1'')" by (simp_all add: offer_env_def)
    ultimately show ?thesis
      by (intro ext) (simp add: offer_payload_def Let_def to_hex_def db_id_display_def cong: option.case_cong)
  qed
  have paired: "find_paired paired_endpoint ''PPPPPPPPPPPPPPPP'' = Some phone_row"
    by (simp add: find_paired_def phone_row_def)
  have env: "we_edition offer_env db i = Some \<lparr>er_work_id = i, er_title = None\<rparr>"
    "we_work_title offer_env db i = Some ''Title''"
    "offered_file offer_env s i = Inr (\<lparr>iv_id = i, iv_file_path = Some ''b.epub'', iv_cover_path = None,
       iv_file_hash = None, iv_file_size_bytes = None\<rparr>, ''b.epub'')" for db i s
    by (simp_all add: offer_env_def ref_env_def offered_file_def is_file_def)
  show ?thesis
    by (simp add: offer_checks_def Let_def paired env payload) (simp add: book_payload_def book_row_def)
qed

lemma demo_touches: "\<exists>store. run_touches (we_sqlite offer_env) s ts = (store, Inr ())"
proof (induction ts arbitrary: s)
  case (Cons t ts)
  then show ?case by (cases t) (simp add: offer_env_def ref_env_def execute_raw_def)
qed simp

lemma demo_offer:
  "\<exists>s' offer. offer_book offer_env paired_endpoint (ref_ulid_to_string ''EEEEEEEEEEEEEEEE'') phone = (s', Inr offer)"
proof -
  let ?row = "offer_row offer_env paired_endpoint (to_hex (we_deps offer_env) (iv_id book_row)) book_payload"
  obtain store1 where "insert_log empty_store ?row = Inr store1"
    by (simp add: insert_log_def empty_store_def)
  moreover obtain store2 where
    "run_touches (we_sqlite offer_env) store1 (touch_statements (iv_id book_row) book) = (store2, Inr ())"
    using demo_touches by blast
  ultimately show ?thesis by (simp add: offer_book_def demo_checks Let_def)
qed

theorem offer_is_visible_to_its_device_only_witness:
  "\<exists>row c. row \<in> set (change_log (ws_store (fst
      (offer_book offer_env paired_endpoint (ref_ulid_to_string ''EEEEEEEEEEEEEEEE'') phone))))
    \<and> to_change row = Some c \<and> ch_entity_type c = ''file_offer''
    \<and> change_is_for (we_deps offer_env) c phone \<and> \<not> change_is_for (we_deps offer_env) c ''other''"
proof -
  obtain s' offer where o:
    "offer_book offer_env paired_endpoint (ref_ulid_to_string ''EEEEEEEEEEEEEEEE'') phone = (s', Inr offer)"
    using demo_offer by blast
  have "db_id_display (ref_deps f) (DbId ''PPPPPPPPPPPPPPPP'') = phone" "phone \<noteq> ''other''" for f
    by (simp_all add: db_id_display_def phone_def ref_ulid_to_string_def)
  moreover obtain dev row c where "parse_id (we_deps offer_env) phone = Some dev"
    "row \<in> set (change_log (ws_store s'))" "to_change row = Some c" "ch_entity_type c = ''file_offer''"
    "\<forall>other. change_is_for (we_deps offer_env) c other \<longleftrightarrow> other = db_id_display (we_deps offer_env) dev"
    using offer_is_visible_to_its_device_only [OF o] by (simp add: demo_checks) blast
  ultimately show ?thesis unfolding o by (intro exI [of _ row] exI [of _ c]) simp
qed

theorem changes_hide_offers_to_others_witness:
  "\<exists>dev. authorize (ref_env 0 ''U'') paired_endpoint ''T1'' ''node'' = Inr dev"
proof -
  have "dispatch (ref_env 0 ''U'') paired_endpoint (ReqChanges ''T1'' 0 None) ''node'' =
    (paired_endpoint, with_device (reply (RspChanges \<lparr>pr_changes = [], pr_has_more = False, pr_latest_version = 0\<rparr>)) phone)"
    by (simp add: dispatch_def Let_def authorize_phone ref_ulid_to_string_def)
       (simp add: ref_env_def pull_changes_def empty_store_def sql_limit_def rowid_order_def List.map_filter_simps)
  from changes_hide_offers_to_others [OF this] show ?thesis by auto
qed

end
