(* ===== verification/ServerInvariant.thy ===== *)
theory ServerInvariant
  imports ServerCorrect
begin

text \<open>
  An invariant of the states of a sync endpoint: a step relation over the answered requests,
  the owner's decisions and the daemon's statements on the pairing tables
  (\<open>livtet-sync-server/src/daemon.rs\<close>), and preservation by each, by rule induction.
\<close>

section \<open>Reachable states\<close>

text \<open>The state changes of the endpoint: an answered request, the owner's decisions and offers, and
  the statements on the pairing tables the daemon runs at startup and when a device is revoked. What the
  daemon does beyond them, as a client of its peers, is added in \<open>DaemonInvariant\<close>.
  \<open>parts\<close>, the layout of a ULID, is the same throughout.\<close>

definition cleanup_old_pairings :: "'db wire_env \<Rightarrow> 'db wire_state \<Rightarrow> 'db wire_state" where
  "cleanup_old_pairings e s =
     s\<lparr>ws_pending := filter (\<lambda>r. \<not> pp_expires_at r < we_now e) (ws_pending s)\<rparr>"

definition promote_mutual_pairings :: "'db wire_state \<Rightarrow> 'db wire_state" where
  "promote_mutual_pairings s =
     s\<lparr>ws_paired := map (\<lambda>r. if \<not> pd_outbound r \<and> pd_session_token r \<notin> {None, Some []}
                               \<and> pd_node_id r \<notin> {None, Some []}
                             then r\<lparr>pd_outbound := True\<rparr> else r) (ws_paired s)\<rparr>"

definition devices_revoke :: "'db wire_env \<Rightarrow> 'db wire_state \<Rightarrow> string \<Rightarrow> ('db wire_state \<times> nat) option" where
  "devices_revoke e s device =
     map_option (\<lambda>i.
       (s\<lparr>ws_paired := filter (\<lambda>r. pd_device_id r \<noteq> to_bytes i) (ws_paired s)\<rparr>,
        length (filter (\<lambda>r. pd_device_id r = to_bytes i) (ws_paired s))))
       (parse_id (we_deps e) device)"

inductive server_step :: "(nat \<Rightarrow> nat \<Rightarrow> string) \<Rightarrow> 'db wire_state \<Rightarrow> 'db wire_state \<Rightarrow> bool" for parts where
  served: "we_parts e = parts \<Longrightarrow> answer e s req remote = (s', out) \<Longrightarrow> server_step parts s s'"
| approved: "we_parts e = parts \<Longrightarrow> approve_claim e s node = (s', r) \<Longrightarrow> server_step parts s s'"
| rejected: "we_parts e = parts \<Longrightarrow> reject_claim e s node = (s', u) \<Longrightarrow> server_step parts s s'"
| offered: "we_parts e = parts \<Longrightarrow> offer_book e s edition device = (s', w) \<Longrightarrow> server_step parts s s'"
| typed: "we_parts e = parts \<Longrightarrow> server_step parts s (set_device_type e s device tag)"
| cleaned: "server_step parts s (cleanup_old_pairings e s)"
| promoted: "server_step parts s (promote_mutual_pairings s)"
| revoked: "devices_revoke e s device = Some (s', n) \<Longrightarrow> server_step parts s s'"

inductive_cases server_stepE: "server_step parts s s'"

text \<open>The invariant, clause by clause.\<close>

definition rows_wf :: "'db wire_state \<Rightarrow> bool" where
  "rows_wf s \<longleftrightarrow> distinct (map pd_device_id (ws_paired s)) \<and> distinct (tokens (ws_paired s))
     \<and> distinct (map pp_token (ws_pending s))"

definition memory_wf :: "'db wire_state \<Rightarrow> bool" where
  "memory_wf s \<longleftrightarrow> limiter_wf (ws_limiter s) \<and> distinct (map fst (ws_decisions s))
     \<and> length (ws_decisions s) \<le> PAIR_DECISION_CAP
     \<and> (case ws_request_log s of Some log \<Rightarrow> length log \<le> REQUEST_LOG_CAP | None \<Rightarrow> True)"

text \<open>A claim that is outstanding has not been decided.\<close>

definition waiters_wf :: "(nat \<Rightarrow> nat \<Rightarrow> string) \<Rightarrow> 'db wire_state \<Rightarrow> bool" where
  "waiters_wf parts s \<longleftrightarrow>
     (\<forall>row \<in> set (ws_pending s). ws_waiters s (pp_token row) \<noteq> None \<longrightarrow>
        pp_status_id row = Some (status_db_id parts Pending))"

definition server_inv :: "(nat \<Rightarrow> nat \<Rightarrow> string) \<Rightarrow> 'db wire_state \<Rightarrow> bool" where
  "server_inv parts s \<longleftrightarrow> store_wf (ws_store s) \<and> rows_wf s \<and> memory_wf s \<and> waiters_wf parts s"

lemmas server_inv_defs = server_inv_def rows_wf_def memory_wf_def waiters_wf_def

lemma server_inv_cong:
  assumes "ws_store t = ws_store s" "ws_paired t = ws_paired s" "ws_pending t = ws_pending s"
    "ws_waiters t = ws_waiters s" "ws_decisions t = ws_decisions s" "ws_limiter t = ws_limiter s"
    "ws_request_log t = ws_request_log s"
  shows "server_inv parts t = server_inv parts s"
  using assms by (simp add: server_inv_defs)

text \<open>The tables.\<close>

lemma set_token_distinct:
  assumes "set_token rows token node device = Inr rows'"
    "distinct (map pd_device_id rows)" "distinct (tokens rows)"
  shows "distinct (tokens rows')" "map pd_device_id rows' = map pd_device_id rows"
proof -
  let ?f = "\<lambda>r. if pd_device_id r = device
    then r\<lparr>pd_session_token := Some token, pd_node_id := Some node\<rparr> else r"
  have rows': "rows' = map ?f rows"
    and uniq: "\<And>r. r \<in> set rows \<Longrightarrow> pd_session_token r = Some token \<Longrightarrow> pd_device_id r = device"
    using assms(1) by (auto simp: set_token_def split: if_splits)
  show "map pd_device_id rows' = map pd_device_id rows" by (simp add: rows')
  have same: "map ?f rs = rs" if "device \<notin> pd_device_id ` set rs" for rs
    using that by (intro map_idI) auto
  have sub: "set (tokens (map ?f rs)) \<subseteq> insert token (set (tokens rs))" for rs
    by (auto simp: tokens_in split: if_splits)
  show "distinct (tokens rows')"
    unfolding rows' using assms(2,3) uniq
  proof (induction rows)
    case Nil
    then show ?case by simp
  next
    case (Cons r rs)
    show ?case
    proof (cases "pd_device_id r = device")
      case True
      then have rs: "map ?f rs = rs" using Cons.prems(1) by (intro same) auto
      have "token \<notin> set (tokens rs)"
      proof
        assume "token \<in> set (tokens rs)"
        then obtain x where "x \<in> set rs" "pd_session_token x = Some token" by (auto simp: tokens_in)
        then have "pd_device_id x = pd_device_id r" "x \<in> set rs" using Cons.prems(3) [of x] True by simp_all
        with Cons.prems(1) show False by (metis distinct.simps(2) image_eqI list.map(2) list.set_map)
      qed
      moreover have "distinct (tokens rs)" using Cons.prems(2) by (auto simp: tokens_Cons split: option.splits)
      ultimately show ?thesis using True by (simp add: tokens_Cons rs)
    next
      case False
      have ih: "distinct (tokens (map ?f rs))"
        using Cons.prems by (intro Cons.IH) (auto simp: tokens_Cons split: option.splits)
      have "t \<notin> set (tokens (map ?f rs))" if "pd_session_token r = Some t" for t
      proof -
        have "t \<notin> set (tokens rs)" using Cons.prems(2) that by (simp add: tokens_Cons)
        moreover have "t \<noteq> token" using Cons.prems(3) [of r] that False by auto
        ultimately show ?thesis using sub [of rs] by auto
      qed
      with ih False show ?thesis by (auto simp: tokens_Cons split: option.splits)
    qed
  qed
qed

lemma update_pending_tokens: "map pp_token (ws_pending (update_pending s row)) = map pp_token (ws_pending s)"
  by (simp add: update_pending_def)

text \<open>The maps.\<close>

lemma decide_fields:
  "ws_store (decide e s node decision token dev) = ws_store s"
  "ws_paired (decide e s node decision token dev) = ws_paired s"
  "ws_pending (decide e s node decision token dev) = ws_pending s"
  "ws_limiter (decide e s node decision token dev) = ws_limiter s"
  "ws_request_log (decide e s node decision token dev) = ws_request_log s"
  "ws_waiters (decide e s node decision token dev) = (ws_waiters s)(node := None)"
  by (auto simp: decide_def apply_pairing_decision_def split: option.splits)

lemma decide_memory:
  assumes "memory_wf s"
  shows "memory_wf (decide e s node decision token dev)"
proof (cases "ws_waiters s node")
  case None
  with assms show ?thesis by (simp add: decide_def apply_pairing_decision_def memory_wf_def)
next
  case (Some w)
  have "length (record_decision (we_instant e) (ws_decisions s) (pw_claim w) node (decision = ''approved'') token dev)
    \<le> PAIR_DECISION_CAP"
    unfolding record_decision_def by (rule decision_map.put_bound)
  with Some assms show ?thesis
    by (simp add: decide_def apply_pairing_decision_def memory_wf_def record_decision_distinct)
qed

lemma decide_waiters:
  assumes "\<And>row. row \<in> set (ws_pending s) \<Longrightarrow> pp_token row \<noteq> node \<Longrightarrow> ws_waiters s (pp_token row) \<noteq> None \<Longrightarrow>
    pp_status_id row = Some (status_db_id parts Pending)"
  shows "waiters_wf parts (decide e s node decision token dev)"
  using assms by (auto simp: waiters_wf_def decide_fields)

section \<open>The invariant is kept\<close>

lemma prune_length: "length (prune now m) \<le> length m"
  by (simp add: prune_def)

lemma prune_memory: "memory_wf s \<Longrightarrow> memory_wf (s\<lparr>ws_decisions := prune now (ws_decisions s)\<rparr>)"
  using prune_length [of now "ws_decisions s"] by (simp add: memory_wf_def prune_distinct)

lemma resolve_conflict_store_wf: "store_wf s \<Longrightarrow> store_wf (fst (resolve_conflict s i r m))"
  by (simp add: store_wf_def resolve_conflict_wf) (simp add: resolve_conflict_def log_wf_def)

lemma find_pending_None: "find_pending s t = None \<Longrightarrow> t \<notin> pp_token ` set (ws_pending s)"
  by (auto simp: find_pending_def find_None_iff)

lemma pair_inv:
  assumes "server_inv parts s" "we_parts e = parts" "(s', a) = pair e s remote device name ty"
  shows "server_inv parts s'"
proof -
  let ?filed = "\<lambda>s1. notify (s1\<lparr>ws_waiters := (ws_waiters s1)(remote \<mapsto> \<lparr>pw_claim = we_ulid e\<rparr>)\<rparr>)
    NOTIFY_PAIRING_REQUESTED (json_obj
      [(''node_id'', JString remote), (''device_id'', JString device), (''name'', JString name)])"
  have row: "pp_token (claim_row e remote d p name ty) = remote"
    "pp_status_id (claim_row e remote d p name ty) = Some (status_db_id parts Pending)" for d p
    by (simp_all add: claim_row_def status_id_def assms(2))
  from assms(3) consider "s' = s"
    | d p where "s' = ?filed (update_pending s (claim_row e remote d p name ty))"
    | d p where "find_pending s remote = None"
        "s' = ?filed (s\<lparr>ws_pending := ws_pending s @ [claim_row e remote d p name ty]\<rparr>)"
    by (auto simp: pair_def Let_def split: option.splits sum.splits if_splits)
  then show ?thesis
  proof cases
    case 1
    with assms(1) show ?thesis by simp
  next
    case (2 d p)
    have "distinct (map pp_token (ws_pending s'))"
      using assms(1) update_pending_tokens [of s "claim_row e remote d p name ty"]
      by (simp add: 2 notify_def server_inv_defs)
    moreover have "waiters_wf parts s'"
      using assms(1) row by (auto simp: 2 notify_def update_pending_def server_inv_defs split: if_splits)
    ultimately show ?thesis
      using assms(1) by (simp add: 2 notify_def update_pending_def server_inv_defs)
  next
    case (3 d p)
    have "waiters_wf parts s'"
      using assms(1) row find_pending_None [OF 3(1)] by (auto simp: 3(2) notify_def server_inv_defs)
    with assms(1) find_pending_None [OF 3(1)] row show ?thesis
      by (simp add: 3(2) notify_def server_inv_defs)
  qed
qed

lemma dispatch_inv:
  assumes "server_inv parts s" "we_parts e = parts" "dispatch e s req remote = (s', a)"
  shows "server_inv parts s'"
  using assms(3)
proof (cases rule: dispatch_cases)
  case same
  with assms(1) show ?thesis by simp
next
  case (push token xs dev)
  with assms(1) show ?thesis by (simp add: server_inv_defs push_changes_store_wf)
next
  case (resolve token i r m dev)
  with assms(1) show ?thesis by (simp add: server_inv_defs resolve_conflict_store_wf)
next
  case (limited device name ty)
  with assms(1) show ?thesis by (simp add: server_inv_defs allow_at_wf)
next
  case (claimed device name ty)
  have "server_inv parts (s\<lparr>ws_limiter := fst (allow_at (ws_limiter s) remote (we_instant e))\<rparr>)"
    using assms(1) by (simp add: server_inv_defs allow_at_wf)
  then show ?thesis by (rule pair_inv [OF _ assms(2) claimed(2)])
next
  case (polled claim)
  with assms(1) prune_memory [of s "we_instant e"] show ?thesis
    by (simp add: server_inv_def rows_wf_def waiters_wf_def)
next
  case (offer token oid acc dev)
  with assms(1) show ?thesis by (simp add: offer_decision_frame [OF offer(3)] server_inv_defs)
qed

lemma answer_log:
  assumes "dispatch e s req remote = (s1, a)" "answer e s req remote = (s', out)"
  shows "\<exists>r. ws_request_log s' = map_option (\<lambda>log. record_request log r) (ws_request_log s1)"
  using assms by (auto simp: answer_def notify_def Let_def split: option.splits)

lemma answer_inv:
  assumes "server_inv parts s" "we_parts e = parts" "answer e s req remote = (s', out)"
  shows "server_inv parts s'"
proof -
  obtain s1 a where d: "dispatch e s req remote = (s1, a)" by (cases "dispatch e s req remote")
  have inv: "server_inv parts s1" by (rule dispatch_inv [OF assms(1,2) d])
  have bound: "length (record_request log r) \<le> REQUEST_LOG_CAP" for log r
    unfolding record_request_def by (rule request_ring.put_bound)
  note f = answer_frame [OF d assms(3)]
  from answer_log [OF d assms(3)] obtain r
    where "ws_request_log s' = map_option (\<lambda>log. record_request log r) (ws_request_log s1)" by blast
  then have "case ws_request_log s' of Some log \<Rightarrow> length log \<le> REQUEST_LOG_CAP | None \<Rightarrow> True"
    by (auto simp: bound split: option.splits)
  with inv f show ?thesis by (simp add: server_inv_defs)
qed

lemma approve_inv:
  assumes "server_inv parts s" "approve_claim e s node = (s', r)"
  shows "server_inv parts s'"
proof (cases "find_pending s node")
  case None
  with assms show ?thesis by (simp add: approve_claim_def)
next
  case (Some pending)
  have tok: "pp_token pending = node" using find_SomeD Some by (fastforce simp: find_pending_def)
  let ?dev = "case pp_device_id pending of Some i \<Rightarrow> i | None \<Rightarrow> we_new_id e"
  let ?model = "\<lparr>pd_device_id = to_bytes ?dev, pd_name = pp_device_name pending,
    pd_listen_on = None, pd_device_type_id = pp_device_type_id pending,
    pd_paired_at = we_now e, pd_last_sync_at = None, pd_outbound = True,
    pd_session_token = None, pd_node_id = None, pd_peer_session_token = None\<rparr>"
  let ?s1 = "s\<lparr>ws_paired := upsert_paired (ws_paired s) ?model\<rparr>"
  have ids: "distinct (map pd_device_id (ws_paired ?s1))"
    using assms(1) by (auto simp: upsert_paired_ids server_inv_defs)
  have toks: "distinct (tokens (ws_paired ?s1))"
    using assms(1) by (simp add: upsert_paired_tokens server_inv_defs)
  have inv1: "server_inv parts ?s1" using assms(1) ids toks by (simp add: server_inv_defs)
  show ?thesis
  proof (cases "set_token (ws_paired ?s1) (we_ulid e) node (to_bytes ?dev)")
    case (Inl m)
    with assms(2) Some inv1 show ?thesis by (simp add: approve_claim_def Let_def)
  next
    case (Inr rows)
    let ?row = "pending\<lparr>pp_status_id := Some (status_id e Approved)\<rparr>"
    let ?s3 = "update_pending (?s1\<lparr>ws_paired := rows\<rparr>) ?row"
    let ?s4 = "decide e ?s3 node ''approved'' (we_ulid e) (Some (db_id_display (we_deps e) ?dev))"
    have s': "s' = ?s4" using assms(2) Some Inr by (simp add: approve_claim_def Let_def)
    note t = set_token_distinct [OF Inr ids toks]
    have "rows_wf ?s4"
      using t ids inv1 update_pending_tokens [of "?s1\<lparr>ws_paired := rows\<rparr>" ?row]
      by (simp add: rows_wf_def decide_fields server_inv_def) (simp add: update_pending_def)
    moreover have "memory_wf ?s4"
      using assms(1) by (intro decide_memory) (simp add: server_inv_defs update_pending_def)
    moreover have "waiters_wf parts ?s4"
      using assms(1) tok
      by (intro decide_waiters) (auto simp: server_inv_defs update_pending_def split: if_splits)
    ultimately show ?thesis
      using assms(1) unfolding s' server_inv_def by (simp add: decide_fields update_pending_def)
  qed
qed

lemma reject_inv:
  assumes "server_inv parts s" "reject_claim e s node = (s', r)"
  shows "server_inv parts s'"
proof (cases "find_pending s node")
  case None
  with assms show ?thesis by (simp add: reject_claim_def)
next
  case (Some pending)
  have tok: "pp_token pending = node" using find_SomeD Some by (fastforce simp: find_pending_def)
  let ?row = "pending\<lparr>pp_status_id := Some (status_id e Rejected)\<rparr>"
  let ?s2 = "decide e (update_pending s ?row) node ''rejected'' []
    (map_option (db_id_display (we_deps e)) (pp_device_id pending))"
  have s': "s' = ?s2" using assms(2) Some by (simp add: reject_claim_def Let_def)
  have "rows_wf ?s2"
    using assms(1) update_pending_tokens [of s ?row]
    by (simp add: rows_wf_def decide_fields server_inv_def) (simp add: update_pending_def)
  moreover have "memory_wf ?s2"
    using assms(1) by (intro decide_memory) (simp add: server_inv_defs update_pending_def)
  moreover have "waiters_wf parts ?s2"
    using assms(1) tok
    by (intro decide_waiters) (auto simp: server_inv_defs update_pending_def split: if_splits)
  ultimately show ?thesis
    using assms(1) unfolding s' server_inv_def by (simp add: decide_fields update_pending_def)
qed

lemma execute_raw_store_wf:
  assumes "store_wf s" "execute_raw q s sql vals = Inr s'"
  shows "store_wf s'"
  using assms execute_raw_wf [of s q sql vals s'] execute_raw_extends [OF assms(2)]
    conflicts_wf_cong [of s' s]
  by (simp add: store_wf_def log_extends_def)

lemma run_touches_wf: "store_wf s \<Longrightarrow> run_touches q s ts = (s', r) \<Longrightarrow> store_wf s'"
proof (induction ts arbitrary: s)
  case (Cons t ts)
  then show ?case
    by (cases t) (auto split: sum.splits intro: execute_raw_store_wf)
qed simp

lemma offer_inv:
  assumes "server_inv parts s" "offer_book e s edition device = (s', r)"
  shows "server_inv parts s'"
proof -
  from assms(2) show ?thesis
  proof (cases rule: offer_book_cases)
    case refused
    with assms(1) show ?thesis by simp
  next
    case (written eid iv payload store1 store2 res)
    have "store_wf store1" using insert_log_store_wf [OF _ written(2)] assms(1) by (simp add: server_inv_def)
    then have "store_wf store2" by (rule run_touches_wf [OF _ written(3)])
    with assms(1) written(4) show ?thesis by (simp add: server_inv_defs)
  qed
qed

section \<open>Reachability\<close>

lemma paired_map_inv:
  assumes "server_inv parts s" "\<And>r. pd_device_id (f r) = pd_device_id r"
    "\<And>r. pd_session_token (f r) = pd_session_token r"
  shows "server_inv parts (s\<lparr>ws_paired := map f (ws_paired s)\<rparr>)"
proof -
  have "tokens (map f (ws_paired s)) = tokens (ws_paired s)" by (intro tokens_map assms(3))
  with assms(1,2) show ?thesis by (simp add: server_inv_defs comp_def)
qed

lemma table_ops_inv:
  assumes "server_inv parts s"
  shows "server_inv parts (set_device_type e s device tag)"
    "server_inv parts (promote_mutual_pairings s)"
    "server_inv parts (cleanup_old_pairings e s)"
    "devices_revoke e s name = Some (s', n) \<Longrightarrow> server_inv parts s'"
proof -
  show "server_inv parts (set_device_type e s device tag)"
    unfolding set_device_type_def Let_def by (rule paired_map_inv [OF assms]) simp_all
  show "server_inv parts (promote_mutual_pairings s)"
    unfolding promote_mutual_pairings_def by (rule paired_map_inv [OF assms]) simp_all
  show "server_inv parts (cleanup_old_pairings e s)"
    using assms by (auto simp: cleanup_old_pairings_def server_inv_defs distinct_map_filter)
  show "devices_revoke e s name = Some (s', n) \<Longrightarrow> server_inv parts s'"
    using assms
    by (auto simp: devices_revoke_def server_inv_defs distinct_map_filter tokens_filter_distinct)
qed

lemma server_step_inv: "server_step parts s s' \<Longrightarrow> server_inv parts s \<Longrightarrow> server_inv parts s'"
  by (elim server_stepE) (auto intro: answer_inv approve_inv reject_inv offer_inv table_ops_inv)

lemma new_wire_state_inv:
  assumes "store_wf store" "distinct (map pd_device_id paired)" "distinct (tokens paired)"
    "distinct (map pp_token pending)"
  shows "server_inv parts (new_wire_state store dev paired pending device)"
  using assms
  by (simp add: server_inv_defs new_wire_state_def new_pair_waiters_def new_pair_decisions_def default_limiter_def)

end
