(* ===== verification/Daemon.thy ===== *)
theory Daemon
  imports ServerInvariant PullCorrect
begin

text \<open>
  The receiving side of the daemon (\<open>livtet-sync-server/src/daemon.rs\<close> and \<open>peer.rs\<close>): pulling from a
  paired device page by page, holding back the rows of an offered book, and the reader's decision
  on an offer. The daemon's state is the endpoint's with the table \<open>inbound_offers\<close> and the files it
  wrote. A peer is the record of what it answers; its answers to successive requests may differ, so
  \<open>pe_changes\<close> takes the number of requests made before. The pull loop runs as long as the peer says
  there is more, so the model bounds the number of pages.
\<close>

section \<open>State\<close>

record inbound_offer =
  io_offer_id :: string
  io_from_device_id :: string
  io_inventory_id :: string
  io_edition_id :: string
  io_work_id :: string
  io_title :: string
  io_authors :: string
  io_file_name :: "string option"
  io_has_cover :: bool
  io_offered_at :: string
  io_received_at :: string
  io_status :: string
  io_decided_at :: "string option"
  io_deferred_changes :: string

record 'db daemon_state =
  ds_wire :: "'db wire_state"
  ds_inbound :: "inbound_offer list"
  ds_files :: "string \<rightharpoonup> string"

record peer =
  pe_changes :: "nat \<Rightarrow> int \<Rightarrow> int \<Rightarrow> (pull_response, string) result"
  pe_file :: "string \<Rightarrow> (string \<times> string option, string) result"
  pe_cover :: "string \<Rightarrow> ((string \<times> string) option, string) result"
  pe_offer_decision :: "string \<Rightarrow> bool \<Rightarrow> bool"

text \<open>\<open>pe_file\<close> answers with the bytes that arrived and the error that cut them short, if any.
  \<open>dv_connect\<close> dials a node id with a token; \<open>dv_changes_text\<close> and \<open>dv_changes_parse\<close> are serde on a
  vector of changes; \<open>None\<close> as a directory means it is not configured; \<open>dv_make_dir\<close> and \<open>dv_write_file\<close> say
  whether the file system lets the directory or the file at a path be created.\<close>

record 'db daemon_env =
  dv_env :: "'db wire_env"
  dv_connect :: "string \<Rightarrow> string \<Rightarrow> (peer, string) result"
  dv_changes_text :: "sync_change list \<Rightarrow> string"
  dv_changes_parse :: "string \<Rightarrow> (sync_change list, string) result"
  dv_books_dir :: "string option"
  dv_covers_dir :: "string option"
  dv_make_dir :: "string \<Rightarrow> (unit, string) result"
  dv_write_file :: "string \<Rightarrow> (unit, string) result"

abbreviation dv_deps :: "'db daemon_env \<Rightarrow> deps" where "dv_deps v \<equiv> we_deps (dv_env v)"
abbreviation ds_store :: "'db daemon_state \<Rightarrow> 'db store" where "ds_store s \<equiv> ws_store (ds_wire s)"

definition set_store :: "'db daemon_state \<Rightarrow> 'db store \<Rightarrow> 'db daemon_state" where
  "set_store s st = s\<lparr>ds_wire := (ds_wire s)\<lparr>ws_store := st\<rparr>\<rparr>"

section \<open>Dialling\<close>

datatype server_error =
    ServerIo string
  | ServerDb string
  | ServerRpc string
  | ServerConfig string
  | ServerServer string

definition peer_for :: "'db daemon_env \<Rightarrow> 'db daemon_state \<Rightarrow> db_id \<Rightarrow> (peer, server_error) result" where
  "peer_for v s device =
     (case find_paired (ds_wire s) (to_bytes device) of
        None \<Rightarrow> Inl (ServerServer ''device is not paired'')
      | Some row \<Rightarrow>
          if \<not> pd_outbound row then Inl (ServerServer ''device was not claimed by this installation'')
          else (case pd_peer_session_token row of
             None \<Rightarrow> Inl (ServerServer (''session token lookup: '' @ we_sql_error (dv_env v) ''unexpected null''))
           | Some token \<Rightarrow>
               let node = trim (case pd_node_id row of Some n \<Rightarrow> n | None \<Rightarrow> []) in
               if node = [] then Inl (ServerServer ''the peer has no node id to dial'')
               else map_err ServerServer (dv_connect v node token)))"

definition peer_by_id :: "'db daemon_env \<Rightarrow> 'db daemon_state \<Rightarrow> string \<Rightarrow> (peer, server_error) result" where
  "peer_by_id v s device_id =
     result_bind (ok_or (ServerServer (''invalid device id: '' @ device_id)) (parse_id (dv_deps v) device_id))
       (\<lambda>i. peer_for v s i)"

section \<open>Settings\<close>

definition read_setting :: "'db daemon_state \<Rightarrow> string \<Rightarrow> string option" where
  "read_setting s key = client_settings (ds_store s) key"

definition write_setting :: "'db daemon_state \<Rightarrow> string \<Rightarrow> string \<Rightarrow> 'db daemon_state" where
  "write_setting s key v =
     set_store s ((ds_store s)\<lparr>client_settings := (client_settings (ds_store s))(key \<mapsto> v)\<rparr>)"

section \<open>Inbound offers\<close>

definition payload_text :: "json \<Rightarrow> string \<Rightarrow> string option" where
  "payload_text payload key = Option.bind (json_get payload key) as_str"

definition offer_row_ids :: "json \<Rightarrow> string list" where
  "offer_row_ids payload = List.map_filter (payload_text payload) [''inventory_id'', ''edition_id'', ''work_id'']"

definition NOTIFY_OFFER_RECEIVED :: string where "NOTIFY_OFFER_RECEIVED = ''offer.received''"
definition NOTIFY_SYNC_PULLED :: string where "NOTIFY_SYNC_PULLED = ''sync.pulled''"

definition find_inbound :: "'db daemon_state \<Rightarrow> string \<Rightarrow> inbound_offer option" where
  "find_inbound s offer_id = find (\<lambda>r. io_offer_id r = offer_id) (ds_inbound s)"

text \<open>\<open>INSERT INTO inbound_offers .. ON CONFLICT(offer_id) DO UPDATE SET .. WHERE status = 'pending'\<close>: the
  update leaves \<open>received_at\<close>, \<open>status\<close> and \<open>decided_at\<close>.\<close>

definition upsert_inbound :: "inbound_offer list \<Rightarrow> inbound_offer \<Rightarrow> inbound_offer list" where
  "upsert_inbound rows new =
     (if \<exists>r \<in> set rows. io_offer_id r = io_offer_id new
      then map (\<lambda>r. if io_offer_id r = io_offer_id new \<and> io_status r = ''pending''
                    then new\<lparr>io_received_at := io_received_at r, io_status := io_status r,
                             io_decided_at := io_decided_at r\<rparr>
                    else r) rows
      else rows @ [new])"

definition record_inbound_offer ::
  "'db daemon_env \<Rightarrow> 'db daemon_state \<Rightarrow> sync_change \<Rightarrow> json \<Rightarrow> sync_change list
    \<Rightarrow> ('db daemon_state \<times> bool, server_error) result" where
  "record_inbound_offer v s change payload held =
     (let text = payload_text payload in
      result_bind (ok_or (ServerServer ''offer has no id'') (text ''offer_id'')) (\<lambda>offer_id.
      result_bind (ok_or (ServerServer ''offer has no inventory id'') (text ''inventory_id'')) (\<lambda>inventory_id.
      result_bind (ok_or (ServerServer ''offer has no edition id'') (text ''edition_id'')) (\<lambda>edition_id.
      result_bind (ok_or (ServerServer ''offer has no work id'') (text ''work_id'')) (\<lambda>work_id.
        let existing = find_inbound s offer_id; fresh = (existing = None) in
        if (case existing of Some row \<Rightarrow> io_status row \<noteq> ''pending'' | None \<Rightarrow> False) then Inr (s, False)
        else
          let title = (case text ''title'' of Some t \<Rightarrow> t | None \<Rightarrow> ''Untitled'');
              row = \<lparr>io_offer_id = offer_id, io_from_device_id = ch_device_id change,
                     io_inventory_id = inventory_id, io_edition_id = edition_id, io_work_id = work_id,
                     io_title = title,
                     io_authors = json_to_string (dv_deps v)
                       (case json_get payload ''authors'' of Some a \<Rightarrow> a | None \<Rightarrow> JArray []),
                     io_file_name = text ''file_name'',
                     io_has_cover = (case Option.bind (json_get payload ''has_cover'') as_bool of
                                       Some b \<Rightarrow> b | None \<Rightarrow> False),
                     io_offered_at = ch_changed_at change, io_received_at = we_now_string (dv_env v),
                     io_status = ''pending'', io_decided_at = None,
                     io_deferred_changes = dv_changes_text v held\<rparr>;
              s1 = s\<lparr>ds_inbound := upsert_inbound (ds_inbound s) row\<rparr>;
              s2 = (if fresh then s1\<lparr>ds_wire := notify (ds_wire s1) NOTIFY_OFFER_RECEIVED (json_obj
                      [(''offer_id'', JString offer_id), (''from_device_id'', JString (ch_device_id change)),
                       (''title'', JString title)])\<rparr> else s1)
          in Inr (s2, fresh))))))"

section \<open>Pulling\<close>

record pull_tally =
  pt_applied :: nat
  pt_offered :: nat
  pt_conflicts :: nat

datatype page_result =
    PageError server_error
  | PageBreak pull_tally
  | PageContinue string pull_tally

text \<open>The offers of a page that are addressed to this device, with their payloads.\<close>

definition page_offers :: "'db daemon_env \<Rightarrow> 'db daemon_state \<Rightarrow> sync_change list \<Rightarrow> (sync_change \<times> json) list"
  where
  "page_offers v s changes =
     filter (\<lambda>(_, payload). payload_text payload ''to_device_id'' = Some (ws_device_id (ds_wire s)))
       (map (\<lambda>c. (c, case json_from_str (dv_deps v) (ch_payload c) of Inr p \<Rightarrow> p | Inl _ \<Rightarrow> JNull))
          (filter (\<lambda>c. ch_entity_type c = ''file_offer'') changes))"

definition held_ids :: "(sync_change \<times> json) list \<Rightarrow> string list" where
  "held_ids offers = concat (map (\<lambda>(_, payload). offer_row_ids payload) offers)"

fun record_offers ::
  "'db daemon_env \<Rightarrow> 'db daemon_state \<Rightarrow> sync_change list \<Rightarrow> (sync_change \<times> json) list \<Rightarrow> nat
    \<Rightarrow> 'db daemon_state \<times> (nat, server_error) result" where
  "record_offers v s deferred [] n = (s, Inr n)"
| "record_offers v s deferred ((change, payload) # offers) n =
     (let ids = offer_row_ids payload;
          held = filter (\<lambda>row. ch_entity_id row \<in> set ids) deferred
      in case record_inbound_offer v s change payload held of
           Inl e \<Rightarrow> (s, Inl e)
         | Inr (s', fresh) \<Rightarrow> record_offers v s' deferred offers (if fresh then n + 1 else n))"

definition pull_page ::
  "'db daemon_env \<Rightarrow> 'db daemon_state \<Rightarrow> string \<Rightarrow> pull_response \<Rightarrow> pull_tally \<Rightarrow> 'db daemon_state \<times> page_result"
  where
  "pull_page v s key pull t =
     (let cursor = show_int (pr_latest_version pull) in
      if pr_changes pull = [] then
        (if pr_has_more pull then (write_setting s key cursor, PageContinue cursor t) else (s, PageBreak t))
      else
        let offers = page_offers v s (pr_changes pull);
            changes = filter (\<lambda>c. ch_entity_type c \<noteq> ''file_offer'') (pr_changes pull);
            held = held_ids offers;
            deferred = filter (\<lambda>c. ch_entity_id c \<in> set held) changes;
            metadata = filter (\<lambda>c. ch_entity_id c \<notin> set held) changes;
            applied =
              (if metadata = [] then (ds_store s, Inr \<lparr>ao_applied = 0, ao_skipped = 0, ao_conflicts = []\<rparr>)
               else apply_changes (dv_deps v) (we_sqlite (dv_env v)) (ds_store s) metadata (\<lambda>_. None))
        in case applied of
             (store, Inl x) \<Rightarrow> (set_store s store, PageError (ServerDb (sync_error_text (dv_deps v) x)))
           | (store, Inr outcome) \<Rightarrow>
              (case record_offers v (set_store s store) deferred offers 0 of
                 (s1, Inl x) \<Rightarrow> (s1, PageError x)
               | (s1, Inr n) \<Rightarrow>
                   let t' = \<lparr>pt_applied = pt_applied t + ao_applied outcome,
                             pt_offered = pt_offered t + n,
                             pt_conflicts = pt_conflicts t + length (ao_conflicts outcome)\<rparr>;
                       s2 = write_setting s1 key cursor
                   in (s2, if pr_has_more pull then PageContinue cursor t' else PageBreak t')))"

fun pull_loop ::
  "'db daemon_env \<Rightarrow> peer \<Rightarrow> string \<Rightarrow> nat \<Rightarrow> nat \<Rightarrow> 'db daemon_state \<Rightarrow> string \<Rightarrow> pull_tally
    \<Rightarrow> ('db daemon_state \<times> (pull_tally, server_error) result) option" where
  "pull_loop v p key 0 page s cursor t = None"
| "pull_loop v p key (Suc n) page s cursor t =
     (let since = (case parse_i64 cursor of Some i \<Rightarrow> i | None \<Rightarrow> 0) in
      case pe_changes p page since 100 of
        Inl m \<Rightarrow> Some (s, Inl (ServerServer (''pull changes: '' @ m)))
      | Inr pull \<Rightarrow>
         (case pull_page v s key pull t of
            (s', PageError x) \<Rightarrow> Some (s', Inl x)
          | (s', PageBreak t') \<Rightarrow> Some (s', Inr t')
          | (s', PageContinue c t') \<Rightarrow> pull_loop v p key n (Suc page) s' c t'))"

definition cursor_key :: "deps \<Rightarrow> db_id \<Rightarrow> string" where
  "cursor_key d device = ''sync.cursor.'' @ db_id_display d device"

definition pull_device_once ::
  "'db daemon_env \<Rightarrow> nat \<Rightarrow> 'db daemon_state \<Rightarrow> db_id
    \<Rightarrow> ('db daemon_state \<times> (pull_tally, server_error) result) option" where
  "pull_device_once v fuel s device =
     (case find_paired (ds_wire s) (to_bytes device) of
        None \<Rightarrow> Some (s, Inl (ServerServer ''device is not paired''))
      | Some row \<Rightarrow>
          if \<not> pd_outbound row
          then Some (s, Inl (ServerServer ''device was not claimed by this installation''))
          else (case peer_for v s device of
             Inl x \<Rightarrow> Some (s, Inl x)
           | Inr p \<Rightarrow>
               let key = cursor_key (dv_deps v) device;
                   cursor = (case read_setting s key of Some c \<Rightarrow> c | None \<Rightarrow> ''0'')
               in case pull_loop v p key fuel 0 s cursor \<lparr>pt_applied = 0, pt_offered = 0, pt_conflicts = 0\<rparr> of
                    None \<Rightarrow> None
                  | Some (s', Inl x) \<Rightarrow> Some (s', Inl x)
                  | Some (s', Inr t) \<Rightarrow>
                      Some (s'\<lparr>ds_wire := (ds_wire s')\<lparr>ws_paired := map (\<lambda>r.
                              if pd_device_id r = to_bytes device
                              then r\<lparr>pd_last_sync_at := Some (we_now (dv_env v))\<rparr> else r)
                            (ws_paired (ds_wire s'))\<rparr>\<rparr>, Inr t)))"

definition report_pulled :: "'db daemon_env \<Rightarrow> 'db daemon_state \<Rightarrow> db_id \<Rightarrow> pull_tally \<Rightarrow> 'db daemon_state" where
  "report_pulled v s device t =
     (if pt_applied t = 0 then s
      else s\<lparr>ds_wire := notify (ds_wire s) NOTIFY_SYNC_PULLED (json_obj
             [(''device_id'', JString (db_id_display (dv_deps v) device)),
              (''applied'', JInt (int (pt_applied t))), (''conflicts'', JInt (int (pt_conflicts t)))])\<rparr>)"

definition pull_device ::
  "'db daemon_env \<Rightarrow> nat \<Rightarrow> 'db daemon_state \<Rightarrow> db_id
    \<Rightarrow> ('db daemon_state \<times> (pull_tally, server_error) result) option" where
  "pull_device v fuel s device =
     map_option (\<lambda>(s', r). case r of Inr t \<Rightarrow> (report_pulled v s' device t, r) | Inl _ \<Rightarrow> (s', r))
       (pull_device_once v fuel s device)"

definition outbound_device_ids :: "'db daemon_state \<Rightarrow> string list" where
  "outbound_device_ids s = map pd_device_id (filter pd_outbound (ws_paired (ds_wire s)))"

section \<open>Deciding\<close>

text \<open>\<open>Utf8Path::join\<close>: an absolute path replaces the base.\<close>

definition path_join :: "string \<Rightarrow> string \<Rightarrow> string" where
  "path_join base p =
     (if starts_with ''/'' p then p
      else if base = [] \<or> last base = CHR ''/'' then base @ p else base @ ''/'' @ p)"

definition offer_file_name :: "'db daemon_env \<Rightarrow> string option \<Rightarrow> string" where
  "offer_file_name v name =
     (case Option.bind name (we_file_name (dv_env v)) of
        Some n \<Rightarrow> if n = [] then ''book'' else n
      | None \<Rightarrow> ''book'')"

definition cover_extension :: "string \<Rightarrow> string" where
  "cover_extension content_type =
     (if sublist ''jpeg'' content_type then ''jpg''
      else if sublist ''webp'' content_type then ''webp'' else ''png'')"

definition download_offer ::
  "'db daemon_env \<Rightarrow> 'db daemon_state \<Rightarrow> peer \<Rightarrow> inbound_offer \<Rightarrow> string \<Rightarrow> string
    \<Rightarrow> 'db daemon_state \<times> (inventory_paths, server_error) result" where
  "download_offer v s p row books_dir covers_dir =
     (let i = io_inventory_id row;
          file_path = path_join books_dir (i @ ''-'' @ offer_file_name v (io_file_name row))
      in case pe_file p i of
           Inl m \<Rightarrow> (s, Inl (ServerServer m))
         | Inr (bytes, broken) \<Rightarrow>
            case dv_write_file v file_path of Inl m \<Rightarrow> (s, Inl (ServerServer (''write received file: '' @ m))) | Inr _ \<Rightarrow>
            let s1 = s\<lparr>ds_files := (ds_files s)(file_path \<mapsto> bytes)\<rparr> in
            case broken of Some m \<Rightarrow> (s1, Inl (ServerServer m)) | None \<Rightarrow>
            if \<not> io_has_cover row then (s1, Inr \<lparr>ip_file_path = Some file_path, ip_cover_path = None\<rparr>)
            else (case pe_cover p i of
               Inl m \<Rightarrow> (s1, Inl (ServerServer m))
             | Inr None \<Rightarrow> (s1, Inr \<lparr>ip_file_path = Some file_path, ip_cover_path = None\<rparr>)
             | Inr (Some (content_type, cbytes)) \<Rightarrow>
                 let path = path_join covers_dir (i @ ''.'' @ cover_extension content_type) in
                 case dv_write_file v path of Inl m \<Rightarrow> (s1, Inl (ServerServer (''write received cover: '' @ m))) | Inr _ \<Rightarrow>
                 (s1\<lparr>ds_files := (ds_files s1)(path \<mapsto> cbytes)\<rparr>,
                  Inr \<lparr>ip_file_path = Some file_path, ip_cover_path = Some path\<rparr>)))"

datatype rpc_failure = InvalidParams string | RpcInternal string

record decision_report =
  dr_delivered :: bool
  dr_applied :: nat
  dr_conflicts :: nat

fun server_error_text :: "server_error \<Rightarrow> string" where
  "server_error_text (ServerIo m) = ''io error: '' @ m"
| "server_error_text (ServerDb m) = ''database error: '' @ m"
| "server_error_text (ServerRpc m) = ''rpc error: '' @ m"
| "server_error_text (ServerConfig m) = ''config error: '' @ m"
| "server_error_text (ServerServer m) = ''server error: '' @ m"

definition mark_decided :: "'db daemon_env \<Rightarrow> 'db daemon_state \<Rightarrow> string \<Rightarrow> bool \<Rightarrow> 'db daemon_state" where
  "mark_decided v s offer_id accepted =
     s\<lparr>ds_inbound := map (\<lambda>r. if io_offer_id r = offer_id
        then r\<lparr>io_status := (if accepted then ''accepted'' else ''rejected''),
               io_decided_at := Some (we_now_string (dv_env v)), io_deferred_changes := ''[]''\<rparr>
        else r) (ds_inbound s)\<rparr>"

text \<open>What accepting does before the row is marked: the download and the held rows.\<close>

definition accept_offer ::
  "'db daemon_env \<Rightarrow> 'db daemon_state \<Rightarrow> peer \<Rightarrow> inbound_offer
    \<Rightarrow> 'db daemon_state \<times> (nat \<times> nat, rpc_failure) result" where
  "accept_offer v s p row =
     (case dv_books_dir v of None \<Rightarrow> (s, Inl (RpcInternal ''no books directory configured'')) | Some books \<Rightarrow>
     (case dv_covers_dir v of None \<Rightarrow> (s, Inl (RpcInternal ''no covers directory configured'')) | Some covers \<Rightarrow>
     (case dv_make_dir v books of Inl m \<Rightarrow> (s, Inl (RpcInternal (''books directory: '' @ m))) | Inr _ \<Rightarrow>
     (case dv_make_dir v covers of Inl m \<Rightarrow> (s, Inl (RpcInternal (''covers directory: '' @ m))) | Inr _ \<Rightarrow>
     (case download_offer v s p row books covers of
        (s1, Inl x) \<Rightarrow> (s1, Inl (RpcInternal (server_error_text x)))
      | (s1, Inr paths) \<Rightarrow>
          let held = (case dv_changes_parse v (io_deferred_changes row) of Inr cs \<Rightarrow> cs | Inl _ \<Rightarrow> []) in
          if held = [] then (s1, Inr (0, 0))
          else (case apply_changes (dv_deps v) (we_sqlite (dv_env v)) (ds_store s1) held
                       [io_inventory_id row \<mapsto> paths] of
             (store, Inl x) \<Rightarrow>
               (set_store s1 store, Inl (RpcInternal (server_error_text (ServerDb (sync_error_text (dv_deps v) x)))))
           | (store, Inr outcome) \<Rightarrow>
               (set_store s1 store, Inr (ao_applied outcome, length (ao_conflicts outcome)))))))))"

definition offers_decide ::
  "'db daemon_env \<Rightarrow> 'db daemon_state \<Rightarrow> string \<Rightarrow> bool
    \<Rightarrow> 'db daemon_state \<times> (decision_report, rpc_failure) result" where
  "offers_decide v s offer_id accepted =
     (case find_inbound s offer_id of
        None \<Rightarrow> (s, Inl (InvalidParams (''no such offer: '' @ offer_id)))
      | Some row \<Rightarrow>
          if io_status row \<noteq> ''pending''
          then (s, Inl (InvalidParams (''offer '' @ offer_id @ '' was already '' @ io_status row)))
          else (case peer_by_id v s (io_from_device_id row) of
             Inl x \<Rightarrow> (s, Inl (RpcInternal (server_error_text x)))
           | Inr p \<Rightarrow>
              (case (if accepted then accept_offer v s p row else (s, Inr (0, 0))) of
                 (s1, Inl x) \<Rightarrow> (s1, Inl x)
               | (s1, Inr (applied, found)) \<Rightarrow>
                   (mark_decided v s1 (io_offer_id row) accepted,
                    Inr \<lparr>dr_delivered = pe_offer_decision p (io_offer_id row) accepted,
                         dr_applied = applied, dr_conflicts = found\<rparr>))))"

section \<open>Claiming\<close>

definition NOTIFY_PAIRING_CLAIMED :: string where "NOTIFY_PAIRING_CLAIMED = ''pairing.claimed''"

text \<open>The end of \<open>claim_peer\<close>, once the peer handed out its token: the row is written with the token to
  present to the peer.\<close>

definition claimed_rows ::
  "paired_device list \<Rightarrow> string \<Rightarrow> string option \<Rightarrow> nat \<Rightarrow> string \<Rightarrow> string \<Rightarrow> paired_device list" where
  "claimed_rows rows device name now token node =
     map (\<lambda>r. if pd_device_id r = device
              then r\<lparr>pd_peer_session_token := Some token, pd_node_id := Some node\<rparr> else r)
       (if \<exists>r \<in> set rows. pd_device_id r = device
        then map (\<lambda>r. if pd_device_id r = device
                      then r\<lparr>pd_name := name, pd_paired_at := now, pd_outbound := True\<rparr> else r) rows
        else rows @ [\<lparr>pd_device_id = device, pd_name = name, pd_listen_on = None, pd_device_type_id = None,
                      pd_paired_at = now, pd_last_sync_at = None, pd_outbound = True,
                      pd_session_token = None, pd_node_id = None, pd_peer_session_token = None\<rparr>])"

definition store_claimed_peer ::
  "'db daemon_env \<Rightarrow> 'db daemon_state \<Rightarrow> db_id \<Rightarrow> string option \<Rightarrow> string \<Rightarrow> string \<Rightarrow> 'db daemon_state" where
  "store_claimed_peer v s device name node token =
     (let w = ds_wire s;
          rows = claimed_rows (ws_paired w) (to_bytes device) name (we_now (dv_env v)) token node
      in s\<lparr>ds_wire := notify (w\<lparr>ws_paired := rows\<rparr>) NOTIFY_PAIRING_CLAIMED (json_obj
            [(''device_id'', JString (db_id_display (dv_deps v) device)), (''name'', opt_str name),
             (''node_id'', JString node)])\<rparr>)"

end
