(* ===== verification/DaemonCorrect.thy ===== *)
theory DaemonCorrect
  imports Daemon
begin

text \<open>
  Correctness of the receiving side: what a page does to the library and to the offers, that pulling
  ends, that a decided offer stays decided, and where the code does less than its documentation says.
\<close>

section \<open>Recording offers\<close>

lemma set_store_simps [simp]:
  "ds_store (set_store s st) = st" "ds_inbound (set_store s st) = ds_inbound s"
  "ds_files (set_store s st) = ds_files s" "ws_device_id (ds_wire (set_store s st)) = ws_device_id (ds_wire s)"
  "find_inbound (set_store s st) i = find_inbound s i"
  by (simp_all add: set_store_def find_inbound_def)

lemma write_setting_simps [simp]:
  "ds_inbound (write_setting s k v) = ds_inbound s"
  "find_inbound (write_setting s k v) i = find_inbound s i"
  "ds_store (write_setting s k v) =
     (ds_store s)\<lparr>client_settings := (client_settings (ds_store s))(k \<mapsto> v)\<rparr>"
  by (simp_all add: write_setting_def set_store_def find_inbound_def)

lemma record_inbound_store:
  assumes "record_inbound_offer v s c p held = Inr (s', fresh)"
  shows "ds_store s' = ds_store s" "ws_device_id (ds_wire s') = ws_device_id (ds_wire s)"
  using assms
  by (auto simp: record_inbound_offer_def notify_def Let_def split: if_splits option.splits)

text \<open>A row that is not pending is left as it is.\<close>

lemma find_upsert_other:
  "find (\<lambda>r. io_offer_id r = i) rows = Some row \<Longrightarrow> io_offer_id new \<noteq> i \<or> io_status row \<noteq> ''pending'' \<Longrightarrow>
   find (\<lambda>r. io_offer_id r = i) (upsert_inbound rows new) = Some row"
proof -
  assume f: "find (\<lambda>r. io_offer_id r = i) rows = Some row"
    and c: "io_offer_id new \<noteq> i \<or> io_status row \<noteq> ''pending''"
  let ?g = "\<lambda>r. if io_offer_id r = io_offer_id new \<and> io_status r = ''pending''
    then new\<lparr>io_received_at := io_received_at r, io_status := io_status r, io_decided_at := io_decided_at r\<rparr> else r"
  have "find (\<lambda>r. io_offer_id r = i) (map ?g rows) = Some row"
    using f c by (induction rows) (auto split: if_splits)
  moreover have "find (\<lambda>r. io_offer_id r = i) (rows @ [new]) = Some row"
    using f by (induction rows) (auto split: if_splits)
  ultimately show ?thesis by (simp add: upsert_inbound_def)
qed

lemma record_inbound_decided:
  assumes "record_inbound_offer v s c p held = Inr (s', fresh)"
    "find_inbound s i = Some row" "io_status row \<noteq> ''pending''"
  shows "find_inbound s' i = Some row"
proof -
  have "s' = s \<or> (\<exists>new. ds_inbound s' = upsert_inbound (ds_inbound s) new)"
    using assms(1)
    by (auto simp: record_inbound_offer_def notify_def Let_def split: if_splits option.splits simp del: ex_simps)
  then consider "s' = s" | new where "ds_inbound s' = upsert_inbound (ds_inbound s) new" by blast
  then show ?thesis
  proof cases
    case 1
    with assms(2) show ?thesis by simp
  next
    case 2
    with assms(2,3) find_upsert_other [of i "ds_inbound s" row new] show ?thesis
      by (simp add: find_inbound_def)
  qed
qed

lemma record_offers_facts:
  assumes "record_offers v s deferred offers n = (s', r)"
  shows "ds_store s' = ds_store s"
    and "find_inbound s i = Some row \<Longrightarrow> io_status row \<noteq> ''pending'' \<Longrightarrow> find_inbound s' i = Some row"
proof -
  have "ds_store s' = ds_store s \<and>
    (find_inbound s i = Some row \<longrightarrow> io_status row \<noteq> ''pending'' \<longrightarrow> find_inbound s' i = Some row)"
    using assms
  proof (induction offers arbitrary: s n)
    case Nil
    then show ?case by simp
  next
    case (Cons x offers)
    obtain c p where x: "x = (c, p)" by (cases x)
    let ?held = "filter (\<lambda>row. ch_entity_id row \<in> set (offer_row_ids p)) deferred"
    show ?case
    proof (cases "record_inbound_offer v s c p ?held")
      case (Inl e)
      with Cons.prems x show ?thesis by (simp add: Let_def)
    next
      case (Inr sf)
      obtain s1 fresh where sf: "sf = (s1, fresh)" by (cases sf)
      with Cons.prems x Inr
      have "record_offers v s1 deferred offers (if fresh then n + 1 else n) = (s', r)" by (simp add: Let_def)
      from Cons.IH [OF this] record_inbound_store(1) [OF Inr [unfolded sf]]
        record_inbound_decided [OF Inr [unfolded sf]] show ?thesis by auto
    qed
  qed
  then show "ds_store s' = ds_store s"
    "find_inbound s i = Some row \<Longrightarrow> io_status row \<noteq> ''pending'' \<Longrightarrow> find_inbound s' i = Some row" by simp_all
qed

section \<open>One page\<close>

text \<open>The rows of a page that wait for a decision, and those that do not.\<close>

definition page_rows :: "pull_response \<Rightarrow> sync_change list" where
  "page_rows pull = filter (\<lambda>c. ch_entity_type c \<noteq> ''file_offer'') (pr_changes pull)"

definition page_metadata :: "'db daemon_env \<Rightarrow> 'db daemon_state \<Rightarrow> pull_response \<Rightarrow> sync_change list" where
  "page_metadata v s pull =
     filter (\<lambda>c. ch_entity_id c \<notin> set (held_ids (page_offers v s (pr_changes pull)))) (page_rows pull)"

definition page_deferred :: "'db daemon_env \<Rightarrow> 'db daemon_state \<Rightarrow> pull_response \<Rightarrow> sync_change list" where
  "page_deferred v s pull =
     filter (\<lambda>c. ch_entity_id c \<in> set (held_ids (page_offers v s (pr_changes pull)))) (page_rows pull)"

definition apply_batch :: "'db daemon_env \<Rightarrow> 'db store \<Rightarrow> sync_change list \<Rightarrow> apply_options
    \<Rightarrow> 'db store \<times> (apply_outcome, sync_error) result" where
  "apply_batch v st cs options =
     (if cs = [] then (st, Inr \<lparr>ao_applied = 0, ao_skipped = 0, ao_conflicts = []\<rparr>)
      else apply_changes (dv_deps v) (we_sqlite (dv_env v)) st cs options)"

lemma pull_page_cases:
  assumes "pull_page v s key pull t = (s', r)" "pr_changes pull \<noteq> []"
  obtains (refused) x where "snd (apply_batch v (ds_store s) (page_metadata v s pull) (\<lambda>_. None)) = Inl x"
      "s' = set_store s (fst (apply_batch v (ds_store s) (page_metadata v s pull) (\<lambda>_. None)))"
      "\<exists>m. r = PageError m"
  | (stopped) store out s1 x where
      "apply_batch v (ds_store s) (page_metadata v s pull) (\<lambda>_. None) = (store, Inr out)"
      "record_offers v (set_store s store) (page_deferred v s pull) (page_offers v s (pr_changes pull)) 0 = (s1, Inl x)"
      "s' = s1" "r = PageError x"
  | (page) store out s1 n t' where
      "apply_batch v (ds_store s) (page_metadata v s pull) (\<lambda>_. None) = (store, Inr out)"
      "record_offers v (set_store s store) (page_deferred v s pull) (page_offers v s (pr_changes pull)) 0 = (s1, Inr n)"
      "s' = write_setting s1 key (show_int (pr_latest_version pull))"
      "r = (if pr_has_more pull then PageContinue (show_int (pr_latest_version pull)) t' else PageBreak t')"
proof -
  obtain store res where a: "apply_batch v (ds_store s) (page_metadata v s pull) (\<lambda>_. None) = (store, res)"
    by (cases "apply_batch v (ds_store s) (page_metadata v s pull) (\<lambda>_. None)")
  note d = assms(1) [unfolded pull_page_def Let_def if_not_P [OF assms(2)],
      folded page_rows_def page_metadata_def page_deferred_def apply_batch_def, unfolded a]
  show thesis
  proof (cases res)
    case (Inl x)
    with d a refused show thesis by auto
  next
    case (Inr out)
    obtain s1 q where ro: "record_offers v (set_store s store) (page_deferred v s pull)
        (page_offers v s (pr_changes pull)) 0 = (s1, q)"
      by (cases "record_offers v (set_store s store) (page_deferred v s pull) (page_offers v s (pr_changes pull)) 0")
    show thesis
    proof (cases q)
      case (Inl x)
      with d a Inr ro \<open>res = Inr out\<close> show thesis by (intro stopped [of store out s1 x]) simp_all
    next
      case (Inr n)
      let ?t = "\<lparr>pt_applied = pt_applied t + ao_applied out, pt_offered = pt_offered t + n,
        pt_conflicts = pt_conflicts t + length (ao_conflicts out)\<rparr>"
      from d a ro \<open>res = Inr out\<close> Inr show thesis by (intro page [of store out s1 n ?t]) auto
    qed
  qed
qed


lemma pull_page_inbound:
  assumes "pull_page v s key pull t = (s', r)" "find_inbound s i = Some row" "io_status row \<noteq> ''pending''"
  shows "find_inbound s' i = Some row"
proof (cases "pr_changes pull = []")
  case True
  with assms show ?thesis by (auto simp: pull_page_def Let_def split: if_splits)
next
  case False
  from assms(1) False show ?thesis
  proof (cases rule: pull_page_cases)
    case refused
    with assms(2) show ?thesis by simp
  next
    case (stopped store out s1 x)
    with record_offers_facts(2) [OF stopped(2)] assms(2,3) show ?thesis by simp
  next
    case (page store out s1 n t')
    with record_offers_facts(2) [OF page(2)] assms(2,3) show ?thesis by simp
  qed
qed

lemma pull_loop_inbound:
  assumes "pull_loop v p key fuel k s cursor t = Some (s', r)"
    "find_inbound s i = Some row" "io_status row \<noteq> ''pending''"
  shows "find_inbound s' i = Some row"
  using assms(1,2)
proof (induction fuel arbitrary: k s cursor t)
  case 0
  then show ?case by simp
next
  case (Suc n)
  let ?since = "case parse_i64 cursor of Some i \<Rightarrow> i | None \<Rightarrow> 0"
  show ?case
  proof (cases "pe_changes p k ?since 100")
    case (Inl m)
    with Suc.prems show ?thesis by (simp add: Let_def)
  next
    case (Inr pull)
    obtain s1 q where q: "pull_page v s key pull t = (s1, q)" by (cases "pull_page v s key pull t")
    note found = pull_page_inbound [OF q Suc.prems(2) assms(3)]
    show ?thesis
      using Suc.prems(1) Inr q found Suc.IH [OF _ found] by (cases q) (auto simp: Let_def)
  qed
qed

lemma find_inbound_wire [simp]: "find_inbound (s\<lparr>ds_wire := w\<rparr>) i = find_inbound s i"
  by (simp add: find_inbound_def)

lemma report_pulled_inbound [simp]: "find_inbound (report_pulled v s device t) i = find_inbound s i"
  by (simp add: report_pulled_def)

text \<open>C10: once the reader has answered an offer, no later pull, whatever the peer sends, changes its
  row: not its status, not its title, not the rows it holds, and not even under the same offer id.
  A second decision on it is refused and changes nothing.\<close>

theorem inbound_offer_decided_once:
  assumes "pull_device v fuel s device = Some (s', r)"
    "find_inbound s i = Some row" "io_status row \<noteq> ''pending''"
  shows "find_inbound s' i = Some row
    \<and> offers_decide v s' i accepted =
        (s', Inl (InvalidParams (''offer '' @ i @ '' was already '' @ io_status row)))"
proof -
  from assms(1) obtain s1 r1 where once: "pull_device_once v fuel s device = Some (s1, r1)"
    by (auto simp: pull_device_def)
  with assms(1) have "find_inbound s' i = find_inbound s1 i"
    by (cases r1) (auto simp: pull_device_def)
  moreover from once have "find_inbound s1 i = Some row"
    using assms(2,3)
    by (auto simp: pull_device_once_def Let_def split: option.splits if_splits sum.splits)
       (erule (2) pull_loop_inbound)+
  ultimately show ?thesis using assms(3) by (simp add: offers_decide_def)
qed


section \<open>An offered book waits for the reader\<close>

lemma find_snoc:
  "\<not> (\<exists>x \<in> set xs. P x) \<Longrightarrow> P y \<Longrightarrow> find P (xs @ [y]) = Some y"
  by (induction xs) auto

lemma record_fresh_offer:
  assumes "find_inbound s oid = None" "payload_text p ''offer_id'' = Some oid"
    "record_inbound_offer v s c p held = Inr (s', fresh)"
  shows "\<exists>row. find_inbound s' oid = Some row \<and> io_status row = ''pending'' \<and> io_offer_id row = oid
    \<and> Some (io_inventory_id row) = payload_text p ''inventory_id''
    \<and> io_deferred_changes row = dv_changes_text v held"
proof -
  have none: "\<not> (\<exists>r \<in> set (ds_inbound s). io_offer_id r = oid)"
    using assms(1) by (auto simp: find_inbound_def find_None_iff)
  have app: "find (\<lambda>r. io_offer_id r = oid) (ds_inbound s @ [new]) = Some new" if "io_offer_id new = oid" for new
    using none that by (simp add: find_snoc)
  have "\<exists>row. ds_inbound s' = ds_inbound s @ [row] \<and> io_status row = ''pending'' \<and> io_offer_id row = oid
    \<and> Some (io_inventory_id row) = payload_text p ''inventory_id''
    \<and> io_deferred_changes row = dv_changes_text v held"
    using assms none
    by (auto simp: record_inbound_offer_def upsert_inbound_def notify_def Let_def ok_or_def
        split: option.splits if_splits)
  with app show ?thesis by (auto simp: find_inbound_def)
qed

lemma single_offer_held:
  "page_offers v s (pr_changes pull) = [(c, p)] \<Longrightarrow>
   filter (\<lambda>row. ch_entity_id row \<in> set (offer_row_ids p)) (page_deferred v s pull) = page_deferred v s pull"
  by (simp add: page_deferred_def held_ids_def)

lemma download_store: "ds_store (fst (download_offer v s p row books covers)) = ds_store s"
  by (auto simp: download_offer_def Let_def split: sum.splits option.splits prod.splits)

lemma mark_decided_store [simp]: "ds_store (mark_decided v s i b) = ds_store s" "ds_files (mark_decided v s i b) = ds_files s"
  by (simp_all add: mark_decided_def)

lemma accept_offer_store:
  assumes "accept_offer v s p row = (s', Inr n)" "dv_changes_parse v (io_deferred_changes row) = Inr held"
  shows "\<exists>paths. ds_store s' = fst (apply_batch v (ds_store s) held [io_inventory_id row \<mapsto> paths])"
proof -
  from assms(1) obtain books covers where dirs: "dv_books_dir v = Some books" "dv_covers_dir v = Some covers"
    by (auto simp: accept_offer_def split: option.splits)
  obtain s1 d where d: "download_offer v s p row books covers = (s1, d)"
    by (cases "download_offer v s p row books covers")
  then have st: "ds_store s1 = ds_store s" using download_store [of v s p row books covers] by simp
  from assms(1) dirs have made: "dv_make_dir v books = Inr ()" "dv_make_dir v covers = Inr ()"
    by (auto simp: accept_offer_def split: sum.splits)
  from assms(1) dirs made d obtain paths where "d = Inr paths"
    by (cases d) (auto simp: accept_offer_def)
  with assms dirs made d st show ?thesis
    by (intro exI [of _ paths])
       (auto simp: accept_offer_def apply_batch_def Let_def split: if_splits sum.splits prod.splits)
qed

lemma decline_changes_nothing:
  "ds_store (fst (offers_decide v s i False)) = ds_store s \<and> ds_files (fst (offers_decide v s i False)) = ds_files s"
  by (auto simp: offers_decide_def split: option.splits sum.splits)

lemma accept_applies_held:
  assumes "offers_decide v s i True = (s', Inr rep)" "find_inbound s i = Some row"
    "dv_changes_parse v (io_deferred_changes row) = Inr held"
  shows "\<exists>paths. ds_store s' = fst (apply_batch v (ds_store s) held [io_inventory_id row \<mapsto> paths])"
proof -
  from assms(1,2) obtain p where p: "peer_by_id v s (io_from_device_id row) = Inr p" "io_status row = ''pending''"
    by (auto simp: offers_decide_def split: if_splits sum.splits)
  obtain s1 q where a: "accept_offer v s p row = (s1, q)" by (cases "accept_offer v s p row")
  from assms(1,2) p a obtain n where "q = Inr n" "ds_store s' = ds_store s1"
    by (cases q) (auto simp: offers_decide_def)
  with accept_offer_store [OF _ assms(3), of s p s1 n] a show ?thesis by simp
qed

text \<open>An offer to this device, by the text of its payload; and the rows of a book, by its three ids.\<close>

definition json_text :: "json \<Rightarrow> string \<Rightarrow> string \<Rightarrow> bool" where
  "json_text p key t \<longleftrightarrow> json_get p key = Some (JString t)"

definition offer_to_us :: "'db daemon_env \<Rightarrow> 'db daemon_state \<Rightarrow> sync_change \<Rightarrow> json \<Rightarrow> bool" where
  "offer_to_us v s c p \<longleftrightarrow> ch_entity_type c = ''file_offer'' \<and> json_from_str (dv_deps v) (ch_payload c) = Inr p
     \<and> json_text p ''to_device_id'' (ws_device_id (ds_wire s))"

definition about_book :: "string \<Rightarrow> string \<Rightarrow> string \<Rightarrow> sync_change \<Rightarrow> bool" where
  "about_book inventory edition work c \<longleftrightarrow>
     ch_entity_id c = inventory \<or> ch_entity_id c = edition \<or> ch_entity_id c = work"

lemma payload_text_iff: "payload_text p key = Some t \<longleftrightarrow> json_text p key t"
proof -
  have "Json.as_str j = Some t \<longleftrightarrow> j = JString t" for j by (cases j) auto
  then show ?thesis by (simp add: payload_text_def json_text_def Option.bind_eq_Some_conv)
qed

lemma page_offers_none:
  assumes "\<forall>c \<in> set cs. \<forall>p. \<not> offer_to_us v s c p"
  shows "page_offers v s cs = []"
proof -
  have "\<not> json_text JNull ''to_device_id'' t" for t by (simp add: json_text_def json_get_def)
  then show ?thesis
    using assms
    by (auto simp: page_offers_def filter_empty_conv offer_to_us_def payload_text_iff split: sum.splits)
qed

lemma page_offers_append: "page_offers v s (xs @ ys) = page_offers v s xs @ page_offers v s ys"
  by (simp add: page_offers_def)

lemma single_offer:
  assumes "pr_changes pull = before @ c # after" "offer_to_us v s c p"
    "\<forall>c' \<in> set (before @ after). \<forall>p'. \<not> offer_to_us v s c' p'"
    "json_text p ''inventory_id'' iid" "json_text p ''edition_id'' eid" "json_text p ''work_id'' wid"
  shows "page_offers v s (pr_changes pull) = [(c, p)]"
    "page_deferred v s pull = filter (about_book iid eid wid) (page_rows pull)"
    "page_metadata v s pull = filter (\<lambda>r. \<not> about_book iid eid wid r) (page_rows pull)"
proof -
  have "page_offers v s [c] = [(c, p)]"
    using assms(2) by (simp add: page_offers_def offer_to_us_def payload_text_iff)
  moreover have "page_offers v s before = []" "page_offers v s after = []"
    using assms(3) by (auto intro!: page_offers_none)
  ultimately show offers: "page_offers v s (pr_changes pull) = [(c, p)]"
    using page_offers_append [of v s before "c # after"] page_offers_append [of v s "[c]" after]
    by (simp add: assms(1))
  have held: "set (held_ids [(c, p)]) = {iid, eid, wid}"
    using assms(4-6) by (simp add: held_ids_def offer_row_ids_def List.map_filter_simps flip: payload_text_iff)
  have about: "about_book iid eid wid = (\<lambda>r. ch_entity_id r \<in> {iid, eid, wid})"
    by (simp add: fun_eq_iff about_book_def)
  show "page_deferred v s pull = filter (about_book iid eid wid) (page_rows pull)"
    "page_metadata v s pull = filter (\<lambda>r. \<not> about_book iid eid wid r) (page_rows pull)"
    unfolding page_deferred_def page_metadata_def offers held about by (rule refl)+
qed


section \<open>Pulling ends\<close>

lemma parse_show_int: "in_i64 n \<Longrightarrow> parse_i64 (show_int n) = Some n"
proof -
  assume r: "in_i64 n"
  have digits: "show_nat k \<noteq> CHR ''-'' # xs" "show_nat k \<noteq> CHR ''+'' # xs" for k xs
    using show_nat_digits [of k] by (auto simp: is_ascii_digit_def byte_def)
  show ?thesis
  proof (cases "n < 0")
    case True
    with r show ?thesis by (simp add: parse_i64_def show_int_def show_nat_digits)
  next
    case False
    obtain c cs where sc: "show_nat (nat n) = c # cs" by (cases "show_nat (nat n)") auto
    with digits [of "nat n"] have "c \<noteq> CHR ''-''" "c \<noteq> CHR ''+''" by auto
    with False r sc show_nat_digits [of "nat n"] decimal_value_show_nat [of "nat n"] show ?thesis
      by (auto simp: parse_i64_def show_int_def)
  qed
qed

lemma pull_page_continue:
  "pull_page v s key pull t = (s', PageContinue c t') \<Longrightarrow>
   pr_has_more pull \<and> c = show_int (pr_latest_version pull)"
  by (auto simp: pull_page_def Let_def split: if_splits sum.splits prod.splits)

text \<open>The page a paired peer answers with: its log above the cursor, less the offers for others.\<close>

definition served_page :: "'db daemon_env \<Rightarrow> 'db sqlite \<Rightarrow> 'db store \<Rightarrow> string \<Rightarrow> int \<Rightarrow> int \<Rightarrow> pull_response" where
  "served_page v q st me since limit = (let full = pull_changes q st since limit in
     full\<lparr>pr_changes := filter (\<lambda>c. change_is_for (dv_deps v) c me) (pr_changes full)\<rparr>)"

lemma pull_has_more:
  assumes "order_ok (sql_order_by q)" "has_device st" "0 < limit"
  shows "pr_has_more (pull_changes q st since limit) \<longleftrightarrow> nat limit \<le> length (pending_rows q st since)"
proof -
  have "pr_has_more (pull_changes q st since limit) \<longleftrightarrow>
      int (length (pr_changes (pull_changes q st since limit))) = limit"
    by (simp add: pull_changes_def Let_def)
  with pull_page [OF assms(1,2), of limit since] assms(3) show ?thesis by auto
qed

definition cursor_value :: "string \<Rightarrow> int" where
  "cursor_value cursor = (case parse_i64 cursor of Some i \<Rightarrow> i | None \<Rightarrow> 0)"

text \<open>C23: pulling ends. Against a peer that serves its change log, with distinct versions that fit
  the wire's 64 bits, the loop returns after at most one request more than the number of full
  pages pending, whatever the reading side makes of the rows: also when a page is empty because
  everything on it was offered to someone else.\<close>

theorem pull_loop_terminates:
  assumes "order_ok (sql_order_by q)" "distinct_versions st" "has_device st"
    and wire: "\<And>r. r \<in> set (change_log st) \<Longrightarrow> in_i64 (lr_version r)"
    and peer: "\<And>k since. pe_changes p k since 100 = Inr (served_page v q st me since 100)"
    and fuel: "length (pending_rows q st (cursor_value cursor)) div 100 < fuel"
  shows "\<exists>s' r. pull_loop v p key fuel k s cursor t = Some (s', r)"
  using fuel
proof (induction fuel arbitrary: k s cursor t)
  case 0
  then show ?case by simp
next
  case (Suc n)
  let ?since = "cursor_value cursor" and ?pull = "served_page v q st me (cursor_value cursor) 100"
  let ?p = "pending_rows q st ?since"
  obtain s1 res where pg: "pull_page v s key ?pull t = (s1, res)" by (cases "pull_page v s key ?pull t")
  have step: "pull_loop v p key (Suc n) k s cursor t =
      (case res of PageError x \<Rightarrow> Some (s1, Inl x) | PageBreak t' \<Rightarrow> Some (s1, Inr t')
       | PageContinue c t' \<Rightarrow> pull_loop v p key n (Suc k) s1 c t')"
    using peer pg by (simp add: Let_def flip: cursor_value_def split: page_result.split)
  show ?case
  proof (cases res)
    case (PageContinue c t')
    from pull_page_continue [OF pg [unfolded PageContinue]]
    have more: "pr_has_more (pull_changes q st ?since 100)"
      and c: "c = show_int (pr_latest_version (pull_changes q st ?since 100))"
      by (simp_all add: served_page_def Let_def)
    from more have full: "100 \<le> length ?p" using pull_has_more [OF assms(1,3), of 100 ?since] by simp
    then have ne: "?p \<noteq> []" by auto
    have latest: "pr_latest_version (pull_changes q st ?since 100) = lr_version (?p ! 99)"
      using pull_latest_version [OF assms(1,3) _ ne, of 100] full by (simp add: min_def)
    have "?p ! 99 \<in> set (change_log st)" using full pending_set [OF assms(1)] nth_mem [of 99 ?p] by auto
    then have "cursor_value c = lr_version (?p ! 99)"
      using c latest wire parse_show_int by (simp add: cursor_value_def)
    with pending_advance [OF assms(1,2), of 100 ?since] full
    have "pending_rows q st (cursor_value c) = drop 100 ?p" by simp
    then have "length (pending_rows q st (cursor_value c)) div 100 < n" using Suc.prems full by simp
    from Suc.IH [OF this] step PageContinue show ?thesis by simp
  qed (use step in auto)
qed

section \<open>What the gate does not hold\<close>

text \<open>The rows to hold are computed from the offers of the same page only. When a page holds no
  offer for this device, every row of it is applied at once, also a row about a book whose offer
  came on an earlier page and still waits for the reader, although the offer stays pending: the
  module promises that nothing of an undecided book reaches the library.\<close>

theorem pending_book_row_on_later_page_is_applied:
  assumes "find_inbound s oid = Some row" "io_status row = ''pending''"
    "page_offers v s (pr_changes pull) = []"
    "c \<in> set (pr_changes pull)" "ch_entity_type c \<noteq> ''file_offer''" "ch_entity_id c = io_work_id row"
    "pull_page v s key pull t = (s1, PageBreak t')"
  shows "c \<in> set (page_metadata v s pull) \<and> page_deferred v s pull = []
    \<and> ds_store s1 = (fst (apply_batch v (ds_store s) (page_metadata v s pull) (\<lambda>_. None)))
        \<lparr>client_settings := (client_settings (fst (apply_batch v (ds_store s) (page_metadata v s pull) (\<lambda>_. None))))
           (key \<mapsto> show_int (pr_latest_version pull))\<rparr>
    \<and> find_inbound s1 oid = Some row"
proof -
  have all: "page_metadata v s pull = page_rows pull" "page_deferred v s pull = []"
    using assms(3) by (simp_all add: page_metadata_def page_deferred_def held_ids_def)
  have "pr_changes pull \<noteq> []" using assms(4) by auto
  from assms(7) this assms(3) have
    "ds_store s1 = (fst (apply_batch v (ds_store s) (page_metadata v s pull) (\<lambda>_. None)))
        \<lparr>client_settings := (client_settings (fst (apply_batch v (ds_store s) (page_metadata v s pull) (\<lambda>_. None))))
           (key \<mapsto> show_int (pr_latest_version pull))\<rparr>"
    "find_inbound s1 oid = find_inbound s oid"
    by (cases rule: pull_page_cases; auto)+
  with all assms show ?thesis by (simp add: page_rows_def)
qed

text \<open>The receiver keeps only the last component of the offered file name, but it joins the offered
  inventory id to the books directory as it is: an id that is an absolute path makes the download
  land outside the books directory, at a path the peer chose.\<close>

theorem download_follows_absolute_inventory_id:
  assumes "io_inventory_id row = CHR ''/'' # rest" "pe_file p (io_inventory_id row) = Inr (bytes, None)"
    "\<And>path. dv_write_file v path = Inr ()"
    "\<not> io_has_cover row"
  shows "ds_files (fst (download_offer v s p row books covers)) =
    (ds_files s)(CHR ''/'' # rest @ ''-'' @ offer_file_name v (io_file_name row) \<mapsto> bytes)"
  using assms by (simp add: download_offer_def path_join_def starts_with_def Let_def)

section \<open>Evaluation on a concrete reader\<close>

definition sender_row :: paired_device where
  "sender_row = phone_row\<lparr>pd_peer_session_token := Some ''T2''\<rparr>"

definition demo_offer :: json where
  "demo_offer = JObject [(''offer_id'', JString ''O1''), (''to_device_id'', JString ''D''),
     (''inventory_id'', JString ''I1''), (''edition_id'', JString ''E1''),
     (''work_id'', JString (ref_hex_encode ''AAAAAAAAAAAAAAAA''))]"

definition offer_change :: sync_change where
  "offer_change = demo_change\<lparr>ch_entity_type := ''file_offer'', ch_entity_id := ''O1'',
     ch_device_id := phone\<rparr>"

definition held_change :: sync_change where
  "held_change = demo_change\<lparr>ch_version := 2\<rparr>"

definition sender :: peer where
  "sender = \<lparr>pe_changes = (\<lambda>_ _ _. Inr \<lparr>pr_changes = [], pr_has_more = False, pr_latest_version = 0\<rparr>),
     pe_file = (\<lambda>_. Inr (''bytes'', None)), pe_cover = (\<lambda>_. Inr None), pe_offer_decision = (\<lambda>_ _. True)\<rparr>"

definition reader_env :: "(string \<times> sql_value list) list daemon_env" where
  "reader_env =
     \<lparr>dv_env = (ref_env 0 ''U'')\<lparr>we_deps := ref_deps (\<lambda>_. Inr demo_offer)\<rparr>,
      dv_connect = (\<lambda>_ _. Inr sender), dv_changes_text = (\<lambda>_. ''[..]''),
      dv_changes_parse = (\<lambda>t. Inr [held_change]), dv_books_dir = Some ''books'', dv_covers_dir = Some ''covers'',
      dv_make_dir = (\<lambda>_. Inr ()), dv_write_file = (\<lambda>_. Inr ())\<rparr>"

definition reader :: "(string \<times> sql_value list) list daemon_state" where
  "reader = \<lparr>ds_wire = new_wire_state demo_store ''D'' [sender_row] [] ''D'', ds_inbound = [], ds_files = (\<lambda>_. None)\<rparr>"

definition offer_page :: pull_response where
  "offer_page = \<lparr>pr_changes = [offer_change, held_change], pr_has_more = False, pr_latest_version = 4\<rparr>"

lemma reader_page:
  "page_offers reader_env reader (pr_changes offer_page) = [(offer_change, demo_offer)]"
  "page_metadata reader_env reader offer_page = []"
  "page_deferred reader_env reader offer_page = [held_change]"
  by (simp_all add: page_offers_def page_metadata_def page_deferred_def page_rows_def held_ids_def offer_row_ids_def
      List.map_filter_simps payload_text_def json_get_def reader_env_def ref_env_def reader_def offer_page_def
      offer_change_def held_change_def demo_offer_def demo_change_def new_wire_state_def)

definition no_tally :: pull_tally where
  "no_tally = \<lparr>pt_applied = 0, pt_offered = 0, pt_conflicts = 0\<rparr>"

lemma offer_text [simp]:
  "payload_text demo_offer ''offer_id'' = Some ''O1''" "payload_text demo_offer ''inventory_id'' = Some ''I1''"
  "payload_text demo_offer ''edition_id'' = Some ''E1''"
  "payload_text demo_offer ''work_id'' = Some (ref_hex_encode ''AAAAAAAAAAAAAAAA'')"
  "payload_text demo_offer ''title'' = None" "payload_text demo_offer ''file_name'' = None"
  "json_get demo_offer ''authors'' = None" "json_get demo_offer ''has_cover'' = None"
  by (simp_all add: payload_text_def demo_offer_def json_get_def)

definition waiting_offer :: inbound_offer where
  "waiting_offer = \<lparr>io_offer_id = ''O1'', io_from_device_id = phone, io_inventory_id = ''I1'', io_edition_id = ''E1'',
     io_work_id = ref_hex_encode ''AAAAAAAAAAAAAAAA'', io_title = ''Untitled'', io_authors = ''null'',
     io_file_name = None, io_has_cover = False, io_offered_at = ''now'', io_received_at = ''now'',
     io_status = ''pending'', io_decided_at = None, io_deferred_changes = ''[..]''\<rparr>"

lemma reader_pull:
  "pull_page reader_env reader ''k'' offer_page no_tally =
     (write_setting (reader\<lparr>ds_inbound := [waiting_offer]\<rparr>) ''k'' ''4'',
      PageBreak \<lparr>pt_applied = 0, pt_offered = 1, pt_conflicts = 0\<rparr>)"
proof -
  have four: "show_int 4 = ''4''" by (simp add: show_int_def show_nat.simps digit_char_def of_byte_def) code_simp
  have "record_inbound_offer reader_env (set_store reader demo_store) offer_change demo_offer held =
      Inr ((set_store reader demo_store)\<lparr>ds_inbound := [waiting_offer]\<rparr>, True)" for held
    by (simp add: record_inbound_offer_def find_inbound_def upsert_inbound_def notify_def Let_def reader_def
        set_store_def reader_env_def ref_env_def offer_change_def demo_change_def waiting_offer_def new_wire_state_def)
  moreover have "set_store reader demo_store = reader" "ds_store reader = demo_store"
    by (simp_all add: set_store_def reader_def new_wire_state_def)
  moreover have "pr_changes offer_page \<noteq> []" "\<not> pr_has_more offer_page" "pr_latest_version offer_page = 4"
    by (simp_all add: offer_page_def)
  ultimately show ?thesis
    using reader_page unfolding page_metadata_def page_deferred_def page_rows_def
    by (simp add: pull_page_def Let_def four no_tally_def)
qed

definition offered_reader :: "(string \<times> sql_value list) list daemon_state" where
  "offered_reader = write_setting (reader\<lparr>ds_inbound := [waiting_offer]\<rparr>) ''k'' ''4''"

lemma offered_reader_simps [simp]:
  "ds_inbound offered_reader = [waiting_offer]" "ws_paired (ds_wire offered_reader) = [sender_row]"
  "ds_store offered_reader = demo_store\<lparr>client_settings := (client_settings demo_store)(''k'' \<mapsto> ''4'')\<rparr>"
  by (simp_all add: offered_reader_def reader_def new_wire_state_def write_setting_def set_store_def)

lemma reader_apply_held:
  "apply_changes (dv_deps reader_env) (we_sqlite (dv_env reader_env)) (ds_store offered_reader) [held_change] options =
     (record_conflict ref_sqlite (ds_store offered_reader) held_change [],
      Inr \<lparr>ao_applied = 0, ao_skipped = 0,
           ao_conflicts = [\<lparr>cf_id = 1, cf_entity_type = ''work'',
             cf_entity_id = ref_hex_encode ''AAAAAAAAAAAAAAAA'', cf_local_payload = [],
             cf_remote_payload = [], cf_resolved = False, cf_resolution = None,
             cf_merged_payload = None, cf_detected_at = ''now''\<rparr>]\<rparr>)"
  by (simp add: apply_changes_def apply_step_def latest_change_def latest_row_def of_entity_def rowid_order_def
      demo_store_def empty_store_def held_change_def entity_type_to_table_def reader_env_def ref_env_def
      Let_def record_conflict_def fetch_latest_conflict_def fetch_conflict_def unresolved_desc_def
      insert_conflict_def)

lemma reader_dials: "peer_by_id reader_env offered_reader phone = Inr sender"
proof -
  have "parse_id (dv_deps reader_env) phone = Some (DbId ''PPPPPPPPPPPPPPPP'')"
    by (simp add: reader_env_def)
  moreover have "trim ''node'' = ''node''" by (rule trim_alnum) (simp add: ascii_defs byte_def)
  ultimately show ?thesis
    by (simp add: peer_by_id_def peer_for_def find_paired_def sender_row_def phone_row_def reader_env_def)
qed

lemma reader_accepts:
  "\<exists>s2 rep. offers_decide reader_env offered_reader ''O1'' True = (s2, Inr rep)"
proof -
  have "dv_changes_parse reader_env t = Inr [held_change]" for t by (simp add: reader_env_def)
  moreover have "pe_file sender i = Inr (''bytes'', None)" for i by (simp add: sender_def)
  moreover have "dv_books_dir reader_env = Some ''books''" "dv_covers_dir reader_env = Some ''covers''"
    "dv_make_dir reader_env d = Inr ()" "dv_write_file reader_env d = Inr ()" for d
    by (simp_all add: reader_env_def)
  moreover have "ds_store (offered_reader\<lparr>ds_files := f\<rparr>) = ds_store offered_reader" for f by simp
  ultimately show ?thesis
    using reader_dials reader_apply_held
    by (simp add: offers_decide_def find_inbound_def accept_offer_def download_offer_def waiting_offer_def Let_def)
qed

lemma reader_offer:
  "pr_changes offer_page = [] @ offer_change # [held_change]" "offer_to_us reader_env reader offer_change demo_offer"
  "\<forall>c' \<in> set ([] @ [held_change]). \<forall>p'. \<not> offer_to_us reader_env reader c' p'"
  "json_text demo_offer ''offer_id'' ''O1''" "json_text demo_offer ''inventory_id'' ''I1''"
  "json_text demo_offer ''edition_id'' ''E1''" "json_text demo_offer ''work_id'' (ref_hex_encode ''AAAAAAAAAAAAAAAA'')"
  by (simp_all add: offer_page_def offer_to_us_def json_text_def json_get_def offer_change_def held_change_def demo_change_def
      demo_offer_def reader_env_def ref_env_def reader_def new_wire_state_def)


definition insistent_env :: "(string \<times> sql_value list) list daemon_env" where
  "insistent_env = reader_env\<lparr>dv_connect := (\<lambda>_ _. Inr (sender\<lparr>pe_changes := (\<lambda>_ _ _. Inr offer_page)\<rparr>))\<rparr>"

definition declined_reader :: "(string \<times> sql_value list) list daemon_state" where
  "declined_reader = reader\<lparr>ds_inbound := [waiting_offer\<lparr>io_status := ''rejected''\<rparr>]\<rparr>"

lemma insistent_pull:
  "\<exists>s' r. pull_device insistent_env 1 declined_reader (DbId ''PPPPPPPPPPPPPPPP'') = Some (s', r)"
proof -
  obtain s1 q where q: "pull_page insistent_env declined_reader (cursor_key (dv_deps insistent_env) (DbId ''PPPPPPPPPPPPPPPP''))
      offer_page \<lparr>pt_applied = 0, pt_offered = 0, pt_conflicts = 0\<rparr> = (s1, q)"
    by fastforce
  have "\<not> pr_has_more offer_page" by (simp add: offer_page_def)
  with pull_page_continue q have nc: "\<And>c t. q \<noteq> PageContinue c t" by fastforce
  have "trim ''node'' = ''node''" by (rule trim_alnum) (simp add: ascii_defs byte_def)
  then have "find_paired (ds_wire declined_reader) ''PPPPPPPPPPPPPPPP'' = Some sender_row"
    "peer_for insistent_env declined_reader (DbId ''PPPPPPPPPPPPPPPP'') =
       Inr (sender\<lparr>pe_changes := (\<lambda>_ _ _. Inr offer_page)\<rparr>)"
    "pd_outbound sender_row" "read_setting declined_reader k = None" for k
    by (simp_all add: peer_for_def find_paired_def declined_reader_def reader_def new_wire_state_def sender_row_def
        phone_row_def insistent_env_def reader_env_def read_setting_def demo_store_def empty_store_def)
  with q nc show ?thesis
    by (cases q) (auto simp: pull_device_def pull_device_once_def Let_def)
qed

theorem inbound_offer_decided_once_witness:
  "\<exists>s'. find_inbound s' ''O1'' = Some (waiting_offer\<lparr>io_status := ''rejected''\<rparr>)
    \<and> offers_decide insistent_env s' ''O1'' True =
        (s', Inl (InvalidParams (''offer O1 was already rejected'')))"
proof -
  obtain s' r where "pull_device insistent_env 1 declined_reader (DbId ''PPPPPPPPPPPPPPPP'') = Some (s', r)"
    using insistent_pull by blast
  moreover have "find_inbound declined_reader ''O1'' = Some (waiting_offer\<lparr>io_status := ''rejected''\<rparr>)"
    by (simp add: find_inbound_def declined_reader_def waiting_offer_def)
  ultimately show ?thesis
    using inbound_offer_decided_once [of insistent_env 1 declined_reader "DbId ''PPPPPPPPPPPPPPPP''" s' r "''O1''"
        "waiting_offer\<lparr>io_status := ''rejected''\<rparr>" True] by auto
qed

theorem pull_loop_terminates_witness:
  "\<exists>s' r. pull_loop reader_env (sender\<lparr>pe_changes := (\<lambda>_ since _. Inr (served_page reader_env ref_sqlite demo_store ''D'' since 100))\<rparr>)
     ''k'' 1 0 reader ''0'' no_tally = Some (s', r)"
proof (rule pull_loop_terminates [where q = ref_sqlite and st = demo_store and me = "''D''"])
  have "cursor_value ''0'' = 0"
    by (simp add: cursor_value_def parse_i64_def is_ascii_digit_def byte_def decimal_value_def digit_value_def
        in_i64_def i64_min_def i64_max_def)
  then show "length (pending_rows ref_sqlite demo_store (cursor_value ''0'')) div 100 < 1"
    by (simp add: demo_pending) (simp add: demo_store_def)
  show "in_i64 (lr_version r)" if "r \<in> set (change_log demo_store)" for r
    using that by (simp add: demo_store_def in_i64_def i64_min_def i64_max_def)
qed (simp_all add: demo_store_def distinct_versions_def has_device_def)

theorem pending_book_row_on_later_page_is_applied_witness:
  "held_change \<in> set (page_metadata reader_env offered_reader (offer_page\<lparr>pr_changes := [held_change]\<rparr>))
   \<and> find_inbound offered_reader ''O1'' = Some waiting_offer"
proof -
  let ?page = "offer_page\<lparr>pr_changes := [held_change]\<rparr>"
  have none: "page_offers reader_env offered_reader [held_change] = []"
    by (simp add: page_offers_def held_change_def)
  have row: "find_inbound offered_reader ''O1'' = Some waiting_offer" by (simp add: find_inbound_def waiting_offer_def)
  have "\<exists>s1 t'. pull_page reader_env offered_reader ''k'' ?page no_tally = (s1, PageBreak t')"
    using reader_apply_held [of "\<lambda>_. None"]
    by (simp add: pull_page_def Let_def none held_ids_def offer_page_def)
  then obtain s1 t' where page: "pull_page reader_env offered_reader ''k'' ?page no_tally = (s1, PageBreak t')"
    by blast
  show ?thesis
    using pending_book_row_on_later_page_is_applied [OF row _ _ _ _ _ page, of held_change] none row
    by (simp add: waiting_offer_def held_change_def)
qed

theorem download_follows_absolute_inventory_id_witness:
  "ds_files (fst (download_offer reader_env reader sender (waiting_offer\<lparr>io_inventory_id := ''/etc/x''\<rparr>) ''books'' ''covers''))
     ''/etc/x-book'' = Some ''bytes''"
  using download_follows_absolute_inventory_id [of "waiting_offer\<lparr>io_inventory_id := ''/etc/x''\<rparr>" "''etc/x''" sender
      "''bytes''" reader_env reader "''books''" "''covers''"]
  by (simp add: waiting_offer_def sender_def offer_file_name_def reader_env_def)

end
