(* ===== verification/DaemonInvariant.thy ===== *)
theory DaemonInvariant
  imports DaemonCorrect
begin

text \<open>
  An invariant of every state the daemon can reach. To the steps of its endpoint (\<open>ServerInvariant\<close>) come
  those it makes as a client: pulling from a peer, page by page or as a whole, deciding an offer, and storing
  a peer whose claim succeeded.
\<close>

section \<open>Reachable states\<close>

inductive daemon_step :: "(nat \<Rightarrow> nat \<Rightarrow> string) \<Rightarrow> 'db daemon_state \<Rightarrow> 'db daemon_state \<Rightarrow> bool" for parts where
  endpoint: "server_step parts (ds_wire s) w \<Longrightarrow> daemon_step parts s (s\<lparr>ds_wire := w\<rparr>)"
| paged: "pull_page v s key pull t = (s', r) \<Longrightarrow> daemon_step parts s s'"
| pulled: "pull_device v fuel s device = Some (s', tally) \<Longrightarrow> daemon_step parts s s'"
| decided_offer: "offers_decide v s offer accepted = (s', report) \<Longrightarrow> daemon_step parts s s'"
| claimed: "daemon_step parts s (store_claimed_peer v s device name node token)"

inductive_cases daemon_stepE: "daemon_step parts s s'"

section \<open>Preservation\<close>

lemma server_inv_store: "server_inv parts w \<Longrightarrow> store_wf st \<Longrightarrow> server_inv parts (w\<lparr>ws_store := st\<rparr>)"
  by (simp add: server_inv_defs)

lemma server_inv_notify [simp]: "server_inv parts (notify w m v) = server_inv parts w"
  by (rule server_inv_cong) (simp_all add: notify_def)

lemma server_inv_paired:
  "server_inv parts w \<Longrightarrow> distinct (map pd_device_id rows) \<Longrightarrow> distinct (tokens rows)
   \<Longrightarrow> server_inv parts (w\<lparr>ws_paired := rows\<rparr>)"
  by (simp add: server_inv_defs)

lemma server_inv_rows:
  "server_inv parts w \<Longrightarrow> store_wf (ws_store w) \<and> distinct (map pd_device_id (ws_paired w)) \<and> distinct (tokens (ws_paired w))"
  by (simp add: server_inv_defs)

lemma store_wf_settings [simp]: "store_wf (st\<lparr>client_settings := m\<rparr>) = store_wf st"
  by (simp add: store_wf_def log_wf_def conflicts_wf_def)

lemma set_store_inv: "server_inv parts (ds_wire s) \<Longrightarrow> store_wf st \<Longrightarrow> server_inv parts (ds_wire (set_store s st))"
  by (simp add: set_store_def server_inv_store)

lemma write_setting_inv: "server_inv parts (ds_wire s) \<Longrightarrow> server_inv parts (ds_wire (write_setting s k v))"
  using server_inv_rows [of parts "ds_wire s"] by (simp add: write_setting_def set_store_inv)

lemma apply_changes_store_wf: "store_wf st \<Longrightarrow> store_wf (fst (apply_changes d q st cs options))"
proof (cases "apply_changes d q st cs options")
  case (Pair st' res)
  assume wf: "store_wf st"
  show ?thesis
  proof (cases res)
    case (Inl e)
    with Pair wf show ?thesis by (auto simp: apply_changes_def split: sum.splits)
  next
    case (Inr out)
    have "apply_inv (st', out)"
      by (rule apply_keeps.run_inv [OF apply_changes_Inr [OF Pair [unfolded Inr]]]) (simp add: wf)
    with Pair show ?thesis by simp
  qed
qed

lemma apply_batch_store_wf: "store_wf st \<Longrightarrow> store_wf (fst (apply_batch v st cs options))"
  by (simp add: apply_batch_def apply_changes_store_wf)

lemma record_inbound_inv:
  "record_inbound_offer v s c p held = Inr (s', fresh) \<Longrightarrow> server_inv parts (ds_wire s') = server_inv parts (ds_wire s)"
  by (auto simp: record_inbound_offer_def Let_def split: if_splits option.splits)

lemma record_offers_inv:
  "record_offers v s deferred offers n = (s', r) \<Longrightarrow> server_inv parts (ds_wire s') = server_inv parts (ds_wire s)"
proof (induction offers arbitrary: s n)
  case (Cons x offers)
  then show ?case
    by (cases x) (auto simp: Let_def record_inbound_inv split: sum.splits prod.splits)
qed simp

lemma pull_page_inv:
  assumes "pull_page v s key pull t = (s', r)" "server_inv parts (ds_wire s)"
  shows "server_inv parts (ds_wire s')"
proof (cases "pr_changes pull = []")
  case True
  with assms show ?thesis by (auto simp: pull_page_def Let_def write_setting_inv split: if_splits)
next
  case False
  let ?st = "fst (apply_batch v (ds_store s) (page_metadata v s pull) (\<lambda>_. None))"
  have "store_wf ?st" using server_inv_rows [OF assms(2)] by (simp add: apply_batch_store_wf)
  then have applied: "server_inv parts (ds_wire (set_store s ?st))" by (rule set_store_inv [OF assms(2)])
  from assms(1) False show ?thesis
    by (cases rule: pull_page_cases) (use applied in \<open>auto simp: write_setting_inv dest!: record_offers_inv [where parts = parts]\<close>)
qed

lemma pull_loop_inv:
  "pull_loop v p key fuel k s cursor t = Some (s', r) \<Longrightarrow> server_inv parts (ds_wire s) \<Longrightarrow> server_inv parts (ds_wire s')"
proof (induction fuel arbitrary: k s cursor t)
  case (Suc n)
  then show ?case
    by (auto simp: Let_def split: sum.splits prod.splits page_result.splits dest: pull_page_inv)
qed simp

lemma tokens_append: "tokens (xs @ ys) = tokens xs @ tokens ys"
  by (induction xs) (simp_all add: tokens_Cons tokens_def [of "[]"] List.map_filter_simps split: option.split)

lemma pull_device_inv:
  assumes "pull_device v fuel s device = Some (s', tally)" "server_inv parts (ds_wire s)"
  shows "server_inv parts (ds_wire s')"
proof -
  from assms(1) obtain s1 r1 where once: "pull_device_once v fuel s device = Some (s1, r1)"
    by (auto simp: pull_device_def)
  let ?stamp = "\<lambda>r. if pd_device_id r = to_bytes device then r\<lparr>pd_last_sync_at := Some (we_now (dv_env v))\<rparr> else r"
  have stamped: "server_inv parts (w\<lparr>ws_paired := map ?stamp (ws_paired w)\<rparr>)" if "server_inv parts w" for w :: "'a wire_state"
  proof (rule server_inv_paired [OF that])
    have "map pd_device_id (map ?stamp rows) = map pd_device_id rows" for rows by simp
    then show "distinct (map pd_device_id (map ?stamp (ws_paired w)))" using server_inv_rows [OF that] by metis
    show "distinct (tokens (map ?stamp (ws_paired w)))" using server_inv_rows [OF that] by (simp add: tokens_map)
  qed
  have "server_inv parts (ds_wire s1)"
    using once assms(2) pull_loop_inv [OF _ assms(2)]
    by (auto simp: pull_device_once_def Let_def stamped split: option.splits if_splits sum.splits)
  with assms(1) once show ?thesis
    by (auto simp: pull_device_def report_pulled_def split: sum.splits if_splits)
qed

lemma download_wire: "ds_wire (fst (download_offer v s p row books covers)) = ds_wire s"
  by (auto simp: download_offer_def Let_def split: sum.splits option.splits prod.splits)

lemma accept_offer_inv:
  assumes "server_inv parts (ds_wire s)"
  shows "server_inv parts (ds_wire (fst (accept_offer v s p row)))"
proof -
  have "server_inv parts (ds_wire (set_store s1 (fst (apply_changes d q (ds_store s1) cs options))))"
    if "ds_wire s1 = ds_wire s" for s1 :: "'a daemon_state" and d q cs options
    using assms server_inv_rows [OF assms] that by (auto intro!: set_store_inv apply_changes_store_wf)
  then have applied: "server_inv parts (ds_wire (set_store s1 store))"
    if "download_offer v s p row books covers = (s1, x)" "apply_changes d q (ds_store s1) cs options = (store, y)"
    for books covers s1 x d q cs options store y
    using that download_wire [of v s p row books covers] by (metis fst_conv)
  have same: "server_inv parts (ds_wire s1)" if "download_offer v s p row books covers = (s1, x)" for books covers s1 x
    using assms that download_wire [of v s p row books covers] by simp
  show ?thesis
    by (auto simp: accept_offer_def Let_def assms intro: same applied split: option.split sum.split prod.split)
qed

lemma offers_decide_inv:
  assumes "server_inv parts (ds_wire s)"
  shows "server_inv parts (ds_wire (fst (offers_decide v s offer accepted)))"
proof -
  have "server_inv parts (ds_wire s1)" if "accept_offer v s p row = (s1, r)" for p row s1 r
    using accept_offer_inv [OF assms, of v p row] that by simp
  then show ?thesis
    by (auto simp: offers_decide_def assms mark_decided_def split: option.split sum.split prod.split)
qed

lemma claimed_rows_distinct:
  assumes "distinct (map pd_device_id rows)" "distinct (tokens rows)"
  shows "distinct (map pd_device_id (claimed_rows rows device name now token node))
    \<and> distinct (tokens (claimed_rows rows device name now token node))"
proof -
  have ids: "map pd_device_id (map (\<lambda>r. if pd_device_id r = device then f r else r) xs) = map pd_device_id xs"
    if "\<And>r. pd_device_id (f r) = pd_device_id r" for f xs using that by simp
  show ?thesis
    using assms unfolding claimed_rows_def
    by (auto simp: ids tokens_map tokens_append tokens_Cons tokens_def [of "[]"] List.map_filter_simps comp_def
        simp del: map_map cong: if_cong)
qed

lemma store_claimed_peer_inv:
  "server_inv parts (ds_wire s) \<Longrightarrow> server_inv parts (ds_wire (store_claimed_peer v s device name node token))"
  using claimed_rows_distinct server_inv_rows [of parts "ds_wire s"]
  by (simp add: store_claimed_peer_def Let_def server_inv_paired)

lemma daemon_step_inv: "daemon_step parts s s' \<Longrightarrow> server_inv parts (ds_wire s) \<Longrightarrow> server_inv parts (ds_wire s')"
proof (induction rule: daemon_step.induct)
  case (decided_offer v s offer accepted s' report)
  then show ?case using offers_decide_inv [of parts s v offer accepted] by simp
qed (auto intro: server_step_inv pull_page_inv pull_device_inv store_claimed_peer_inv)



end
