(* ===== verification/Client.thy ===== *)
theory Client
  imports DaemonCorrect
begin

text \<open>
  The dialling side of the framed protocol (\<open>livtet-sync-iroh/src/client.rs\<close>): one request per stream,
  the answer read back as a typed value, and the bytes that follow a file or cover header. The network
  is a parameter: \<open>'s\<close> is whatever answers at the other end, and a stream is the bytes that arrive
  before it ends.
\<close>

section \<open>Errors and results\<close>

datatype dial_error = NodeId string | Connect string

datatype client_error =
    Dial dial_error
  | Wire wire_error
  | Remote error_code string

datatype pairing_outcome =
    PairPending string
  | PairPaired string string
  | PairRefused string

section \<open>One exchange\<close>

text \<open>\<open>ln_node_ok\<close> is \<open>EndpointId::from_str\<close>, \<open>ln_connect\<close> and \<open>ln_open\<close> the connection and its stream,
  \<open>ln_answer\<close> the other end: the bytes sent on the stream and the bytes received on it. \<open>ln_debug\<close> is the
  \<open>Debug\<close> text of a response.\<close>

record 's link =
  ln_node_ok :: "string \<Rightarrow> bool"
  ln_connect :: "'s \<Rightarrow> string \<Rightarrow> (unit, string) result"
  ln_open :: "'s \<Rightarrow> (unit, string) result"
  ln_answer :: "'s \<Rightarrow> string \<Rightarrow> 's \<times> string"
  ln_request_to_vec :: "request \<Rightarrow> (string, string) result"
  ln_response_from_slice :: "string \<Rightarrow> (response, string) result"
  ln_debug :: "response \<Rightarrow> string"

record exchange_result =
  ex_response :: response
  ex_bytes :: "string option"

definition dial :: "'s link \<Rightarrow> 's \<Rightarrow> string \<Rightarrow> (unit, dial_error) result" where
  "dial n s node_id =
     (if \<not> ln_node_ok n (trim node_id) then Inl (NodeId node_id)
      else map_err Connect (ln_connect n s (trim node_id)))"

fun wants_bytes :: "response \<Rightarrow> bool" where
  "wants_bytes (RspFile _) = True"
| "wants_bytes (RspCover _) = True"
| "wants_bytes _ = False"

definition call :: "'s link \<Rightarrow> 's \<Rightarrow> request \<Rightarrow> 's \<times> (exchange_result, wire_error) result" where
  "call n s request =
     (case ln_open n s of
        Inl m \<Rightarrow> (s, Inl (StreamError m))
      | Inr _ \<Rightarrow>
         (case write_frame (ln_request_to_vec n) request of
            Inl x \<Rightarrow> (s, Inl x)
          | Inr frame \<Rightarrow>
             (case ln_answer n s frame of (s', recv) \<Rightarrow>
               (s', result_bind (read_frame (ln_response_from_slice n) recv) (\<lambda>(response, rest).
                      Inr \<lparr>ex_response = response,
                           ex_bytes = (if wants_bytes response then Some rest else None)\<rparr>)))))"

section \<open>The byte phase\<close>

record byte_body =
  bb_stream :: string
  bb_remaining :: nat

definition eof :: client_error where
  "eof = Wire (Io ''UnexpectedEof'')"

definition read_all :: "byte_body \<Rightarrow> (string, client_error) result" where
  "read_all b = map_err (\<lambda>_. eof) (result_bind (read_exact (bb_remaining b) (bb_stream b)) (\<lambda>(bytes, _). Inr bytes))"

text \<open>\<open>tokio::io::copy\<close> from the stream cut at \<open>remaining\<close>: it stops at the end of the stream without an
  error. The bytes written and their number.\<close>

definition copy_to :: "byte_body \<Rightarrow> string \<times> nat" where
  "copy_to b = (let window = take (bb_remaining b) (bb_stream b) in (window, length window))"

definition read_chunk :: "byte_body \<Rightarrow> nat \<Rightarrow> (byte_body \<times> string, client_error) result" where
  "read_chunk b out =
     (if bb_remaining b = 0 \<or> out = 0 then Inr (b, [])
      else let n = min out (bb_remaining b) in
           case read_exact n (bb_stream b) of
             Inl _ \<Rightarrow> Inl eof
           | Inr (bytes, rest) \<Rightarrow> Inr (\<lparr>bb_stream = rest, bb_remaining = bb_remaining b - n\<rparr>, bytes))"

section \<open>The client\<close>

record client =
  cl_node_id :: string
  cl_token :: "string option"

definition new_client :: "string \<Rightarrow> client" where
  "new_client node_id = \<lparr>cl_node_id = node_id, cl_token = None\<rparr>"

definition with_token :: "client \<Rightarrow> string \<Rightarrow> client" where
  "with_token c token = c\<lparr>cl_token := Some token\<rparr>"

definition no_token :: client_error where
  "no_token = Wire (Protocol ''this client holds no session token'')"

definition require_token :: "client \<Rightarrow> (string, client_error) result" where
  "require_token c = ok_or no_token (cl_token c)"

definition send :: "'s link \<Rightarrow> client \<Rightarrow> 's \<Rightarrow> request \<Rightarrow> 's \<times> (exchange_result, client_error) result" where
  "send n c s request =
     (case dial n s (cl_node_id c) of
        Inl x \<Rightarrow> (s, Inl (Dial x))
      | Inr _ \<Rightarrow>
         (case call n s request of
            (s', Inl x) \<Rightarrow> (s', Inl (Wire x))
          | (s', Inr x) \<Rightarrow>
             (s', case ex_response x of RspError code m \<Rightarrow> Inl (Remote code m) | _ \<Rightarrow> Inr x)))"

definition unexpected :: "'s link \<Rightarrow> string \<Rightarrow> response \<Rightarrow> client_error" where
  "unexpected n operation response = Wire (Protocol (operation @ '': unexpected reply '' @ ln_debug n response))"

definition expect :: "'s link \<Rightarrow> client \<Rightarrow> 's \<Rightarrow> request \<Rightarrow> string \<Rightarrow> 's \<times> (response, client_error) result" where
  "expect n c s request operation =
     (case send n c s request of (s', r) \<Rightarrow>
      (s', result_bind r (\<lambda>x. if ex_bytes x \<noteq> None then Inl (unexpected n operation (ex_response x))
                               else Inr (ex_response x))))"

text \<open>The operations that read one typed answer: the token first where the request carries one, then
  the exchange, then the shape of the answer.\<close>

definition typed :: "'s link \<Rightarrow> client \<Rightarrow> 's \<Rightarrow> request \<Rightarrow> string \<Rightarrow> (response \<Rightarrow> 'a option)
    \<Rightarrow> 's \<times> ('a, client_error) result" where
  "typed n c s request operation shape =
     (case expect n c s request operation of (s', r) \<Rightarrow>
      (s', result_bind r (\<lambda>response. ok_or (unexpected n operation response) (shape response))))"

definition authenticated :: "client \<Rightarrow> 's \<Rightarrow> (string \<Rightarrow> 's \<times> ('a, client_error) result)
    \<Rightarrow> 's \<times> ('a, client_error) result" where
  "authenticated c s k = (case require_token c of Inl x \<Rightarrow> (s, Inl x) | Inr token \<Rightarrow> k token)"

definition client_identity :: "'s link \<Rightarrow> client \<Rightarrow> 's \<Rightarrow> 's \<times> (identity_info, client_error) result" where
  "client_identity n c s = typed n c s ReqIdentity ''identity''
     (\<lambda>r. case r of RspIdentity i \<Rightarrow> Some i | _ \<Rightarrow> None)"

definition client_status :: "'s link \<Rightarrow> client \<Rightarrow> 's \<Rightarrow> 's \<times> (sync_status, client_error) result" where
  "client_status n c s = authenticated c s (\<lambda>token. typed n c s (ReqStatus token) ''status''
     (\<lambda>r. case r of RspStatus i \<Rightarrow> Some i | _ \<Rightarrow> None))"

definition client_changes ::
  "'s link \<Rightarrow> client \<Rightarrow> 's \<Rightarrow> int \<Rightarrow> int option \<Rightarrow> 's \<times> (pull_response, client_error) result" where
  "client_changes n c s since limit = authenticated c s (\<lambda>token.
     typed n c s (ReqChanges token since limit) ''changes'' (\<lambda>r. case r of RspChanges p \<Rightarrow> Some p | _ \<Rightarrow> None))"

definition client_pull_full :: "'s link \<Rightarrow> client \<Rightarrow> 's \<Rightarrow> 's \<times> (full_dump, client_error) result" where
  "client_pull_full n c s = authenticated c s (\<lambda>token. typed n c s (ReqPullFull token) ''pull_full''
     (\<lambda>r. case r of RspFull d \<Rightarrow> Some d | _ \<Rightarrow> None))"

definition client_push ::
  "'s link \<Rightarrow> client \<Rightarrow> 's \<Rightarrow> sync_change list \<Rightarrow> 's \<times> (push_response, client_error) result" where
  "client_push n c s changes = authenticated c s (\<lambda>token. typed n c s (ReqPush token changes) ''push''
     (\<lambda>r. case r of RspPushed p \<Rightarrow> Some p | _ \<Rightarrow> None))"

fun pairing_outcome_of :: "response \<Rightarrow> pairing_outcome option" where
  "pairing_outcome_of (RspPairingPending claim) = Some (PairPending claim)"
| "pairing_outcome_of (RspPaired device token) = Some (PairPaired device token)"
| "pairing_outcome_of (RspRefused reason) = Some (PairRefused reason)"
| "pairing_outcome_of _ = None"

definition client_pair :: "'s link \<Rightarrow> client \<Rightarrow> 's \<Rightarrow> string \<Rightarrow> string \<Rightarrow> string
    \<Rightarrow> 's \<times> (pairing_outcome, client_error) result" where
  "client_pair n c s device_id name device_type =
     typed n c s (ReqPair device_id name device_type) ''pair'' pairing_outcome_of"

definition client_pair_status :: "'s link \<Rightarrow> client \<Rightarrow> 's \<Rightarrow> string \<Rightarrow> 's \<times> (pairing_outcome, client_error) result" where
  "client_pair_status n c s claim = typed n c s (ReqPairStatus claim) ''pair_status'' pairing_outcome_of"

definition client_conflicts :: "'s link \<Rightarrow> client \<Rightarrow> 's \<Rightarrow> 's \<times> (conflict list, client_error) result" where
  "client_conflicts n c s = authenticated c s (\<lambda>token. typed n c s (ReqConflicts token) ''conflicts''
     (\<lambda>r. case r of RspConflicts cs \<Rightarrow> Some cs | _ \<Rightarrow> None))"

definition client_resolve_conflict :: "'s link \<Rightarrow> client \<Rightarrow> 's \<Rightarrow> int \<Rightarrow> string \<Rightarrow> string option
    \<Rightarrow> 's \<times> (bool, client_error) result" where
  "client_resolve_conflict n c s i resolution merged = authenticated c s (\<lambda>token.
     typed n c s (ReqResolveConflict token i resolution merged) ''resolve_conflict''
       (\<lambda>r. case r of RspResolved b \<Rightarrow> Some b | _ \<Rightarrow> None))"

definition client_file :: "'s link \<Rightarrow> client \<Rightarrow> 's \<Rightarrow> string \<Rightarrow> nat \<Rightarrow> nat option \<Rightarrow> string option
    \<Rightarrow> 's \<times> (file_header \<times> byte_body, client_error) result" where
  "client_file n c s inventory_id offset len if_range = authenticated c s (\<lambda>token.
     case send n c s (ReqFile token inventory_id offset len if_range) of (s', r) \<Rightarrow>
     (s', result_bind r (\<lambda>x. case ex_response x of
        RspFile header \<Rightarrow>
          (case ex_bytes x of
             None \<Rightarrow> Inl (unexpected n ''file'' (ex_response x))
           | Some stream \<Rightarrow> Inr (header, \<lparr>bb_stream = stream, bb_remaining = fh_length header\<rparr>))
      | other \<Rightarrow> Inl (unexpected n ''file'' other))))"

definition client_file_info :: "'s link \<Rightarrow> client \<Rightarrow> 's \<Rightarrow> string \<Rightarrow> 's \<times> (file_metadata, client_error) result" where
  "client_file_info n c s inventory_id = authenticated c s (\<lambda>token.
     typed n c s (ReqFileInfo token inventory_id) ''file_info''
       (\<lambda>r. case r of RspFileInfo m \<Rightarrow> Some m | _ \<Rightarrow> None))"

definition client_cover :: "'s link \<Rightarrow> client \<Rightarrow> 's \<Rightarrow> string
    \<Rightarrow> 's \<times> ((file_header \<times> string) option, client_error) result" where
  "client_cover n c s inventory_id = authenticated c s (\<lambda>token.
     case send n c s (ReqCover token inventory_id) of (s', r) \<Rightarrow>
     (s', case r of
        Inl (Remote NotFound _) \<Rightarrow> Inr None
      | Inl x \<Rightarrow> Inl x
      | Inr x \<Rightarrow>
         (case ex_response x of
            RspCover header \<Rightarrow>
              (case ex_bytes x of
                 None \<Rightarrow> Inl (unexpected n ''cover'' (ex_response x))
               | Some stream \<Rightarrow>
                   result_bind (read_all \<lparr>bb_stream = stream, bb_remaining = fh_length header\<rparr>)
                     (\<lambda>bytes. Inr (Some (header, bytes))))
          | other \<Rightarrow> Inl (unexpected n ''cover'' other))))"

definition client_offer_decision :: "'s link \<Rightarrow> client \<Rightarrow> 's \<Rightarrow> string \<Rightarrow> bool
    \<Rightarrow> 's \<times> (unit, client_error) result" where
  "client_offer_decision n c s offer_id accepted = authenticated c s (\<lambda>token.
     typed n c s (ReqOfferDecision token offer_id accepted) ''offer_decision''
       (\<lambda>r. case r of RspOfferDecided \<Rightarrow> Some () | _ \<Rightarrow> None))"

text \<open>\<open>Peer::download_file\<close>: the file that is left behind, and whether the call succeeded. The number
  of bytes copied is not looked at.\<close>

definition download_file :: "'s link \<Rightarrow> client \<Rightarrow> 's \<Rightarrow> string
    \<Rightarrow> 's \<times> (string, client_error) result" where
  "download_file n c s inventory_id =
     (case client_file n c s inventory_id 0 None None of (s', r) \<Rightarrow>
      (s', result_bind r (\<lambda>(_, body). Inr (fst (copy_to body)))))"

end
