(* ===== verification/ClientCorrect.thy ===== *)
theory ClientCorrect
  imports Client
begin

text \<open>
  The client against the server: what a typed call returns is what the handler at the other end
  answered, the bytes read are the bytes of the file, and reading a body in pieces is reading it whole.
\<close>

section \<open>A client and a server on one link\<close>

text \<open>What the client relies on when its link ends at the endpoint of environment \<open>e\<close>: the node can be
  dialled, the bytes the endpoint writes are the bytes that arrive, the endpoint sees the client under
  its node id \<open>me\<close>, and each side's \<open>serde_json\<close> decoder inverts the other side's encoder.\<close>

definition connected :: "'db wire_state link \<Rightarrow> 'db wire_env \<Rightarrow> string \<Rightarrow> string \<Rightarrow> bool" where
  "connected n e me node \<longleftrightarrow>
     ln_node_ok n (trim node)
     \<and> (\<forall>s. ln_connect n s (trim node) = Inr () \<and> ln_open n s = Inr ())
     \<and> (\<forall>s frame s' bytes. exchange e s frame me = (s', Inr bytes) \<longrightarrow> ln_answer n s frame = (s', bytes))
     \<and> (\<forall>r body. ln_request_to_vec n r = Inr body \<longrightarrow> we_request_from_slice e body = Inr r)
     \<and> (\<forall>r body. we_response_to_vec e r = Inr body \<longrightarrow> ln_response_from_slice n body = Inr r)"

text \<open>The bytes that follow the response of an outcome.\<close>

definition body_bytes :: "'db wire_env \<Rightarrow> outcome \<Rightarrow> string option" where
  "body_bytes e out = (case oc_body out of None \<Rightarrow> Some []
     | Some b \<Rightarrow> map_option (\<lambda>bytes. take (fb_length b) (drop (fb_offset b) bytes)) (we_contents e (fb_path b)))"

lemma exchange_answer:
  assumes "connected n e me node" "write_frame (ln_request_to_vec n) req = Inr frame"
    "answer e s req me = (s', out)" "write_frame (we_response_to_vec e) (oc_response out) = Inr rframe"
    "body_bytes e out = Some tail"
  shows "exchange e s frame me = (s', Inr (rframe @ tail))"
proof -
  have "read_frame (we_request_from_slice e) (frame @ []) = Inr (req, [])"
    using assms(1) by (intro read_write_frame [OF assms(2)]) (auto simp: connected_def)
  with assms(3-5) show ?thesis
    by (auto simp: exchange_def body_bytes_def split: option.splits)
qed

lemma call_answer:
  assumes "connected n e me node" "write_frame (ln_request_to_vec n) req = Inr frame"
    "answer e s req me = (s', out)" "write_frame (we_response_to_vec e) (oc_response out) = Inr rframe"
    "body_bytes e out = Some tail"
  shows "call n s req = (s', Inr \<lparr>ex_response = oc_response out,
    ex_bytes = (if wants_bytes (oc_response out) then Some tail else None)\<rparr>)"
proof -
  have "read_frame (ln_response_from_slice n) (rframe @ tail) = Inr (oc_response out, tail)"
    using assms(1) by (intro read_write_frame [OF assms(4)]) (auto simp: connected_def)
  moreover have "ln_answer n s frame = (s', rframe @ tail)" "ln_open n s = Inr ()"
    using assms(1) exchange_answer [OF assms] by (auto simp: connected_def)
  ultimately show ?thesis using assms(2) by (simp add: call_def)
qed

text \<open>The messages of one exchange fit a frame.\<close>

definition exchange_fits :: "'db wire_state link \<Rightarrow> 'db wire_env \<Rightarrow> request \<Rightarrow> response \<Rightarrow> bool" where
  "exchange_fits n e req rsp \<longleftrightarrow>
     (\<exists>f. write_frame (ln_request_to_vec n) req = Inr f) \<and> (\<exists>f. write_frame (we_response_to_vec e) rsp = Inr f)"

lemma send_answer:
  assumes "connected n e me (cl_node_id c)" "exchange_fits n e req (oc_response out)"
    "answer e s req me = (s', out)" "body_bytes e out = Some tail"
  shows "send n c s req = (s', case oc_response out of RspError code m \<Rightarrow> Inl (Remote code m)
    | r \<Rightarrow> Inr \<lparr>ex_response = r, ex_bytes = (if wants_bytes r then Some tail else None)\<rparr>)"
proof -
  from assms(2) obtain f g where "write_frame (ln_request_to_vec n) req = Inr f"
    "write_frame (we_response_to_vec e) (oc_response out) = Inr g"
    by (auto simp: exchange_fits_def)
  from call_answer [OF assms(1) this(1) assms(3) this(2) assms(4)]
  show ?thesis using assms(1)
    by (simp add: send_def dial_def connected_def split: response.splits)
qed

text \<open>What a typed call returns is what the handler at the other end answered: the state there is
  the handler's, an error answer is the remote error with its code and message, and any other
  answer arrives as it was sent.\<close>

lemma expect_answer:
  assumes "connected n e me (cl_node_id c)" "answer e s req me = (s', out)"
    "exchange_fits n e req (oc_response out)" "oc_body out = None" "\<not> wants_bytes (oc_response out)"
  shows "expect n c s req operation = (s', case oc_response out of
    RspError code m \<Rightarrow> Inl (Remote code m) | r \<Rightarrow> Inr r)"
  using send_answer [OF assms(1,3,2), of "[]"] assms(4,5)
  by (simp add: expect_def body_bytes_def split: response.splits)

lemma authenticated_token [simp]: "cl_token c = Some token \<Longrightarrow> authenticated c s k = k token"
  by (simp add: authenticated_def require_token_def)

section \<open>Pulling over the wire\<close>

lemma answer_store:
  "ws_store (fst (answer e s req me)) = ws_store (fst (dispatch e s req me))"
  "oc_response (snd (answer e s req me)) = oc_response (an_outcome (snd (dispatch e s req me)))"
  "oc_body (snd (answer e s req me)) = oc_body (an_outcome (snd (dispatch e s req me)))"
  by (simp_all add: answer_def Let_def notify_def split: prod.splits option.splits)

lemma dispatch_changes:
  assumes "authorize e s token me = Inr dev" "me \<noteq> self_node s"
  shows "dispatch e s (ReqChanges token since (Some limit)) me =
    (s, with_device (reply (RspChanges ((pull_changes (we_sqlite e) (ws_store s) since limit)\<lparr>pr_changes :=
          filter (\<lambda>c. change_is_for (we_deps e) c dev)
            (pr_changes (pull_changes (we_sqlite e) (ws_store s) since limit))\<rparr>))) dev)"
  using assms by (simp add: dispatch_def Let_def)

text \<open>C26: pulling composes. For a client whose token and node id the endpoint recognises, a call for
  changes returns exactly the page the pull theorems are about: the engine's page of the other
  side's store without the offers to third devices; and the store there is unchanged.\<close>

theorem client_changes_are_the_served_page:
  assumes "connected n (dv_env v) me (cl_node_id c)" "cl_token c = Some token"
    "authorize (dv_env v) s token me = Inr dev" "me \<noteq> self_node s"
    "exchange_fits n (dv_env v) (ReqChanges token since (Some limit))
       (RspChanges (served_page v (we_sqlite (dv_env v)) (ws_store s) dev since limit))"
  shows "\<exists>s'. client_changes n c s since (Some limit) =
      (s', Inr (served_page v (we_sqlite (dv_env v)) (ws_store s) dev since limit))
    \<and> ws_store s' = ws_store s"
proof -
  let ?e = "dv_env v" and ?req = "ReqChanges token since (Some limit)"
  let ?page = "served_page v (we_sqlite (dv_env v)) (ws_store s) dev since limit"
  obtain s' out where a: "answer ?e s ?req me = (s', out)" by (cases "answer ?e s ?req me")
  have "oc_response out = RspChanges ?page" "oc_body out = None" "ws_store s' = ws_store s"
    using answer_store [of ?e s ?req me] a dispatch_changes [OF assms(3,4)]
    by (simp_all add: with_device_def reply_def outcome_reply_def served_page_def Let_def)
  with expect_answer [OF assms(1) a, of "''changes''"] assms(2,5) show ?thesis
    by (simp add: client_changes_def typed_def)
qed

section \<open>Reading a file\<close>

lemma dispatch_file:
  "me \<noteq> self_node s \<Longrightarrow>
   dispatch e s (ReqFile token i offset len if_range) me = (s, serve_file e s token me i offset len if_range)"
  by (simp add: dispatch_def Let_def)

text \<open>The loop of a caller that reads a body through a buffer of \<open>k\<close> bytes.\<close>

function drain :: "nat \<Rightarrow> byte_body \<Rightarrow> (string, client_error) result" where
  "drain k b =
     (if bb_remaining b = 0 \<or> k = 0 then Inr []
      else case read_chunk b k of
             Inl x \<Rightarrow> Inl x
           | Inr (b', bytes) \<Rightarrow> result_bind (drain k b') (\<lambda>rest. Inr (bytes @ rest)))"
  by pat_completeness auto
termination
  by (relation "measure (\<lambda>(k, b). bb_remaining b)")
     (auto simp: read_chunk_def Let_def read_exact_def split: sum.splits if_splits)

declare drain.simps [simp del]

lemma drain_read_all:
  "0 < k \<Longrightarrow> drain k b = read_all b"
proof (induction k b rule: drain.induct)
  case (1 k b)
  show ?case
  proof (cases "bb_remaining b = 0")
    case True
    then show ?thesis by (simp add: drain.simps [of k b] read_all_def read_exact_def)
  next
    case False
    let ?m = "min k (bb_remaining b)"
    show ?thesis
    proof (cases "length (bb_stream b) < ?m")
      case True
      with False "1.prems" show ?thesis
        by (simp add: drain.simps [of k b] read_chunk_def read_all_def read_exact_def Let_def)
    next
      case short: False
      let ?b = "\<lparr>bb_stream = drop ?m (bb_stream b), bb_remaining = bb_remaining b - ?m\<rparr>"
      have chunk: "read_chunk b k = Inr (?b, take ?m (bb_stream b))"
        using False "1.prems" short by (simp add: read_chunk_def read_exact_def Let_def)
      have "drain k ?b = read_all ?b"
        using "1.IH" [OF _ chunk refl] False "1.prems" by simp
      then have "drain k b = result_bind (read_all ?b) (\<lambda>rest. Inr (take ?m (bb_stream b) @ rest))"
        using False "1.prems" chunk by (simp add: drain.simps [of k b])
      also have "\<dots> = read_all b"
        using short by (auto simp: read_all_def read_exact_def eof_def simp flip: take_add)
      finally show ?thesis .
    qed
  qed
qed

text \<open>C27: a book arrives whole. When the endpoint serves a window of a file that is still as long as
  its header says, the client's call returns that header and a body whose bytes are exactly the
  window of the file: reading it into one buffer, reading it piece by piece through a buffer of any
  size, and copying it to a writer all give those bytes.\<close>

theorem client_file_is_the_served_window:
  assumes "connected n e me (cl_node_id c)" "cl_token c = Some token" "me \<noteq> self_node s"
    "an_outcome (serve_file e s token me i offset len if_range) = outcome_file h path"
    "we_contents e path = Some bytes" "fh_offset h + fh_length h \<le> length bytes"
    "exchange_fits n e (ReqFile token i offset len if_range) (RspFile h)"
  shows "\<exists>s' body. client_file n c s i offset len if_range = (s', Inr (h, body))
    \<and> read_all body = Inr (take (fh_length h) (drop (fh_offset h) bytes))
    \<and> (\<forall>k > 0. drain k body = Inr (take (fh_length h) (drop (fh_offset h) bytes)))
    \<and> copy_to body = (take (fh_length h) (drop (fh_offset h) bytes), fh_length h)"
proof -
  let ?req = "ReqFile token i offset len if_range" and ?w = "take (fh_length h) (drop (fh_offset h) bytes)"
  obtain s' out where a: "answer e s ?req me = (s', out)" by (cases "answer e s ?req me")
  have out: "oc_response out = RspFile h"
    "oc_body out = Some \<lparr>fb_path = path, fb_offset = fh_offset h, fb_length = fh_length h\<rparr>"
    using answer_store [of e s ?req me] a dispatch_file [OF assms(3)] assms(4)
    by (simp_all add: outcome_file_def)
  then have "body_bytes e out = Some ?w" using assms(5) by (simp add: body_bytes_def)
  from send_answer [OF assms(1) _ a this] out(1) assms(7)
  have "send n c s ?req = (s', Inr \<lparr>ex_response = RspFile h, ex_bytes = Some ?w\<rparr>)" by simp
  then have "client_file n c s i offset len if_range =
      (s', Inr (h, \<lparr>bb_stream = ?w, bb_remaining = fh_length h\<rparr>))"
    using assms(2) by (simp add: client_file_def)
  moreover have "length ?w = fh_length h" using assms(6) by simp
  ultimately show ?thesis by (simp add: drain_read_all read_all_def read_exact_def copy_to_def Let_def)
qed

text \<open>C28: reading a body piece by piece through a buffer of any size ends, and gives what reading it into one
  buffer gives: the announced number of bytes when the stream has them, and the end-of-file error when the
  stream ends early, never a shortened body.\<close>

theorem drain_is_read_all:
  assumes "0 < k"
  shows "drain k b = read_all b
    \<and> read_all b = (if length (bb_stream b) < bb_remaining b then Inl eof
                    else Inr (take (bb_remaining b) (bb_stream b)))"
  using drain_read_all [OF assms] by (simp add: read_all_def read_exact_def)

text \<open>A download that breaks off is taken for a complete one. When the stream ends before the
  length the header announced, reading the body into a buffer is an error, but \<open>Peer::download_file\<close>
  copies what came, ignores the number of bytes copied, and succeeds with the shortened file.\<close>

theorem truncated_download_succeeds:
  assumes "client_file n c s i 0 None None = (s', Inr (h, body))"
    "bb_remaining body = fh_length h" "length (bb_stream body) < fh_length h"
  shows "download_file n c s i = (s', Inr (bb_stream body)) \<and> read_all body = Inl eof
    \<and> snd (copy_to body) < fh_length h"
  using assms by (simp add: download_file_def copy_to_def Let_def read_all_def read_exact_def)

section \<open>Evaluation on a concrete link\<close>

text \<open>A link whose codecs know one request and one response.\<close>

definition demo_env :: "request \<Rightarrow> response \<Rightarrow> string \<Rightarrow> (string \<times> sql_value list) list wire_env" where
  "demo_env req rsp content = (ref_env 0 ''U'')
     \<lparr>we_request_from_slice := (\<lambda>t. if t = ''Q'' then Inr req else Inl ''no''),
      we_response_to_vec := (\<lambda>r. if r = rsp then Inr ''R'' else Inl ''no''),
      we_contents := (\<lambda>p. if p = ''b.epub'' then Some content else None)\<rparr>"

definition demo_link :: "request \<Rightarrow> response \<Rightarrow> string \<Rightarrow> (string \<times> sql_value list) list wire_state link" where
  "demo_link req rsp content =
     \<lparr>ln_node_ok = (\<lambda>_. True), ln_connect = (\<lambda>_ _. Inr ()), ln_open = (\<lambda>_. Inr ()),
      ln_answer = (\<lambda>s frame. case exchange (demo_env req rsp content) s frame ''node'' of
          (s', Inr bytes) \<Rightarrow> (s', bytes) | (s', Inl _) \<Rightarrow> (s', [])),
      ln_request_to_vec = (\<lambda>r. if r = req then Inr ''Q'' else Inl ''no''),
      ln_response_from_slice = (\<lambda>t. if t = ''R'' then Inr rsp else Inl ''no''), ln_debug = (\<lambda>_. [])\<rparr>"

lemma demo_env_simps:
  "we_deps (demo_env req rsp content) = node_deps" "we_sqlite (demo_env req rsp content) = ref_sqlite"
  "we_contents (demo_env req rsp content) p = (if p = ''b.epub'' then Some content else None)"
  "we_inventory (demo_env req rsp content) = we_inventory (ref_env 0 ''U'')"
  "we_metadata (demo_env req rsp content) = we_metadata (ref_env 0 ''U'')"
  by (simp_all add: demo_env_def) (simp add: ref_env_def)

lemma demo_connected: "connected (demo_link req rsp content) (demo_env req rsp content) ''node'' node"
  by (auto simp: connected_def demo_link_def demo_env_def split: if_splits)

lemma demo_fits: "exchange_fits (demo_link req rsp content) (demo_env req rsp content) req rsp"
  by (simp add: exchange_fits_def demo_link_def demo_env_def write_frame_def MAX_MESSAGE_BYTES_def)

definition demo_client :: client where
  "demo_client = with_token (new_client ''server'') ''T1''"

lemma demo_client_simps [simp]: "cl_node_id demo_client = ''server''" "cl_token demo_client = Some ''T1''"
  by (simp_all add: demo_client_def with_token_def new_client_def)

lemma demo_authorize: "authorize (demo_env req rsp content) paired_endpoint ''T1'' ''node'' = Inr phone"
  by (simp add: authorize_def trim_T phone_row_def phone_def db_id_display_def demo_env_simps)

lemma demo_not_self: "''node'' \<noteq> self_node paired_endpoint"
  by (simp add: ref_ulid_to_string_def)

definition empty_page :: pull_response where
  "empty_page = \<lparr>pr_changes = [], pr_has_more = False, pr_latest_version = 7\<rparr>"

theorem client_changes_are_the_served_page_witness:
  "\<exists>s'. client_changes (demo_link (ReqChanges ''T1'' 7 (Some 100)) (RspChanges empty_page) []) demo_client
      paired_endpoint 7 (Some 100) = (s', Inr empty_page)
    \<and> ws_store s' = empty_store"
proof -
  let ?e = "demo_env (ReqChanges ''T1'' 7 (Some 100)) (RspChanges empty_page) []"
  let ?v = "reader_env\<lparr>dv_env := ?e\<rparr>"
  have page: "served_page ?v (we_sqlite ?e) (ws_store paired_endpoint) phone 7 100 = empty_page"
    by (simp add: served_page_def demo_env_simps Let_def pull_changes_def empty_store_def sql_limit_def
        rowid_order_def List.map_filter_simps) (simp add: empty_page_def)
  show ?thesis
    using client_changes_are_the_served_page [of _ ?v "''node''" demo_client "''T1''" paired_endpoint phone 7 100]
      demo_connected demo_authorize demo_not_self demo_fits page by simp
qed

definition demo_header :: file_header where
  "demo_header = \<lparr>fh_content_type = ''application/epub+zip'', fh_offset = 0, fh_length = 5, fh_total = 5, fh_etag = ''5''\<rparr>"

definition demo_file :: string where
  "demo_file = ref_hex_encode ''BBBBBBBBBBBBBBBB''"

lemma demo_serve:
  "serve_file (demo_env req rsp content) paired_endpoint ''T1'' ''node'' demo_file 0 None None =
    with_device \<lparr>an_outcome = outcome_file demo_header ''b.epub'', an_device_id = None\<rparr> phone"
proof -
  have "file_etag 5 None = ''5''"
    by (simp add: file_etag_def show_hex.simps hex_lower_def hex_upper_def digit_char_def lower_char_def
        ascii_defs byte_def of_byte_def) code_simp
  moreover have "content_type_for ''b.epub'' = ''application/epub+zip''" by code_simp
  ultimately show ?thesis
    by (simp add: serve_file_def demo_authorize inventory_paths_of_def parse_inventory_id_def demo_file_def
        ref_hex_decode_encode file_metadata_of_def demo_env_simps)
       (simp add: ref_env_def file_metadata_of_def demo_header_def demo_env_simps)
qed

abbreviation file_link :: "string \<Rightarrow> (string \<times> sql_value list) list wire_state link" where
  "file_link \<equiv> demo_link (ReqFile ''T1'' demo_file 0 None None) (RspFile demo_header)"

theorem client_file_is_the_served_window_witness:
  "\<exists>s' body. client_file (file_link ''bytes'') demo_client paired_endpoint demo_file 0 None None =
      (s', Inr (demo_header, body)) \<and> read_all body = Inr ''bytes'' \<and> drain 2 body = Inr ''bytes''"
  using client_file_is_the_served_window [OF demo_connected demo_client_simps(2) demo_not_self,
      of _ _ _ demo_file 0 None None demo_header "''b.epub''" "''bytes''", OF _ _ _ demo_fits] demo_serve
  by (simp add: with_device_def demo_env_simps demo_header_def) force

theorem drain_is_read_all_witness:
  "drain 2 \<lparr>bb_stream = ''bytes'', bb_remaining = 5\<rparr> = read_all \<lparr>bb_stream = ''bytes'', bb_remaining = 5\<rparr>
   \<and> drain 2 \<lparr>bb_stream = ''byt'', bb_remaining = 5\<rparr> = Inl eof"
  using drain_is_read_all [of 2 "\<lparr>bb_stream = ''bytes'', bb_remaining = 5\<rparr>"]
    drain_is_read_all [of 2 "\<lparr>bb_stream = ''byt'', bb_remaining = 5\<rparr>"]
  by (simp add: read_all_def read_exact_def)

text \<open>A file that was cut to two bytes after its size was read.\<close>

theorem truncated_download_succeeds_witness:
  "\<exists>s'. download_file (file_link ''by'') demo_client paired_endpoint demo_file = (s', Inr ''by'')"
proof -
  let ?e = "demo_env (ReqFile ''T1'' demo_file 0 None None) (RspFile demo_header) ''by''"
  obtain s' out where a: "answer ?e paired_endpoint (ReqFile ''T1'' demo_file 0 None None) ''node'' = (s', out)"
    by fastforce
  have out: "oc_response out = RspFile demo_header"
    "oc_body out = Some \<lparr>fb_path = ''b.epub'', fb_offset = 0, fb_length = 5\<rparr>"
    using answer_store [of ?e paired_endpoint "ReqFile ''T1'' demo_file 0 None None" "''node''"] a
      dispatch_file [OF demo_not_self] demo_serve
    by (simp_all add: outcome_file_def with_device_def demo_header_def)
  have "send (file_link ''by'') demo_client paired_endpoint (ReqFile ''T1'' demo_file 0 None None) =
      (s', Inr \<lparr>ex_response = RspFile demo_header, ex_bytes = Some ''by''\<rparr>)"
    using send_answer [OF demo_connected _ a, where c = demo_client and tail = "''by''"] out demo_fits
    by (simp add: body_bytes_def demo_env_simps)
  then have "client_file (file_link ''by'') demo_client paired_endpoint demo_file 0 None None =
      (s', Inr (demo_header, \<lparr>bb_stream = ''by'', bb_remaining = 5\<rparr>))"
    by (simp add: client_file_def) (simp add: demo_header_def)
  from truncated_download_succeeds [OF this] show ?thesis by (simp add: demo_header_def)
qed

end
