(* ===== verification/UrnEnum.thy ===== *)
theory UrnEnum
  imports DeviceTypes
begin

text \<open>
  The vocabularies of \<open>livtet-types\<close>: the macro \<open>urn_enum!\<close> of \<open>lib.rs\<close> over the table of its variants,
  and the enums that instantiate it (\<open>work_status.rs\<close>, \<open>series_type.rs\<close>, \<open>book_condition.rs\<close>,
  \<open>contributor_role.rs\<close>). A table is a parameter of the macro's functions; the contract every table has to
  meet is a locale, interpreted for each enum.
\<close>

section \<open>The macro\<close>

text \<open>One row per variant: the variant, its discriminant, the snake form and the label.\<close>

record 'v urn_table =
  ut_time_ms :: nat
  ut_prefix :: string
  ut_rows :: "('v \<times> nat \<times> string \<times> string) list"

definition urn_row :: "'v urn_table \<Rightarrow> 'v \<Rightarrow> nat \<times> string \<times> string" where
  "urn_row t v = (case map_of (ut_rows t) v of Some r \<Rightarrow> r | None \<Rightarrow> (0, [], []))"

definition urn_disc :: "'v urn_table \<Rightarrow> 'v \<Rightarrow> nat" where
  "urn_disc t v = fst (urn_row t v)"

definition urn_as_str :: "'v urn_table \<Rightarrow> 'v \<Rightarrow> string" where
  "urn_as_str t v = fst (snd (urn_row t v))"

definition urn_name :: "'v urn_table \<Rightarrow> 'v \<Rightarrow> string" where
  "urn_name t v = snd (snd (urn_row t v))"

definition urn_all :: "'v urn_table \<Rightarrow> 'v list" where
  "urn_all t = map fst (ut_rows t)"

text \<open>\<open>ulid()\<close> and the \<open>DbId\<close> of a variant; \<open>parts\<close> is \<open>Ulid::from_parts\<close>.\<close>

definition urn_db_id :: "(nat \<Rightarrow> nat \<Rightarrow> string) \<Rightarrow> 'v urn_table \<Rightarrow> 'v \<Rightarrow> db_id" where
  "urn_db_id parts t v = DbId (parts (ut_time_ms t) (urn_disc t v))"

definition to_urn :: "'v urn_table \<Rightarrow> 'v \<Rightarrow> string" where
  "to_urn t v = ut_prefix t @ show_nat (urn_disc t v)"

text \<open>The match on a discriminant: its first arm that fits.\<close>

definition urn_of_disc :: "'v urn_table \<Rightarrow> nat \<Rightarrow> 'v option" where
  "urn_of_disc t n = map_option fst (find (\<lambda>row. fst (snd row) = n) (ut_rows t))"

text \<open>\<open>From<Ulid>\<close>, on the random component of the ULID; \<open>None\<close> is the panic.\<close>

definition urn_from_ulid :: "'v urn_table \<Rightarrow> nat \<Rightarrow> 'v option" where
  "urn_from_ulid t random = urn_of_disc t random"

datatype urn_value_error =
    UrnPrefixExpected string string
  | UrnDiscriminantMalformed string
  | UrnDiscriminantUnknown nat
  | UrnStringExpected

text \<open>\<open>TryFrom<sea_orm::Value>\<close>.\<close>

definition urn_try_from :: "'v urn_table \<Rightarrow> sql_value \<Rightarrow> ('v, urn_value_error) result" where
  "urn_try_from t value =
     (case value of
        SqlString (Some raw) \<Rightarrow>
          (if \<not> starts_with (ut_prefix t) raw then Inl (UrnPrefixExpected (ut_prefix t) raw)
           else case parse_unsigned u16_max (drop (length (ut_prefix t)) raw) of
                  None \<Rightarrow> Inl (UrnDiscriminantMalformed raw)
                | Some n \<Rightarrow> ok_or (UrnDiscriminantUnknown n) (urn_of_disc t n))
      | _ \<Rightarrow> Inl UrnStringExpected)"

section \<open>The contract of a table\<close>

locale urn_vocabulary =
  fixes t :: "'v urn_table"
  assumes total: "\<exists>row. (v, row) \<in> set (ut_rows t)"
    and distinct_rows: "distinct (map fst (ut_rows t))"
    and distinct_discs: "distinct (map (fst \<circ> snd) (ut_rows t))"
    and discs_u16: "list_all (\<lambda>row. fst (snd row) \<le> u16_max) (ut_rows t)"
    and time_48: "ut_time_ms t < 2 ^ 48"
begin

lemma row_in: "(v, urn_row t v) \<in> set (ut_rows t)"
proof -
  obtain row where "(v, row) \<in> set (ut_rows t)" using total by blast
  then have "map_of (ut_rows t) v = Some row" using distinct_rows by simp
  then show ?thesis using \<open>(v, row) \<in> _\<close> by (simp add: urn_row_def)
qed

lemma all_variants: "v \<in> set (urn_all t)"
  using row_in [of v] by (force simp: urn_all_def)

lemma disc_le: "urn_disc t v \<le> u16_max"
  using discs_u16 row_in [of v] by (auto simp: list_all_iff urn_disc_def)

lemma of_disc: "urn_of_disc t (urn_disc t v) = Some v"
  using find_distinct [OF distinct_discs row_in [of v]] by (simp add: urn_of_disc_def urn_disc_def)

lemma of_disc_Some: "urn_of_disc t n = Some v \<Longrightarrow> urn_disc t v = n"
proof -
  assume "urn_of_disc t n = Some v"
  then obtain row where "(v, row) \<in> set (ut_rows t)" "fst row = n"
    by (auto simp: urn_of_disc_def dest: find_SomeD)
  then have "map_of (ut_rows t) v = Some row" using distinct_rows by simp
  with \<open>fst row = n\<close> show ?thesis by (simp add: urn_disc_def urn_row_def)
qed

lemma disc_inject: "urn_disc t v = urn_disc t w \<longleftrightarrow> v = w"
  by (metis of_disc option.inject)

text \<open>The stored form of a variant reads back as that variant.\<close>

lemma value_round_trip: "urn_try_from t (SqlString (Some (to_urn t v))) = Inr v"
  using disc_le [of v] show_nat_digits [of "urn_disc t v"]
  by (simp add: urn_try_from_def to_urn_def starts_with_def parse_unsigned_digits of_disc)

lemma to_urn_inject: "to_urn t v = to_urn t w \<longleftrightarrow> v = w"
  by (metis value_round_trip sum.inject(2))

lemma db_id_inject: "parts_ok parts \<Longrightarrow> urn_db_id parts t v = urn_db_id parts t w \<longleftrightarrow> v = w"
proof
  assume ok: "parts_ok parts" and eq: "urn_db_id parts t v = urn_db_id parts t w"
  have "urn_disc t x < 2 ^ 80" for x
    using disc_le [of x] unfolding u16_max_def
    by (rule le_less_trans) simp
  then have "urn_disc t v = urn_disc t w"
    using ok eq time_48 unfolding parts_ok_def urn_db_id_def by blast
  then show "v = w" by (simp add: disc_inject)
qed simp

end

section \<open>The enums\<close>

datatype work_status = ToRead | Reading | Finished | Abandoned | Queued | Active

definition WORK_STATUS_TIME_MS :: nat where "WORK_STATUS_TIME_MS = 1735689600300"

definition work_status_table :: "work_status urn_table" where
  "work_status_table = \<lparr>ut_time_ms = WORK_STATUS_TIME_MS, ut_prefix = ''urn:livtet:work/status/'',
     ut_rows = [(ToRead, 300, ''to-read'', ''To Read''), (Reading, 301, ''reading'', ''Reading''),
       (Finished, 302, ''finished'', ''Finished''), (Abandoned, 303, ''abandoned'', ''Abandoned''),
       (Queued, 304, ''queued'', ''Queued''), (Active, 305, ''active'', ''Active'')]\<rparr>"

text \<open>\<open>WorkStatus::from_str\<close>.\<close>

definition work_status_from_str :: "string \<Rightarrow> (work_status, string) result" where
  "work_status_from_str s =
     (if s = ''to-read'' then Inr ToRead else if s = ''reading'' then Inr Reading
      else if s = ''finished'' then Inr Finished else if s = ''abandoned'' then Inr Abandoned
      else if s = ''queued'' then Inr Queued else if s = ''active'' then Inr Active else Inl s)"

datatype series_type = Anthology | Omnibus | Collection

definition SERIES_TYPE_TIME_MS :: nat where "SERIES_TYPE_TIME_MS = 1735689600200"

definition series_type_table :: "series_type urn_table" where
  "series_type_table = \<lparr>ut_time_ms = SERIES_TYPE_TIME_MS, ut_prefix = ''urn:livtet:series/'',
     ut_rows = [(Anthology, 200, ''anthology'', ''Anthology''), (Omnibus, 201, ''omnibus'', ''Omnibus''),
       (Collection, 202, ''collection'', ''Collection'')]\<rparr>"

datatype book_condition = New | Used | Good | Fair

definition KNOWN_SUBJECT_TIME_MS :: nat where "KNOWN_SUBJECT_TIME_MS = PAIRING_STATUS_TIME_MS + 1"
definition BOOK_CONDITION_TIME_MS :: nat where "BOOK_CONDITION_TIME_MS = KNOWN_SUBJECT_TIME_MS + 1"

definition book_condition_table :: "book_condition urn_table" where
  "book_condition_table = \<lparr>ut_time_ms = BOOK_CONDITION_TIME_MS, ut_prefix = ''urn:livtet:bookCondition/'',
     ut_rows = [(New, 700, ''new'', ''New''), (Used, 701, ''used'', ''Used''), (Good, 702, ''good'', ''Good''),
       (Fair, 703, ''fair'', ''Fair'')]\<rparr>"

datatype contributor_role =
  Author | Translator | Editor | Illustrator | Narrator | IntroAuthor | ForewordAuthor | EpilogueAuthor

definition CONTRIBUTOR_ROLE_TIME_MS :: nat where "CONTRIBUTOR_ROLE_TIME_MS = 1735689600600"

definition contributor_role_table :: "contributor_role urn_table" where
  "contributor_role_table = \<lparr>ut_time_ms = CONTRIBUTOR_ROLE_TIME_MS, ut_prefix = ''urn:livtet:contrib/'',
     ut_rows = [(Author, 600, ''author'', ''Author''), (Translator, 601, ''translator'', ''Translator''),
       (Editor, 602, ''editor'', ''Editor''), (Illustrator, 603, ''illustrator'', ''Illustrator''),
       (Narrator, 604, ''narrator'', ''Narrator''), (IntroAuthor, 605, ''intro_author'', ''Intro Author''),
       (ForewordAuthor, 606, ''foreword_author'', ''Foreword Author''),
       (EpilogueAuthor, 607, ''epilogue_author'', ''Epilogue Author'')]\<rparr>"

lemmas vocabulary_times = KNOWN_SUBJECT_TIME_MS_def BOOK_CONDITION_TIME_MS_def PAIRING_STATUS_TIME_MS_def
  DEVICE_TYPE_TIME_MS_def KNOWN_GENRE_TIME_MS_def KNOWN_LANGUAGE_TIME_MS_def KNOWN_FORMAT_TIME_MS_def
  WORK_STATUS_TIME_MS_def SERIES_TYPE_TIME_MS_def CONTRIBUTOR_ROLE_TIME_MS_def

interpretation work_statuses: urn_vocabulary work_status_table
proof
  show "\<exists>row. (v, row) \<in> set (ut_rows work_status_table)" for v
    by (cases v) (auto simp: work_status_table_def)
qed (simp_all add: work_status_table_def u16_max_def vocabulary_times)

interpretation series_types: urn_vocabulary series_type_table
proof
  show "\<exists>row. (v, row) \<in> set (ut_rows series_type_table)" for v
    by (cases v) (auto simp: series_type_table_def)
qed (simp_all add: series_type_table_def u16_max_def vocabulary_times)

interpretation book_conditions: urn_vocabulary book_condition_table
proof
  show "\<exists>row. (v, row) \<in> set (ut_rows book_condition_table)" for v
    by (cases v) (auto simp: book_condition_table_def)
qed (simp_all add: book_condition_table_def u16_max_def vocabulary_times)

interpretation contributor_roles: urn_vocabulary contributor_role_table
proof
  show "\<exists>row. (v, row) \<in> set (ut_rows contributor_role_table)" for v
    by (cases v) (auto simp: contributor_role_table_def)
qed (simp_all add: contributor_role_table_def u16_max_def vocabulary_times)

section \<open>Properties\<close>

text \<open>The stored form of a reading status is lossless in both directions the code uses: the URN
  column value reads back as the status, the snake form parses back to it, and no two statuses
  share a URN or a seeded id.\<close>

theorem work_status_forms_round_trip:
  "urn_try_from work_status_table (SqlString (Some (to_urn work_status_table v))) = Inr v
   \<and> work_status_from_str (urn_as_str work_status_table v) = Inr v
   \<and> (to_urn work_status_table v = to_urn work_status_table w \<longleftrightarrow> v = w)
   \<and> (urn_db_id ref_parts work_status_table v = urn_db_id ref_parts work_status_table w \<longleftrightarrow> v = w)"
proof -
  have "work_status_from_str (urn_as_str work_status_table v) = Inr v"
    by (cases v) (simp_all add: work_status_from_str_def urn_as_str_def urn_row_def work_status_table_def)
  then show ?thesis
    by (simp add: work_statuses.value_round_trip work_statuses.to_urn_inject work_statuses.db_id_inject)
qed

end
