(* ===== verification/Values.thy ===== *)
theory Values
  imports UrnEnum "HOL-Library.Word"
begin

text \<open>
  Value types of \<open>livtet-types\<close>: URNs and identifiers (\<open>urn.rs\<close>, \<open>identifier_kind.rs\<close>,
  \<open>identifier.rs\<close>), publication dates (\<open>published_date.rs\<close>), reading lengths and positions
  (\<open>reading_length.rs\<close>, \<open>progress_unit.rs\<close>) and the limit of a listing (\<open>work_filters.rs\<close>). The calendar
  of the \<open>time\<close> crate is the parameter \<open>cal\<close>: the date of a year, month and day, if there is one.
\<close>

section \<open>URNs\<close>

record urn =
  urn_type :: string
  urn_value :: string

datatype urn_parse_error =
    MissingPrefix string
  | MissingSeparator string
  | EmptyScheme string
  | EmptyValue string

definition urn_parse :: "string \<Rightarrow> (urn, urn_parse_error) result" where
  "urn_parse s =
     (if \<not> starts_with ''urn:'' s then Inl (MissingPrefix s)
      else case split_once '':'' (drop 4 s) of
             None \<Rightarrow> Inl (MissingSeparator s)
           | Some (scheme, value) \<Rightarrow>
               if scheme = [] then Inl (EmptyScheme s)
               else if value = [] then Inl (EmptyValue s)
               else Inr \<lparr>urn_type = scheme, urn_value = value\<rparr>)"

definition to_urn_string :: "urn \<Rightarrow> string" where
  "to_urn_string u = ''urn:'' @ urn_type u @ '':'' @ urn_value u"

definition urn_wf :: "urn \<Rightarrow> bool" where
  "urn_wf u \<longleftrightarrow> urn_type u \<noteq> [] \<and> CHR '':'' \<notin> set (urn_type u) \<and> urn_value u \<noteq> []"

section \<open>Identifiers\<close>

datatype identifier_kind =
    KindIsbn
  | KindOclc
  | KindLccn
  | KindDoi
  | KindWeb
  | KindOpds
  | KindCustom string

fun kind_as_str :: "identifier_kind \<Rightarrow> string" where
  "kind_as_str KindIsbn = ''isbn''"
| "kind_as_str KindOclc = ''oclc''"
| "kind_as_str KindLccn = ''lccn''"
| "kind_as_str KindDoi = ''doi''"
| "kind_as_str KindWeb = ''http''"
| "kind_as_str KindOpds = ''opds''"
| "kind_as_str (KindCustom s) = s"

fun kind_dsl_prefix :: "identifier_kind \<Rightarrow> string" where
  "kind_dsl_prefix KindIsbn = ''isbn''"
| "kind_dsl_prefix KindOclc = ''oclc''"
| "kind_dsl_prefix KindLccn = ''lccn''"
| "kind_dsl_prefix KindDoi = ''doi''"
| "kind_dsl_prefix KindWeb = ''web''"
| "kind_dsl_prefix KindOpds = ''opds''"
| "kind_dsl_prefix (KindCustom s) = s"

definition kind_parse :: "string \<Rightarrow> identifier_kind option" where
  "kind_parse s =
     (if s = ''isbn'' then Some KindIsbn else if s = ''oclc'' then Some KindOclc
      else if s = ''lccn'' then Some KindLccn else if s = ''doi'' then Some KindDoi
      else if s = ''http'' \<or> s = ''https'' then Some KindWeb else if s = ''opds'' then Some KindOpds
      else if s \<noteq> [] then Some (KindCustom s) else None)"

record book_identifier =
  id_kind :: identifier_kind
  id_urn :: urn

datatype identifier_parse_error = MalformedUrn urn_parse_error | UnknownKind string

definition identifier_new :: "identifier_kind \<Rightarrow> string \<Rightarrow> book_identifier" where
  "identifier_new kind value = \<lparr>id_kind = kind, id_urn = \<lparr>urn_type = kind_as_str kind, urn_value = value\<rparr>\<rparr>"

definition identifier_parse :: "string \<Rightarrow> (book_identifier, identifier_parse_error) result" where
  "identifier_parse s =
     result_bind (map_err MalformedUrn (urn_parse s)) (\<lambda>u.
     result_bind (ok_or (UnknownKind (urn_type u)) (kind_parse (urn_type u))) (\<lambda>kind.
       Inr \<lparr>id_kind = kind, id_urn = u\<rparr>))"

definition as_urn_string :: "book_identifier \<Rightarrow> string" where
  "as_urn_string i = to_urn_string (id_urn i)"

section \<open>Publication dates\<close>

datatype published_date =
    Year int
  | YearMonth int nat
  | YearMonthDay int nat nat

datatype published_date_error =
    BadYear string
  | BadMonth string
  | BadDay string
  | InvalidMonth nat
  | InvalidDate int nat nat

definition parse_year :: "string \<Rightarrow> (int, string) result" where
  "parse_year s =
     (if length s \<noteq> 4 \<or> \<not> list_all is_ascii_digit s then Inl s else Inr (int (decimal_value s)))"

definition parse_month :: "string \<Rightarrow> (nat, string) result" where
  "parse_month s =
     (if s = [] \<or> \<not> list_all is_ascii_digit s then Inl s
      else case parse_unsigned u8_max s of
             None \<Rightarrow> Inl s
           | Some n \<Rightarrow> if 1 \<le> n \<and> n \<le> 12 then Inr n else Inl s)"

definition parse_day :: "string \<Rightarrow> (nat, string) result" where
  "parse_day s =
     (if s = [] \<or> \<not> list_all is_ascii_digit s then Inl s
      else case parse_unsigned u8_max s of
             None \<Rightarrow> Inl s
           | Some n \<Rightarrow> if 1 \<le> n \<and> n \<le> 31 then Inr n else Inl s)"

definition is_valid_ymd :: "(int \<Rightarrow> nat \<Rightarrow> nat \<Rightarrow> 'd option) \<Rightarrow> int \<Rightarrow> nat \<Rightarrow> nat \<Rightarrow> bool" where
  "is_valid_ymd cal y m d \<longleftrightarrow> cal y m d \<noteq> None"

definition date_parse ::
  "(int \<Rightarrow> nat \<Rightarrow> nat \<Rightarrow> 'd option) \<Rightarrow> string \<Rightarrow> (published_date, published_date_error) result" where
  "date_parse cal s0 =
     (let s = trim s0 in
      case split_once ''-'' s of
        Some (y, rest) \<Rightarrow>
          result_bind (map_err BadYear (parse_year y)) (\<lambda>year.
            case split_once ''-'' rest of
              Some (m, d) \<Rightarrow>
                result_bind (map_err BadMonth (parse_month m)) (\<lambda>month.
                result_bind (map_err BadDay (parse_day d)) (\<lambda>day.
                  if \<not> is_valid_ymd cal year month day then Inl (InvalidDate year month day)
                  else Inr (YearMonthDay year month day)))
            | None \<Rightarrow>
                result_bind (map_err BadMonth (parse_month rest)) (\<lambda>month.
                  if \<not> (1 \<le> month \<and> month \<le> 12) then Inl (InvalidMonth month)
                  else Inr (YearMonth year month)))
      | None \<Rightarrow> result_bind (map_err BadYear (parse_year s)) (\<lambda>year. Inr (Year year)))"

fun date_year :: "published_date \<Rightarrow> int" where
  "date_year (Year y) = y"
| "date_year (YearMonth y m) = y"
| "date_year (YearMonthDay y m d) = y"

fun date_month :: "published_date \<Rightarrow> nat option" where
  "date_month (Year y) = None"
| "date_month (YearMonth y m) = Some m"
| "date_month (YearMonthDay y m d) = Some m"

fun date_day :: "published_date \<Rightarrow> nat option" where
  "date_day (YearMonthDay y m d) = Some d"
| "date_day _ = None"

fun to_time_date :: "(int \<Rightarrow> nat \<Rightarrow> nat \<Rightarrow> 'd option) \<Rightarrow> published_date \<Rightarrow> 'd option" where
  "to_time_date cal (YearMonthDay y m d) = cal y m d"
| "to_time_date cal _ = None"

text \<open>\<open>{y:04}\<close> of an \<open>i32\<close>: the sign counts towards the width.\<close>

definition show_year :: "int \<Rightarrow> string" where
  "show_year y = (if y < 0 then CHR ''-'' # show_padded 3 (nat (- y)) else show_padded 4 (nat y))"

fun date_display :: "published_date \<Rightarrow> string" where
  "date_display (Year y) = show_year y"
| "date_display (YearMonth y m) = show_year y @ ''-'' @ show_padded 2 m"
| "date_display (YearMonthDay y m d) = show_year y @ ''-'' @ show_padded 2 m @ ''-'' @ show_padded 2 d"

fun date_wf :: "(int \<Rightarrow> nat \<Rightarrow> nat \<Rightarrow> 'd option) \<Rightarrow> published_date \<Rightarrow> bool" where
  "date_wf cal (Year y) \<longleftrightarrow> 0 \<le> y \<and> y \<le> 9999"
| "date_wf cal (YearMonth y m) \<longleftrightarrow> 0 \<le> y \<and> y \<le> 9999 \<and> 1 \<le> m \<and> m \<le> 12"
| "date_wf cal (YearMonthDay y m d) \<longleftrightarrow>
     0 \<le> y \<and> y \<le> 9999 \<and> 1 \<le> m \<and> m \<le> 12 \<and> 1 \<le> d \<and> d \<le> 31 \<and> cal y m d \<noteq> None"

section \<open>Reading lengths and positions\<close>

datatype reading_length =
    LengthPercentage
  | LengthPages "32 word"
  | LengthVirtualPages "32 word"
  | LengthSeconds "64 word"
  | LengthChapters "32 word"
  | LengthCfi

text \<open>\<open>to_le_bytes\<close> and \<open>from_le_bytes\<close> on \<open>n\<close> bytes.\<close>

fun le_bytes :: "nat \<Rightarrow> nat \<Rightarrow> string" where
  "le_bytes 0 k = []"
| "le_bytes (Suc n) k = of_byte (k mod 256) # le_bytes n (k div 256)"

fun from_le :: "string \<Rightarrow> nat" where
  "from_le [] = 0"
| "from_le (c # cs) = byte c + 256 * from_le cs"

fun length_to_bytes :: "reading_length \<Rightarrow> string" where
  "length_to_bytes LengthPercentage = [of_byte 0]"
| "length_to_bytes (LengthPages n) = of_byte 1 # le_bytes 4 (unat n)"
| "length_to_bytes (LengthVirtualPages n) = of_byte 2 # le_bytes 4 (unat n)"
| "length_to_bytes (LengthSeconds n) = of_byte 3 # le_bytes 8 (unat n)"
| "length_to_bytes (LengthChapters n) = of_byte 4 # le_bytes 4 (unat n)"
| "length_to_bytes LengthCfi = [of_byte 5]"

definition length_from_bytes :: "string \<Rightarrow> reading_length option" where
  "length_from_bytes bytes =
     (case bytes of
        [] \<Rightarrow> None
      | tag # rest \<Rightarrow>
         (let u32 = (\<lambda>f. if length bytes \<ge> 5 then Some (f (of_nat (from_le (take 4 rest)))) else None) in
          if byte tag = 0 then Some LengthPercentage
          else if byte tag = 1 then u32 LengthPages
          else if byte tag = 2 then u32 LengthVirtualPages
          else if byte tag = 3 then
            (if length bytes \<ge> 9 then Some (LengthSeconds (of_nat (from_le (take 8 rest)))) else None)
          else if byte tag = 4 then u32 LengthChapters
          else if byte tag = 5 then Some LengthCfi
          else None))"

datatype progression =
    AtPercentage f64
  | AtPage "32 word"
  | AtVirtualPage "32 word"
  | AtSeconds "64 word"
  | AtChapter f64
  | AtCfi string

text \<open>IEEE arithmetic is a parameter: conversion from the two integer types, division, and the clamp to
  the unit interval.\<close>

record float_ops =
  fl_of_u32 :: "32 word \<Rightarrow> f64"
  fl_of_i64 :: "64 word \<Rightarrow> f64"
  fl_div :: "f64 \<Rightarrow> f64 \<Rightarrow> f64"
  fl_clamp01 :: "f64 \<Rightarrow> f64"

fun progression_to_normalized :: "float_ops \<Rightarrow> progression \<Rightarrow> reading_length \<Rightarrow> f64 option" where
  "progression_to_normalized f (AtPercentage p) l = Some (fl_clamp01 f p)"
| "progression_to_normalized f (AtPage n) (LengthPages c) =
     Some (fl_clamp01 f (fl_div f (fl_of_u32 f n) (fl_of_u32 f c)))"
| "progression_to_normalized f (AtVirtualPage n) (LengthVirtualPages c) =
     Some (fl_clamp01 f (fl_div f (fl_of_u32 f n) (fl_of_u32 f c)))"
| "progression_to_normalized f (AtSeconds n) (LengthSeconds c) =
     Some (fl_clamp01 f (fl_div f (fl_of_i64 f n) (fl_of_i64 f c)))"
| "progression_to_normalized f (AtChapter n) (LengthChapters c) =
     Some (fl_clamp01 f (fl_div f n (fl_of_u32 f c)))"
| "progression_to_normalized f _ _ = None"

section \<open>Listing limits\<close>

datatype work_sort_by = SortCreatedAt | SortTitle | SortUpdatedAt | SortNewestCap

definition effective_limit :: "nat option \<Rightarrow> work_sort_by option \<Rightarrow> nat option" where
  "effective_limit lim sort_by =
     (if lim \<noteq> None then lim else if sort_by = Some SortNewestCap then Some 100 else None)"

end
