(* ===== verification/ValuesCorrect.thy ===== *)
theory ValuesCorrect
  imports Values
begin

text \<open>
  Round trips and characterisations of the value types: which texts parse, and to what.
\<close>

section \<open>URNs and identifiers\<close>

lemma urn_parse_iff: "urn_parse s = Inr u \<longleftrightarrow> s = to_urn_string u \<and> urn_wf u"
proof
  assume "urn_parse s = Inr u"
  then show "s = to_urn_string u \<and> urn_wf u"
    by (auto simp: urn_parse_def starts_with_iff to_urn_string_def urn_wf_def split_once_char_iff
        split: if_splits option.splits)
next
  assume "s = to_urn_string u \<and> urn_wf u"
  then show "urn_parse s = Inr u"
    by (simp add: urn_parse_def starts_with_def to_urn_string_def urn_wf_def split_once_char)
qed

lemma kind_parse_as_str:
  "kind_parse (kind_as_str k) = Some k \<longleftrightarrow>
   (\<forall>c. k = KindCustom c \<longrightarrow> c \<notin> {[], ''isbn'', ''oclc'', ''lccn'', ''doi'', ''http'', ''https'', ''opds''})"
  by (cases k) (auto simp: kind_parse_def)

text \<open>Identifiers round-trip exactly: a text parses to an identifier if and only if it is the URN
  string of it, the scheme is not empty and holds no colon, the value is not empty, and the kind is
  the one of the scheme; so printing a parsed identifier gives the text back, whatever the scheme.\<close>

theorem identifier_parse_exact:
  "identifier_parse s = Inr i \<longleftrightarrow>
     s = as_urn_string i \<and> urn_wf (id_urn i) \<and> kind_parse (urn_type (id_urn i)) = Some (id_kind i)"
proof -
  have "identifier_parse s = Inr i \<longleftrightarrow>
      (\<exists>u k. urn_parse s = Inr u \<and> kind_parse (urn_type u) = Some k \<and> i = \<lparr>id_kind = k, id_urn = u\<rparr>)"
    by (cases "urn_parse s") (auto simp: identifier_parse_def)
  also have "\<dots> \<longleftrightarrow> urn_parse s = Inr (id_urn i) \<and> kind_parse (urn_type (id_urn i)) = Some (id_kind i)"
    by (cases i) auto
  finally show ?thesis by (auto simp: urn_parse_iff as_urn_string_def)
qed

text \<open>The scheme is documented to be lowercase, but it is kept as it was written, and the kinds are
  recognised in lowercase only: an ISBN under the scheme \<open>ISBN\<close> is a custom identifier.\<close>

theorem uppercase_scheme_is_custom:
  "identifier_parse ''urn:ISBN:9780306406157'' =
     Inr \<lparr>id_kind = KindCustom ''ISBN'', id_urn = \<lparr>urn_type = ''ISBN'', urn_value = ''9780306406157''\<rparr>\<rparr>"
  by (simp add: identifier_parse_exact as_urn_string_def to_urn_string_def urn_wf_def kind_parse_def)

section \<open>Publication dates\<close>

lemma parse_year_Inr: "parse_year s = Inr y \<Longrightarrow> 0 \<le> y \<and> y \<le> 9999"
proof -
  assume "parse_year s = Inr y"
  then have "list_all is_ascii_digit s" "length s = 4" "y = int (decimal_value s)"
    by (auto simp: parse_year_def split: if_splits)
  moreover then have "decimal_value s < 10 ^ 4" using decimal_value_less [of s] by simp
  ultimately show ?thesis by simp
qed

lemma parse_month_Inr: "parse_month s = Inr m \<Longrightarrow> 1 \<le> m \<and> m \<le> 12"
  by (auto simp: parse_month_def split: if_splits option.splits)

lemma parse_day_Inr: "parse_day s = Inr d \<Longrightarrow> 1 \<le> d \<and> d \<le> 31"
  by (auto simp: parse_day_def split: if_splits option.splits)

lemma date_parse_wf: "date_parse cal s = Inr d \<Longrightarrow> date_wf cal d"
  by (auto simp: date_parse_def Let_def is_valid_ymd_def split: option.splits if_splits
      dest!: parse_year_Inr parse_month_Inr parse_day_Inr)

lemma padded_dash: "CHR ''-'' \<notin> set (show_padded w n)"
  using show_padded_digits [of w n] by (auto simp: list_all_iff is_ascii_digit_def byte_def)

lemma parse_show_year: "0 \<le> y \<Longrightarrow> y \<le> 9999 \<Longrightarrow> parse_year (show_year y) = Inr y"
  by (simp add: parse_year_def show_year_def show_padded_length show_padded_digits)

lemma padded_nonempty: "0 < w \<Longrightarrow> show_padded w n \<noteq> []"
  by (simp add: show_padded_def)

lemma parse_show_month: "1 \<le> m \<Longrightarrow> m \<le> 12 \<Longrightarrow> parse_month (show_padded 2 m) = Inr m"
  by (simp add: parse_month_def padded_nonempty show_padded_digits parse_unsigned_digits u8_max_def)

lemma parse_show_day: "1 \<le> d \<Longrightarrow> d \<le> 31 \<Longrightarrow> parse_day (show_padded 2 d) = Inr d"
  by (simp add: parse_day_def padded_nonempty show_padded_digits parse_unsigned_digits u8_max_def)

lemma date_display_trim: "date_wf cal d \<Longrightarrow> trim (date_display d) = date_display d"
proof -
  assume wf: "date_wf cal d"
  have "list_all is_graphic (show_padded w n)" for w n
    using show_padded_digits [of w n]
    by (rule list.pred_mono_strong) (auto simp: is_ascii_digit_def is_graphic_def)
  moreover have "is_graphic (CHR ''-'')" by (simp add: is_graphic_def byte_def)
  ultimately show ?thesis using wf by (cases d) (simp_all add: trim_graphic show_year_def)
qed

lemma date_parse_display: "date_wf cal d \<Longrightarrow> date_parse cal (date_display d) = Inr d"
proof -
  assume wf: "date_wf cal d"
  have yd: "CHR ''-'' \<notin> set (show_year y)" if "0 \<le> y" for y
    using that padded_dash by (simp add: show_year_def)
  show ?thesis
    using wf date_display_trim [OF wf]
    by (cases d) (simp_all add: date_parse_def split_once_char split_once_char_None padded_dash yd
        parse_show_year parse_show_month parse_show_day is_valid_ymd_def)
qed

text \<open>C37: the parser and the printer of publication dates agree at all three precisions: printing what
  was parsed and parsing again gives the same date, so the dates that come out of the parser are
  exactly those with a year of four digits, a month of a year and a day the calendar has, and each
  of them survives being stored and read back.\<close>

theorem published_date_roundtrip:
  "(date_parse cal (date_display d) = Inr d \<longleftrightarrow> date_wf cal d)
   \<and> ((\<exists>s. date_parse cal s = Inr d) \<longleftrightarrow> date_wf cal d)"
  using date_parse_wf date_parse_display by blast

text \<open>A date with its day is the only one the storage layer gets a calendar date from: partial dates
  give none, and a date that was parsed with its day always gives one.\<close>

theorem only_full_dates_are_stored:
  assumes "date_parse cal s = Inr d"
  shows "to_time_date cal d \<noteq> None \<longleftrightarrow> date_day d \<noteq> None"
  using date_parse_wf [OF assms] by (cases d) auto

theorem only_full_dates_are_stored_witness:
  "to_time_date (\<lambda>y m d. Some (y, m, d)) (YearMonth 1989 9) = None"
proof -
  have "date_parse (\<lambda>y m d. Some (y, m, d)) (date_display (YearMonth 1989 9)) = Inr (YearMonth 1989 9)"
    by (rule date_parse_display) simp
  from only_full_dates_are_stored [OF this] show ?thesis by simp
qed

section \<open>Reading lengths\<close>

lemma le_bytes_length [simp]: "length (le_bytes n k) = n"
  by (induction n arbitrary: k) simp_all

lemma from_le_bytes: "from_le (le_bytes n k) = k mod 256 ^ n"
proof (induction n arbitrary: k)
  case 0
  then show ?case by simp
next
  case (Suc n)
  have "k mod (256 * 256 ^ n) = k mod 256 + 256 * (k div 256 mod 256 ^ n)"
    by (simp add: mod_mult2_eq)
  with Suc show ?case by simp
qed

lemma from_le_u32: "of_nat (from_le (le_bytes 4 (unat n))) = (n :: 32 word)"
proof -
  have "unat n < 256 ^ 4" using unsigned_less [of n] by simp
  then show ?thesis by (simp add: from_le_bytes)
qed

lemma from_le_i64: "of_nat (from_le (le_bytes 8 (unat n))) = (n :: 64 word)"
proof -
  have "unat n < 256 ^ 8" using unsigned_less [of n] by simp
  then show ?thesis by (simp add: from_le_bytes)
qed

lemma length_decode: "length_from_bytes (length_to_bytes l @ rest) = Some l"
  by (cases l) (simp_all add: length_from_bytes_def from_le_u32 from_le_i64)

text \<open>The stored form is a codec on a byte stream: what follows a value is left alone.\<close>

definition length_read :: "string \<Rightarrow> (reading_length \<times> string, unit) result" where
  "length_read s = (case length_from_bytes s of
     Some l \<Rightarrow> Inr (l, drop (length (length_to_bytes l)) s) | None \<Rightarrow> Inl ())"

interpretation stored_length: stream_codec "\<lambda>l. Inr (length_to_bytes l)" length_read
  by unfold_locales (auto simp: length_read_def length_decode)

lemma from_le_less: "from_le cs < 256 ^ length cs"
proof (induction cs)
  case (Cons c cs)
  have "byte c + 256 * from_le cs < 256 * (from_le cs + 1)" using byte_less [of c] by simp
  also have "\<dots> \<le> 256 * 256 ^ length cs" using Cons by (intro mult_le_mono2) simp
  finally show ?case by simp
qed simp

lemma le_bytes_from_le: "le_bytes (length cs) (from_le cs) = cs"
  using byte_less by (induction cs) simp_all

lemma u32_bytes: "length cs = 4 \<Longrightarrow> le_bytes 4 (unat (of_nat (from_le cs) :: 32 word)) = cs"
  using from_le_less [of cs] le_bytes_from_le [of cs] by (simp add: unat_of_nat)

lemma i64_bytes: "length cs = 8 \<Longrightarrow> le_bytes 8 (unat (of_nat (from_le cs) :: 64 word)) = cs"
  using from_le_less [of cs] le_bytes_from_le [of cs] by (simp add: unat_of_nat)

lemma length_decode_prefix:
  assumes "length_from_bytes s = Some l"
  shows "prefix (length_to_bytes l) s"
proof -
  from assms obtain tag rest where s: "s = tag # rest" by (cases s) (simp_all add: length_from_bytes_def)
  have tag: "of_byte n = tag" if "byte tag = n" for n using that by auto
  have "prefix (take n rest) rest" for n by (rule take_is_prefix)
  with assms s show ?thesis
    by (auto simp: length_from_bytes_def Let_def u32_bytes i64_bytes split: if_splits intro!: tag)
qed

text \<open>The stored form of a reading length decodes exactly: a byte string decodes to a length if and
  only if it begins with that length's encoding. So every value survives the round trip at full
  width, a truncated value never decodes, an unknown tag never decodes, and no byte string decodes
  to two lengths.\<close>

theorem reading_length_decodes_exactly:
  "length_from_bytes s = Some l \<longleftrightarrow> prefix (length_to_bytes l) s"
  using length_decode_prefix length_decode by (auto simp: prefix_def)

end
