(* ===== verification/Placeholder.thy ===== *)
theory Placeholder
  imports RustText
begin

text \<open>
  Placeholders of saved searches (\<open>livtet-types/src/search/placeholder.rs\<close>): the grammar inside
  \<open>$$..$$\<close> and the instants the names stand for. An \<open>OffsetDateTime\<close> is the number of nanoseconds of its
  local clock since 1970, within the range the \<open>time\<close> crate supports; the calendar of that crate is the
  record \<open>calendar\<close>. Arithmetic that leaves the range panics, which is \<open>None\<close>.
\<close>

section \<open>Names\<close>

datatype reserved_placeholder =
    Now | Today | Yesterday | Tomorrow | ThisWeekStart | ThisWeekEnd | LastWeekStart
  | ThisMonthStart | ThisMonthEnd | LastMonthStart | LastMonthEnd | ThisYearStart | LastYearStart
  | FirstDay | LastDay | Begin

fun reserved_token :: "reserved_placeholder \<Rightarrow> string" where
  "reserved_token Now = ''now''"
| "reserved_token Today = ''today''"
| "reserved_token Yesterday = ''yesterday''"
| "reserved_token Tomorrow = ''tomorrow''"
| "reserved_token ThisWeekStart = ''this_week_start''"
| "reserved_token ThisWeekEnd = ''this_week_end''"
| "reserved_token LastWeekStart = ''last_week_start''"
| "reserved_token ThisMonthStart = ''this_month_start''"
| "reserved_token ThisMonthEnd = ''this_month_end''"
| "reserved_token LastMonthStart = ''last_month_start''"
| "reserved_token LastMonthEnd = ''last_month_end''"
| "reserved_token ThisYearStart = ''this_year_start''"
| "reserved_token LastYearStart = ''last_year_start''"
| "reserved_token FirstDay = ''first_day''"
| "reserved_token LastDay = ''last_day''"
| "reserved_token Begin = ''begin''"

definition all_reserved :: "reserved_placeholder list" where
  "all_reserved = [Now, Today, Yesterday, Tomorrow, ThisWeekStart, ThisWeekEnd, LastWeekStart,
     ThisMonthStart, ThisMonthEnd, LastMonthStart, LastMonthEnd, ThisYearStart, LastYearStart,
     FirstDay, LastDay, Begin]"

text \<open>\<open>EnumString::from_str\<close>: the variant with this token.\<close>

definition reserved_from_str :: "string \<Rightarrow> reserved_placeholder option" where
  "reserved_from_str s = find (\<lambda>r. reserved_token r = s) all_reserved"

datatype date_unit = UnitYear | UnitMonth | UnitWeek | UnitDay | UnitHour | UnitMinute

fun unit_token :: "date_unit \<Rightarrow> string" where
  "unit_token UnitYear = ''year''"
| "unit_token UnitMonth = ''month''"
| "unit_token UnitWeek = ''week''"
| "unit_token UnitDay = ''day''"
| "unit_token UnitHour = ''hour''"
| "unit_token UnitMinute = ''minute''"

definition all_units :: "date_unit list" where
  "all_units = [UnitYear, UnitMonth, UnitWeek, UnitDay, UnitHour, UnitMinute]"

definition unit_from_str :: "string \<Rightarrow> date_unit option" where
  "unit_from_str s = find (\<lambda>u. unit_token u = s) all_units"

datatype date_offset_sign = Plus | Minus

fun sign_token :: "date_offset_sign \<Rightarrow> string" where
  "sign_token Plus = ''+''"
| "sign_token Minus = ''-''"

datatype placeholder_parse_error =
    PlaceholderEmpty
  | MissingDelimiters
  | UnknownReserved string
  | UnknownDateUnit string
  | UnknownOffsetSign string
  | MissingOffsetAmount
  | InvalidOffsetAmount string
  | ZeroOffset
  | WhitespaceInName

definition sign_from_token :: "string \<Rightarrow> (date_offset_sign, placeholder_parse_error) result" where
  "sign_from_token ch =
     (if ch = ''+'' then Inr Plus else if ch = ''-'' then Inr Minus else Inl (UnknownOffsetSign ch))"

datatype placeholder_name =
    Reserved reserved_placeholder
  | DateOffset date_unit date_offset_sign nat
  | User string

fun render_token :: "placeholder_name \<Rightarrow> string" where
  "render_token (Reserved r) = reserved_token r"
| "render_token (DateOffset u s n) = unit_token u @ '':'' @ sign_token s @ show_nat n"
| "render_token (User s) = s"

text \<open>The part after the colon of an offset: a sign and an amount.\<close>

definition parse_offset :: "date_unit \<Rightarrow> string \<Rightarrow> (placeholder_name, placeholder_parse_error) result" where
  "parse_offset u amount_part =
     (if amount_part = [] then Inl MissingOffsetAmount
      else let ch = hd (chars amount_part) in
        result_bind (sign_from_token ch) (\<lambda>sign.
          let rest = drop (length ch) amount_part in
          result_bind (ok_or (InvalidOffsetAmount rest) (parse_unsigned u32_max rest)) (\<lambda>amount.
            if amount = 0 then Inl ZeroOffset else Inr (DateOffset u sign amount))))"

definition name_from_str :: "string \<Rightarrow> (placeholder_name, placeholder_parse_error) result" where
  "name_from_str s0 =
     (let s = trim s0;
          user = (if CHR '' '' \<in> set s \<or> CHR 0x0A \<in> set s \<or> CHR 0x09 \<in> set s
                  then Inl WhitespaceInName else Inr (User s))
      in if s = [] then Inl PlaceholderEmpty
         else case reserved_from_str s of
           Some r \<Rightarrow> Inr (Reserved r)
         | None \<Rightarrow>
            (case split_once '':'' s of
               Some (unit_part, amount_part) \<Rightarrow>
                 (case unit_from_str unit_part of
                    Some u \<Rightarrow> parse_offset u amount_part
                  | None \<Rightarrow> user)
             | None \<Rightarrow> user))"

definition parse_placeholder :: "string \<Rightarrow> (placeholder_name, placeholder_parse_error) result" where
  "parse_placeholder s =
     (let t = trim s in
      if starts_with ''$$'' t \<and> starts_with ''$$'' (rev (drop 2 t))
      then name_from_str (take (length t - 4) (drop 2 t))
      else Inl MissingDelimiters)"

section \<open>Instants\<close>

definition NANOS :: int where "NANOS = 1000000000"
definition DAY :: int where "DAY = 86400 * NANOS"

text \<open>\<open>cal_ymd\<close> is the year, month and day of a day number, \<open>cal_day\<close> is \<open>Date::from_calendar_date\<close>, and
  the bounds are those of \<open>OffsetDateTime\<close>.\<close>

record calendar =
  cal_ymd :: "int \<Rightarrow> int \<times> nat \<times> nat"
  cal_day :: "int \<Rightarrow> nat \<Rightarrow> nat \<Rightarrow> int option"
  cal_min :: int
  cal_max :: int

definition day_of :: "int \<Rightarrow> int" where "day_of t = t div DAY"
definition time_of_day :: "int \<Rightarrow> int" where "time_of_day t = t mod DAY"

text \<open>\<open>t + d\<close> with a \<open>Duration\<close>: out of range it panics.\<close>

definition shift :: "calendar \<Rightarrow> int \<Rightarrow> int \<Rightarrow> int option" where
  "shift c t d = (if cal_min c \<le> t + d \<and> t + d \<le> cal_max c then Some (t + d) else None)"

definition start_of_day :: "int \<Rightarrow> int" where
  "start_of_day now = day_of now * DAY"

definition end_of_day :: "calendar \<Rightarrow> int \<Rightarrow> int option" where
  "end_of_day c now = Option.bind (shift c (start_of_day now) DAY) (\<lambda>t. shift c t (- 1))"

text \<open>1 January 1970 was a Thursday; Monday is 0.\<close>

definition weekday :: "int \<Rightarrow> int" where
  "weekday t = (day_of t + 3) mod 7"

fun week_walk :: "calendar \<Rightarrow> nat \<Rightarrow> int \<Rightarrow> int option" where
  "week_walk c 0 cursor = Some cursor"
| "week_walk c (Suc n) cursor =
     (if weekday cursor = 0 then Some cursor
      else Option.bind (shift c cursor (- DAY)) (week_walk c n))"

definition start_of_week :: "calendar \<Rightarrow> int \<Rightarrow> int option" where
  "start_of_week c now = week_walk c 7 (start_of_day now)"

definition end_of_week :: "calendar \<Rightarrow> int \<Rightarrow> int option" where
  "end_of_week c now =
     Option.bind (start_of_week c now) (\<lambda>t. Option.bind (shift c t (7 * DAY)) (\<lambda>u. shift c u (- 1)))"

text \<open>\<open>replace_year\<close>, \<open>replace_month\<close>, \<open>replace_day\<close>: the time of day stays; \<open>None\<close> is the error.\<close>

definition replace_ymd :: "calendar \<Rightarrow> int \<Rightarrow> int \<Rightarrow> nat \<Rightarrow> nat \<Rightarrow> int option" where
  "replace_ymd c t y m d = map_option (\<lambda>day. day * DAY + time_of_day t) (cal_day c y m d)"

definition replace_year :: "calendar \<Rightarrow> int \<Rightarrow> int \<Rightarrow> int option" where
  "replace_year c y t = (case cal_ymd c (day_of t) of (_, m, d) \<Rightarrow> replace_ymd c t y m d)"

definition replace_month :: "calendar \<Rightarrow> nat \<Rightarrow> int \<Rightarrow> int option" where
  "replace_month c m t = (case cal_ymd c (day_of t) of (y, _, d) \<Rightarrow> replace_ymd c t y m d)"

definition replace_day :: "calendar \<Rightarrow> nat \<Rightarrow> int \<Rightarrow> int option" where
  "replace_day c d t = (case cal_ymd c (day_of t) of (y, m, _) \<Rightarrow> replace_ymd c t y m d)"

definition unwrap_or :: "int \<Rightarrow> int option \<Rightarrow> int" where
  "unwrap_or t x = (case x of Some v \<Rightarrow> v | None \<Rightarrow> t)"

definition start_of_month :: "calendar \<Rightarrow> int \<Rightarrow> int" where
  "start_of_month c now = start_of_day (unwrap_or now (replace_day c 1 now))"

definition advance_month :: "calendar \<Rightarrow> int \<Rightarrow> int" where
  "advance_month c now =
     (case cal_ymd c (day_of now) of (year, month, _) \<Rightarrow>
      let (new_year, new_month) = (if month = 12 then (year + 1, 1) else (year, month + 1));
          candidate = unwrap_or now (Option.bind (replace_year c new_year now) (\<lambda>d.
            Option.bind (replace_month c new_month d) (replace_day c 1)))
      in start_of_day candidate)"

definition end_of_month :: "calendar \<Rightarrow> int \<Rightarrow> int option" where
  "end_of_month c now = shift c (advance_month c now) (- 1)"

definition start_of_year :: "calendar \<Rightarrow> int \<Rightarrow> int" where
  "start_of_year c now =
     start_of_day (let t = unwrap_or now (replace_month c 1 now) in unwrap_or now (replace_day c 1 t))"

fun render_reserved :: "calendar \<Rightarrow> reserved_placeholder \<Rightarrow> int \<Rightarrow> int option" where
  "render_reserved c Now now = Some now"
| "render_reserved c Today now = Some (start_of_day now)"
| "render_reserved c Yesterday now = shift c (start_of_day now) (- DAY)"
| "render_reserved c Tomorrow now = shift c (start_of_day now) DAY"
| "render_reserved c ThisWeekStart now = start_of_week c now"
| "render_reserved c ThisWeekEnd now = end_of_week c now"
| "render_reserved c LastWeekStart now = Option.bind (start_of_week c now) (\<lambda>t. shift c t (- 7 * DAY))"
| "render_reserved c ThisMonthStart now = Some (start_of_month c now)"
| "render_reserved c ThisMonthEnd now = end_of_month c now"
| "render_reserved c LastMonthStart now = shift c (start_of_month c now) (- DAY)"
| "render_reserved c LastMonthEnd now = Option.bind (end_of_month c now) (\<lambda>t. shift c t (- DAY))"
| "render_reserved c ThisYearStart now = Some (start_of_year c now)"
| "render_reserved c LastYearStart now = shift c (start_of_year c now) (- DAY)"
| "render_reserved c FirstDay now = Some (start_of_day now)"
| "render_reserved c LastDay now = end_of_day c now"
| "render_reserved c Begin now = Some 0"

fun offset_nanos :: "date_unit \<Rightarrow> nat \<Rightarrow> int" where
  "offset_nanos UnitMinute n = int n * 60 * NANOS"
| "offset_nanos UnitHour n = int n * 3600 * NANOS"
| "offset_nanos UnitDay n = int n * DAY"
| "offset_nanos UnitWeek n = int n * 7 * DAY"
| "offset_nanos UnitMonth n = int n * 30 * DAY"
| "offset_nanos UnitYear n = int n * 365 * DAY"

definition render_offset_step :: "calendar \<Rightarrow> date_unit \<Rightarrow> nat \<Rightarrow> int \<Rightarrow> int option" where
  "render_offset_step c u n now = shift c (start_of_day now) (- offset_nanos u n)"

fun render :: "calendar \<Rightarrow> placeholder_name \<Rightarrow> int \<Rightarrow> int option" where
  "render c (Reserved r) now = render_reserved c r now"
| "render c (DateOffset u s n) now =
     (case s of Plus \<Rightarrow> render_offset_step c u n now | Minus \<Rightarrow> render_offset_step c u n now)"
| "render c (User s) now = Some now"

end
