(* ===== verification/SearchDsl.thy ===== *)
theory SearchDsl
  imports Placeholder Isbn Values
begin

text \<open>
  The leaves of a saved search and the query trees they lower to (\<open>livtet-types/src/search\<close>: \<open>dsl.rs\<close>,
  \<open>availability.rs\<close>, \<open>categorization.rs\<close>, \<open>format.rs\<close>, \<open>identifier_search.rs\<close>, \<open>limit.rs\<close>,
  \<open>ordering.rs\<close>, \<open>stale.rs\<close>, \<open>text.rs\<close>). The tree type is that of the crate
  \<open>tantivy_query_grammar\<close>; its boost scores are the type parameter \<open>'f\<close>, and \<open>OtherLeaf\<close> stands for
  the leaves these sources neither build nor look into. The text form of an id is the \<open>ULID\<close> printer of
  \<open>deps\<close>.
\<close>

section \<open>Query trees\<close>

datatype occur = Should | Must | MustNot

datatype delimiter = DoubleQuotes | SingleQuotes | NoDelimiter

record user_input_literal =
  ul_field_name :: "string option"
  ul_phrase :: string
  ul_delimiter :: delimiter
  ul_slop :: nat
  ul_prefix :: bool

datatype user_input_bound = Inclusive string | Exclusive string | Unbounded

datatype user_input_leaf =
    Literal user_input_literal
  | RangeLeaf "string option" user_input_bound user_input_bound
  | SetLeaf "string option" "string list"
  | ExistsLeaf string
  | OtherLeaf string

datatype 'f user_input_ast =
    Clause "(occur option \<times> 'f user_input_ast) list"
  | Boost "'f user_input_ast" 'f
  | Leaf user_input_leaf

definition plain_literal :: "string \<Rightarrow> string \<Rightarrow> delimiter \<Rightarrow> 'f user_input_ast" where
  "plain_literal field value d =
     Leaf (Literal \<lparr> ul_field_name = Some field, ul_phrase = value, ul_delimiter = d, ul_slop = 0, ul_prefix = False \<rparr>)"

definition field_term :: "string \<Rightarrow> string \<Rightarrow> 'f user_input_ast" where
  "field_term field value = plain_literal field value NoDelimiter"

definition field_term_exact :: "string \<Rightarrow> string \<Rightarrow> 'f user_input_ast" where
  "field_term_exact field value = plain_literal field value DoubleQuotes"

definition field_term_undelimited :: "string \<Rightarrow> string \<Rightarrow> 'f user_input_ast" where
  "field_term_undelimited field value = field_term field value"

definition field_term_exact_set :: "string \<Rightarrow> string list \<Rightarrow> 'f user_input_ast" where
  "field_term_exact_set field values = Leaf (SetLeaf (Some field) values)"

definition field_exists :: "string \<Rightarrow> 'f user_input_ast" where
  "field_exists field = Leaf (ExistsLeaf field)"

definition range_inclusive :: "string \<Rightarrow> string \<Rightarrow> string \<Rightarrow> 'f user_input_ast" where
  "range_inclusive field lower upper = Leaf (RangeLeaf (Some field) (Inclusive lower) (Inclusive upper))"

definition and_clause :: "'f user_input_ast list \<Rightarrow> 'f user_input_ast" where
  "and_clause children = Clause (map (\<lambda>c. (Some Must, c)) children)"

definition or_clause :: "'f user_input_ast list \<Rightarrow> 'f user_input_ast" where
  "or_clause children = Clause (map (\<lambda>c. (Some Should, c)) children)"

definition must_not_clause :: "'f user_input_ast \<Rightarrow> 'f user_input_ast" where
  "must_not_clause child = Clause [(Some MustNot, child)]"

section \<open>Escaping\<close>

text \<open>All the characters below are ASCII, so a loop over the characters of a text and one over its bytes
  are the same.\<close>

definition is_query_syntax :: "char \<Rightarrow> bool" where
  "is_query_syntax ch \<longleftrightarrow> ch \<in> set ''+-!(){}[]^~*?:/'' \<or> ch = CHR 0x5C \<or> ch = CHR 0x22"

definition is_delimiter_whitespace :: "char \<Rightarrow> bool" where
  "is_delimiter_whitespace ch \<longleftrightarrow> ch \<in> {CHR 0x20, CHR 0x09, CHR 0x0A, CHR 0x0D}"

fun escape_query_text :: "string \<Rightarrow> string" where
  "escape_query_text [] = []"
| "escape_query_text (ch # cs) =
     (if is_query_syntax ch then [CHR 0x5C] else []) @ ch # escape_query_text cs"

fun escape :: "string \<Rightarrow> string" where
  "escape [] = []"
| "escape (ch # cs) =
     (if is_query_syntax ch \<or> is_delimiter_whitespace ch then [CHR 0x5C] else []) @ ch # escape cs"

section \<open>Presence, format, limit, ordering and text filters\<close>

datatype availability_search =
    HasCover bool
  | HasNotes bool
  | HasAttachments bool
  | HasFullText bool
  | HasInventory bool

definition arm :: "string \<Rightarrow> bool \<Rightarrow> 'f user_input_ast" where
  "arm field value = (if value then field_exists field else must_not_clause (field_exists field))"

fun availability_into_ast :: "availability_search \<Rightarrow> 'f user_input_ast" where
  "availability_into_ast (HasCover value) = arm ''cover'' value"
| "availability_into_ast (HasNotes value) = arm ''notes'' value"
| "availability_into_ast (HasAttachments value) = arm ''attachments'' value"
| "availability_into_ast (HasFullText value) = arm ''full_text'' value"
| "availability_into_ast (HasInventory value) = arm ''inventory_rows'' value"

datatype format_search =
    ByFormat string
  | ByLanguage string
  | ByItemType string
  | ByReadStatus string

fun format_into_ast :: "format_search \<Rightarrow> 'f user_input_ast" where
  "format_into_ast (ByFormat label) = field_term ''format'' label"
| "format_into_ast (ByLanguage code) = field_term ''language'' code"
| "format_into_ast (ByItemType kind) = field_term ''item_type'' kind"
| "format_into_ast (ByReadStatus status) = field_term ''read_status'' status"

datatype limit_search =
    ByYear int
  | ByYearRange int int
  | ByDateAdded string string
  | ByRating nat
  | BySeriesIndex nat
  | ByFileSize nat
  | ByPageCount nat

fun limit_into_ast :: "limit_search \<Rightarrow> 'f user_input_ast" where
  "limit_into_ast (ByYear year) = field_term ''published_year'' (show_int year)"
| "limit_into_ast (ByYearRange lower upper) = range_inclusive ''published_year'' (show_int lower) (show_int upper)"
| "limit_into_ast (ByDateAdded from_date to_date) = range_inclusive ''created_at'' from_date to_date"
| "limit_into_ast (ByRating value) = field_term ''rating'' (show_nat value)"
| "limit_into_ast (BySeriesIndex index) = field_term ''series_index'' (show_nat index)"
| "limit_into_ast (ByFileSize bytes) = field_term ''file_size'' (show_nat bytes)"
| "limit_into_ast (ByPageCount pages) = field_term ''page_count'' (show_nat pages)"

datatype ordering_search =
    MostRecentlyAdded
  | MostRecentlyUpdated
  | RecentlyRead
  | RecentlyImported
  | NeverRead

fun ordering_as_str :: "ordering_search \<Rightarrow> string" where
  "ordering_as_str MostRecentlyAdded = ''most_recently_added''"
| "ordering_as_str MostRecentlyUpdated = ''most_recently_updated''"
| "ordering_as_str RecentlyRead = ''recently_read''"
| "ordering_as_str RecentlyImported = ''recently_imported''"
| "ordering_as_str NeverRead = ''never_read''"

fun ordering_marker :: "ordering_search \<Rightarrow> string" where
  "ordering_marker MostRecentlyAdded = ''ordering:most_recently_added''"
| "ordering_marker MostRecentlyUpdated = ''ordering:most_recently_updated''"
| "ordering_marker RecentlyRead = ''ordering:recently_read''"
| "ordering_marker RecentlyImported = ''ordering:recently_imported''"
| "ordering_marker NeverRead = ''ordering:never_read''"

definition ordering_into_ast :: "ordering_search \<Rightarrow> 'f user_input_ast" where
  "ordering_into_ast x = plain_literal ''ordering'' (ordering_marker x) NoDelimiter"

datatype text_search =
    ByTitle string
  | ByDescription string
  | ByNotes string
  | FullText string

fun text_into_ast :: "text_search \<Rightarrow> 'f user_input_ast" where
  "text_into_ast (ByTitle phrase) = field_term_exact ''title'' phrase"
| "text_into_ast (ByDescription phrase) = field_term_exact ''edition_description'' phrase"
| "text_into_ast (ByNotes phrase) = field_term_exact ''notes'' phrase"
| "text_into_ast (FullText phrase) = field_term_exact ''body'' phrase"

section \<open>Categories and references\<close>

datatype resource_kind = Author | Genre | Subject | Series | Publisher | Tag

definition all_resource_kinds :: "resource_kind list" where
  "all_resource_kinds = [Author, Genre, Subject, Series, Publisher, Tag]"

fun resource_display :: "resource_kind \<Rightarrow> string" where
  "resource_display Author = ''author''"
| "resource_display Genre = ''genre''"
| "resource_display Subject = ''subject''"
| "resource_display Series = ''series''"
| "resource_display Publisher = ''publisher''"
| "resource_display Tag = ''tag''"

definition resource_from_str :: "string \<Rightarrow> resource_kind option" where
  "resource_from_str s =
     (if s = ''author'' then Some Author else if s = ''genre'' then Some Genre
      else if s = ''subject'' then Some Subject else if s = ''series'' then Some Series
      else if s = ''publisher'' then Some Publisher else if s = ''tag'' then Some Tag else None)"

datatype categorization_search =
    ByAuthor db_id
  | ByGenre db_id
  | BySubject db_id
  | BySeries db_id
  | ByPublisher db_id
  | ByTag db_id
  | InCollection db_id

type_synonym name_map = "resource_kind \<times> db_id \<rightharpoonup> string"

definition hybrid :: "deps \<Rightarrow> resource_kind \<Rightarrow> db_id \<Rightarrow> name_map \<Rightarrow> string \<Rightarrow> string \<Rightarrow> 'f user_input_ast" where
  "hybrid d kind i names id_field text_field =
     (let id_arm = field_term_exact id_field (db_id_display d i) in
      case names (kind, i) of
        None \<Rightarrow> id_arm
      | Some name \<Rightarrow> or_clause [id_arm, field_term_undelimited text_field name])"

fun categorization_into_ast :: "deps \<Rightarrow> name_map \<Rightarrow> categorization_search \<Rightarrow> 'f user_input_ast" where
  "categorization_into_ast d names (ByAuthor i) = hybrid d Author i names ''author_id'' ''authors''"
| "categorization_into_ast d names (ByGenre i) = hybrid d Genre i names ''genre_id'' ''genres''"
| "categorization_into_ast d names (BySubject i) = hybrid d Subject i names ''subject_id'' ''subjects''"
| "categorization_into_ast d names (BySeries i) = hybrid d Series i names ''series_id'' ''series''"
| "categorization_into_ast d names (ByPublisher i) = hybrid d Publisher i names ''publisher_id'' ''publishers''"
| "categorization_into_ast d names (ByTag i) = hybrid d Tag i names ''tag_id'' ''tags''"
| "categorization_into_ast d names (InCollection i) = field_term_exact ''collection_id'' (db_id_display d i)"

fun categorization_ids :: "categorization_search \<Rightarrow> (resource_kind \<times> db_id) list" where
  "categorization_ids (ByAuthor i) = [(Author, i)]"
| "categorization_ids (ByGenre i) = [(Genre, i)]"
| "categorization_ids (BySubject i) = [(Subject, i)]"
| "categorization_ids (BySeries i) = [(Series, i)]"
| "categorization_ids (ByPublisher i) = [(Publisher, i)]"
| "categorization_ids (ByTag i) = [(Tag, i)]"
| "categorization_ids (InCollection i) = []"

section \<open>Identifiers\<close>

text \<open>The macro \<open>identifier_search_enum!\<close> makes the variants \<open>By<Kind>\<close> and \<open>Has<Kind>\<close> for each row of
  its list; here the row is an argument of the two flavours.\<close>

datatype identifier_row = IsbnRow | OclcRow | LccnRow | DoiRow | WebRow | OpdsRow | CustomRow

datatype identifier_search = ByIdentifier identifier_row string | HasIdentifier identifier_row bool

fun identifier_row_name :: "identifier_row \<Rightarrow> string" where
  "identifier_row_name IsbnRow = ''Isbn''"
| "identifier_row_name OclcRow = ''Oclc''"
| "identifier_row_name LccnRow = ''Lccn''"
| "identifier_row_name DoiRow = ''Doi''"
| "identifier_row_name WebRow = ''Web''"
| "identifier_row_name OpdsRow = ''Opds''"
| "identifier_row_name CustomRow = ''Custom''"

fun identifier_row_prefix :: "identifier_row \<Rightarrow> string" where
  "identifier_row_prefix IsbnRow = ''isbn''"
| "identifier_row_prefix OclcRow = ''oclc''"
| "identifier_row_prefix LccnRow = ''lccn''"
| "identifier_row_prefix DoiRow = ''doi''"
| "identifier_row_prefix WebRow = ''web''"
| "identifier_row_prefix OpdsRow = ''opds''"
| "identifier_row_prefix CustomRow = ''custom''"

fun identifier_search_row :: "identifier_search \<Rightarrow> identifier_row" where
  "identifier_search_row (ByIdentifier r s) = r"
| "identifier_search_row (HasIdentifier r b) = r"

definition identifier_search_kind :: "identifier_search \<Rightarrow> identifier_kind" where
  "identifier_search_kind x =
     (let name = identifier_row_name (identifier_search_row x) in
      if name = ''Isbn'' then KindIsbn else if name = ''Oclc'' then KindOclc
      else if name = ''Lccn'' then KindLccn else if name = ''Doi'' then KindDoi
      else if name = ''Web'' then KindWeb else if name = ''Opds'' then KindOpds
      else KindCustom name)"

definition identifier_dsl_prefix :: "identifier_search \<Rightarrow> string" where
  "identifier_dsl_prefix x = identifier_row_prefix (identifier_search_row x)"

definition identifier_into_ast :: "identifier_search \<Rightarrow> 'f user_input_ast" where
  "identifier_into_ast x =
     (let pre = identifier_dsl_prefix x;
          field = ''identifier_values:'' @ pre
      in case x of
           ByIdentifier r needle \<Rightarrow>
             (let value = (if pre = ''isbn''
                           then (case Isbn.parse needle of Inr i \<Rightarrow> Isbn.as_str i | Inl e \<Rightarrow> needle)
                           else needle)
              in plain_literal field value NoDelimiter)
         | HasIdentifier r True \<Rightarrow> field_exists field
         | HasIdentifier r False \<Rightarrow> must_not_clause (field_exists field))"

end
