(* ===== verification/SavedSearch.thy ===== *)
theory SavedSearch
  imports SearchDsl
begin

text \<open>
  Saved searches (\<open>livtet-types/src/search/saved_search.rs\<close>) and their composition into one query tree
  (\<open>composition.rs\<close>). The environment of a rendering holds what the sources call outside this
  repository: the lenient query parser with the texts of its errors, the calendar and the RFC 3339 printer of
  the \<open>time\<close> crate, the wall clock (\<open>se_clock n\<close> is its \<open>n\<close>-th reading; the readings are threaded
  through the substitution), and the order in which a \<open>HashMap\<close> yields its keys. A panic of the calendar
  arithmetic is \<open>None\<close>.
\<close>

section \<open>Definitions of searches\<close>

datatype saved_search_kind =
    SAnd "saved_search_kind list"
  | SOr "saved_search_kind list"
  | SNot saved_search_kind
  | SCategorization categorization_search
  | SLimit limit_search
  | SFormat format_search
  | SIdentifier identifier_search
  | SAvailability availability_search
  | SOrdering ordering_search
  | SText text_search
  | UserDefined string

record invalid_dsl_error =
  ide_message :: string
  ide_position :: nat

definition MAX_DSL_LEN :: nat where "MAX_DSL_LEN = 8192"
definition MAX_DSL_DEPTH :: nat where "MAX_DSL_DEPTH = 64"

fun bracket_scan :: "string \<Rightarrow> nat \<Rightarrow> nat \<Rightarrow> nat" where
  "bracket_scan [] depth max_depth = max_depth"
| "bracket_scan (b # bs) depth max_depth =
     (if b \<in> set ''([{'' then bracket_scan bs (depth + 1) (max max_depth (depth + 1))
      else if b \<in> set '')]}'' then bracket_scan bs (depth - 1) max_depth
      else bracket_scan bs depth max_depth)"

type_synonym 'f query_parser = "string \<Rightarrow> 'f user_input_ast \<times> string list"

definition parse_user_dsl :: "'f query_parser \<Rightarrow> string \<Rightarrow> ('f user_input_ast, invalid_dsl_error) result" where
  "parse_user_dsl lenient query_dsl =
     (if length query_dsl > MAX_DSL_LEN
      then Inl \<lparr> ide_message = ''query is too long ('' @ show_nat (length query_dsl) @ '' bytes; limit ''
                               @ show_nat MAX_DSL_LEN @ '')'', ide_position = 0 \<rparr>
      else let max_depth = bracket_scan query_dsl 0 0 in
        if max_depth > MAX_DSL_DEPTH
        then Inl \<lparr> ide_message = ''query nesting is too deep ('' @ show_nat max_depth @ ''; limit ''
                                 @ show_nat MAX_DSL_DEPTH @ '')'', ide_position = 0 \<rparr>
        else case lenient query_dsl of
          (ast, []) \<Rightarrow> Inr ast
        | (ast, err # errs) \<Rightarrow> Inl \<lparr> ide_message = err, ide_position = 0 \<rparr>)"

text \<open>\<open>into_ast_with_names\<close> and the loops over the children of \<open>And\<close> and \<open>Or\<close>, which stop at the first
  error.\<close>

fun into_ast_with_names :: "deps \<Rightarrow> 'f query_parser \<Rightarrow> name_map \<Rightarrow> saved_search_kind
      \<Rightarrow> ('f user_input_ast, invalid_dsl_error) result"
and children_into_ast :: "deps \<Rightarrow> 'f query_parser \<Rightarrow> name_map \<Rightarrow> saved_search_kind list
      \<Rightarrow> ('f user_input_ast list, invalid_dsl_error) result" where
  "into_ast_with_names d p names (SAnd ks) =
     result_bind (children_into_ast d p names ks) (\<lambda>children.
       if children = [] then Inr (field_exists ''_all'') else Inr (and_clause children))"
| "into_ast_with_names d p names (SOr ks) =
     result_bind (children_into_ast d p names ks) (\<lambda>children.
       if children = [] then Inr (field_exists ''_all'') else Inr (or_clause children))"
| "into_ast_with_names d p names (SNot ks) =
     result_bind (into_ast_with_names d p names ks) (\<lambda>inner. Inr (must_not_clause inner))"
| "into_ast_with_names d p names (SCategorization c) = Inr (categorization_into_ast d names c)"
| "into_ast_with_names d p names (SLimit l) = Inr (limit_into_ast l)"
| "into_ast_with_names d p names (SFormat f) = Inr (format_into_ast f)"
| "into_ast_with_names d p names (SIdentifier i) = Inr (identifier_into_ast i)"
| "into_ast_with_names d p names (SAvailability a) = Inr (availability_into_ast a)"
| "into_ast_with_names d p names (SOrdering x) = Inr (ordering_into_ast x)"
| "into_ast_with_names d p names (SText t) = Inr (text_into_ast t)"
| "into_ast_with_names d p names (UserDefined query_dsl) = parse_user_dsl p query_dsl"
| "children_into_ast d p names [] = Inr []"
| "children_into_ast d p names (c # cs) =
     result_bind (into_ast_with_names d p names c) (\<lambda>a.
       result_bind (children_into_ast d p names cs) (\<lambda>as. Inr (a # as)))"

fun collect_refs :: "saved_search_kind \<Rightarrow> (resource_kind \<times> db_id) list \<Rightarrow> (resource_kind \<times> db_id) list" where
  "collect_refs (SAnd ks) out = fold collect_refs ks out"
| "collect_refs (SOr ks) out = fold collect_refs ks out"
| "collect_refs (SNot ks) out = collect_refs ks out"
| "collect_refs (SCategorization c) out = out @ categorization_ids c"
| "collect_refs _ out = out"

definition referenced_ids :: "saved_search_kind \<Rightarrow> (resource_kind \<times> db_id) list" where
  "referenced_ids node = collect_refs node []"

fun contains_user_defined :: "saved_search_kind \<Rightarrow> bool" where
  "contains_user_defined (UserDefined q) = True"
| "contains_user_defined (SAnd ks) = list_ex contains_user_defined ks"
| "contains_user_defined (SOr ks) = list_ex contains_user_defined ks"
| "contains_user_defined (SNot ks) = contains_user_defined ks"
| "contains_user_defined _ = False"

section \<open>Compositions\<close>

record composition_bindings =
  cb_user :: "string \<rightharpoonup> string"

definition with_user :: "composition_bindings \<Rightarrow> string \<Rightarrow> string \<Rightarrow> composition_bindings" where
  "with_user b key value = b\<lparr>cb_user := (cb_user b)(key \<mapsto> value)\<rparr>"

record composition_options =
  co_max_depth :: nat
  co_allow_user_defined :: bool

definition default_options :: composition_options where
  "default_options = \<lparr> co_max_depth = 4, co_allow_user_defined = True \<rparr>"

record saved_search =
  ss_id :: db_id
  ss_definition :: saved_search_kind

record saved_searches =
  ss_children :: "saved_search list"
  ss_options :: composition_options

text \<open>The texts the error variants carry are kept as the values they print.\<close>

datatype composition_error =
    StaleReferences "(resource_kind \<times> db_id) list"
  | UnboundPlaceholders string
  | InvalidPlaceholderSyntax placeholder_parse_error
  | RecursionLimitExceeded nat
  | InvalidUserDsl string nat
  | CompositionDb string
  | UserDefinedDisabled

definition map_invalid_dsl :: "invalid_dsl_error \<Rightarrow> composition_error" where
  "map_invalid_dsl err = InvalidUserDsl (ide_message err) (ide_position err)"

text \<open>The trait \<open>ResourceLookup\<close>.\<close>

record resource_lookup =
  rl_exists :: "resource_kind \<Rightarrow> db_id \<Rightarrow> (bool, string) result"
  rl_names :: "resource_kind \<Rightarrow> db_id list \<Rightarrow> (db_id \<rightharpoonup> string, string) result"

record 'f search_env =
  se_deps :: deps
  se_lenient :: "'f query_parser"
  se_calendar :: calendar
  se_rfc3339 :: "int \<Rightarrow> string option"
  se_clock :: "nat \<Rightarrow> int"
  se_order :: "resource_kind list \<Rightarrow> resource_kind list"

section \<open>Placeholders in a tree\<close>

definition unix_timestamp :: "int \<Rightarrow> int" where
  "unix_timestamp now = now div NANOS"

text \<open>\<open>resolve_token\<close>: the substituted text and the number of clock readings made so far. A reserved name
  reads the clock once, also for the fallback; an offset reads it again for the fallback. Every success
  reports a change.\<close>

definition resolve_token :: "'f search_env \<Rightarrow> composition_bindings \<Rightarrow> nat \<Rightarrow> string
      \<Rightarrow> ((string, composition_error) result \<times> nat) option" where
  "resolve_token e bindings n token =
     (case parse_placeholder (''$$'' @ token @ ''$$'') of
        Inl err \<Rightarrow> Some (Inl (InvalidPlaceholderSyntax err), n)
      | Inr (Reserved r) \<Rightarrow>
          map_option (\<lambda>t. (Inr (case se_rfc3339 e t of Some s \<Rightarrow> s
                                 | None \<Rightarrow> show_int (unix_timestamp (se_clock e n))), Suc n))
            (Placeholder.render (se_calendar e) (Reserved r) (se_clock e n))
      | Inr (DateOffset u sign amount) \<Rightarrow>
          map_option (\<lambda>t. (case se_rfc3339 e t of Some s \<Rightarrow> (Inr s, Suc n)
                            | None \<Rightarrow> (Inr (show_int (unix_timestamp (se_clock e (Suc n)))), Suc (Suc n))))
            (Placeholder.render (se_calendar e) (DateOffset u sign amount) (se_clock e n))
      | Inr (User name) \<Rightarrow>
          Some (ok_or (UnboundPlaceholders name) (cb_user bindings name), n))"

definition fail :: "'f user_input_ast" where
  "fail = plain_literal ''_error'' ''_ERR_'' DoubleQuotes"

text \<open>The loop of \<open>substitute_in_phrase\<close>: the text so far, whether something changed, what is left. It ends
  with an unchanged leaf (\<open>Unchanged\<close>, the source's \<open>None\<close>), a new phrase, or the error leaf.\<close>

datatype phrase_result = Unchanged | Replaced string | Failed composition_error

function phrase_loop :: "'f search_env \<Rightarrow> composition_bindings \<Rightarrow> nat \<Rightarrow> string \<Rightarrow> bool \<Rightarrow> string
      \<Rightarrow> (phrase_result \<times> nat) option" where
  "phrase_loop e bindings n out changed rest =
     (case split_once ''$$'' rest of
        None \<Rightarrow> Some (if changed then Replaced (out @ rest) else Unchanged, n)
      | Some (before, after_open) \<Rightarrow>
          (case split_once ''$$'' after_open of
             None \<Rightarrow> Some (Unchanged, n)
           | Some (token, after_close) \<Rightarrow>
               (case resolve_token e bindings n token of
                  None \<Rightarrow> None
                | Some (Inl err, n') \<Rightarrow> Some (Failed err, n')
                | Some (Inr text, n') \<Rightarrow> phrase_loop e bindings n' (out @ before @ text) True after_close)))"
  by pat_completeness auto
termination
  by (relation "measure (\<lambda>(e, b, n, out, ch, rest). length rest)") (auto dest!: split_once_Some)

declare phrase_loop.simps [simp del]

definition substitute_in_phrase :: "'f search_env \<Rightarrow> composition_bindings \<Rightarrow> nat \<Rightarrow> user_input_literal
      \<Rightarrow> ('f user_input_ast option \<times> nat) option" where
  "substitute_in_phrase e bindings n lit =
     map_option (\<lambda>(r, n'). (case r of
         Unchanged \<Rightarrow> None
       | Replaced out \<Rightarrow> Some (Leaf (Literal (lit\<lparr>ul_phrase := out\<rparr>)))
       | Failed err \<Rightarrow> Some fail, n'))
       (phrase_loop e bindings n [] False (ul_phrase lit))"

fun substitute_placeholders :: "'f search_env \<Rightarrow> composition_bindings \<Rightarrow> nat \<Rightarrow> 'f user_input_ast
      \<Rightarrow> ('f user_input_ast \<times> nat) option"
and substitute_children :: "'f search_env \<Rightarrow> composition_bindings \<Rightarrow> nat \<Rightarrow> (occur option \<times> 'f user_input_ast) list
      \<Rightarrow> ((occur option \<times> 'f user_input_ast) list \<times> nat) option" where
  "substitute_placeholders e b n (Clause children) =
     map_option (\<lambda>(cs, n'). (Clause cs, n')) (substitute_children e b n children)"
| "substitute_placeholders e b n (Boost inner score) =
     map_option (\<lambda>(a, n'). (Boost a score, n')) (substitute_placeholders e b n inner)"
| "substitute_placeholders e b n (Leaf (Literal lit)) =
     map_option (\<lambda>(r, n'). (case r of Some replaced \<Rightarrow> replaced | None \<Rightarrow> Leaf (Literal lit), n'))
       (substitute_in_phrase e b n lit)"
| "substitute_placeholders e b n (Leaf (RangeLeaf f lo hi)) = Some (Leaf (RangeLeaf f lo hi), n)"
| "substitute_placeholders e b n (Leaf (SetLeaf f vs)) = Some (Leaf (SetLeaf f vs), n)"
| "substitute_placeholders e b n (Leaf (ExistsLeaf f)) = Some (Leaf (ExistsLeaf f), n)"
| "substitute_placeholders e b n (Leaf (OtherLeaf s)) = Some (Leaf (OtherLeaf s), n)"
| "substitute_children e b n [] = Some ([], n)"
| "substitute_children e b n (oc # cs) =
     (case oc of (occ, c) \<Rightarrow>
       Option.bind (substitute_placeholders e b n c) (\<lambda>(a, n').
         map_option (\<lambda>(as, n''). ((occ, a) # as, n'')) (substitute_children e b n' cs)))"

fun substitute_all :: "'f search_env \<Rightarrow> composition_bindings \<Rightarrow> nat \<Rightarrow> 'f user_input_ast list
      \<Rightarrow> ('f user_input_ast list \<times> nat) option" where
  "substitute_all e b n [] = Some ([], n)"
| "substitute_all e b n (a # as) =
     Option.bind (substitute_placeholders e b n a) (\<lambda>(a', n').
       map_option (\<lambda>(as', n''). (a' # as', n'')) (substitute_all e b n' as))"

text \<open>\<open>max().unwrap_or(0)\<close> over the children.\<close>

fun nesting_depth :: "'f user_input_ast \<Rightarrow> nat" where
  "nesting_depth (Leaf l) = 1"
| "nesting_depth (Boost inner s) = nesting_depth inner"
| "nesting_depth (Clause children) = 1 + foldr max (map (\<lambda>(occ, c). nesting_depth c) children) 0"

definition or_clause_single :: "'f user_input_ast \<Rightarrow> 'f user_input_ast" where
  "or_clause_single a = or_clause [a]"

section \<open>Rendering\<close>

text \<open>Step 1: the ids of every axis, in the order they are met.\<close>

definition group_refs :: "(resource_kind \<times> db_id) list \<Rightarrow> (resource_kind \<rightharpoonup> db_id list)" where
  "group_refs refs =
     fold (\<lambda>(kind, i) m. m(kind \<mapsto> (case m kind of None \<Rightarrow> [] | Some ids \<Rightarrow> ids) @ [i])) refs Map.empty"

definition grouped_kinds :: "'f search_env \<Rightarrow> (resource_kind \<rightharpoonup> db_id list) \<Rightarrow> resource_kind list" where
  "grouped_kinds e grouped = se_order e (filter (\<lambda>k. grouped k \<noteq> None) all_resource_kinds)"

text \<open>Step 2: the stale ids of one axis, and the axes one after the other.\<close>

fun stale_ids :: "resource_lookup \<Rightarrow> resource_kind \<Rightarrow> db_id list \<Rightarrow> (resource_kind \<times> db_id) list
      \<Rightarrow> ((resource_kind \<times> db_id) list, composition_error) result" where
  "stale_ids lookup kind [] stale = Inr stale"
| "stale_ids lookup kind (i # ids) stale =
     (case rl_exists lookup kind i of
        Inr True \<Rightarrow> stale_ids lookup kind ids stale
      | Inr False \<Rightarrow> stale_ids lookup kind ids (stale @ [(kind, i)])
      | Inl err \<Rightarrow> Inl (CompositionDb err))"

definition ids_of :: "(resource_kind \<rightharpoonup> db_id list) \<Rightarrow> resource_kind \<Rightarrow> db_id list" where
  "ids_of grouped kind = (case grouped kind of None \<Rightarrow> [] | Some ids \<Rightarrow> ids)"

fun check_stale :: "resource_lookup \<Rightarrow> (resource_kind \<rightharpoonup> db_id list) \<Rightarrow> resource_kind list
      \<Rightarrow> (unit, composition_error) result" where
  "check_stale lookup grouped [] = Inr ()"
| "check_stale lookup grouped (kind # kinds) =
     result_bind (stale_ids lookup kind (ids_of grouped kind) []) (\<lambda>stale.
       if stale \<noteq> [] then Inl (StaleReferences stale) else check_stale lookup grouped kinds)"

text \<open>Step 3: the names of every axis.\<close>

fun resolve_names :: "resource_lookup \<Rightarrow> (resource_kind \<rightharpoonup> db_id list) \<Rightarrow> resource_kind list \<Rightarrow> name_map
      \<Rightarrow> (name_map, composition_error) result" where
  "resolve_names lookup grouped [] names = Inr names"
| "resolve_names lookup grouped (kind # kinds) names =
     result_bind (map_err CompositionDb (rl_names lookup kind (ids_of grouped kind))) (\<lambda>resolved.
       resolve_names lookup grouped kinds
         (\<lambda>(k, i). if k = kind \<and> resolved i \<noteq> None then resolved i else names (k, i)))"

text \<open>Step 4: the trees of the children.\<close>

fun render_children :: "'f search_env \<Rightarrow> bool \<Rightarrow> name_map \<Rightarrow> saved_search list
      \<Rightarrow> ('f user_input_ast list, composition_error) result" where
  "render_children e allow names [] = Inr []"
| "render_children e allow names (child # cs) =
     result_bind (map_err map_invalid_dsl
         (into_ast_with_names (se_deps e) (se_lenient e) names (ss_definition child))) (\<lambda>a.
       if \<not> allow \<and> contains_user_defined (ss_definition child) then Inl UserDefinedDisabled
       else result_bind (render_children e allow names cs) (\<lambda>as. Inr (a # as)))"

text \<open>Step 6: the depth of every child.\<close>

fun check_depth :: "nat \<Rightarrow> 'f user_input_ast list \<Rightarrow> (unit, composition_error) result" where
  "check_depth max_depth [] = Inr ()"
| "check_depth max_depth (a # as) =
     (if nesting_depth a > max_depth then Inl (RecursionLimitExceeded (nesting_depth a))
      else check_depth max_depth as)"

text \<open>Steps 1 to 4, which only fail with an error.\<close>

definition all_refs :: "saved_searches \<Rightarrow> (resource_kind \<times> db_id) list" where
  "all_refs s = concat (map (\<lambda>c. referenced_ids (ss_definition c)) (ss_children s))"

definition renderings :: "'f search_env \<Rightarrow> saved_searches \<Rightarrow> resource_lookup
      \<Rightarrow> ('f user_input_ast list, composition_error) result" where
  "renderings e s lookup =
     (if co_max_depth (ss_options s) = 0 then Inl (RecursionLimitExceeded 0)
      else let grouped = group_refs (all_refs s); kinds = grouped_kinds e grouped in
        result_bind (check_stale lookup grouped kinds) (\<lambda>_.
          result_bind (resolve_names lookup grouped kinds Map.empty) (\<lambda>names.
            render_children e (co_allow_user_defined (ss_options s)) names (ss_children s))))"

definition render_searches :: "'f search_env \<Rightarrow> saved_searches \<Rightarrow> composition_bindings \<Rightarrow> resource_lookup
      \<Rightarrow> ('f user_input_ast, composition_error) result option" where
  "render_searches e s bindings lookup =
     (case renderings e s lookup of
        Inl err \<Rightarrow> Some (Inl err)
      | Inr asts \<Rightarrow>
          map_option (\<lambda>(substituted, _).
              result_bind (check_depth (co_max_depth (ss_options s)) substituted) (\<lambda>_.
                Inr (and_clause (map or_clause_single substituted))))
            (substitute_all e bindings 0 asts))"

end
