(* ===== verification/PlaceholderCorrect.thy ===== *)
theory PlaceholderCorrect
  imports Placeholder
begin

text \<open>
  What the placeholder grammar accepts, where the week and month anchors lie, and the anchors that do
  not lie where their names say.
\<close>

section \<open>The grammar\<close>

lemma reserved_from_token: "reserved_from_str (reserved_token r) = Some r"
  unfolding reserved_from_str_def by (rule find_distinct) (auto simp: all_reserved_def, cases r, simp_all)

lemma reserved_from_str_Some: "reserved_from_str s = Some r \<Longrightarrow> s = reserved_token r"
  unfolding reserved_from_str_def by (auto dest: find_SomeD)

lemma unit_from_token: "unit_from_str (unit_token u) = Some u"
  unfolding unit_from_str_def by (rule find_distinct) (auto simp: all_units_def, cases u, simp_all)

lemma unit_from_str_Some: "unit_from_str s = Some u \<Longrightarrow> s = unit_token u"
  unfolding unit_from_str_def by (auto dest: find_SomeD)

lemma sign_from_token_Inr: "sign_from_token ch = Inr s \<longleftrightarrow> ch = sign_token s"
  by (cases s) (auto simp: sign_from_token_def)

lemma unit_token_no_colon: "CHR '':'' \<notin> set (unit_token u)"
  by (cases u) simp_all

lemma reserved_graphic: "list_all is_graphic (reserved_token r)"
  by (cases r) (simp_all add: is_graphic_def byte_def)

lemma unit_graphic: "list_all is_graphic (unit_token u)"
  by (cases u) (simp_all add: is_graphic_def byte_def)

lemma sign_graphic: "list_all is_graphic (sign_token s)"
  by (cases s) (simp_all add: is_graphic_def byte_def)

lemma show_nat_graphic: "list_all is_graphic (show_nat n)"
  using show_nat_digits [of n] by (rule list.pred_mono_strong) (auto simp: is_ascii_digit_def is_graphic_def)

lemma no_reserved_colon: "CHR '':'' \<in> set s \<Longrightarrow> reserved_from_str s = None"
proof (rule ccontr)
  assume "CHR '':'' \<in> set s" "reserved_from_str s \<noteq> None"
  moreover then obtain r where "s = reserved_token r" by (auto dest: reserved_from_str_Some)
  ultimately show False by (cases r) simp_all
qed

lemma parse_offset_Inr: "parse_offset u a = Inr n \<Longrightarrow> \<exists>s k. n = DateOffset u s k \<and> 0 < k \<and> k \<le> u32_max"
  by (auto simp: parse_offset_def Let_def parse_unsigned_def split: if_splits)

lemma parse_offset_render:
  assumes "0 < k" "k \<le> u32_max"
  shows "parse_offset u (sign_token s @ show_nat k) = Inr (DateOffset u s k)"
proof -
  have "list_all is_ascii (sign_token s @ show_nat k)"
    using show_nat_digits [of k] by (cases s) (auto simp: list_all_iff is_ascii_def byte_def is_ascii_digit_def)
  from chars_ascii [OF this] have "hd (chars (sign_token s @ show_nat k)) = sign_token s"
    by (cases s) (simp_all del: chars.simps)
  moreover have "parse_unsigned u32_max (show_nat k) = Some k"
    using assms(2) by (simp add: parse_unsigned_digits show_nat_digits)
  ultimately show ?thesis using assms(1)
    by (cases s) (simp_all add: parse_offset_def Let_def sign_from_token_def)
qed

lemma name_from_str_offset:
  assumes "0 < k" "k \<le> u32_max"
  shows "name_from_str (render_token (DateOffset u s k)) = Inr (DateOffset u s k)"
proof -
  let ?t = "unit_token u @ '':'' @ sign_token s @ show_nat k"
  have "list_all is_graphic ?t"
    using unit_graphic sign_graphic show_nat_graphic by (simp add: is_graphic_def byte_def)
  then have "trim ?t = ?t" by (rule trim_graphic)
  moreover have "reserved_from_str ?t = None" by (rule no_reserved_colon) simp
  moreover have "split_once '':'' ?t = Some (unit_token u, sign_token s @ show_nat k)"
    using split_once_char [OF unit_token_no_colon [of u]] by simp
  ultimately show ?thesis
    by (simp add: name_from_str_def Let_def unit_from_token parse_offset_render [OF assms])
qed

text \<open>Placeholders have one spelling: whatever text a name was read from, the token it renders to
  reads back as the same name. Reserved names, offsets and user names never shadow one another, an
  offset of zero is never a name, and no user name holds a space, tab or newline.\<close>

theorem placeholder_token_roundtrip:
  assumes "name_from_str s = Inr n"
  shows "name_from_str (render_token n) = Inr n
    \<and> (\<forall>u g. n \<noteq> DateOffset u g 0) \<and> (\<forall>r. n \<noteq> User (reserved_token r))"
proof (cases n)
  case (Reserved r)
  then have "name_from_str (render_token n) = Inr n"
    using trim_graphic [OF reserved_graphic [of r]] reserved_from_token [of r]
    by (simp add: name_from_str_def Let_def) (cases r; simp)
  with Reserved show ?thesis by simp
next
  case (DateOffset u g k)
  with assms have "0 < k \<and> k \<le> u32_max"
    by (auto simp: name_from_str_def Let_def split: if_splits option.splits dest!: parse_offset_Inr)
  with DateOffset name_from_str_offset [of k u g] show ?thesis by auto
next
  case (User t)
  with assms have t: "t = trim s" "t \<noteq> []" "reserved_from_str t = None"
    "CHR '' '' \<notin> set t" "CHR 0x0A \<notin> set t" "CHR 0x09 \<notin> set t"
    "case split_once '':'' t of Some (a, b) \<Rightarrow> unit_from_str a = None | None \<Rightarrow> True"
    by (auto simp: name_from_str_def Let_def split: if_splits option.splits dest: parse_offset_Inr)
  have "name_from_str t = Inr n"
    using t User by (auto simp: name_from_str_def Let_def split: option.splits)
  moreover have "t \<noteq> reserved_token r" for r using t(3) reserved_from_token [of r] by auto
  ultimately show ?thesis using User by auto
qed

theorem placeholder_token_roundtrip_witness:
  "name_from_str (render_token (DateOffset UnitDay Plus 7)) = Inr (DateOffset UnitDay Plus 7)"
proof -
  have "name_from_str (render_token (DateOffset UnitDay Plus 7)) = Inr (DateOffset UnitDay Plus 7)"
    by (rule name_from_str_offset) (simp_all add: u32_max_def)
  from placeholder_token_roundtrip [OF this] show ?thesis by simp
qed

section \<open>Instants\<close>

lemma DAY_pos [simp]: "0 < DAY" "DAY \<noteq> 0" "0 \<le> DAY"
  by (simp_all add: DAY_def NANOS_def)

lemma day_of_midnight [simp]: "day_of (d * DAY) = d"
  by (simp add: day_of_def)

lemma start_of_day_le: "start_of_day t \<le> t" "t < start_of_day t + DAY"
proof -
  have "t = day_of t * DAY + t mod DAY" by (simp add: day_of_def)
  moreover have "0 \<le> t mod DAY" "t mod DAY < DAY" by simp_all
  ultimately show "start_of_day t \<le> t" "t < start_of_day t + DAY"
    unfolding start_of_day_def by linarith+
qed

text \<open>The walk back to Monday: from midnight of day \<open>d\<close> it goes back as many days as the weekday says.\<close>

lemma week_walk_monday:
  assumes "cal_min c \<le> (d - (d + 3) mod 7) * DAY" "d * DAY \<le> cal_max c" "nat ((d + 3) mod 7) < n"
  shows "week_walk c n (d * DAY) = Some ((d - (d + 3) mod 7) * DAY)"
  using assms
proof (induction n arbitrary: d)
  case 0
  then show ?case by simp
next
  case (Suc n)
  show ?case
  proof (cases "(d + 3) mod 7 = 0")
    case True
    then show ?thesis by (simp add: weekday_def)
  next
    case False
    have m: "(d - 1 + 3) mod 7 = (d + 3) mod 7 - 1" using False by presburger
    have monday: "d - 1 - (d - 1 + 3) mod 7 = d - (d + 3) mod 7" using m by simp
    have "0 < (d + 3) mod 7" using False by (simp add: order_less_le)
    then have "(d - (d + 3) mod 7) * DAY \<le> (d - 1) * DAY" by (intro mult_right_mono) auto
    with Suc.prems(1) have lo: "cal_min c \<le> (d - 1) * DAY" by (rule order_trans)
    have hi: "(d - 1) * DAY \<le> cal_max c"
      using Suc.prems(2) by (smt (verit) DAY_pos(1) mult_strict_right_mono)
    have "week_walk c n ((d - 1) * DAY) = Some ((d - (d + 3) mod 7) * DAY)"
      using Suc.IH [of "d - 1"] Suc.prems(1,3) hi m monday False by auto
    moreover have "shift c (d * DAY) (- DAY) = Some ((d - 1) * DAY)"
      using lo hi by (simp add: shift_def left_diff_distrib)
    ultimately show ?thesis using False by (simp add: weekday_def)
  qed
qed

text \<open>A calendar of the three days the witnesses need, the last of January 2024 (a Wednesday), the first of it
  and the day before; its range is wide.\<close>

definition january_2024 :: calendar where
  "january_2024 =
     \<lparr> cal_ymd = (\<lambda>n. if n = 19753 then (2024, 1, 31) else if n = 19723 then (2024, 1, 1) else (2023, 12, 31)),
       cal_day = (\<lambda>y m d. if (y, m, d) = (2024, 1, 31) then Some 19753
         else if (y, m, d) = (2024, 1, 1) then Some 19723 else None),
       cal_min = - 1000000 * DAY, cal_max = 1000000 * DAY \<rparr>"

lemmas january_simps = january_2024_def DAY_def NANOS_def start_of_day_def day_of_def

text \<open>The week of a saved search is the ISO week that holds the instant: its start is midnight on a
  Monday, its end is one nanosecond before the next, the instant lies between them, and the start of
  the last week is exactly seven days earlier. The hypotheses keep the anchors within the range of
  the clock.\<close>

theorem week_anchors_enclose_now:
  assumes "cal_min c \<le> start_of_day now - 13 * DAY" "start_of_day now + 7 * DAY \<le> cal_max c"
  shows "\<exists>monday. render_reserved c ThisWeekStart now = Some monday
    \<and> render_reserved c ThisWeekEnd now = Some (monday + 7 * DAY - 1)
    \<and> render_reserved c LastWeekStart now = Some (monday - 7 * DAY)
    \<and> monday mod DAY = 0 \<and> weekday monday = 0 \<and> monday \<le> now \<and> now \<le> monday + 7 * DAY - 1"
proof -
  define d k where "d = day_of now" and "k = (day_of now + 3) mod 7"
  let ?m = "(d - k) * DAY"
  have k: "0 \<le> k" "k \<le> 6" by (simp_all add: k_def)
  have sod: "start_of_day now = d * DAY" by (simp add: start_of_day_def d_def)
  have kD: "0 \<le> k * DAY" "k * DAY \<le> 6 * DAY"
    using k(1) DAY_pos(3) by (rule mult_nonneg_nonneg, intro mult_right_mono k(2)) simp
  have m: "?m = d * DAY - k * DAY" by (simp add: left_diff_distrib)
  have pos: "0 < DAY" by simp
  have bounds: "cal_min c \<le> ?m - 7 * DAY" "cal_min c \<le> ?m + 7 * DAY" "cal_min c \<le> ?m + 7 * DAY - 1"
    "?m - 7 * DAY \<le> cal_max c" "?m + 7 * DAY \<le> cal_max c" "?m + 7 * DAY - 1 \<le> cal_max c"
    using assms kD m sod pos by linarith+
  have "week_walk c 7 (d * DAY) = Some ?m"
    unfolding k_def d_def [symmetric]
  proof (rule week_walk_monday)
    show "cal_min c \<le> (d - (d + 3) mod 7) * DAY"
      using assms(1) kD(2) m sod pos unfolding k_def d_def [symmetric] by linarith
    show "d * DAY \<le> cal_max c" using assms(2) sod pos by linarith
    show "nat ((d + 3) mod 7) < 7" by simp
  qed
  then have start: "start_of_week c now = Some ?m" by (simp add: start_of_week_def sod)
  moreover have "end_of_week c now = Some (?m + 7 * DAY - 1)"
    using start bounds by (simp add: end_of_week_def shift_def)
  moreover have "shift c ?m (- 7 * DAY) = Some (?m - 7 * DAY)"
    using bounds by (simp add: shift_def)
  moreover have "weekday ?m = 0" unfolding weekday_def day_of_midnight k_def d_def by presburger
  moreover have "?m \<le> now" "now \<le> ?m + 7 * DAY - 1"
    using start_of_day_le [of now] kD m sod by linarith+
  moreover have "?m mod DAY = 0" by simp
  ultimately show ?thesis by (intro exI [of _ ?m]) simp
qed

theorem week_anchors_enclose_now_witness:
  "\<exists>monday. render_reserved january_2024 ThisWeekStart (19753 * DAY + 5) = Some monday \<and> monday \<le> 19753 * DAY + 5"
proof -
  have "cal_min january_2024 \<le> start_of_day (19753 * DAY + 5) - 13 * DAY"
    "start_of_day (19753 * DAY + 5) + 7 * DAY \<le> cal_max january_2024"
    by (simp_all add: january_simps)
  from week_anchors_enclose_now [OF this] show ?thesis by blast
qed

text \<open>The sign of an offset is read and stored but has no effect: both signs step back from the start
  of the day, so an offset into the future lies in the past.\<close>

theorem date_offset_ignores_sign:
  assumes "render c (DateOffset u Plus n) now = Some t" "0 < n"
  shows "render c (DateOffset u Minus n) now = Some t \<and> t < start_of_day now"
proof -
  have "0 < offset_nanos u n" using assms(2) by (cases u) (simp_all add: NANOS_def)
  with assms(1) show ?thesis by (auto simp: render_offset_step_def shift_def split: if_splits)
qed

theorem date_offset_ignores_sign_witness:
  "render january_2024 (DateOffset UnitDay Minus 3) (19753 * DAY) = Some (19750 * DAY)
   \<and> 19750 * DAY < start_of_day (19753 * DAY)"
  by (rule date_offset_ignores_sign) (simp_all add: january_simps render_offset_step_def shift_def)

text \<open>When the next month has no day with the number of today (the 31st before a month of 30 days,
  or the last days of January), stepping to the next month fails and falls back to today, so the end
  of this month is the end of yesterday.\<close>

theorem end_of_month_falls_back_to_yesterday:
  assumes "cal_ymd c (day_of now) = (y, m, d)" "m < 12" "cal_day c y m d = Some (day_of now)"
    "cal_day c y (m + 1) d = None" "cal_min c \<le> start_of_day now - 1" "start_of_day now \<le> cal_max c"
  shows "render_reserved c ThisMonthEnd now = Some (start_of_day now - 1)"
proof -
  have "replace_year c y now = Some now"
    using assms(1,3) by (simp add: replace_year_def replace_ymd_def day_of_def time_of_day_def)
  moreover have "replace_month c (m + 1) now = None"
    using assms(1,4) by (simp add: replace_month_def replace_ymd_def)
  ultimately have "advance_month c now = start_of_day now"
    using assms(1,2) by (simp add: advance_month_def unwrap_or_def Let_def)
  then show ?thesis using assms(5,6) by (simp add: end_of_month_def shift_def)
qed

theorem end_of_month_falls_back_to_yesterday_witness:
  "render_reserved january_2024 ThisMonthEnd (19753 * DAY + 5) = Some (start_of_day (19753 * DAY + 5) - 1)"
  by (rule end_of_month_falls_back_to_yesterday [of _ _ 2024 1 31]) (simp_all add: january_simps)

text \<open>The start of last month is the last day of it: the anchor is the midnight before the first of
  this month, a day whose number is at least 28, so a search from the start of last month on leaves
  out all but one day of that month.\<close>

theorem last_month_start_is_its_last_day:
  assumes "cal_ymd c (day_of now) = (y, m, d)" "cal_day c y m 1 = Some first"
    "case cal_ymd c (first - 1) of (_, _, before) \<Rightarrow> 28 \<le> before"
    "cal_min c \<le> (first - 1) * DAY" "(first - 1) * DAY \<le> cal_max c"
  shows "render_reserved c LastMonthStart now = Some ((first - 1) * DAY)
    \<and> (case cal_ymd c (day_of ((first - 1) * DAY)) of (_, _, day) \<Rightarrow> 28 \<le> day)"
proof -
  have "day_of (first * DAY + time_of_day now) = first"
    by (simp add: day_of_def time_of_day_def)
  then have "start_of_month c now = first * DAY"
    using assms(1,2) by (simp add: start_of_month_def replace_day_def replace_ymd_def unwrap_or_def start_of_day_def)
  then have "render_reserved c LastMonthStart now = Some ((first - 1) * DAY)"
    using assms(4,5) by (simp add: shift_def left_diff_distrib)
  with assms(3) show ?thesis unfolding day_of_midnight by simp
qed

theorem last_month_start_is_its_last_day_witness:
  "render_reserved january_2024 LastMonthStart (19753 * DAY + 5) = Some ((19723 - 1) * DAY)
   \<and> (case cal_ymd january_2024 (day_of ((19723 - 1) * DAY)) of (_, _, day) \<Rightarrow> 28 \<le> day)"
  by (rule last_month_start_is_its_last_day [of _ _ 2024 1 31]) (simp_all add: january_simps)

end
