(* ===== verification/SearchCorrect.thy ===== *)
theory SearchCorrect
  imports SavedSearch PlaceholderCorrect "HOL-Library.Sublist"
begin

text \<open>
  What the escaping, the guard of raw queries, the substitution of placeholders and the rendering of saved
  searches guarantee.
\<close>

section \<open>Escaping\<close>

lemma read_escaped_unmarked: "\<not> is_query_syntax c \<Longrightarrow> read_escaped (c # cs) = (False, c) # read_escaped cs"
  by (rule read_escaped_plain) (auto simp: is_query_syntax_def)

text \<open>Escaping is exact. Read by a parser for which a backslash makes the next character literal, the
  escaped term gives back every character, exactly the syntax characters and the white space marked as
  literal; the escaped free text marks exactly the syntax characters and keeps the white space bare.\<close>

theorem escape_reads_back:
  "read_escaped (escape s) = map (\<lambda>c. (is_query_syntax c \<or> is_delimiter_whitespace c, c)) s
   \<and> read_escaped (escape_query_text s) = map (\<lambda>c. (is_query_syntax c, c)) s"
proof -
  have bs: "is_query_syntax (CHR 0x5C)" by (simp add: is_query_syntax_def)
  have "read_escaped (escape s) = map (\<lambda>c. (is_query_syntax c \<or> is_delimiter_whitespace c, c)) s"
    using bs by (induction s) (auto simp: read_escaped_unmarked read_escaped_pair)
  moreover have "read_escaped (escape_query_text s) = map (\<lambda>c. (is_query_syntax c, c)) s"
    using bs by (induction s) (auto simp: read_escaped_unmarked read_escaped_pair)
  ultimately show ?thesis by simp
qed

section \<open>The guard of raw queries\<close>

definition bracket_value :: "char \<Rightarrow> int" where
  "bracket_value b = (if b \<in> set ''([{'' then 1 else if b \<in> set '')]}'' then - 1 else 0)"

definition bracket_balance :: "string \<Rightarrow> int" where
  "bracket_balance s = sum_list (map bracket_value s)"

lemma bracket_balance_simps [simp]:
  "bracket_balance [] = 0" "bracket_balance (b # s) = bracket_value b + bracket_balance s"
  by (simp_all add: bracket_balance_def)

definition prefixes_within :: "int \<Rightarrow> int \<Rightarrow> string \<Rightarrow> bool" where
  "prefixes_within k d s \<longleftrightarrow> (\<forall>u. prefix u s \<longrightarrow> d + bracket_balance u \<le> k)"

definition parts_within :: "int \<Rightarrow> string \<Rightarrow> bool" where
  "parts_within k s \<longleftrightarrow> (\<forall>v. sublist v s \<longrightarrow> bracket_balance v \<le> k)"

lemma prefixes_within_Nil: "prefixes_within k d [] \<longleftrightarrow> d \<le> k"
  by (simp add: prefixes_within_def)

lemma prefixes_within_Cons:
  "prefixes_within k d (b # s) \<longleftrightarrow> d \<le> k \<and> prefixes_within k (d + bracket_value b) s"
  by (auto simp: prefixes_within_def prefix_Cons ac_simps)

lemma parts_within_Nil: "parts_within k [] \<longleftrightarrow> 0 \<le> k"
  by (simp add: parts_within_def)

lemma parts_within_Cons: "parts_within k (b # s) \<longleftrightarrow> prefixes_within k 0 (b # s) \<and> parts_within k s"
  by (auto simp: prefixes_within_def parts_within_def sublist_Cons_right)

lemma parts_prefixes_within: "parts_within k s \<Longrightarrow> d \<le> 0 \<Longrightarrow> prefixes_within k d s"
  by (force simp: parts_within_def prefixes_within_def dest: prefix_imp_sublist)

lemma prefixes_within_mono: "prefixes_within k d s \<Longrightarrow> d' \<le> d \<Longrightarrow> prefixes_within k d' s"
  by (force simp: prefixes_within_def)

lemma prefixes_within_start: "prefixes_within k d s \<Longrightarrow> d \<le> k"
  unfolding prefixes_within_def by (drule spec [of _ "[]"]) simp

lemma bracket_scan_within:
  "depth \<le> m \<Longrightarrow> bracket_scan s depth m \<le> k
     \<longleftrightarrow> m \<le> k \<and> prefixes_within (int k) (int depth) s \<and> parts_within (int k) s"
proof (induction s arbitrary: depth m)
  case Nil
  then show ?case by (auto simp: prefixes_within_Nil parts_within_Nil)
next
  case (Cons b s)
  consider (opens) "bracket_value b = 1" "b \<in> set ''([{''"
    | (closes) "bracket_value b = - 1" "b \<notin> set ''([{''" "b \<in> set '')]}''"
    | (other) "bracket_value b = 0" "b \<notin> set ''([{''" "b \<notin> set '')]}''"
    by (cases "b \<in> set ''([{''"; cases "b \<in> set '')]}''") (auto simp: bracket_value_def)
  then show ?case
  proof cases
    case opens
    then show ?thesis
      using Cons.IH [of "depth + 1" "max m (depth + 1)"] Cons.prems prefixes_within_mono [of "int k" "int depth + 1" s 1]
        prefixes_within_start [of "int k" "int depth + 1" s]
      by (auto simp: prefixes_within_Cons parts_within_Cons add.commute)
  next
    case closes
    then show ?thesis
      using Cons.IH [of "depth - 1" m] Cons.prems parts_prefixes_within [of "int k" s] 
      by (cases depth) (auto simp: prefixes_within_Cons parts_within_Cons)
  next
    case other
    then show ?thesis
      using Cons.IH [of depth m] Cons.prems parts_prefixes_within [of "int k" s 0]
      by (auto simp: prefixes_within_Cons parts_within_Cons)
  qed
qed

text \<open>C13: a raw query reaches the recursive parser, and its tree is used, exactly when it has at most 8192
  bytes, no part of it opens more than 64 brackets beyond those it closes, and the parser reports no
  error. The one-pass scan with a saturating counter computes the maximum over all parts of the text.\<close>

theorem user_dsl_guard_exact:
  "parse_user_dsl lenient s = Inr ast \<longleftrightarrow>
     length s \<le> MAX_DSL_LEN \<and> (\<forall>v. sublist v s \<longrightarrow> bracket_balance v \<le> int MAX_DSL_DEPTH)
     \<and> lenient s = (ast, [])"
proof -
  have "bracket_scan s 0 0 \<le> MAX_DSL_DEPTH \<longleftrightarrow> parts_within (int MAX_DSL_DEPTH) s"
    using bracket_scan_within [of 0 0 s MAX_DSL_DEPTH] parts_prefixes_within by auto
  then show ?thesis
    unfolding parts_within_def parse_user_dsl_def Let_def
    by (auto simp: not_less [symmetric] split: prod.splits list.splits)
qed

theorem user_dsl_guard_exact_witness:
  "bracket_balance ''((a'' \<le> int MAX_DSL_DEPTH
   \<and> parse_user_dsl (\<lambda>q. (field_exists q :: nat user_input_ast, [])) ''((a))'' = Inr (field_exists ''((a))'')"
proof -
  let ?p = "\<lambda>q. (field_exists q :: nat user_input_ast, [])"
  have "parse_user_dsl ?p ''((a))'' = Inr (field_exists ''((a))'')"
    by (simp add: parse_user_dsl_def MAX_DSL_LEN_def MAX_DSL_DEPTH_def)
  moreover have "sublist ''((a'' ''((a))''" by code_simp
  ultimately show ?thesis
    using user_dsl_guard_exact [of ?p "''((a))''" "field_exists ''((a))''"] by blast
qed

section \<open>Placeholders\<close>

text \<open>A phrase with placeholders: a text, then placeholders each followed by a text. No dollar sign stands
  elsewhere.\<close>

definition weave :: "string \<Rightarrow> (string \<times> string) list \<Rightarrow> string" where
  "weave before ps = before @ concat (map (\<lambda>(token, text). ''$$'' @ token @ ''$$'' @ text) ps)"

definition dollar_free :: "string \<Rightarrow> bool" where
  "dollar_free s \<longleftrightarrow> CHR ''$'' \<notin> set s"

text \<open>A user name: the grammar reads it as itself; it is made of visible ASCII characters.\<close>

definition user_token :: "string \<Rightarrow> bool" where
  "user_token t \<longleftrightarrow> name_from_str t = Inr (User t) \<and> list_all is_graphic t \<and> dollar_free t"

definition bound_pieces :: "composition_bindings \<Rightarrow> (string \<times> string) list \<Rightarrow> bool" where
  "bound_pieces b ps \<longleftrightarrow>
     list_all (\<lambda>(token, text). user_token token \<and> cb_user b token \<noteq> None \<and> dollar_free text) ps"

definition filled :: "composition_bindings \<Rightarrow> (string \<times> string) list \<Rightarrow> string" where
  "filled b ps = concat (map (\<lambda>(token, text). the (cb_user b token) @ text) ps)"

lemma split_dollars: "dollar_free a \<Longrightarrow> split_once ''$$'' (a @ ''$$'' @ r) = Some (a, r)"
  by (induction a) (auto simp: starts_with_def dollar_free_def)

lemma split_dollars_None: "dollar_free a \<Longrightarrow> split_once ''$$'' a = None"
  by (induction a) (auto simp: starts_with_def dollar_free_def)

lemma parse_user_token:
  assumes "user_token t"
  shows "parse_placeholder (''$$'' @ t @ ''$$'') = Inr (User t)"
proof -
  have "list_all is_graphic (''$$'' @ t @ ''$$'')"
    using assms by (simp add: user_token_def is_graphic_def byte_def)
  then have "trim (''$$'' @ t @ ''$$'') = ''$$'' @ t @ ''$$''" by (rule trim_graphic)
  then show ?thesis using assms by (simp add: parse_placeholder_def starts_with_def user_token_def)
qed

lemma resolve_user_token:
  assumes "user_token t" "cb_user b t = Some v"
  shows "resolve_token e b n t = Some (Inr v, n)"
  using parse_user_token [OF assms(1)] assms(2) by (simp add: resolve_token_def)

lemma phrase_loop_step:
  assumes "dollar_free before" "user_token t" "cb_user b t = Some v"
  shows "phrase_loop e b n out ch (before @ ''$$'' @ t @ ''$$'' @ r) = phrase_loop e b n (out @ before @ v) True r"
  using split_dollars [OF assms(1)] split_dollars [of t] resolve_user_token [OF assms(2,3), of e n] assms(2)
  by (subst phrase_loop.simps) (simp add: user_token_def)

lemma phrase_loop_weave:
  assumes "dollar_free before" "bound_pieces b ps"
  shows "\<exists>out' before'. dollar_free before' \<and> out' @ before' = out @ before @ filled b ps \<and>
    (\<forall>r. phrase_loop e b n out ch (weave before ps @ r) = phrase_loop e b n out' (ch \<or> ps \<noteq> []) (before' @ r))"
  using assms
proof (induction ps arbitrary: before out ch)
  case Nil
  then show ?case by (intro exI [of _ out] exI [of _ before]) (simp add: weave_def filled_def)
next
  case (Cons p ps)
  obtain t x where p: "p = (t, x)" by (cases p)
  from Cons.prems(2) obtain v where t: "user_token t" "cb_user b t = Some v" "dollar_free x" "bound_pieces b ps"
    by (auto simp: bound_pieces_def p)
  obtain out' before' where ob: "dollar_free before'" "out' @ before' = (out @ before @ v) @ x @ filled b ps"
    "\<And>r. phrase_loop e b n (out @ before @ v) True (weave x ps @ r) = phrase_loop e b n out' True (before' @ r)"
    using Cons.IH [OF t(3,4), of "out @ before @ v" True] by auto
  have "phrase_loop e b n out ch (weave before (p # ps) @ r) = phrase_loop e b n out' True (before' @ r)" for r
    using phrase_loop_step [OF Cons.prems(1) t(1,2), of e n out ch "weave x ps @ r"] ob(3) by (simp add: weave_def p)
  with ob(1,2) t(2) show ?case by (intro exI [of _ out'] exI [of _ before']) (simp add: filled_def p)
qed

text \<open>C22: in a phrase whose only dollar signs are those around placeholders that each name a user binding, every
  placeholder is replaced by the bound text, and nothing else of the literal changes: not the text around, not
  the field, not the quotes. A stray pair of dollar signs is another matter, see the next theorem.\<close>

theorem bound_placeholders_are_replaced:
  assumes "dollar_free before" "bound_pieces b ps" "ps \<noteq> []" "ul_phrase lit = weave before ps"
  shows "substitute_placeholders e b n (Leaf (Literal lit))
    = Some (Leaf (Literal (lit\<lparr>ul_phrase := before @ filled b ps\<rparr>)), n)"
proof -
  obtain out' before' where ob: "dollar_free before'" "out' @ before' = before @ filled b ps"
    "\<And>r. phrase_loop e b n [] False (weave before ps @ r) = phrase_loop e b n out' True (before' @ r)"
    using phrase_loop_weave [OF assms(1,2), of "[]" e n False] assms(3) by auto
  have "phrase_loop e b n [] False (weave before ps) = Some (Replaced (before @ filled b ps), n)"
    using ob(3) [of "[]"] split_dollars_None [OF ob(1)] ob(2) by (subst (asm) (2) phrase_loop.simps) simp
  then show ?thesis by (simp add: substitute_in_phrase_def assms(4))
qed

text \<open>One delimiter too many undoes the whole phrase: after any number of bound placeholders, a pair of
  dollar signs without its partner leaves the literal as it was, placeholders and all, without an error.\<close>

theorem unclosed_placeholder_undoes_substitution:
  assumes "dollar_free before" "bound_pieces b ps" "dollar_free rest"
    "ul_phrase lit = weave before ps @ ''$$'' @ rest"
  shows "substitute_placeholders e b n (Leaf (Literal lit)) = Some (Leaf (Literal lit), n)"
proof -
  obtain out' before' where ob: "dollar_free before'"
    "\<And>r. phrase_loop e b n [] False (weave before ps @ r) = phrase_loop e b n out' (ps \<noteq> []) (before' @ r)"
    using phrase_loop_weave [OF assms(1,2), of "[]" e n False] by auto
  have "phrase_loop e b n [] False (weave before ps @ ''$$'' @ rest) = Some (Unchanged, n)"
    using ob(2) [of "''$$'' @ rest"] split_dollars [OF ob(1), of rest] split_dollars_None [OF assms(3)]
    by (subst (asm) (2) phrase_loop.simps) simp
  then show ?thesis by (simp add: substitute_in_phrase_def assms(4))
qed

definition demo_bindings :: composition_bindings where
  "demo_bindings = with_user \<lparr> cb_user = Map.empty \<rparr> ''shelf'' ''scifi''"

definition demo_literal :: "string \<Rightarrow> user_input_literal" where
  "demo_literal phrase = \<lparr> ul_field_name = Some ''tags'', ul_phrase = phrase, ul_delimiter = DoubleQuotes,
     ul_slop = 0, ul_prefix = False \<rparr>"

lemma demo_pieces: "bound_pieces demo_bindings [(''shelf'', '' x'')]" "dollar_free ''my ''" "dollar_free ''y''"
proof -
  have "user_token ''shelf''" unfolding user_token_def by code_simp
  then show "bound_pieces demo_bindings [(''shelf'', '' x'')]"
    by (simp add: bound_pieces_def demo_bindings_def with_user_def dollar_free_def)
qed (simp_all add: dollar_free_def)

definition demo_search_env :: "nat search_env" where
  "demo_search_env =
     \<lparr> se_deps = (ref_deps (\<lambda>_. Inl []))\<lparr>ulid_to_string := (\<lambda>i. i)\<rparr>, se_lenient = (\<lambda>q. (field_exists q, [])), se_calendar = january_2024,
       se_rfc3339 = (\<lambda>t. None), se_clock = (\<lambda>n. 19753 * DAY), se_order = (\<lambda>ks. ks) \<rparr>"

theorem bound_placeholders_are_replaced_witness:
  "substitute_placeholders demo_search_env demo_bindings 0 (Leaf (Literal (demo_literal ''my $$shelf$$ x'')))
   = Some (Leaf (Literal (demo_literal ''my scifi x'')), 0)"
  using bound_placeholders_are_replaced [OF demo_pieces(2,1), of "demo_literal ''my $$shelf$$ x''" demo_search_env 0]
  by (simp add: demo_literal_def weave_def filled_def demo_bindings_def with_user_def)

theorem unclosed_placeholder_undoes_substitution_witness:
  "substitute_placeholders demo_search_env demo_bindings 0 (Leaf (Literal (demo_literal ''my $$shelf$$ x$$y'')))
   = Some (Leaf (Literal (demo_literal ''my $$shelf$$ x$$y'')), 0)"
  by (rule unclosed_placeholder_undoes_substitution [OF demo_pieces(2,1,3)])
     (simp add: demo_literal_def weave_def)

section \<open>Lowering and rendering\<close>

fun kind_depth :: "saved_search_kind \<Rightarrow> nat" where
  "kind_depth (SAnd ks) = 1 + foldr max (map kind_depth ks) 0"
| "kind_depth (SOr ks) = 1 + foldr max (map kind_depth ks) 0"
| "kind_depth (SNot k) = 1 + kind_depth k"
| "kind_depth _ = 0"

lemma foldr_max_le: "foldr max xs 0 \<le> k \<longleftrightarrow> list_all (\<lambda>x. x \<le> k) xs" for k :: nat
  by (induction xs) auto

lemma nesting_depth_clause:
  "nesting_depth (and_clause as) \<le> k \<longleftrightarrow> 1 \<le> k \<and> list_all (\<lambda>a. nesting_depth a \<le> k - 1) as"
  "nesting_depth (or_clause as) \<le> k \<longleftrightarrow> 1 \<le> k \<and> list_all (\<lambda>a. nesting_depth a \<le> k - 1) as"
  "nesting_depth (must_not_clause a) \<le> k \<longleftrightarrow> 1 \<le> k \<and> nesting_depth a \<le> k - 1"
proof -
  have "Suc (foldr max xs 0) \<le> k \<longleftrightarrow> 1 \<le> k \<and> list_all (\<lambda>x. x \<le> k - 1) xs" for xs
    using foldr_max_le [of xs "k - 1"] by auto
  then show "nesting_depth (and_clause as) \<le> k \<longleftrightarrow> 1 \<le> k \<and> list_all (\<lambda>a. nesting_depth a \<le> k - 1) as"
    "nesting_depth (or_clause as) \<le> k \<longleftrightarrow> 1 \<le> k \<and> list_all (\<lambda>a. nesting_depth a \<le> k - 1) as"
    by (simp_all add: and_clause_def or_clause_def list_all_length)
  show "nesting_depth (must_not_clause a) \<le> k \<longleftrightarrow> 1 \<le> k \<and> nesting_depth a \<le> k - 1"
    by (auto simp: must_not_clause_def)
qed

lemma leaf_depths:
  "nesting_depth (field_exists f) = 1" "nesting_depth (plain_literal f v d) = 1"
  "nesting_depth (range_inclusive f v w) = 1"
  by (simp_all add: field_exists_def plain_literal_def range_inclusive_def)

lemma topical_depths:
  "nesting_depth (availability_into_ast a) \<le> 2" "nesting_depth (format_into_ast f) \<le> 2"
  "nesting_depth (limit_into_ast l) \<le> 2" "nesting_depth (ordering_into_ast x) \<le> 2"
  "nesting_depth (text_into_ast t) \<le> 2" "nesting_depth (categorization_into_ast dd names c) \<le> 2"
  "nesting_depth (identifier_into_ast i) \<le> 2"
proof -
  show "nesting_depth (availability_into_ast a) \<le> 2"
    by (cases a) (simp_all add: arm_def leaf_depths nesting_depth_clause)
  show "nesting_depth (format_into_ast f) \<le> 2" by (cases f) (simp_all add: field_term_def leaf_depths)
  show "nesting_depth (limit_into_ast l) \<le> 2" by (cases l) (simp_all add: field_term_def leaf_depths)
  show "nesting_depth (ordering_into_ast x) \<le> 2" by (simp add: ordering_into_ast_def leaf_depths)
  show "nesting_depth (text_into_ast t) \<le> 2" by (cases t) (simp_all add: field_term_exact_def leaf_depths)
  have "nesting_depth (hybrid dd k j names f g) \<le> 2" for k j f g
    by (simp add: hybrid_def Let_def field_term_exact_def field_term_undelimited_def field_term_def
        leaf_depths nesting_depth_clause split: option.split)
  then show "nesting_depth (categorization_into_ast dd names c) \<le> 2"
    by (cases c) (simp_all add: field_term_exact_def leaf_depths)
  show "nesting_depth (identifier_into_ast i) \<le> 2"
    by (auto simp: identifier_into_ast_def Let_def leaf_depths nesting_depth_clause
        split: identifier_search.split bool.split)
qed

text \<open>A saved search without raw queries always lowers to a tree, and lowering adds at most two levels
  to the nesting of its combinators.\<close>

theorem typed_search_lowers:
  assumes "\<not> contains_user_defined k"
  shows "\<exists>ast. into_ast_with_names d p names k = Inr ast \<and> nesting_depth ast \<le> kind_depth k + 2"
proof -
  have "(\<not> contains_user_defined k \<longrightarrow>
      (\<exists>ast. into_ast_with_names d p names k = Inr ast \<and> nesting_depth ast \<le> kind_depth k + 2))"
    "(\<not> list_ex contains_user_defined ks \<longrightarrow>
      (\<exists>as. children_into_ast d p names ks = Inr as
        \<and> list_all (\<lambda>a. nesting_depth a \<le> foldr max (map kind_depth ks) 0 + 2) as))" for ks
  proof (induction d p names k and d p names ks rule: into_ast_with_names_children_into_ast.induct)
    case (1 d p names ks)
    show ?case using 1 by (cases "children_into_ast d p names ks") (auto simp: nesting_depth_clause leaf_depths)
  next
    case (2 d p names ks)
    show ?case using 2 by (cases "children_into_ast d p names ks") (auto simp: nesting_depth_clause leaf_depths)
  next
    case (13 d p names c cs)
    then show ?case
      by (auto elim!: list.pred_mono_strong intro: order_trans)
  qed (auto simp: topical_depths [unfolded numeral_2_eq_2] nesting_depth_clause leaf_depths)
  with assms show ?thesis by blast
qed

theorem typed_search_lowers_witness:
  "\<exists>ast. into_ast_with_names (ref_deps (\<lambda>_. Inl [])) (\<lambda>q. (field_exists q :: nat user_input_ast, [])) Map.empty
       (SAnd [SText (ByTitle ''dune''), SNot (SFormat (ByFormat ''epub''))]) = Inr ast \<and> nesting_depth ast \<le> 2 + 2"
  using typed_search_lowers [of "SAnd [SText (ByTitle ''dune''), SNot (SFormat (ByFormat ''epub''))]"
      "ref_deps (\<lambda>_. Inl [])" "\<lambda>q. (field_exists q, [])" Map.empty] by (simp add: numeral_eq_Suc)

lemma children_into_ast_length: "children_into_ast d p names ks = Inr as \<Longrightarrow> length as = length ks"
  by (induction ks arbitrary: as) auto

lemma render_children_length: "render_children e allow names cs = Inr as \<Longrightarrow> length as = length cs"
  by (induction cs arbitrary: as) (auto split: if_splits)

lemma substitute_all_length: "substitute_all e b n as = Some (bs, m) \<Longrightarrow> length bs = length as"
  by (induction as arbitrary: n bs m) (auto simp: bind_eq_Some_conv)

lemma check_depth_Inr: "check_depth k as = Inr u \<longleftrightarrow> list_all (\<lambda>a. nesting_depth a \<le> k) as"
  by (induction as) auto

lemma render_searches_Inr:
  assumes "render_searches e s b l = Some (Inr ast)"
  obtains as bs m where "renderings e s l = Inr as" "substitute_all e b 0 as = Some (bs, m)"
    "list_all (\<lambda>a. nesting_depth a \<le> co_max_depth (ss_options s)) bs" "ast = and_clause (map or_clause_single bs)"
  using assms unfolding render_searches_def
  by (auto split: sum.splits simp: check_depth_Inr)

lemma renderings_Inr:
  assumes "renderings e s l = Inr as"
  obtains names where "check_stale l (group_refs (all_refs s)) (grouped_kinds e (group_refs (all_refs s))) = Inr ()"
    "render_children e (co_allow_user_defined (ss_options s)) names (ss_children s) = Inr as"
    "0 < co_max_depth (ss_options s)"
  using assms unfolding renderings_def by (auto simp: Let_def split: if_splits)

text \<open>A rendered composition requires every one of its children: it is a conjunction with one entry for
  each child, each the child's tree wrapped in a disjunction of its own. Every child stays within the
  configured depth, but the two wrappers add two levels to it.\<close>

theorem rendered_composition_shape:
  assumes "render_searches e s b l = Some (Inr ast)"
  shows "\<exists>children. length children = length (ss_children s)
    \<and> list_all (\<lambda>a. nesting_depth a \<le> co_max_depth (ss_options s)) children
    \<and> ast = Clause (map (\<lambda>a. (Some Must, Clause [(Some Should, a)])) children)
    \<and> nesting_depth ast \<le> co_max_depth (ss_options s) + 2"
proof -
  from assms obtain as bs m where r: "renderings e s l = Inr as" "substitute_all e b 0 as = Some (bs, m)"
    "list_all (\<lambda>a. nesting_depth a \<le> co_max_depth (ss_options s)) bs" "ast = and_clause (map or_clause_single bs)"
    by (rule render_searches_Inr)
  have "length bs = length (ss_children s)"
    using substitute_all_length [OF r(2)] renderings_Inr [OF r(1)] render_children_length by metis
  moreover have "nesting_depth ast \<le> co_max_depth (ss_options s) + 2"
    using r(3) by (auto simp: r(4) nesting_depth_clause or_clause_single_def list_all_iff)
  ultimately show ?thesis
    using r(3,4) by (intro exI [of _ bs]) (simp add: and_clause_def or_clause_def or_clause_single_def comp_def)
qed

text \<open>A composition of one text filter and one tag, and lookups that know every id.\<close>

definition demo_searches :: "bool \<Rightarrow> saved_search_kind \<Rightarrow> saved_searches" where
  "demo_searches allow k =
     \<lparr> ss_children = [\<lparr> ss_id = DbId ''a'', ss_definition = k \<rparr>, \<lparr> ss_id = DbId ''b'', ss_definition = SText (ByTitle ''dune'') \<rparr>],
       ss_options = \<lparr> co_max_depth = 4, co_allow_user_defined = allow \<rparr> \<rparr>"

definition demo_lookup :: resource_lookup where
  "demo_lookup = \<lparr> rl_exists = (\<lambda>k i. Inr True), rl_names = (\<lambda>k ids. Inr Map.empty) \<rparr>"

lemma demo_renders:
  "\<exists>ast. render_searches demo_search_env (demo_searches True (SCategorization (ByTag (DbId ''t'')))) demo_bindings demo_lookup
     = Some (Inr ast)"
proof -
  have "substitute_placeholders demo_search_env demo_bindings n (plain_literal f v q) = Some (plain_literal f v q, n)"
    if "dollar_free v" for n f v q
    using split_dollars_None [OF that]
    by (simp add: substitute_in_phrase_def plain_literal_def phrase_loop.simps [of _ _ _ _ _ v])
  then show ?thesis
    by (simp add: render_searches_def renderings_def demo_searches_def all_refs_def referenced_ids_def
      group_refs_def grouped_kinds_def all_resource_kinds_def demo_lookup_def ids_of_def Let_def
      hybrid_def field_term_exact_def dollar_free_def db_id_display_def demo_search_env_def leaf_depths)
qed

theorem rendered_composition_shape_witness:
  "\<exists>ast. render_searches demo_search_env (demo_searches True (SCategorization (ByTag (DbId ''t'')))) demo_bindings demo_lookup
     = Some (Inr ast) \<and> nesting_depth ast \<le> 4 + 2"
proof -
  obtain ast where ast: "render_searches demo_search_env (demo_searches True (SCategorization (ByTag (DbId ''t'')))) demo_bindings
      demo_lookup = Some (Inr ast)" using demo_renders by blast
  from rendered_composition_shape [OF ast] have "nesting_depth ast \<le> 4 + 2" by (auto simp: demo_searches_def)
  with ast show ?thesis by blast
qed

lemma render_children_disabled:
  assumes "c \<in> set cs" "contains_user_defined (ss_definition c)"
  shows "\<exists>err. render_children e False names cs = Inl err"
  using assms
proof (induction cs)
  case (Cons a cs)
  then show ?case
    by (cases "into_ast_with_names (se_deps e) (se_lenient e) names (ss_definition a)") auto
qed simp

text \<open>Every search that stands in a search, itself included.\<close>

fun subsearches :: "saved_search_kind \<Rightarrow> saved_search_kind list" where
  "subsearches (SAnd ks) = SAnd ks # concat (map subsearches ks)"
| "subsearches (SOr ks) = SOr ks # concat (map subsearches ks)"
| "subsearches (SNot k) = SNot k # subsearches k"
| "subsearches k = [k]"

lemma contains_user_defined_iff: "contains_user_defined k \<longleftrightarrow> (\<exists>q. UserDefined q \<in> set (subsearches k))"
  by (induction k rule: contains_user_defined.induct) (auto simp: list_ex_iff)

text \<open>C12: with raw queries disabled, a composition in which one stands, however deep, never renders: the
  result is an error, whatever the other children are.\<close>

theorem disabled_raw_query_never_renders:
  assumes "\<not> co_allow_user_defined (ss_options s)"
    "c \<in> set (ss_children s)" "UserDefined q \<in> set (subsearches (ss_definition c))"
  shows "\<exists>err. render_searches e s b l = Some (Inl err)"
proof -
  have raw: "contains_user_defined (ss_definition c)" using assms(3) by (auto simp: contains_user_defined_iff)
  have "renderings e s l \<noteq> Inr as" for as
  proof
    assume "renderings e s l = Inr as"
    then obtain names where "render_children e (co_allow_user_defined (ss_options s)) names (ss_children s) = Inr as"
      by (rule renderings_Inr)
    with assms(1) render_children_disabled [OF assms(2) raw, of e names] show False by auto
  qed
  then show ?thesis by (cases "renderings e s l") (auto simp: render_searches_def)
qed

theorem disabled_raw_query_never_renders_witness:
  "\<exists>err. render_searches demo_search_env (demo_searches False (SNot (UserDefined ''x''))) demo_bindings demo_lookup
     = Some (Inl err)"
  by (rule disabled_raw_query_never_renders [of _ "\<lparr> ss_id = DbId ''a'', ss_definition = SNot (UserDefined ''x'') \<rparr>"])
     (simp_all add: demo_searches_def)

section \<open>References\<close>

lemma group_refs_snoc:
  "group_refs (refs @ [(k, i)]) = (group_refs refs)(k \<mapsto> ids_of (group_refs refs) k @ [i])"
  by (simp add: group_refs_def ids_of_def)

lemma ids_of_group_refs: "ids_of (group_refs refs) k = map snd (filter (\<lambda>r. fst r = k) refs)"
proof (induction refs rule: rev_induct)
  case Nil
  then show ?case by (simp add: group_refs_def ids_of_def)
next
  case (snoc r refs)
  obtain k' i where r: "r = (k', i)" by (cases r)
  have upd: "ids_of (m(k' \<mapsto> v)) k = (if k' = k then v else ids_of m k)" for m v
    by (simp add: ids_of_def)
  show ?case unfolding r group_refs_snoc upd by (simp add: snoc)
qed

lemma stale_ids_Inr:
  "stale_ids l k ids st = Inr [] \<longleftrightarrow> st = [] \<and> list_all (\<lambda>i. rl_exists l k i = Inr True) ids"
  by (induction ids arbitrary: st) (auto split: sum.split bool.split)

lemma check_stale_Inr:
  "check_stale l g ks = Inr u \<longleftrightarrow> list_all (\<lambda>k. list_all (\<lambda>i. rl_exists l k i = Inr True) (ids_of g k)) ks"
proof (induction ks)
  case (Cons k ks)
  then show ?case
    by (cases "stale_ids l k (ids_of g k) []") (auto simp: stale_ids_Inr [of l k _ "[]", simplified, symmetric])
qed simp

lemma mem_grouped_kinds:
  assumes "\<And>ks. set (se_order e ks) = set ks" "(k, i) \<in> set refs"
  shows "k \<in> set (grouped_kinds e (group_refs refs))"
proof -
  have "i \<in> set (ids_of (group_refs refs) k)" using assms(2) by (force simp: ids_of_group_refs)
  then have "group_refs refs k \<noteq> None" by (cases "group_refs refs k") (auto simp: ids_of_def)
  moreover have "k \<in> set all_resource_kinds" by (cases k) (simp_all add: all_resource_kinds_def)
  ultimately show ?thesis using assms(1) by (simp add: grouped_kinds_def)
qed

lemma collect_refs_set:
  "set (collect_refs k out) = set out \<union> {r. \<exists>c. SCategorization c \<in> set (subsearches k) \<and> r \<in> set (categorization_ids c)}"
proof (induction k arbitrary: out)
  case (SAnd ks)
  have "set (fold collect_refs ks out) =
      set out \<union> {r. \<exists>k\<in>set ks. \<exists>c. SCategorization c \<in> set (subsearches k) \<and> r \<in> set (categorization_ids c)}"
    using SAnd by (induction ks arbitrary: out) auto
  then show ?case by auto
next
  case (SOr ks)
  have "set (fold collect_refs ks out) =
      set out \<union> {r. \<exists>k\<in>set ks. \<exists>c. SCategorization c \<in> set (subsearches k) \<and> r \<in> set (categorization_ids c)}"
    using SOr by (induction ks arbitrary: out) auto
  then show ?case by auto
qed auto

text \<open>C11: no stale reference is rendered. When a composition renders, the lookup has confirmed the row of every
  author, genre, subject, series, publisher and tag filter that occurs anywhere in any of its children, under any
  nesting of conjunction, disjunction and negation. Ids of collections are not among them: the sources report no
  reference for a collection filter. The one hypothesis is that a hash map yields each of its keys.\<close>

theorem rendered_references_exist:
  assumes "\<And>ks. set (se_order e ks) = set ks" "render_searches e s b l = Some (Inr ast)"
    "child \<in> set (ss_children s)" "SCategorization c \<in> set (subsearches (ss_definition child))"
  shows "case c of
      ByAuthor i \<Rightarrow> rl_exists l Author i = Inr True
    | ByGenre i \<Rightarrow> rl_exists l Genre i = Inr True
    | BySubject i \<Rightarrow> rl_exists l Subject i = Inr True
    | BySeries i \<Rightarrow> rl_exists l Series i = Inr True
    | ByPublisher i \<Rightarrow> rl_exists l Publisher i = Inr True
    | ByTag i \<Rightarrow> rl_exists l Tag i = Inr True
    | InCollection i \<Rightarrow> True"
proof -
  from assms(2) obtain as where "renderings e s l = Inr as" by (rule render_searches_Inr)
  then have checked: "check_stale l (group_refs (all_refs s)) (grouped_kinds e (group_refs (all_refs s))) = Inr ()"
    by (rule renderings_Inr)
  have "rl_exists l k i = Inr True" if "(k, i) \<in> set (categorization_ids c)" for k i
  proof -
    have ref: "(k, i) \<in> set (all_refs s)"
      using assms(3,4) that by (auto simp: all_refs_def referenced_ids_def collect_refs_set)
    then have "i \<in> set (ids_of (group_refs (all_refs s)) k)" by (force simp: ids_of_group_refs)
    with checked mem_grouped_kinds [OF assms(1) ref] show ?thesis
      by (auto simp: check_stale_Inr list_all_iff)
  qed
  then show ?thesis by (simp split: categorization_search.split)
qed

theorem rendered_references_exist_witness: "rl_exists demo_lookup Tag (DbId ''t'') = Inr True"
proof -
  obtain ast where ast: "render_searches demo_search_env (demo_searches True (SCategorization (ByTag (DbId ''t'')))) demo_bindings
      demo_lookup = Some (Inr ast)" using demo_renders by blast
  show ?thesis
    using rendered_references_exist [OF _ ast, of "\<lparr> ss_id = DbId ''a'', ss_definition = SCategorization (ByTag (DbId ''t'')) \<rparr>"
        "ByTag (DbId ''t'')"]
    by (simp add: demo_search_env_def demo_searches_def)
qed

section \<open>Errors that do not surface\<close>

lemma stale_ids_error: "stale_ids l k ids st = Inl err \<Longrightarrow> \<exists>m. err = CompositionDb m"
  by (induction ids arbitrary: st) (auto split: sum.splits bool.splits)

lemma check_stale_error: "check_stale l g ks = Inl err \<Longrightarrow> (\<exists>m. err = CompositionDb m) \<or> (\<exists>r. err = StaleReferences r)"
  by (induction ks) (auto simp: result_bind_Inl split: if_splits dest: stale_ids_error)

lemma resolve_names_error: "resolve_names l g ks names = Inl err \<Longrightarrow> \<exists>m. err = CompositionDb m"
proof (induction ks arbitrary: names)
  case (Cons k ks)
  then show ?case by (cases "rl_names l k (ids_of g k)") auto
qed simp

lemma render_children_error:
  "render_children e allow names cs = Inl err \<Longrightarrow> err = UserDefinedDisabled \<or> (\<exists>m p. err = InvalidUserDsl m p)"
proof (induction cs)
  case (Cons c cs)
  then show ?case
    by (cases "into_ast_with_names (se_deps e) (se_lenient e) names (ss_definition c)")
       (auto simp: map_invalid_dsl_def result_bind_Inl split: if_splits)
qed simp

lemma check_depth_error: "check_depth k as = Inl err \<Longrightarrow> \<exists>n. err = RecursionLimitExceeded n"
  by (induction as) (auto split: if_splits)

text \<open>The errors for an unbound or a malformed placeholder never reach the caller. Rendering ends with
  neither of them, whatever the search: the phrase becomes the marker that matches nothing instead.\<close>

theorem placeholder_errors_never_surface:
  "render_searches e s b l \<noteq> Some (Inl (UnboundPlaceholders name))
   \<and> render_searches e s b l \<noteq> Some (Inl (InvalidPlaceholderSyntax err))"
  by (auto simp: render_searches_def renderings_def Let_def result_bind_Inl
      split: sum.splits if_splits
      dest!: check_stale_error resolve_names_error render_children_error check_depth_error)

end
