(* ===== verification/Citation.thy ===== *)
theory Citation
  imports RustText "HOL-Library.Word"
begin

unbundle bit_operations_syntax

text \<open>
  Citations (\<open>livtet-cite/src\<close>): the CSL item built from catalog rows (\<open>csl.rs\<close>), citation keys and their
  de-duplication (\<open>key.rs\<close>), and the BibTeX and RIS renderers (\<open>bibtex.rs\<close>, \<open>ris.rs\<close>). The Unicode
  lower-casing of one character is the parameter \<open>lower\<close>, the list of the characters it yields.
\<close>

section \<open>CSL items\<close>

record csl_name =
  cn_family :: "string option"
  cn_given :: "string option"
  cn_literal :: "string option"

definition keep_if :: "('a \<Rightarrow> bool) \<Rightarrow> 'a option \<Rightarrow> 'a option" where
  "keep_if P x = Option.bind x (\<lambda>v. if P v then Some v else None)"

definition display_name :: "csl_name \<Rightarrow> string option" where
  "display_name n =
     (let family = keep_if (\<lambda>p. p \<noteq> []) (cn_family n); given = keep_if (\<lambda>p. p \<noteq> []) (cn_given n)
      in case (family, given) of
           (Some f, Some g) \<Rightarrow> Some (f @ '', '' @ g)
         | (Some f, None) \<Rightarrow> Some f
         | (None, Some g) \<Rightarrow> Some g
         | (None, None) \<Rightarrow> keep_if (\<lambda>p. p \<noteq> []) (cn_literal n))"

datatype csl_date = CslDate (date_parts: "int list list")

definition from_year :: "int \<Rightarrow> csl_date" where
  "from_year year = CslDate [[year]]"

definition first_of :: "'a list \<Rightarrow> 'a option" where
  "first_of xs = (case xs of [] \<Rightarrow> None | x # _ \<Rightarrow> Some x)"

definition first_year :: "csl_date \<Rightarrow> int option" where
  "first_year d = Option.bind (first_of (date_parts d)) first_of"

record csl_item =
  ci_id :: string
  ci_type :: string
  ci_title :: "string option"
  ci_author :: "csl_name list"
  ci_editor :: "csl_name list"
  ci_translator :: "csl_name list"
  ci_publisher :: "string option"
  ci_publisher_place :: "string option"
  ci_issued :: "csl_date option"
  ci_edition :: "string option"
  ci_language :: "string option"
  ci_isbn :: "string option"
  ci_doi :: "string option"
  ci_oclc :: "string option"
  ci_lccn :: "string option"
  ci_number_of_pages :: "string option"

definition issued_year :: "csl_item \<Rightarrow> int option" where
  "issued_year it = Option.bind (ci_issued it) first_year"

definition year_label :: "csl_item \<Rightarrow> string" where
  "year_label it = (case issued_year it of Some y \<Rightarrow> show_int y | None \<Rightarrow> ''n.d.'')"

section \<open>Catalog rows\<close>

datatype contributor = RoleAuthor | RoleEditor | RoleTranslator | RoleOther

definition from_db_role :: "string \<Rightarrow> contributor" where
  "from_db_role role =
     (let r = to_ascii_lowercase (trim role) in
      if r = ''author'' then RoleAuthor else if r = ''editor'' then RoleEditor
      else if r = ''translator'' then RoleTranslator else RoleOther)"

record citation_contributor =
  cc_role :: contributor
  cc_name :: "string option"
  cc_family :: "string option"
  cc_given :: "string option"

record citation_edition =
  ce_title :: "string option"
  ce_published_year :: "int option"
  ce_edition_statement :: "string option"
  ce_number_of_pages :: "nat option"

record citation_publisher =
  cp_name :: "string option"
  cp_place :: "string option"

record citation_identifier =
  cd_kind :: string
  cd_value :: string

record citation_rows =
  cr_authors :: "citation_contributor list"
  cr_edition :: citation_edition
  cr_publishers :: "citation_publisher list"
  cr_identifiers :: "citation_identifier list"
  cr_languages :: "string list"

definition non_empty :: "string option \<Rightarrow> string option" where
  "non_empty value = keep_if (\<lambda>t. trim t \<noteq> []) value"

definition name_of :: "citation_contributor \<Rightarrow> csl_name option" where
  "name_of c =
     (let family = non_empty (cc_family c); given = non_empty (cc_given c) in
      if family = None \<and> given = None
      then map_option (\<lambda>l. \<lparr> cn_family = None, cn_given = None, cn_literal = Some l \<rparr>) (non_empty (cc_name c))
      else Some \<lparr> cn_family = family, cn_given = given, cn_literal = None \<rparr>)"

definition names_for :: "citation_contributor list \<Rightarrow> contributor \<Rightarrow> csl_name list" where
  "names_for cs role = List.map_filter name_of (filter (\<lambda>c. cc_role c = role) cs)"

definition find_map :: "('a \<Rightarrow> 'b option) \<Rightarrow> 'a list \<Rightarrow> 'b option" where
  "find_map f xs = first_of (List.map_filter f xs)"

definition publisher_fields :: "citation_publisher list \<Rightarrow> string option \<times> string option" where
  "publisher_fields ps =
     (let first = find (\<lambda>p. non_empty (cp_name p) \<noteq> None) ps;
          name = Option.bind first (\<lambda>p. non_empty (cp_name p));
          place = (case Option.bind first (\<lambda>p. non_empty (cp_place p)) of
                     Some v \<Rightarrow> Some v
                   | None \<Rightarrow> find_map (\<lambda>p. non_empty (cp_place p)) ps)
      in (name, place))"

definition strip_urn :: "string \<Rightarrow> string \<Rightarrow> string" where
  "strip_urn value kind =
     (if starts_with ''urn:'' value
      then case split_once '':'' (drop 4 value) of
             Some (scheme, remainder) \<Rightarrow> if eq_ignore_ascii_case scheme (trim kind) then remainder else value
           | None \<Rightarrow> value
      else value)"

definition identifier_value :: "citation_identifier list \<Rightarrow> string \<Rightarrow> string option" where
  "identifier_value ids kind =
     keep_if (\<lambda>v. v \<noteq> [])
       (map_option (\<lambda>i. trim (strip_urn (cd_value i) (cd_kind i)))
         (find (\<lambda>i. eq_ignore_ascii_case (cd_kind i) kind) ids))"

definition from_rows :: "string \<Rightarrow> citation_rows \<Rightarrow> csl_item" where
  "from_rows i rows =
     (let (publisher, place) = publisher_fields (cr_publishers rows) in
      \<lparr> ci_id = i, ci_type = ''book'',
        ci_title = non_empty (ce_title (cr_edition rows)),
        ci_author = names_for (cr_authors rows) RoleAuthor,
        ci_editor = names_for (cr_authors rows) RoleEditor,
        ci_translator = names_for (cr_authors rows) RoleTranslator,
        ci_publisher = publisher, ci_publisher_place = place,
        ci_issued = map_option from_year (ce_published_year (cr_edition rows)),
        ci_edition = non_empty (ce_edition_statement (cr_edition rows)),
        ci_language = find_map (\<lambda>code. non_empty (Some code)) (cr_languages rows),
        ci_isbn = identifier_value (cr_identifiers rows) ''isbn'',
        ci_doi = identifier_value (cr_identifiers rows) ''doi'',
        ci_oclc = identifier_value (cr_identifiers rows) ''oclc'',
        ci_lccn = identifier_value (cr_identifiers rows) ''lccn'',
        ci_number_of_pages = map_option show_nat (ce_number_of_pages (cr_edition rows)) \<rparr>)"

section \<open>Citation keys\<close>

text \<open>The rows of \<open>fold_non_ascii\<close>: the UTF-8 bytes of the characters of an arm, and its replacement.\<close>

definition fold_table :: "(nat list list \<times> string) list" where
  "fold_table = [
    ([[0xC3, 0xA0], [0xC3, 0xA1], [0xC3, 0xA2], [0xC3, 0xA3], [0xC3, 0xA4], [0xC3, 0xA5], [0xC4, 0x81],
       [0xC4, 0x83], [0xC4, 0x85]], ''a''),
    ([[0xC3, 0xA6]], ''ae''),
    ([[0xC3, 0xA7], [0xC4, 0x87], [0xC4, 0x89], [0xC4, 0x8B], [0xC4, 0x8D]], ''c''),
    ([[0xC4, 0x8F], [0xC4, 0x91], [0xC3, 0xB0]], ''d''),
    ([[0xC3, 0xA8], [0xC3, 0xA9], [0xC3, 0xAA], [0xC3, 0xAB], [0xC4, 0x93], [0xC4, 0x95], [0xC4, 0x97],
       [0xC4, 0x99], [0xC4, 0x9B]], ''e''),
    ([[0xC4, 0x9F], [0xC4, 0x9D], [0xC4, 0xA1], [0xC4, 0xA3]], ''g''),
    ([[0xC4, 0xA5], [0xC4, 0xA7]], ''h''),
    ([[0xC3, 0xAC], [0xC3, 0xAD], [0xC3, 0xAE], [0xC3, 0xAF], [0xC4, 0xAB], [0xC4, 0xAD], [0xC4, 0xAF],
       [0xC4, 0xB1]], ''i''),
    ([[0xC4, 0xB5]], ''j''),
    ([[0xC4, 0xB7]], ''k''),
    ([[0xC4, 0xBA], [0xC4, 0xBC], [0xC4, 0xBE], [0xC5, 0x82]], ''l''),
    ([[0xC3, 0xB1], [0xC5, 0x84], [0xC5, 0x86], [0xC5, 0x88], [0xC5, 0x89]], ''n''),
    ([[0xC3, 0xB2], [0xC3, 0xB3], [0xC3, 0xB4], [0xC3, 0xB5], [0xC3, 0xB6], [0xC3, 0xB8], [0xC5, 0x8D],
       [0xC5, 0x8F], [0xC5, 0x91]], ''o''),
    ([[0xC5, 0x93]], ''oe''),
    ([[0xC5, 0x95], [0xC5, 0x97], [0xC5, 0x99]], ''r''),
    ([[0xC5, 0x9B], [0xC5, 0x9D], [0xC5, 0x9F], [0xC5, 0xA1], [0xC3, 0x9F]], ''s''),
    ([[0xC5, 0xA3], [0xC5, 0xA5], [0xC5, 0xA7], [0xC3, 0xBE]], ''t''),
    ([[0xC3, 0xB9], [0xC3, 0xBA], [0xC3, 0xBB], [0xC3, 0xBC], [0xC5, 0xAB], [0xC5, 0xAD], [0xC5, 0xAF],
       [0xC5, 0xB1], [0xC5, 0xB3]], ''u''),
    ([[0xC5, 0xB5]], ''w''),
    ([[0xC3, 0xBD], [0xC3, 0xBF]], ''y''),
    ([[0xC5, 0xBA], [0xC5, 0xBC], [0xC5, 0xBE]], ''z'')]"

definition fold_non_ascii :: "string \<Rightarrow> string option" where
  "fold_non_ascii ch = map_option snd (find (\<lambda>(cs, r). map byte ch \<in> set cs) fold_table)"

definition fold_char :: "string \<Rightarrow> string" where
  "fold_char ch =
     (if char_is is_ascii_alphanumeric ch then ch
      else case fold_non_ascii ch of Some r \<Rightarrow> r | None \<Rightarrow> [])"

definition fold_ascii :: "(string \<Rightarrow> string list) \<Rightarrow> string \<Rightarrow> string" where
  "fold_ascii lower value = concat (map (\<lambda>ch. concat (map fold_char (lower ch))) (chars value))"

definition citation_key :: "(string \<Rightarrow> string list) \<Rightarrow> csl_item \<Rightarrow> string" where
  "citation_key lower it =
     (let family = Option.bind (first_of (ci_author it)) (\<lambda>n.
            case cn_family n of Some f \<Rightarrow> Some f | None \<Rightarrow> cn_literal n);
          fam = (case family of Some f \<Rightarrow> fold_ascii lower f | None \<Rightarrow> []);
          year = (case issued_year it of Some y \<Rightarrow> show_int y | None \<Rightarrow> ''nd'')
      in fam @ year)"

text \<open>FNV-1a on 64 bits, and the first six of its hex digits.\<close>

definition fnv_step :: "64 word \<Rightarrow> char \<Rightarrow> 64 word" where
  "fnv_step h b = (h XOR word_of_nat (byte b)) * 0x100000001b3"

definition fnv1a :: "string \<Rightarrow> 64 word" where
  "fnv1a i = foldl fnv_step 0xcbf29ce484222325 i"

fun show_hex :: "nat \<Rightarrow> string" where
  "show_hex n = (if n < 16 then [lower_char (hex_upper n)] else show_hex (n div 16) @ [lower_char (hex_upper (n mod 16))])"

declare show_hex.simps [simp del]

definition short_id_hash :: "string \<Rightarrow> string" where
  "short_id_hash i =
     (let s = show_hex (unat (fnv1a i)) in take 6 (replicate (6 - length s) (CHR ''0'') @ s))"

definition count_bases :: "string list \<Rightarrow> string \<Rightarrow> nat" where
  "count_bases bases = fold (\<lambda>b counts. counts(b := counts b + 1)) bases (\<lambda>_. 0)"

definition key_stem :: "(string \<Rightarrow> nat) \<Rightarrow> csl_item \<Rightarrow> string \<Rightarrow> string" where
  "key_stem counts it base = (if counts base > 1 then base @ ''-'' @ short_id_hash (ci_id it) else base)"

definition ordinal_key :: "string \<Rightarrow> nat \<Rightarrow> string" where
  "ordinal_key stem n = stem @ ''-'' @ show_nat n"

lemma ordinal_key_inject [simp]: "ordinal_key stem m = ordinal_key stem n \<longleftrightarrow> m = n"
  unfolding ordinal_key_def by simp (metis decimal_value_show_nat)

lemma later_ordinals_fewer:
  assumes "ordinal_key stem n \<in> set used"
  shows "{k \<in> set used. \<exists>j \<ge> Suc n. k = ordinal_key stem j} \<subset> {k \<in> set used. \<exists>j \<ge> n. k = ordinal_key stem j}"
    (is "?A \<subset> ?B")
proof -
  have "ordinal_key stem n \<in> ?B" "ordinal_key stem n \<notin> ?A" using assms by auto
  moreover have "?A \<subseteq> ?B" by (auto dest: Suc_leD)
  ultimately show ?thesis by blast
qed

text \<open>The search for a free ordinal ends: each step leaves one used key behind.\<close>

function free_ordinal :: "string \<Rightarrow> string list \<Rightarrow> nat \<Rightarrow> string" where
  "free_ordinal stem used n =
     (if ordinal_key stem n \<in> set used then free_ordinal stem used (Suc n) else ordinal_key stem n)"
  by pat_completeness auto
termination
proof (relation "measure (\<lambda>(stem, used, n). card {k \<in> set used. \<exists>j \<ge> n. k = ordinal_key stem j})")
  fix stem n and used :: "string list"
  assume "ordinal_key stem n \<in> set used"
  then have "{k \<in> set used. \<exists>j \<ge> Suc n. k = ordinal_key stem j} \<subset> {k \<in> set used. \<exists>j \<ge> n. k = ordinal_key stem j}"
    by (rule later_ordinals_fewer)
  then show "((stem, used, Suc n), stem, used, n) \<in> measure (\<lambda>(stem, used, n). card {k \<in> set used. \<exists>j \<ge> n. k = ordinal_key stem j})"
    by (simp add: psubset_card_mono)
qed simp

declare free_ordinal.simps [simp del]

definition free_key :: "string \<Rightarrow> string list \<Rightarrow> string" where
  "free_key stem used = (if stem \<in> set used then free_ordinal stem used 2 else stem)"

fun assign_keys :: "string list \<Rightarrow> string list \<Rightarrow> string list" where
  "assign_keys used [] = []"
| "assign_keys used (stem # stems) =
     (let key = free_key stem used in key # assign_keys (key # used) stems)"

definition key_stems :: "(string \<Rightarrow> string list) \<Rightarrow> csl_item list \<Rightarrow> string list" where
  "key_stems lower items =
     (let bases = map (citation_key lower) items; counts = count_bases bases
      in map (\<lambda>(it, base). key_stem counts it base) (zip items bases))"

definition deconflicted_keys :: "(string \<Rightarrow> string list) \<Rightarrow> csl_item list \<Rightarrow> string list" where
  "deconflicted_keys lower items = assign_keys [] (key_stems lower items)"

section \<open>BibTeX\<close>

fun bibtex_escape :: "string \<Rightarrow> string" where
  "bibtex_escape [] = []"
| "bibtex_escape (c # cs) =
     (if c = CHR 0x5C \<or> c \<in> set ''{}&%$#_~^'' then [CHR 0x5C, c] else [c]) @ bibtex_escape cs"

definition newline :: string where "newline = [CHR 0x0A]"

definition render_optional :: "string \<Rightarrow> string option \<Rightarrow> string" where
  "render_optional field value =
     (case keep_if (\<lambda>v. v \<noteq> []) value of
        None \<Rightarrow> []
      | Some v \<Rightarrow> ''  '' @ field @ '' = {'' @ v @ ''},'' @ newline)"

fun join :: "string \<Rightarrow> string list \<Rightarrow> string" where
  "join sep [] = []"
| "join sep [x] = x"
| "join sep (x # xs) = x @ sep @ join sep xs"

definition bibtex_names :: "string \<Rightarrow> csl_name list \<Rightarrow> string" where
  "bibtex_names field names =
     render_optional field (Some (join '' and ''
       (filter (\<lambda>n. n \<noteq> []) (map bibtex_escape (List.map_filter display_name names)))))"

definition bibtex_title :: "csl_item \<Rightarrow> string" where
  "bibtex_title it =
     (case ci_title it of
        None \<Rightarrow> []
      | Some title \<Rightarrow> (let escaped = bibtex_escape title in
          if escaped \<noteq> [] then ''  title = {{'' @ escaped @ ''}},'' @ newline else []))"

definition to_bibtex_with_key :: "csl_item \<Rightarrow> string \<Rightarrow> string" where
  "to_bibtex_with_key it key =
     ''@book{'' @ key @ '','' @ newline
     @ bibtex_names ''author'' (ci_author it)
     @ bibtex_names ''editor'' (ci_editor it)
     @ bibtex_names ''translator'' (ci_translator it)
     @ bibtex_title it
     @ render_optional ''publisher'' (ci_publisher it)
     @ render_optional ''address'' (ci_publisher_place it)
     @ render_optional ''year'' (Some (year_label it))
     @ render_optional ''edition'' (ci_edition it)
     @ render_optional ''language'' (ci_language it)
     @ render_optional ''isbn'' (ci_isbn it)
     @ render_optional ''doi'' (ci_doi it)
     @ render_optional ''oclc'' (ci_oclc it)
     @ render_optional ''lccn'' (ci_lccn it)
     @ render_optional ''pages'' (ci_number_of_pages it)
     @ ''}'' @ newline"

definition to_bibtex :: "(string \<Rightarrow> string list) \<Rightarrow> csl_item \<Rightarrow> string" where
  "to_bibtex lower it = to_bibtex_with_key it (citation_key lower it)"

definition to_bibtex_batch :: "(string \<Rightarrow> string list) \<Rightarrow> csl_item list \<Rightarrow> string" where
  "to_bibtex_batch lower items =
     join newline (map (\<lambda>(it, key). to_bibtex_with_key it key) (zip items (deconflicted_keys lower items)))"

section \<open>RIS\<close>

definition ris_line :: "string \<Rightarrow> string \<Rightarrow> string" where
  "ris_line tag value = tag @ ''  - '' @ value @ newline"

definition line_optional :: "string \<Rightarrow> string option \<Rightarrow> string" where
  "line_optional tag value = (case keep_if (\<lambda>v. v \<noteq> []) value of None \<Rightarrow> [] | Some v \<Rightarrow> ris_line tag v)"

definition ris_names :: "string \<Rightarrow> csl_name list \<Rightarrow> string" where
  "ris_names tag names = concat (map (ris_line tag) (List.map_filter display_name names))"

definition to_ris :: "csl_item \<Rightarrow> string" where
  "to_ris it =
     ris_line ''TY'' ''BOOK''
     @ ris_names ''AU'' (ci_author it)
     @ ris_names ''A2'' (ci_editor it)
     @ ris_names ''A3'' (ci_translator it)
     @ line_optional ''TI'' (ci_title it)
     @ line_optional ''PB'' (ci_publisher it)
     @ line_optional ''CY'' (ci_publisher_place it)
     @ ris_line ''PY'' (year_label it)
     @ line_optional ''ET'' (ci_edition it)
     @ line_optional ''LA'' (ci_language it)
     @ line_optional ''SN'' (ci_isbn it)
     @ line_optional ''DO'' (ci_doi it)
     @ (case ci_oclc it of Some v \<Rightarrow> ris_line ''N1'' (''OCLC: '' @ v) | None \<Rightarrow> [])
     @ (case ci_lccn it of Some v \<Rightarrow> ris_line ''N1'' (''LCCN: '' @ v) | None \<Rightarrow> [])
     @ ''ER  -'' @ newline"

end
