(* ===== verification/CitationCorrect.thy ===== *)
theory CitationCorrect
  imports Citation "HOL-Library.Multiset"
begin

text \<open>
  What the citation exporters guarantee: unique, plain and order-independent keys, escaping that reads
  back, RIS blocks that parse back; and the fields through which text reaches the output unescaped.
\<close>

section \<open>Citation keys\<close>

lemma free_ordinal_fresh: "free_ordinal stem used n \<notin> set used \<and> (\<exists>j. free_ordinal stem used n = ordinal_key stem j)"
proof (induction stem used n rule: free_ordinal.induct)
  case (1 stem used n)
  then show ?case by (subst (1 2) free_ordinal.simps) auto
qed

lemma free_key_fresh: "free_key stem used \<notin> set used"
  using free_ordinal_fresh by (simp add: free_key_def)

lemma assign_keys_distinct: "distinct (assign_keys used stems) \<and> set (assign_keys used stems) \<inter> set used = {}"
proof (induction stems arbitrary: used)
  case (Cons stem stems)
  have "distinct (assign_keys (free_key stem used # used) stems)"
    "set (assign_keys (free_key stem used # used) stems) \<inter> set (free_key stem used # used) = {}"
    using Cons.IH by blast+
  with free_key_fresh [of stem used] show ?case by (auto simp: Let_def)
qed simp

lemma assign_keys_length: "length (assign_keys used stems) = length stems"
  by (induction stems arbitrary: used) (simp_all add: Let_def)

lemma key_stems_length: "length (key_stems lower items) = length items"
  by (simp add: key_stems_def Let_def)

text \<open>C38: in every batch each entry gets a key and no two entries share one, whatever the items, their ids and
  the collisions of the hash: the search for a free ordinal always ends.\<close>

theorem citation_keys_distinct:
  "length (deconflicted_keys lower items) = length items \<and> distinct (deconflicted_keys lower items)"
  unfolding deconflicted_keys_def
  using assign_keys_distinct by (simp add: assign_keys_length key_stems_length)

text \<open>Without a collision of stems the keys are the stems.\<close>

lemma assign_keys_id: "distinct stems \<Longrightarrow> set stems \<inter> set used = {} \<Longrightarrow> assign_keys used stems = stems"
proof (induction stems arbitrary: used)
  case (Cons stem stems)
  then have "free_key stem used = stem" by (simp add: free_key_def)
  with Cons show ?case by (simp add: Let_def)
qed simp

lemma count_bases_count: "count_bases bases b = count (mset bases) b"
proof -
  have "fold (\<lambda>b counts. counts(b := counts b + 1)) bases f b = f b + count (mset bases) b" for f :: "string \<Rightarrow> nat"
    by (induction bases arbitrary: f) auto
  then show ?thesis by (simp add: count_bases_def)
qed

lemma key_stems_map:
  "key_stems lower items = map (\<lambda>it. key_stem (count (mset (map (citation_key lower) items))) it (citation_key lower it)) items"
proof -
  have "count_bases bs = count (mset bs)" for bs by (rule ext) (rule count_bases_count)
  then show ?thesis by (simp add: key_stems_def Let_def zip_map2 zip_same_conv_map)
qed

text \<open>The keys do not depend on the order of the batch as long as the hashed stems differ: reordering the
  items moves each key with its item.\<close>

theorem citation_keys_order_independent:
  assumes "mset items = mset items'" "distinct (key_stems lower items)"
  shows "mset (zip items (deconflicted_keys lower items)) = mset (zip items' (deconflicted_keys lower items'))"
proof -
  define f where "f it = key_stem (count (mset (map (citation_key lower) items))) it (citation_key lower it)" for it
  have bases: "mset (map (citation_key lower) items) = mset (map (citation_key lower) items')"
    using assms(1) by simp
  have k: "key_stems lower items = map f items" "key_stems lower items' = map f items'"
    unfolding key_stems_map f_def using bases by simp_all
  have "mset (map f items) = mset (map f items')" using assms(1) by simp
  then have "distinct (map f items')" using assms(2) k(1) by (metis mset_eq_imp_distinct_iff)
  then have keys: "deconflicted_keys lower items = map f items" "deconflicted_keys lower items' = map f items'"
    using assms(2) by (simp_all add: deconflicted_keys_def k assign_keys_id)
  have "zip xs (map f xs) = map (\<lambda>x. (x, f x)) xs" for xs by (simp add: zip_map2 zip_same_conv_map)
  then show ?thesis using assms(1) unfolding keys by simp
qed

section \<open>Plain keys\<close>

definition plain :: "char \<Rightarrow> bool" where
  "plain c \<longleftrightarrow> is_ascii_alphanumeric c \<or> c = CHR ''-''"

lemma fold_table_plain: "list_all (\<lambda>(cs, r). list_all is_ascii_alphanumeric r) fold_table"
  by code_simp

lemma fold_char_plain: "list_all plain (fold_char ch)"
proof (cases "char_is is_ascii_alphanumeric ch")
  case True
  then show ?thesis by (auto simp: fold_char_def plain_def dest!: char_isD)
next
  case False
  have "list_all plain r" if "fold_non_ascii ch = Some r" for r
    using that fold_table_plain find_SomeD unfolding fold_non_ascii_def
    by (fastforce simp: list_all_iff plain_def)
  with False show ?thesis by (auto simp: fold_char_def split: option.split)
qed

lemma fold_ascii_plain: "list_all plain (fold_ascii lower s)"
  using fold_char_plain by (auto simp: fold_ascii_def list_all_iff)

lemma show_nat_plain: "list_all plain (show_nat n)"
  using show_nat_digits [of n] by (auto simp: list_all_iff plain_def is_ascii_alphanumeric_def is_ascii_digit_def)

lemma show_int_plain: "list_all plain (show_int y)"
  using show_nat_plain by (auto simp: show_int_def plain_def)

lemma nd_plain: "list_all plain ''nd''" "plain (CHR ''0'')"
  by code_simp+

lemma citation_key_plain: "list_all plain (citation_key lower it)"
  using fold_ascii_plain [of lower] show_int_plain nd_plain(1)
  by (simp add: citation_key_def Let_def split: option.split)

lemma lower_char_alnum: "is_ascii_alphanumeric c \<Longrightarrow> is_ascii_alphanumeric (lower_char c)"
  by (auto simp: lower_char_def is_ascii_alphanumeric_def is_ascii_uppercase_def is_ascii_lowercase_def is_ascii_digit_def)

lemma hex_plain: "n < 16 \<Longrightarrow> plain (lower_char (hex_upper n))"
  by (simp add: plain_def hex_upper_alnum lower_char_alnum)

lemma show_hex_plain: "list_all plain (show_hex n)"
proof (induction n rule: show_hex.induct)
  case (1 n)
  then show ?case by (subst show_hex.simps) (simp add: hex_plain)
qed

lemma short_id_hash_plain: "list_all plain (short_id_hash i)"
proof -
  have "list_all plain (replicate k (CHR ''0'') @ show_hex n)" for k n
    using show_hex_plain [of n] nd_plain(2) by (auto simp: list_all_iff)
  then show ?thesis unfolding short_id_hash_def Let_def by (metis append_take_drop_id list_all_append)
qed

lemma dash_plain: "plain (CHR ''-'')"
  by (simp add: plain_def)

lemma assign_keys_plain: "list_all (list_all plain) stems \<Longrightarrow> list_all (list_all plain) (assign_keys used stems)"
proof (induction stems arbitrary: used)
  case (Cons stem stems)
  have "list_all plain (free_key stem used)"
    using Cons.prems free_ordinal_fresh [of stem used 2] show_nat_plain dash_plain
    by (auto simp: free_key_def ordinal_key_def)
  with Cons show ?case by (simp add: Let_def)
qed simp

text \<open>Every key of a batch is made of ASCII letters, digits and hyphens only, whatever script the names are
  in, so no name can end the key or the entry early.\<close>

theorem citation_keys_plain: "list_all (list_all plain) (deconflicted_keys lower items)"
proof -
  have "list_all plain (key_stem counts it (citation_key lower it))" for counts it
    using citation_key_plain short_id_hash_plain dash_plain by (simp add: key_stem_def)
  then have "list_all (list_all plain) (key_stems lower items)"
    unfolding key_stems_map by (simp add: list_all_iff)
  then show ?thesis by (simp add: deconflicted_keys_def assign_keys_plain)
qed

section \<open>BibTeX\<close>

text \<open>Escaped names and titles read back: read with backslash escapes, the text is the original with exactly
  the ten special characters marked as literal.\<close>

theorem bibtex_escape_reads_back:
  "read_escaped (bibtex_escape s) = map (\<lambda>c. (c = CHR 0x5C \<or> c \<in> set ''{}&%$#_~^'', c)) s"
  by (induction s) (auto simp: read_escaped_plain read_escaped_pair)

text \<open>The other fields are not escaped: a publisher whose name closes the brace adds a field of its own
  choice to the entry. The entry is the one for the publisher \<open>a\<close> with the field \<open>f\<close> after it.\<close>

theorem publisher_injects_bibtex_field:
  assumes "a \<noteq> []" "v \<noteq> []"
  shows "render_optional ''publisher'' (Some (a @ ''},'' @ newline @ ''  '' @ f @ '' = {'' @ v))
    = render_optional ''publisher'' (Some a) @ render_optional f (Some v)"
  using assms by (simp add: render_optional_def keep_if_def)

theorem publisher_injects_bibtex_field_witness:
  "render_optional ''publisher'' (Some (''a'' @ ''},'' @ newline @ ''  '' @ ''note'' @ '' = {'' @ ''x''))
   = render_optional ''publisher'' (Some ''a'') @ render_optional ''note'' (Some ''x'')"
  by (rule publisher_injects_bibtex_field) simp_all

section \<open>RIS\<close>

text \<open>The fields of a block, and how a reader takes a block apart: one field a line, until the end line.\<close>

definition opt_field :: "string \<Rightarrow> string option \<Rightarrow> (string \<times> string) list" where
  "opt_field tag v = (case v of None \<Rightarrow> [] | Some x \<Rightarrow> if x = [] then [] else [(tag, x)])"

definition note_field :: "string \<Rightarrow> string option \<Rightarrow> (string \<times> string) list" where
  "note_field label v = (case v of None \<Rightarrow> [] | Some x \<Rightarrow> [(''N1'', label @ x)])"

definition ris_fields :: "csl_item \<Rightarrow> (string \<times> string) list" where
  "ris_fields it =
     [(''TY'', ''BOOK'')]
     @ map (Pair ''AU'') (List.map_filter display_name (ci_author it))
     @ map (Pair ''A2'') (List.map_filter display_name (ci_editor it))
     @ map (Pair ''A3'') (List.map_filter display_name (ci_translator it))
     @ opt_field ''TI'' (ci_title it) @ opt_field ''PB'' (ci_publisher it)
     @ opt_field ''CY'' (ci_publisher_place it) @ [(''PY'', year_label it)]
     @ opt_field ''ET'' (ci_edition it) @ opt_field ''LA'' (ci_language it)
     @ opt_field ''SN'' (ci_isbn it) @ opt_field ''DO'' (ci_doi it)
     @ note_field ''OCLC: '' (ci_oclc it) @ note_field ''LCCN: '' (ci_lccn it)"

fun read_ris_lines :: "string list \<Rightarrow> (string \<times> string) list option" where
  "read_ris_lines [] = None"
| "read_ris_lines (l # ls) =
     (if l = ''ER  -'' then Some []
      else if take 4 (drop 2 l) = ''  - '' then map_option ((#) (take 2 l, drop 6 l)) (read_ris_lines ls)
      else None)"

definition read_ris :: "string \<Rightarrow> (string \<times> string) list option" where
  "read_ris s = read_ris_lines (split_on (CHR 0x0A) s)"

lemma line_optional_field: "line_optional tag v = concat (map (\<lambda>(t, x). ris_line t x) (opt_field tag v))"
  by (simp add: line_optional_def opt_field_def keep_if_def split: option.split)

lemma ris_names_field: "ris_names tag ns = concat (map (\<lambda>(t, x). ris_line t x) (map (Pair tag) (List.map_filter display_name ns)))"
  by (simp add: ris_names_def comp_def)

lemma note_line_field:
  "(case v of Some x \<Rightarrow> ris_line ''N1'' (label @ x) | None \<Rightarrow> []) = concat (map (\<lambda>(t, x). ris_line t x) (note_field label v))"
  by (simp add: note_field_def split: option.split)

lemma to_ris_fields: "to_ris it = concat (map (\<lambda>(t, x). ris_line t x) (ris_fields it)) @ ''ER  -'' @ newline"
  unfolding to_ris_def ris_fields_def line_optional_field ris_names_field note_line_field by simp

definition ris_ok :: "string \<times> string \<Rightarrow> bool" where
  "ris_ok f \<longleftrightarrow> length (fst f) = 2 \<and> CHR 0x0A \<notin> set (fst f) \<and> CHR 0x0A \<notin> set (snd f)"

lemma read_ris_line:
  assumes "ris_ok (t, x)"
  shows "read_ris (ris_line t x @ r) = map_option ((#) (t, x)) (read_ris r)"
proof -
  obtain a b where t: "t = [a, b]" using assms by (auto simp: ris_ok_def numeral_2_eq_2 length_Suc_conv)
  have "split_on (CHR 0x0A) (ris_line t x @ r) = (t @ ''  - '' @ x) # split_on (CHR 0x0A) r"
    using split_on_append [of "CHR 0x0A" "t @ ''  - '' @ x" r] assms by (simp add: ris_line_def newline_def ris_ok_def)
  then show ?thesis by (auto simp: read_ris_def t)
qed

lemma read_ris_block:
  assumes "list_all ris_ok fs"
  shows "read_ris (concat (map (\<lambda>(t, x). ris_line t x) fs) @ ''ER  -'' @ newline) = Some fs"
  using assms
proof (induction fs)
  case Nil
  show ?case using split_on_append [of "CHR 0x0A" "''ER  -''" "[]"] by (simp add: read_ris_def newline_def)
next
  case (Cons f fs)
  then show ?case by (cases f) (simp add: read_ris_line)
qed

text \<open>C39: an RIS block parses back: when no value holds a line break, reading the block line by line gives the
  type, the names, the title and the other present fields with their tags, in order, and nothing else.\<close>

theorem ris_block_roundtrip:
  assumes "list_all (\<lambda>f. CHR 0x0A \<notin> set (snd f)) (ris_fields it)"
  shows "read_ris (to_ris it) = Some (ris_fields it)"
proof -
  have tags: "list_all (\<lambda>f. length (fst f) = 2 \<and> CHR 0x0A \<notin> set (fst f)) (ris_fields it)"
    by (auto simp: ris_fields_def opt_field_def note_field_def list_all_iff split: option.split)
  have "list_all ris_ok (ris_fields it)"
    using assms tags by (auto simp: list_all_iff ris_ok_def)
  then show ?thesis unfolding to_ris_fields by (rule read_ris_block)
qed

definition demo_item :: csl_item where
  "demo_item = from_rows ''e1'' \<lparr> cr_authors = [\<lparr> cc_role = RoleAuthor, cc_name = None, cc_family = Some ''Doe'', cc_given = Some ''J'' \<rparr>],
     cr_edition = \<lparr> ce_title = Some ''T'', ce_published_year = None, ce_edition_statement = None, ce_number_of_pages = None \<rparr>,
     cr_publishers = [], cr_identifiers = [], cr_languages = [] \<rparr>"

theorem ris_block_roundtrip_witness: "read_ris (to_ris demo_item) = Some (ris_fields demo_item)"
  by (rule ris_block_roundtrip) code_simp

theorem citation_keys_order_independent_witness:
  "mset (zip [demo_item, demo_item\<lparr>ci_author := []\<rparr>] (deconflicted_keys (\<lambda>c. [c]) [demo_item, demo_item\<lparr>ci_author := []\<rparr>]))
   = mset (zip [demo_item\<lparr>ci_author := []\<rparr>, demo_item] (deconflicted_keys (\<lambda>c. [c]) [demo_item\<lparr>ci_author := []\<rparr>, demo_item]))"
proof (rule citation_keys_order_independent)
  show "distinct (key_stems (\<lambda>c. [c]) [demo_item, demo_item\<lparr>ci_author := []\<rparr>])" by code_simp
qed simp

text \<open>A line break in a title starts a field of its own: the block says the book has the author \<open>b\<close>.\<close>

theorem title_injects_ris_field:
  "line_optional ''TI'' (Some (a @ newline @ ''AU  - '' @ b))
   = ris_line ''TI'' a @ ris_line ''AU'' b"
  by (simp add: line_optional_def keep_if_def ris_line_def newline_def)

section \<open>Items from rows\<close>

lemma non_empty_Some: "non_empty x = Some v \<Longrightarrow> v \<noteq> []"
  by (auto simp: non_empty_def keep_if_def bind_eq_Some_conv trim_def split: if_splits)

lemma display_name_part:
  "cn_family n = Some (c # cs) \<or> cn_given n = Some (c # cs) \<or> cn_literal n = Some (c # cs) \<Longrightarrow> display_name n \<noteq> None"
  by (auto simp: display_name_def keep_if_def Let_def split: option.split)

lemma name_of_display:
  assumes "name_of c = Some n"
  shows "display_name n \<noteq> None"
proof -
  have "\<exists>v. v \<noteq> [] \<and> (cn_family n = Some v \<or> cn_given n = Some v \<or> cn_literal n = Some v)"
    using assms by (auto simp: name_of_def Let_def split: if_splits dest: non_empty_Some)
  then show ?thesis by (metis display_name_part neq_Nil_conv)
qed

text \<open>Every name of an item built from rows can be displayed: contributors without any name are left out
  rather than exported as empty names.\<close>

theorem from_rows_names_displayable:
  "list_all (\<lambda>n. display_name n \<noteq> None)
     (ci_author (from_rows i rows) @ ci_editor (from_rows i rows) @ ci_translator (from_rows i rows))"
proof -
  have "list_all (\<lambda>n. display_name n \<noteq> None) (names_for cs role)" for cs role
    using name_of_display by (fastforce simp: names_for_def list_all_iff List.map_filter_def)
  then show ?thesis by (simp add: from_rows_def split: prod.split)
qed

end
