(* ===== verification/Shelf.thy ===== *)
theory Shelf
  imports Prelude
begin

text \<open>
  Shelves (\<open>livtet-core/src/shelf.rs\<close>) over the tables of
  \<open>livtet-data/src/migration/m0013_shelf_tables.rs\<close>. A table is the list of its rows in the order they are
  scanned; the primary keys, the unique index on account and book, and the foreign key with its
  cascading delete are those of the migration. Timestamps are integers; \<open>now\<close> is the wall clock. Rows with the
  same creation time are taken in table order. The statements of \<open>upsert_book_shelf\<close> run one by one, without a
  transaction.
\<close>

section \<open>Tables\<close>

datatype reading_status = StatusReading | StatusRead | StatusToRead | StatusDnf

fun reading_as_str :: "reading_status \<Rightarrow> string" where
  "reading_as_str StatusReading = ''reading''"
| "reading_as_str StatusRead = ''read''"
| "reading_as_str StatusToRead = ''to-read''"
| "reading_as_str StatusDnf = ''dnf''"

fun shelf_name :: "reading_status \<Rightarrow> string" where
  "shelf_name StatusReading = ''Currently Reading''"
| "shelf_name StatusRead = ''Finished''"
| "shelf_name StatusToRead = ''Want to Read''"
| "shelf_name StatusDnf = ''Abandoned''"

definition from_key :: "string \<Rightarrow> reading_status option" where
  "from_key value =
     (if value = ''reading'' then Some StatusReading else if value = ''read'' then Some StatusRead
      else if value = ''to-read'' then Some StatusToRead else if value = ''dnf'' then Some StatusDnf else None)"

record shelf_row =
  sh_uri :: string
  sh_name :: string
  sh_description :: "string option"
  sh_created_at :: int
  sh_updated_at :: "int option"

record book_shelf =
  bs_uri :: string
  bs_shelf_uri :: string
  bs_book_uri :: string
  bs_status :: string
  bs_position :: "int option"
  bs_notes :: "string option"
  bs_emoji :: "string option"
  bs_did :: string
  bs_created_at :: int
  bs_updated_at :: "int option"

record shelf_db =
  sd_shelves :: "shelf_row list"
  sd_books :: "book_shelf list"

datatype shelf_error = PrimaryKeyTaken | UniqueViolated | ShelfMissing | RecordNotUpdated

type_synonym 'a shelf_result = "shelf_db \<times> ('a, shelf_error) result"

section \<open>Shelves\<close>

definition query_shelf :: "shelf_db \<Rightarrow> string \<Rightarrow> shelf_row option" where
  "query_shelf db uri = find (\<lambda>r. sh_uri r = uri) (sd_shelves db)"

definition shelf_uris :: "shelf_db \<Rightarrow> string \<Rightarrow> string list" where
  "shelf_uris db did =
     fold (\<lambda>r uris. if bs_shelf_uri r \<in> set uris then uris else uris @ [bs_shelf_uri r])
       (filter (\<lambda>r. bs_did r = did) (sd_books db)) []"

definition list_shelves_for_did :: "shelf_db \<Rightarrow> string \<Rightarrow> shelf_row list" where
  "list_shelves_for_did db did =
     (let uris = shelf_uris db did in
      if uris = [] then [] else filter (\<lambda>r. sh_uri r \<in> set uris) (sd_shelves db))"

definition insert_shelf :: "shelf_db \<Rightarrow> shelf_row \<Rightarrow> shelf_row shelf_result" where
  "insert_shelf db row =
     (if query_shelf db (sh_uri row) \<noteq> None then (db, Inl PrimaryKeyTaken)
      else (db\<lparr>sd_shelves := sd_shelves db @ [row]\<rparr>, Inr row))"

definition ensure_shelf :: "shelf_db \<Rightarrow> int \<Rightarrow> string \<Rightarrow> string \<Rightarrow> shelf_row shelf_result" where
  "ensure_shelf db now uri name =
     (case query_shelf db uri of
        Some existing \<Rightarrow> (db, Inr existing)
      | None \<Rightarrow> insert_shelf db \<lparr> sh_uri = uri, sh_name = name, sh_description = None,
                                   sh_created_at = now, sh_updated_at = None \<rparr>)"

text \<open>An update sets the columns the active model carries, never the primary key.\<close>

definition update_shelf :: "shelf_db \<Rightarrow> string \<Rightarrow> (shelf_row \<Rightarrow> shelf_row) \<Rightarrow> shelf_row shelf_result" where
  "update_shelf db uri change =
     (case query_shelf db uri of
        None \<Rightarrow> (db, Inl RecordNotUpdated)
      | Some row \<Rightarrow>
          (let row' = (change row)\<lparr>sh_uri := uri\<rparr> in
           (db\<lparr>sd_shelves := map (\<lambda>r. if sh_uri r = uri then row' else r) (sd_shelves db)\<rparr>, Inr row')))"

definition delete_shelf :: "shelf_db \<Rightarrow> string \<Rightarrow> shelf_db \<times> nat" where
  "delete_shelf db uri =
     (\<lparr> sd_shelves = filter (\<lambda>r. sh_uri r \<noteq> uri) (sd_shelves db),
        sd_books = filter (\<lambda>r. bs_shelf_uri r \<noteq> uri) (sd_books db) \<rparr>,
      length (filter (\<lambda>r. sh_uri r = uri) (sd_shelves db)))"

section \<open>Books on shelves\<close>

definition query_book_shelf :: "shelf_db \<Rightarrow> string \<Rightarrow> string \<Rightarrow> book_shelf option" where
  "query_book_shelf db shelf_uri book_uri =
     find (\<lambda>r. bs_shelf_uri r = shelf_uri \<and> bs_book_uri r = book_uri) (sd_books db)"

definition wanted :: "string option \<Rightarrow> string \<Rightarrow> bool" where
  "wanted v x = (case v of None \<Rightarrow> True | Some y \<Rightarrow> x = y)"

definition list_book_shelves :: "shelf_db \<Rightarrow> string option \<Rightarrow> string option \<Rightarrow> string option \<Rightarrow> book_shelf list" where
  "list_book_shelves db shelf_uri did book_uri =
     filter (\<lambda>r. wanted shelf_uri (bs_shelf_uri r) \<and> wanted did (bs_did r) \<and> wanted book_uri (bs_book_uri r))
       (sd_books db)"

text \<open>The constraints a row has to meet beside the other rows.\<close>

definition row_error :: "shelf_db \<Rightarrow> book_shelf list \<Rightarrow> book_shelf \<Rightarrow> shelf_error option" where
  "row_error db others row =
     (if \<exists>r\<in>set others. bs_uri r = bs_uri row then Some PrimaryKeyTaken
      else if \<exists>r\<in>set others. bs_did r = bs_did row \<and> bs_book_uri r = bs_book_uri row then Some UniqueViolated
      else if query_shelf db (bs_shelf_uri row) = None then Some ShelfMissing
      else None)"

definition insert_book_shelf :: "shelf_db \<Rightarrow> book_shelf \<Rightarrow> book_shelf shelf_result" where
  "insert_book_shelf db row =
     (case row_error db (sd_books db) row of
        Some err \<Rightarrow> (db, Inl err)
      | None \<Rightarrow> (db\<lparr>sd_books := sd_books db @ [row]\<rparr>, Inr row))"

definition update_book_shelf :: "shelf_db \<Rightarrow> string \<Rightarrow> (book_shelf \<Rightarrow> book_shelf) \<Rightarrow> book_shelf shelf_result" where
  "update_book_shelf db uri change =
     (case find (\<lambda>r. bs_uri r = uri) (sd_books db) of
        None \<Rightarrow> (db, Inl RecordNotUpdated)
      | Some row \<Rightarrow>
          (let row' = (change row)\<lparr>bs_uri := uri\<rparr> in
           case row_error db (filter (\<lambda>r. bs_uri r \<noteq> uri) (sd_books db)) row' of
             Some err \<Rightarrow> (db, Inl err)
           | None \<Rightarrow> (db\<lparr>sd_books := map (\<lambda>r. if bs_uri r = uri then row' else r) (sd_books db)\<rparr>, Inr row')))"

definition delete_book_shelf :: "shelf_db \<Rightarrow> string \<Rightarrow> string \<Rightarrow> shelf_db \<times> nat" where
  "delete_book_shelf db shelf_uri book_uri =
     (let gone = (\<lambda>r. bs_shelf_uri r = shelf_uri \<and> bs_book_uri r = book_uri) in
      (db\<lparr>sd_books := filter (\<lambda>r. \<not> gone r) (sd_books db)\<rparr>, length (filter gone (sd_books db))))"

definition delete_by_id :: "string \<Rightarrow> shelf_db \<Rightarrow> shelf_db" where
  "delete_by_id uri db = db\<lparr>sd_books := filter (\<lambda>r. bs_uri r \<noteq> uri) (sd_books db)\<rparr>"

definition rows_of_book :: "shelf_db \<Rightarrow> string \<Rightarrow> book_shelf list" where
  "rows_of_book db book_uri = sort_key (\<lambda>r. - bs_created_at r) (filter (\<lambda>r. bs_book_uri r = book_uri) (sd_books db))"

definition upsert_book_shelf :: "shelf_db \<Rightarrow> int \<Rightarrow> string \<Rightarrow> string \<Rightarrow> string \<Rightarrow> reading_status \<Rightarrow> book_shelf shelf_result" where
  "upsert_book_shelf db now did shelf_uri book_uri status =
     (case rows_of_book db book_uri of
        row # others \<Rightarrow>
          update_book_shelf (fold (\<lambda>r. delete_by_id (bs_uri r)) others db) (bs_uri row)
            (\<lambda>r. r\<lparr> bs_shelf_uri := shelf_uri, bs_status := reading_as_str status, bs_did := did,
                    bs_updated_at := Some now \<rparr>)
      | [] \<Rightarrow>
          insert_book_shelf db
            \<lparr> bs_uri = book_uri @ '':'' @ shelf_uri, bs_shelf_uri = shelf_uri, bs_book_uri = book_uri,
              bs_status = reading_as_str status, bs_position = None, bs_notes = None, bs_emoji = None,
              bs_did = did, bs_created_at = now, bs_updated_at = None \<rparr>)"

definition shelf_of_book :: "shelf_db \<Rightarrow> string \<Rightarrow> book_shelf option" where
  "shelf_of_book db book_uri = (case rows_of_book db book_uri of [] \<Rightarrow> None | row # _ \<Rightarrow> Some row)"

section \<open>The constraints as an invariant\<close>

definition shelf_wf :: "shelf_db \<Rightarrow> bool" where
  "shelf_wf db \<longleftrightarrow>
     distinct (map sh_uri (sd_shelves db)) \<and> distinct (map bs_uri (sd_books db))
     \<and> distinct (map (\<lambda>r. (bs_did r, bs_book_uri r)) (sd_books db))
     \<and> bs_shelf_uri ` set (sd_books db) \<subseteq> sh_uri ` set (sd_shelves db)"

inductive shelf_step :: "shelf_db \<Rightarrow> shelf_db \<Rightarrow> bool" where
  step_insert_shelf: "shelf_step db (fst (insert_shelf db row))"
| step_ensure_shelf: "shelf_step db (fst (ensure_shelf db now uri name))"
| step_update_shelf: "shelf_step db (fst (update_shelf db uri change))"
| step_delete_shelf: "shelf_step db (fst (delete_shelf db uri))"
| step_insert_book: "shelf_step db (fst (insert_book_shelf db entry))"
| step_update_book: "shelf_step db (fst (update_book_shelf db uri set_columns))"
| step_delete_book: "shelf_step db (fst (delete_book_shelf db shelf_uri book_uri))"
| step_upsert_book: "shelf_step db (fst (upsert_book_shelf db now did shelf_uri book_uri status))"

lemma query_shelf_None: "query_shelf db uri = None \<longleftrightarrow> uri \<notin> sh_uri ` set (sd_shelves db)"
  by (auto simp: query_shelf_def find_None_iff)

lemma shelf_wf_subset:
  assumes "shelf_wf db"
  shows "shelf_wf (db\<lparr>sd_books := filter P (sd_books db)\<rparr>)"
  using assms by (auto simp: shelf_wf_def distinct_map_filter)

lemma insert_shelf_wf: "shelf_wf db \<Longrightarrow> shelf_wf (fst (insert_shelf db row))"
  by (auto simp: insert_shelf_def shelf_wf_def query_shelf_None)

lemma update_shelf_wf:
  assumes "shelf_wf db"
  shows "shelf_wf (fst (update_shelf db uri change))"
proof -
  have "map sh_uri (map (\<lambda>r. if sh_uri r = uri then row'\<lparr>sh_uri := uri\<rparr> else r) rs) = map sh_uri rs" for row' rs
    by (induction rs) auto
  then have "map sh_uri (sd_shelves (fst (update_shelf db uri change))) = map sh_uri (sd_shelves db)"
    "sd_books (fst (update_shelf db uri change)) = sd_books db"
    by (auto simp: update_shelf_def Let_def split: option.split)
  with assms show ?thesis unfolding shelf_wf_def by (metis list.set_map)
qed

lemma delete_shelf_wf: "shelf_wf db \<Longrightarrow> shelf_wf (fst (delete_shelf db uri))"
  by (force simp: delete_shelf_def shelf_wf_def distinct_map_filter)

lemma insert_book_wf: "shelf_wf db \<Longrightarrow> shelf_wf (fst (insert_book_shelf db row))"
  by (auto simp: insert_book_shelf_def shelf_wf_def row_error_def query_shelf_None split: if_splits)

lemma distinct_map_replace:
  assumes "distinct (map f xs)" "distinct (map k xs)" "k y = a" "f y \<notin> f ` set (filter (\<lambda>x. k x \<noteq> a) xs)"
  shows "distinct (map f (map (\<lambda>x. if k x = a then y else x) xs))"
  using assms
proof (induction xs)
  case (Cons x xs)
  have rest: "map (\<lambda>x. if k x = a then y else x) xs = xs" if "a \<notin> k ` set xs"
    using that by (induction xs) auto
  show ?case
  proof (cases "k x = a")
    case True
    with Cons.prems(2) have "a \<notin> k ` set xs" by auto
    moreover from this have "filter (\<lambda>x. k x \<noteq> a) xs = xs" by (auto simp: filter_id_conv)
    ultimately show ?thesis using Cons.prems True rest by auto
  next
    case False
    then have "f x \<noteq> f y" using Cons.prems(4) by auto
    with False Cons show ?thesis by (auto split: if_splits)
  qed
qed simp

lemma update_book_wf:
  assumes "shelf_wf db"
  shows "shelf_wf (fst (update_book_shelf db uri change))"
proof (cases "find (\<lambda>r. bs_uri r = uri) (sd_books db)")
  case None
  then show ?thesis using assms by (simp add: update_book_shelf_def)
next
  case (Some row)
  define row' where "row' = (change row)\<lparr>bs_uri := uri\<rparr>"
  let ?others = "filter (\<lambda>r. bs_uri r \<noteq> uri) (sd_books db)"
  let ?new = "map (\<lambda>r. if bs_uri r = uri then row' else r) (sd_books db)"
  show ?thesis
  proof (cases "row_error db ?others row'")
    case None
    then have ok: "bs_uri row' \<notin> bs_uri ` set ?others"
      "(bs_did row', bs_book_uri row') \<notin> (\<lambda>r. (bs_did r, bs_book_uri r)) ` set ?others"
      "bs_shelf_uri row' \<in> sh_uri ` set (sd_shelves db)"
      by (auto simp: row_error_def query_shelf_None split: if_splits)
    have "distinct (map bs_uri ?new)"
      using assms ok(1) by (intro distinct_map_replace) (auto simp: shelf_wf_def row'_def)
    moreover have "distinct (map (\<lambda>r. (bs_did r, bs_book_uri r)) ?new)"
      using assms ok(2) by (intro distinct_map_replace) (auto simp: shelf_wf_def row'_def)
    moreover have "fst (update_book_shelf db uri change) = db\<lparr>sd_books := ?new\<rparr>"
      using Some None by (simp add: update_book_shelf_def row'_def Let_def)
    ultimately show ?thesis using assms ok(3) by (auto simp: shelf_wf_def)
  next
    case (Some err)
    with \<open>find _ _ = Some row\<close> assms show ?thesis by (simp add: update_book_shelf_def row'_def Let_def)
  qed
qed

lemma delete_rows: "fold (\<lambda>r. delete_by_id (bs_uri r)) rs db
    = db\<lparr>sd_books := filter (\<lambda>r. bs_uri r \<notin> bs_uri ` set rs) (sd_books db)\<rparr>"
  by (induction rs arbitrary: db) (auto simp: delete_by_id_def filter_filter intro!: filter_cong)

lemma upsert_wf: "shelf_wf db \<Longrightarrow> shelf_wf (fst (upsert_book_shelf db now did shelf_uri book_uri status))"
  by (auto simp: upsert_book_shelf_def delete_rows shelf_wf_subset update_book_wf insert_book_wf split: list.split)

lemma shelf_step_wf: "shelf_step db db' \<Longrightarrow> shelf_wf db \<Longrightarrow> shelf_wf db'"
proof (induction rule: shelf_step.induct)
  case (step_ensure_shelf db now uri name)
  then show ?case by (auto simp: ensure_shelf_def insert_shelf_wf split: option.split)
next
  case (step_delete_book db shelf_uri book_uri)
  then show ?case by (simp add: delete_book_shelf_def Let_def shelf_wf_subset)
qed (simp_all add: insert_shelf_wf update_shelf_wf delete_shelf_wf insert_book_wf update_book_wf upsert_wf)

text \<open>Whatever sequence of shelf operations runs on an empty database, with any arguments and however many of
  them fail, shelf and shelving uris stay unique, an account has at most one row for a book, and every
  shelving points at a shelf that exists.\<close>

theorem shelf_invariant:
  assumes "shelf_step\<^sup>*\<^sup>* \<lparr> sd_shelves = [], sd_books = [] \<rparr> db"
  shows "shelf_wf db"
  using assms
proof (induction rule: rtranclp_induct)
  case base
  show ?case by (simp add: shelf_wf_def)
next
  case (step db db')
  then show ?case by (blast intro: shelf_step_wf)
qed

theorem shelf_invariant_witness:
  "shelf_wf (fst (insert_shelf \<lparr> sd_shelves = [], sd_books = [] \<rparr>
     \<lparr> sh_uri = ''s'', sh_name = ''n'', sh_description = None, sh_created_at = 0, sh_updated_at = None \<rparr>))"
  by (rule shelf_invariant) (blast intro: step_insert_shelf)

section \<open>Placing a book\<close>

lemma filter_single: "distinct xs \<Longrightarrow> set (filter P xs) = {a} \<Longrightarrow> filter P xs = [a]"
  by (metis distinct_filter distinct_card card.empty card_insert_disjoint empty_iff finite.emptyI
      length_0_conv length_Suc_conv list.set(1,2) One_nat_def set_ConsD singletonI)

lemma rows_of_book_set: "set (rows_of_book db b) = {r \<in> set (sd_books db). bs_book_uri r = b}"
  by (auto simp: rows_of_book_def)

text \<open>The rows of the book after the others are deleted, and the rows of other books.\<close>

lemma delete_others:
  assumes "distinct (map bs_uri (sd_books db))" "rows_of_book db b = r0 # others"
  defines "books \<equiv> filter (\<lambda>r. bs_uri r \<notin> bs_uri ` set others) (sd_books db)"
  shows "filter (\<lambda>r. bs_book_uri r = b) books = [r0]"
    "filter (\<lambda>r. bs_book_uri r \<noteq> b) books = filter (\<lambda>r. bs_book_uri r \<noteq> b) (sd_books db)"
    "find (\<lambda>r. bs_uri r = bs_uri r0) books = Some r0"
proof -
  have inj: "inj_on bs_uri (set (sd_books db))" "distinct (sd_books db)"
    using assms(1) by (auto simp: distinct_map)
  have rows: "insert r0 (set others) = {r \<in> set (sd_books db). bs_book_uri r = b}"
    using rows_of_book_set [of db b] assms(2) by simp
  have "distinct (rows_of_book db b)" using inj(2) by (simp add: rows_of_book_def)
  then have r0: "r0 \<notin> set others" using assms(2) by simp
  have sub: "r0 \<in> set (sd_books db)" "set others \<subseteq> set (sd_books db)" "bs_book_uri r0 = b" using rows by auto
  have uri: "bs_uri r \<in> bs_uri ` set others \<longleftrightarrow> r \<in> set others" if "r \<in> set (sd_books db)" for r
    using that inj(1) sub(2) by (auto dest: inj_onD)
  have "set (filter (\<lambda>r. bs_book_uri r = b) books) = {r0}"
    using rows r0 sub uri by (auto simp: books_def)
  moreover have "distinct books" using inj(2) by (simp add: books_def)
  ultimately show "filter (\<lambda>r. bs_book_uri r = b) books = [r0]" by (rule filter_single [rotated])
  show "filter (\<lambda>r. bs_book_uri r \<noteq> b) books = filter (\<lambda>r. bs_book_uri r \<noteq> b) (sd_books db)"
    using rows uri by (auto simp: books_def intro!: filter_cong)
  have "r0 \<in> set books" using sub r0 uri by (auto simp: books_def)
  moreover have "distinct (map bs_uri books)" using assms(1) by (simp add: books_def distinct_map_filter)
  ultimately show "find (\<lambda>r. bs_uri r = bs_uri r0) books = Some r0" by (intro find_distinct) auto
qed

lemma replace_one:
  assumes "filter (\<lambda>r. bs_book_uri r = b) rs = [r0]" "bs_uri y = bs_uri r0" "bs_book_uri y = b"
    "distinct (map bs_uri rs)"
  shows "filter (\<lambda>r. bs_book_uri r = b) (map (\<lambda>r. if bs_uri r = bs_uri r0 then y else r) rs) = [y]"
    "filter (\<lambda>r. bs_book_uri r \<noteq> b) (map (\<lambda>r. if bs_uri r = bs_uri r0 then y else r) rs)
       = filter (\<lambda>r. bs_book_uri r \<noteq> b) rs"
proof -
  have r0: "r0 \<in> set rs" "bs_book_uri r0 = b" using assms(1) by (auto simp: filter_eq_Cons_iff)
  then have same: "bs_uri r = bs_uri r0 \<longleftrightarrow> r = r0" if "r \<in> set rs" for r
    using that assms(4) by (auto simp: distinct_map dest: inj_onD)
  have eq: "map (\<lambda>r. if bs_uri r = bs_uri r0 then y else r) rs = map (\<lambda>r. if r = r0 then y else r) rs"
    using same by auto
  have "filter (\<lambda>r. bs_book_uri r = b) (map (\<lambda>r. if r = r0 then y else r) rs)
      = map (\<lambda>r. if r = r0 then y else r) (filter (\<lambda>r. bs_book_uri r = b) rs)"
    "filter (\<lambda>r. bs_book_uri r \<noteq> b) (map (\<lambda>r. if r = r0 then y else r) rs) = filter (\<lambda>r. bs_book_uri r \<noteq> b) rs"
    using r0(2) assms(3) by (induction rs) auto
  then show "filter (\<lambda>r. bs_book_uri r = b) (map (\<lambda>r. if bs_uri r = bs_uri r0 then y else r) rs) = [y]"
    "filter (\<lambda>r. bs_book_uri r \<noteq> b) (map (\<lambda>r. if bs_uri r = bs_uri r0 then y else r) rs)
       = filter (\<lambda>r. bs_book_uri r \<noteq> b) rs"
    unfolding eq using assms(1) by simp_all
qed

lemma upsert_effect:
  assumes "distinct (map bs_uri (sd_books db))" "upsert_book_shelf db now did shelf b status = (db', Inr row)"
  shows "filter (\<lambda>r. bs_book_uri r = b) (sd_books db') = [row]"
    "filter (\<lambda>r. bs_book_uri r \<noteq> b) (sd_books db') = filter (\<lambda>r. bs_book_uri r \<noteq> b) (sd_books db)"
    "sd_shelves db' = sd_shelves db"
    "bs_shelf_uri row = shelf" "bs_did row = did" "bs_status row = reading_as_str status"
proof -
  have "filter (\<lambda>r. bs_book_uri r = b) (sd_books db') = [row]
    \<and> filter (\<lambda>r. bs_book_uri r \<noteq> b) (sd_books db') = filter (\<lambda>r. bs_book_uri r \<noteq> b) (sd_books db)
    \<and> sd_shelves db' = sd_shelves db
    \<and> bs_shelf_uri row = shelf \<and> bs_did row = did \<and> bs_status row = reading_as_str status"
  proof (cases "rows_of_book db b")
    case Nil
    then have none: "filter (\<lambda>r. bs_book_uri r = b) (sd_books db) = []"
      using rows_of_book_set [of db b] by (auto simp: filter_empty_conv)
    from Nil assms(2) have "sd_books db' = sd_books db @ [row]" "sd_shelves db' = sd_shelves db"
      "bs_shelf_uri row = shelf" "bs_did row = did" "bs_status row = reading_as_str status" "bs_book_uri row = b"
      by (auto simp: upsert_book_shelf_def insert_book_shelf_def split: option.splits)
    with none show ?thesis by simp
  next
    case (Cons r0 others)
    let ?books = "filter (\<lambda>r. bs_uri r \<notin> bs_uri ` set others) (sd_books db)"
    let ?y = "r0\<lparr> bs_shelf_uri := shelf, bs_status := reading_as_str status, bs_did := did, bs_updated_at := Some now \<rparr>"
    note del = delete_others [OF assms(1) Cons]
    have b: "bs_book_uri r0 = b" using del(1) by (auto simp: filter_eq_Cons_iff)
    have "distinct (map bs_uri ?books)" using assms(1) by (simp add: distinct_map_filter)
    from replace_one [OF del(1) _ _ this, of ?y] b
    have rep: "filter (\<lambda>r. bs_book_uri r = b) (map (\<lambda>r. if bs_uri r = bs_uri r0 then ?y else r) ?books) = [?y]"
      "filter (\<lambda>r. bs_book_uri r \<noteq> b) (map (\<lambda>r. if bs_uri r = bs_uri r0 then ?y else r) ?books)
        = filter (\<lambda>r. bs_book_uri r \<noteq> b) ?books" by simp_all
    from assms(2) Cons del(3) have "row = ?y" "sd_books db' = map (\<lambda>r. if bs_uri r = bs_uri r0 then ?y else r) ?books"
      "sd_shelves db' = sd_shelves db"
      by (auto simp: upsert_book_shelf_def delete_rows update_book_shelf_def Let_def split: option.splits)
    with rep del(2) show ?thesis by simp
  qed
  then show "filter (\<lambda>r. bs_book_uri r = b) (sd_books db') = [row]"
    "filter (\<lambda>r. bs_book_uri r \<noteq> b) (sd_books db') = filter (\<lambda>r. bs_book_uri r \<noteq> b) (sd_books db)"
    "sd_shelves db' = sd_shelves db"
    "bs_shelf_uri row = shelf" "bs_did row = did" "bs_status row = reading_as_str status" by simp_all
qed

lemma shelf_wf_uris: "shelf_wf db \<Longrightarrow> distinct (map bs_uri (sd_books db))"
  by (simp add: shelf_wf_def)

text \<open>Placing succeeds, and the row keeps what it had.\<close>

lemma upsert_succeeds:
  assumes "distinct (map bs_uri (sd_books db))" "query_shelf db shelf \<noteq> None"
    and "\<forall>r \<in> set (sd_books db). bs_book_uri r \<noteq> b \<longrightarrow> bs_uri r \<noteq> b @ '':'' @ shelf"
  shows "\<exists>db' row. upsert_book_shelf db now did shelf b status = (db', Inr row)
    \<and> (case shelf_of_book db b of
         Some old \<Rightarrow> row = old\<lparr>bs_shelf_uri := shelf, bs_status := reading_as_str status, bs_did := did,
                               bs_updated_at := Some now\<rparr>
       | None \<Rightarrow> bs_uri row = b @ '':'' @ shelf \<and> bs_created_at row = now \<and> bs_updated_at row = None)"
proof (cases "rows_of_book db b")
  case Nil
  then have none: "bs_book_uri r \<noteq> b" if "r \<in> set (sd_books db)" for r
    using that rows_of_book_set [of db b] by auto
  let ?row = "\<lparr> bs_uri = b @ '':'' @ shelf, bs_shelf_uri = shelf, bs_book_uri = b, bs_status = reading_as_str status,
    bs_position = None, bs_notes = None, bs_emoji = None, bs_did = did, bs_created_at = now, bs_updated_at = None \<rparr>"
  have "row_error db (sd_books db) ?row = None" using none assms(2,3) by (auto simp: row_error_def)
  then show ?thesis using Nil by (simp add: upsert_book_shelf_def insert_book_shelf_def shelf_of_book_def)
next
  case (Cons r0 others)
  let ?books = "filter (\<lambda>r. bs_uri r \<notin> bs_uri ` set others) (sd_books db)"
  let ?y = "r0\<lparr> bs_shelf_uri := shelf, bs_status := reading_as_str status, bs_did := did, bs_updated_at := Some now \<rparr>"
  note del = delete_others [OF assms(1) Cons]
  have "r = r0" if "r \<in> set ?books" "bs_book_uri r = b" for r
  proof -
    have "r \<in> set (filter (\<lambda>r. bs_book_uri r = b) ?books)" using that by simp
    then show ?thesis unfolding del(1) by simp
  qed
  moreover have "bs_book_uri r0 = b" using del(1) by (auto simp: filter_eq_Cons_iff)
  ultimately have "row_error (db\<lparr>sd_books := ?books\<rparr>) (filter (\<lambda>r. bs_uri r \<noteq> bs_uri r0) ?books) ?y = None"
    using assms(2) by (auto simp: row_error_def query_shelf_def)
  then show ?thesis
    using Cons del(3) by (simp add: upsert_book_shelf_def delete_rows update_book_shelf_def Let_def shelf_of_book_def)
qed

text \<open>C31: placing a book on an existing shelf, for the only account that has it on a shelf, succeeds: afterwards
  the account has exactly one row for the book, on that shelf with that status, and \<open>shelf_of_book\<close> reports it. It is
  the newest row it had before, moved, with its uri, notes and creation time, or a new one; further rows of the book
  are gone; the rows of all other books and the shelves are untouched. That no row of another book has
  the uri a new row would get is the only other hypothesis. Books that several accounts have on their shelves are the
  subject of the next theorem.\<close>

theorem upsert_places_book:
  assumes "distinct (map bs_uri (sd_books db))" "query_shelf db shelf \<noteq> None"
    and "\<forall>r \<in> set (sd_books db). bs_book_uri r = b \<longrightarrow> bs_did r = did"
    and "\<forall>r \<in> set (sd_books db). bs_book_uri r \<noteq> b \<longrightarrow> bs_uri r \<noteq> b @ '':'' @ shelf"
  shows "\<exists>db' row. upsert_book_shelf db now did shelf b status = (db', Inr row)
    \<and> list_book_shelves db' None (Some did) (Some b) = [row] \<and> shelf_of_book db' b = Some row
    \<and> bs_shelf_uri row = shelf \<and> bs_did row = did \<and> bs_status row = reading_as_str status
    \<and> (case shelf_of_book db b of
         Some old \<Rightarrow> row = old\<lparr>bs_shelf_uri := shelf, bs_status := reading_as_str status, bs_updated_at := Some now\<rparr>
       | None \<Rightarrow> bs_uri row = b @ '':'' @ shelf \<and> bs_created_at row = now \<and> bs_updated_at row = None)
    \<and> filter (\<lambda>r. bs_book_uri r \<noteq> b) (sd_books db') = filter (\<lambda>r. bs_book_uri r \<noteq> b) (sd_books db)
    \<and> sd_shelves db' = sd_shelves db"
proof -
  obtain db' row where up: "upsert_book_shelf db now did shelf b status = (db', Inr row)"
    and kept: "case shelf_of_book db b of
         Some old \<Rightarrow> row = old\<lparr>bs_shelf_uri := shelf, bs_status := reading_as_str status, bs_did := did,
                               bs_updated_at := Some now\<rparr>
       | None \<Rightarrow> bs_uri row = b @ '':'' @ shelf \<and> bs_created_at row = now \<and> bs_updated_at row = None"
    using upsert_succeeds [OF assms(1,2,4)] by blast
  note eff = upsert_effect [OF assms(1) up]
  have own: "bs_did old = did" if "shelf_of_book db b = Some old" for old
  proof -
    have "old \<in> set (rows_of_book db b)" using that by (auto simp: shelf_of_book_def split: list.splits)
    then show ?thesis using assms(3) by (simp add: rows_of_book_set)
  qed
  have "filter (\<lambda>r. bs_did r = did \<and> bs_book_uri r = b) (sd_books db') =
      filter (\<lambda>r. bs_did r = did) (filter (\<lambda>r. bs_book_uri r = b) (sd_books db'))"
    by (simp add: filter_filter conj_commute)
  then have "list_book_shelves db' None (Some did) (Some b) = [row]"
    using eff(1,5) by (simp add: list_book_shelves_def wanted_def)
  moreover have "shelf_of_book db' b = Some row" using eff(1) by (simp add: shelf_of_book_def rows_of_book_def)
  moreover have "case shelf_of_book db b of
         Some old \<Rightarrow> row = old\<lparr>bs_shelf_uri := shelf, bs_status := reading_as_str status, bs_updated_at := Some now\<rparr>
       | None \<Rightarrow> bs_uri row = b @ '':'' @ shelf \<and> bs_created_at row = now \<and> bs_updated_at row = None"
    using kept own by (auto split: option.splits)
  ultimately show ?thesis using up eff by blast
qed

text \<open>Placing a book takes it off the shelves of everyone else: the rows are looked up by the book alone, so
  after one account places a book no other account has a row for it.\<close>

theorem upsert_takes_other_accounts_row:
  assumes "shelf_wf db" "upsert_book_shelf db now did shelf b status = (db', Inr row)" "other \<noteq> did"
  shows "list_book_shelves db' None (Some other) (Some b) = []"
proof -
  have "r = row" if "r \<in> set (sd_books db')" "bs_book_uri r = b" for r
  proof -
    have "r \<in> set (filter (\<lambda>r. bs_book_uri r = b) (sd_books db'))" using that by simp
    then show ?thesis unfolding upsert_effect(1) [OF shelf_wf_uris [OF assms(1)] assms(2)] by simp
  qed
  with upsert_effect(5) [OF shelf_wf_uris [OF assms(1)] assms(2)] assms(3) show ?thesis
    by (auto simp: list_book_shelves_def wanted_def filter_empty_conv)
qed

text \<open>A failed placement still deletes: when the shelf does not exist, the call reports that, but the rows of
  the book other than the newest are already gone.\<close>

theorem failed_upsert_deletes_rows:
  assumes "shelf_wf db" "query_shelf db shelf = None" "rows_of_book db b = r0 # others"
  shows "snd (upsert_book_shelf db now (bs_did r0) shelf b status) = Inl ShelfMissing
    \<and> rows_of_book (fst (upsert_book_shelf db now (bs_did r0) shelf b status)) b = [r0]"
proof -
  let ?books = "filter (\<lambda>r. bs_uri r \<notin> bs_uri ` set others) (sd_books db)"
  note del = delete_others [OF shelf_wf_uris [OF assms(1)] assms(3)]
  have "distinct (map (\<lambda>r. (bs_did r, bs_book_uri r)) ?books)" "distinct ?books"
    using assms(1) by (simp_all add: shelf_wf_def distinct_map_filter) (simp add: distinct_map)
  moreover have r0: "r0 \<in> set ?books" "bs_book_uri r0 = b" using del(1) by (auto simp: filter_eq_Cons_iff)
  ultimately have "\<not> (\<exists>r\<in>set (filter (\<lambda>r. bs_uri r \<noteq> bs_uri r0) ?books). bs_did r = bs_did r0 \<and> bs_book_uri r = b)"
    by (auto simp: distinct_map dest!: inj_onD)
  with assms(2,3) del(1,3) r0(2) show ?thesis
    by (auto simp: upsert_book_shelf_def delete_rows update_book_shelf_def Let_def row_error_def query_shelf_def
        rows_of_book_def)
qed

section \<open>A library with two accounts\<close>

definition demo_shelf :: "string \<Rightarrow> shelf_row" where
  "demo_shelf uri = \<lparr> sh_uri = uri, sh_name = uri, sh_description = None, sh_created_at = 0, sh_updated_at = None \<rparr>"

definition demo_row :: "string \<Rightarrow> string \<Rightarrow> string \<Rightarrow> int \<Rightarrow> book_shelf" where
  "demo_row uri shelf did at = \<lparr> bs_uri = uri, bs_shelf_uri = shelf, bs_book_uri = ''b'', bs_status = ''read'',
     bs_position = None, bs_notes = None, bs_emoji = None, bs_did = did, bs_created_at = at, bs_updated_at = None \<rparr>"

definition two_accounts :: shelf_db where
  "two_accounts = \<lparr> sd_shelves = [demo_shelf ''s'', demo_shelf ''t''],
     sd_books = [demo_row ''u'' ''s'' ''alice'' 1, demo_row ''v'' ''t'' ''bob'' 2] \<rparr>"

definition bob_row :: book_shelf where
  "bob_row = (demo_row ''v'' ''s'' ''alice'' 2)\<lparr>bs_status := ''dnf'', bs_updated_at := Some 9\<rparr>"

lemma two_accounts_wf: "shelf_wf two_accounts"
  by (simp add: shelf_wf_def two_accounts_def demo_shelf_def demo_row_def)

lemma two_accounts_upsert:
  "upsert_book_shelf two_accounts 9 ''alice'' ''s'' ''b'' StatusDnf
   = (\<lparr> sd_shelves = [demo_shelf ''s'', demo_shelf ''t''], sd_books = [bob_row] \<rparr>, Inr bob_row)"
  by (simp add: upsert_book_shelf_def rows_of_book_def two_accounts_def demo_row_def demo_shelf_def bob_row_def
      delete_by_id_def update_book_shelf_def row_error_def query_shelf_def Let_def)

definition one_account :: shelf_db where
  "one_account = \<lparr> sd_shelves = [demo_shelf ''s'', demo_shelf ''t''], sd_books = [demo_row ''u'' ''s'' ''alice'' 1] \<rparr>"

theorem upsert_places_book_witness:
  "\<exists>db' row. upsert_book_shelf one_account 9 ''alice'' ''t'' ''b'' StatusDnf = (db', Inr row)
    \<and> list_book_shelves db' None (Some ''alice'') (Some ''b'') = [row] \<and> bs_shelf_uri row = ''t'' \<and> bs_uri row = ''u''"
proof -
  have "shelf_of_book one_account ''b'' = Some (demo_row ''u'' ''s'' ''alice'' 1)" by code_simp
  then show ?thesis
    using upsert_places_book [of one_account "''t''" "''b''" "''alice''" 9 StatusDnf]
    by (simp add: one_account_def demo_row_def demo_shelf_def query_shelf_def) force
qed

theorem upsert_takes_other_accounts_row_witness:
  "list_book_shelves two_accounts None (Some ''bob'') (Some ''b'') \<noteq> []
   \<and> list_book_shelves \<lparr> sd_shelves = [demo_shelf ''s'', demo_shelf ''t''], sd_books = [bob_row] \<rparr> None (Some ''bob'') (Some ''b'') = []"
proof
  show "list_book_shelves two_accounts None (Some ''bob'') (Some ''b'') \<noteq> []"
    by (simp add: list_book_shelves_def two_accounts_def demo_row_def wanted_def)
qed (rule upsert_takes_other_accounts_row [OF two_accounts_wf two_accounts_upsert], simp)

theorem failed_upsert_deletes_rows_witness:
  "rows_of_book (fst (upsert_book_shelf two_accounts 9 ''bob'' ''none'' ''b'' StatusDnf)) ''b'' = [demo_row ''v'' ''t'' ''bob'' 2]"
proof -
  have "query_shelf two_accounts ''none'' = None"
    "rows_of_book two_accounts ''b'' = demo_row ''v'' ''t'' ''bob'' 2 # [demo_row ''u'' ''s'' ''alice'' 1]"
    by (simp_all add: query_shelf_def rows_of_book_def two_accounts_def demo_row_def demo_shelf_def)
  from failed_upsert_deletes_rows [OF two_accounts_wf this, of 9 StatusDnf] show ?thesis by (simp add: demo_row_def)
qed

end
