(* ===== verification/SearchIndex.thy ===== *)
theory SearchIndex
  imports SearchDsl
begin

text \<open>
  The writing half of \<open>livtet-search\<close>: the index schema (\<open>schema.rs\<close>), documents and their writing
  (\<open>doc.rs\<close>, \<open>write.rs\<close>), opening and migrating an index directory (\<open>index.rs\<close>).

  A document is the list of the fields added to it, in order; an index is the list of its committed
  documents. Tantivy is outside the repository: its tokenizers, facet parser, date conversion and
  \<open>Index::open_or_create\<close> are fields of \<open>search_env\<close>, with what the code relies on stated in
  \<open>tantivy_ok\<close>. Deleting a term removes every document that has the term in the field, which is what
  \<open>IndexWriter::delete_term\<close> documents.
\<close>

section \<open>\<open>schema.rs\<close>: fields and their options\<close>

datatype index_field =
    EDITION_ID | WORK_ID | WORK_ID_HASH | AUTHOR_ID | KIND
  | TITLE | EDITION_TITLE | WORK_DESCRIPTION | EDITION_DESCRIPTION | AUTHORS | TAGS | GENRES
  | SUBJECTS | PUBLISHERS | IDENTIFIER_KINDS | IDENTIFIER_VALUES | NOTES
  | FORMAT | LANGUAGE
  | LANGUAGE_FACET | PUBLISHER_FACET | SUBJECT_FACET | GENRE_FACET
  | PUB_DATE | PUBLISHED_YEAR | TITLE_SORT | PRIMARY_AUTHOR_SORT | CREATED_AT | UPDATED_AT | POPULARITY
  | SOURCE | HAS_FILE
  | TAG_ID | GENRE_ID | SUBJECT_ID | SERIES_ID | PUBLISHER_ID

text \<open>\<open>STRING\<close> and \<open>set_tokenizer("raw")\<close> keep the text as one term; \<open>TEXT\<close> uses \<open>"default"\<close>.\<close>

datatype tokenizer = RawTok | DefaultTok | EnStemTok

datatype field_kind = TextField tokenizer | U64Field | FacetField | DateField | BoolField

record field_options =
  fo_kind :: field_kind
  fo_indexed :: bool
  fo_stored :: bool
  fo_fast :: bool

definition field_opts :: "field_kind \<Rightarrow> bool \<Rightarrow> bool \<Rightarrow> bool \<Rightarrow> field_options" where
  "field_opts k i s f = \<lparr>fo_kind = k, fo_indexed = i, fo_stored = s, fo_fast = f\<rparr>"

definition id_text :: field_options where
  "id_text = field_opts (TextField RawTok) True True True"

definition stored_text :: field_options where
  "stored_text = field_opts (TextField EnStemTok) True True False"

definition id_stored_indexed :: field_options where
  "id_stored_indexed = field_opts (TextField DefaultTok) True True False"

type_synonym schema = "(index_field \<times> field_options) list"

definition build_schema :: schema where
  "build_schema =
     [(EDITION_ID, field_opts (TextField RawTok) True True False),
      (WORK_ID, field_opts (TextField RawTok) True True False),
      (WORK_ID_HASH, field_opts U64Field True False True),
      (KIND, field_opts (TextField RawTok) True True False),
      (AUTHOR_ID, id_text), (TAG_ID, id_text), (GENRE_ID, id_text), (SUBJECT_ID, id_text),
      (SERIES_ID, id_text), (PUBLISHER_ID, id_text),
      (TITLE, stored_text), (EDITION_TITLE, stored_text), (WORK_DESCRIPTION, stored_text),
      (EDITION_DESCRIPTION, stored_text), (AUTHORS, stored_text), (TAGS, stored_text),
      (GENRES, stored_text), (SUBJECTS, stored_text), (PUBLISHERS, stored_text),
      (IDENTIFIER_KINDS, id_stored_indexed), (IDENTIFIER_VALUES, id_stored_indexed),
      (NOTES, field_opts (TextField DefaultTok) True True False),
      (FORMAT, stored_text), (LANGUAGE, stored_text),
      (LANGUAGE_FACET, field_opts FacetField True True False),
      (PUBLISHER_FACET, field_opts FacetField True True False),
      (SUBJECT_FACET, field_opts FacetField True True False),
      (GENRE_FACET, field_opts FacetField True True False),
      (PUB_DATE, field_opts DateField True True True),
      (PUBLISHED_YEAR, field_opts U64Field True False True),
      (TITLE_SORT, field_opts (TextField RawTok) True False True),
      (PRIMARY_AUTHOR_SORT, field_opts (TextField RawTok) True False True),
      (CREATED_AT, field_opts DateField True True True),
      (UPDATED_AT, field_opts DateField True True True),
      (POPULARITY, field_opts U64Field False False True),
      (SOURCE, field_opts (TextField DefaultTok) True True False),
      (HAS_FILE, field_opts BoolField True True True)]"

definition field_of :: "index_field \<Rightarrow> field_options" where
  "field_of f = the (map_of build_schema f)"

definition SCHEMA_VERSION :: nat where "SCHEMA_VERSION = 4"
definition DEFAULT_SNIPPET_CHARS :: nat where "DEFAULT_SNIPPET_CHARS = 180"
definition WORK_GROUP_OVERFETCH :: nat where "WORK_GROUP_OVERFETCH = 8"
definition OPDS_WORK_ID_LIMIT :: nat where "OPDS_WORK_ID_LIMIT = 1000"
definition kind_edition :: string where "kind_edition = ''edition''"
definition kind_author :: string where "kind_author = ''author''"

section \<open>Documents, terms and the writer\<close>

datatype doc_value = VText string | VU64 nat | VDate int | VFacet string | VBool bool

type_synonym document = "(index_field \<times> doc_value) list"
type_synonym index = "document list"
type_synonym stored_index = "schema \<times> index"

datatype index_term = TText string | TBool bool

record search_env =
  se_deps :: deps
  se_hash :: "string \<Rightarrow> nat"
  se_lower :: "string \<Rightarrow> string"
  se_facet :: "string \<Rightarrow> string option"
  se_date_secs :: "int \<Rightarrow> int"
  se_tokens :: "tokenizer \<Rightarrow> string \<Rightarrow> string list"
  se_write_meta :: "string option"
  se_open_or_create :: "schema \<Rightarrow> stored_index option \<Rightarrow> (stored_index, string) result"

definition tantivy_ok :: "'e search_env_scheme \<Rightarrow> bool" where
  "tantivy_ok e \<longleftrightarrow> (\<forall>s. se_tokens e RawTok s = [s])
     \<and> (\<forall>sch. se_open_or_create e sch None = Inr (sch, []))
     \<and> (\<forall>sch ix. se_open_or_create e sch (Some (sch, ix)) = Inr (sch, ix))
     \<and> (\<forall>sch sch' ix. sch \<noteq> sch' \<longrightarrow> (\<exists>m. se_open_or_create e sch (Some (sch', ix)) = Inl m))"

text \<open>The English stemming tokenizer lower-cases every token.\<close>

definition lowercase_text :: "string \<Rightarrow> bool" where
  "lowercase_text t \<longleftrightarrow> list_all (\<lambda>c. \<not> is_ascii_uppercase c) t"

definition en_stem_ok :: "'e search_env_scheme \<Rightarrow> bool" where
  "en_stem_ok e \<longleftrightarrow> (\<forall>s. \<forall>t \<in> set (se_tokens e EnStemTok s). lowercase_text t)"

fun value_terms :: "'e search_env_scheme \<Rightarrow> field_kind \<Rightarrow> doc_value \<Rightarrow> index_term list" where
  "value_terms e (TextField tok) (VText s) = map TText (se_tokens e tok s)"
| "value_terms e BoolField (VBool b) = [TBool b]"
| "value_terms e _ _ = []"

definition has_term :: "'e search_env_scheme \<Rightarrow> index_field \<Rightarrow> index_term \<Rightarrow> document \<Rightarrow> bool" where
  "has_term e f t d \<longleftrightarrow>
     fo_indexed (field_of f)
     \<and> list_ex (\<lambda>(g, v). g = f \<and> List.member (value_terms e (fo_kind (field_of f)) v) t) d"

definition delete_term :: "'e search_env_scheme \<Rightarrow> index_field \<Rightarrow> index_term \<Rightarrow> index \<Rightarrow> index" where
  "delete_term e f t ix = filter (\<lambda>d. \<not> has_term e f t d) ix"

definition add_texts :: "index_field \<Rightarrow> string list \<Rightarrow> document" where
  "add_texts f ss = map (\<lambda>s. (f, VText s)) ss"

definition add_opt :: "index_field \<Rightarrow> string option \<Rightarrow> document" where
  "add_opt f s = (case s of Some t \<Rightarrow> [(f, VText t)] | None \<Rightarrow> [])"

definition facet_of :: "'e search_env_scheme \<Rightarrow> string \<Rightarrow> string" where
  "facet_of e s = (case se_facet e (''/'' @ s) of Some f \<Rightarrow> f | None \<Rightarrow> the (se_facet e ''/misc''))"

definition add_facets :: "'e search_env_scheme \<Rightarrow> index_field \<Rightarrow> string list \<Rightarrow> document" where
  "add_facets e f ss = map (\<lambda>s. (f, VFacet (facet_of e s))) ss"

text \<open>\<open>nanos.try_into().unwrap_or(0)\<close>: an \<open>i128\<close> that is no \<open>i64\<close> becomes the epoch.\<close>

definition nanos_i64 :: "int \<Rightarrow> int" where
  "nanos_i64 n = (if in_i64 n then n else 0)"

definition as_u64 :: "int \<Rightarrow> nat" where
  "as_u64 n = nat (n mod 2 ^ 64)"

definition unwrap_or_default :: "string option \<Rightarrow> string" where
  "unwrap_or_default s = (case s of Some t \<Rightarrow> t | None \<Rightarrow> [])"

section \<open>\<open>doc.rs\<close> and the single-document writes\<close>

record edition_doc =
  ed_edition_id :: string
  ed_work_id :: string
  ed_title :: string
  ed_edition_title :: "string option"
  ed_work_description :: "string option"
  ed_edition_description :: "string option"
  ed_authors :: "string list"
  ed_authors_ids :: "string list"
  ed_tags :: "string list"
  ed_genres :: "string list"
  ed_subjects :: "string list"
  ed_publishers :: "string list"
  ed_identifier_kinds :: "string list"
  ed_identifier_values :: "string list"
  ed_notes :: "string option"
  ed_format :: "string option"
  ed_language :: "string option"
  ed_pub_date :: "int option"
  ed_published_year :: "int option"
  ed_title_sort :: string
  ed_primary_author_sort :: "string option"
  ed_created_at :: int
  ed_updated_at :: "int option"
  ed_popularity :: int

record author_doc =
  ad_author_id :: string
  ad_name :: string
  ad_sort_name :: string
  ad_birth_year :: "int option"
  ad_death_year :: "int option"
  ad_source :: string

definition ids_part :: "'e search_env_scheme \<Rightarrow> string \<Rightarrow> string \<Rightarrow> string list \<Rightarrow> document" where
  "ids_part e edition work author_ids =
     [(EDITION_ID, VText edition), (WORK_ID, VText work), (WORK_ID_HASH, VU64 (se_hash e work))]
     @ add_texts AUTHOR_ID author_ids @ [(KIND, VText kind_edition)]"

definition facets_part ::
  "'e search_env_scheme \<Rightarrow> string option \<Rightarrow> string list \<Rightarrow> string list \<Rightarrow> string list \<Rightarrow> document" where
  "facets_part e language publishers subjects genres =
     (case language of
        Some l \<Rightarrow> [(LANGUAGE, VText l), (LANGUAGE_FACET, VFacet (facet_of e l))] | None \<Rightarrow> [])
     @ add_facets e PUBLISHER_FACET publishers @ add_facets e SUBJECT_FACET subjects
     @ add_facets e GENRE_FACET genres"

definition edition_document :: "'e search_env_scheme \<Rightarrow> edition_doc \<Rightarrow> document" where
  "edition_document e doc =
     (let published_year = (case ed_published_year doc of Some y \<Rightarrow> nat (max y 0) | None \<Rightarrow> 0) in
      ids_part e (ed_edition_id doc) (ed_work_id doc) (ed_authors_ids doc)
      @ [(TITLE, VText (ed_title doc))]
      @ add_opt EDITION_TITLE (ed_edition_title doc)
      @ add_opt WORK_DESCRIPTION (ed_work_description doc)
      @ add_opt EDITION_DESCRIPTION (ed_edition_description doc)
      @ add_texts AUTHORS (ed_authors doc) @ add_texts TAGS (ed_tags doc)
      @ add_texts GENRES (ed_genres doc) @ add_texts SUBJECTS (ed_subjects doc)
      @ add_texts PUBLISHERS (ed_publishers doc)
      @ add_texts IDENTIFIER_KINDS (ed_identifier_kinds doc)
      @ add_texts IDENTIFIER_VALUES (ed_identifier_values doc)
      @ [(NOTES, VText (unwrap_or_default (ed_notes doc)))]
      @ add_opt FORMAT (ed_format doc)
      @ facets_part e (ed_language doc) (ed_publishers doc) (ed_subjects doc) (ed_genres doc)
      @ (case ed_pub_date doc of Some s \<Rightarrow> [(PUB_DATE, VDate (se_date_secs e s))] | None \<Rightarrow> [])
      @ (if published_year > 0 then [(PUBLISHED_YEAR, VU64 published_year)] else [])
      @ [(TITLE_SORT, VText (se_lower e (ed_title_sort doc)))]
      @ add_opt PRIMARY_AUTHOR_SORT (map_option (se_lower e) (ed_primary_author_sort doc))
      @ [(CREATED_AT, VDate (se_date_secs e (ed_created_at doc)))]
      @ (case ed_updated_at doc of Some s \<Rightarrow> [(UPDATED_AT, VDate (se_date_secs e s))] | None \<Rightarrow> [])
      @ [(POPULARITY, VU64 (nat (max (ed_popularity doc) 0))), (SOURCE, VText ''catalog'')])"

definition upsert_edition :: "'e search_env_scheme \<Rightarrow> edition_doc \<Rightarrow> index \<Rightarrow> index" where
  "upsert_edition e doc ix =
     delete_term e EDITION_ID (TText (ed_edition_id doc)) ix @ [edition_document e doc]"

definition author_document :: "'e search_env_scheme \<Rightarrow> author_doc \<Rightarrow> document" where
  "author_document e doc =
     [(AUTHOR_ID, VText (ad_author_id doc)), (KIND, VText kind_author), (TITLE, VText (ad_name doc)),
      (AUTHORS, VText (ad_name doc)), (TITLE_SORT, VText (se_lower e (ad_sort_name doc))),
      (PRIMARY_AUTHOR_SORT, VText (se_lower e (ad_sort_name doc))), (SOURCE, VText (ad_source doc))]"

definition upsert_author :: "'e search_env_scheme \<Rightarrow> author_doc \<Rightarrow> index \<Rightarrow> index" where
  "upsert_author e doc ix =
     delete_term e AUTHOR_ID (TText (ad_author_id doc)) ix @ [author_document e doc]"

definition delete_edition :: "'e search_env_scheme \<Rightarrow> db_id \<Rightarrow> index \<Rightarrow> index" where
  "delete_edition e i ix = delete_term e EDITION_ID (TText (db_id_display (se_deps e) i)) ix"

section \<open>\<open>reindex\<close>: the library's rows as documents\<close>

text \<open>A \<open>time::Date\<close> is its year and its day number from 1970-01-01; a date-time is its nanoseconds.\<close>

record time_date =
  td_year :: int
  td_unix_day :: int

definition midnight_nanos :: "time_date \<Rightarrow> int" where
  "midnight_nanos d = td_unix_day d * 86400 * 1000000000"

record edition_model =
  em_id :: db_id
  em_work_id :: db_id
  em_group_id :: "db_id option"
  em_title :: "string option"
  em_published_date :: "time_date option"
  em_format_id :: "db_id option"
  em_language_id :: "db_id option"
  em_notes :: "string option"
  em_description :: "string option"
  em_format_metadata :: "json option"
  em_cover_image_url :: "string option"
  em_created_at :: int
  em_updated_at :: "int option"

record work_model =
  wm_id :: db_id
  wm_title :: string
  wm_description :: "string option"
  wm_sort_title :: "string option"
  wm_series_type :: "string option"
  wm_language_id :: "db_id option"
  wm_preferred_edition_id :: "db_id option"
  wm_created_at :: int
  wm_updated_at :: "int option"

record inventory_model =
  iv_id :: db_id
  iv_edition_id :: db_id
  iv_file_path :: "string option"
  iv_cover_path :: "string option"
  iv_blurhash :: "string option"
  iv_dominant_color :: "string option"
  iv_file_hash :: "string option"
  iv_file_size_bytes :: "int option"
  iv_file_format :: string
  iv_notes :: "string option"
  iv_added_at :: int
  iv_updated_at :: "int option"

record identifier_model =
  im_id :: db_id
  im_kind :: string
  im_value :: string

text \<open>Vocabulary tables are pairs of id and name, junction tables pairs of owner and member; the link of an
  edition to an author also has a role.\<close>

record library =
  lb_editions :: "edition_model list"
  lb_works :: "work_model list"
  lb_authors :: "(db_id \<times> string) list"
  lb_tags :: "(db_id \<times> string) list"
  lb_genres :: "(db_id \<times> string) list"
  lb_subjects :: "(db_id \<times> string) list"
  lb_publishers :: "(db_id \<times> string) list"
  lb_formats :: "(db_id \<times> string) list"
  lb_languages :: "(db_id \<times> string) list"
  lb_series :: "(db_id \<times> string) list"
  lb_edition_authors :: "(db_id \<times> db_id \<times> string) list"
  lb_work_authors :: "(db_id \<times> db_id) list"
  lb_edition_tags :: "(db_id \<times> db_id) list"
  lb_edition_genres :: "(db_id \<times> db_id) list"
  lb_edition_subjects :: "(db_id \<times> db_id) list"
  lb_edition_publishers :: "(db_id \<times> db_id) list"
  lb_series_entries :: "(db_id \<times> db_id) list"
  lb_inventory :: "inventory_model list"
  lb_edition_identifiers :: "(db_id \<times> db_id) list"
  lb_identifiers :: "identifier_model list"

text \<open>\<open>collect\<close> into a \<open>HashMap\<close>: the last pair of a key stays. \<open>filter(\<dots>.is_in(ids))\<close>. A map from an
  owner to a vector built with \<open>entry().or_default().push()\<close> has a key exactly when a row was pushed.\<close>

definition collect_map :: "('k \<times> 'v) list \<Rightarrow> 'k \<Rightarrow> 'v option" where
  "collect_map kvs = map_of (rev kvs)"

definition is_in :: "db_id list \<Rightarrow> (db_id \<times> 'b) list \<Rightarrow> (db_id \<times> 'b) list" where
  "is_in ids rows = filter (\<lambda>r. List.member ids (fst r)) rows"

definition pushed :: "(db_id \<times> 'b) list \<Rightarrow> db_id \<Rightarrow> 'b list option" where
  "pushed rows k = (let vs = map snd (filter (\<lambda>r. fst r = k) rows) in if vs = [] then None else Some vs)"

definition unwrap_list :: "'a list option \<Rightarrow> 'a list" where
  "unwrap_list x = (case x of Some vs \<Rightarrow> vs | None \<Rightarrow> [])"

definition edition_ids :: "library \<Rightarrow> db_id list" where
  "edition_ids lb = map em_id (lb_editions lb)"

definition edition_author_links :: "library \<Rightarrow> (db_id \<times> db_id) list" where
  "edition_author_links lb = map (\<lambda>(k, a, _). (k, a)) (lb_edition_authors lb)"

definition named_authors :: "library \<Rightarrow> (db_id \<times> db_id) list \<Rightarrow> (db_id \<times> db_id \<times> string) list" where
  "named_authors lb rows =
     List.map_filter (\<lambda>(k, a). map_option (\<lambda>n. (k, a, n)) (collect_map (lb_authors lb) a)) rows"

definition resolve_authors :: "library \<Rightarrow> edition_model \<Rightarrow> (db_id \<times> string) list" where
  "resolve_authors lb ed =
     (case pushed (named_authors lb (is_in (edition_ids lb) (edition_author_links lb))) (em_id ed) of
        Some as \<Rightarrow> as
      | None \<Rightarrow> unwrap_list
          (pushed (named_authors lb (is_in (map em_work_id (lb_editions lb)) (lb_work_authors lb)))
             (em_work_id ed)))"

definition canonical_identifier :: "identifier_model \<Rightarrow> string \<times> string" where
  "canonical_identifier i =
     (if im_kind i = ''isbn''
      then (case parse (im_value i) of
              Inr c \<Rightarrow> (im_kind i, Isbn.as_str c) | Inl _ \<Rightarrow> (im_kind i, im_value i))
      else (im_kind i, im_value i))"

definition edition_identifiers :: "library \<Rightarrow> db_id \<Rightarrow> (string \<times> string) list" where
  "edition_identifiers lb k =
     (let rows = is_in (edition_ids lb) (lb_edition_identifiers lb);
          fetched = filter (\<lambda>i. List.member (map snd rows) (im_id i)) (lb_identifiers lb);
          by_id = collect_map (map (\<lambda>i. (im_id i, i)) fetched) in
      map canonical_identifier
        (List.map_filter by_id (map snd (filter (\<lambda>r. fst r = k) rows))))"

definition member_ids :: "library \<Rightarrow> (db_id \<times> db_id) list \<Rightarrow> db_id \<Rightarrow> db_id list" where
  "member_ids lb rows k = unwrap_list (pushed (is_in (edition_ids lb) rows) k)"

definition member_names ::
  "library \<Rightarrow> (db_id \<times> db_id) list \<Rightarrow> (db_id \<times> string) list \<Rightarrow> db_id \<Rightarrow> string list" where
  "member_names lb rows vocabulary k = List.map_filter (collect_map vocabulary) (member_ids lb rows k)"

definition id_strs :: "'e search_env_scheme \<Rightarrow> db_id list \<Rightarrow> string list" where
  "id_strs e ids = map (db_id_display (se_deps e)) ids"

definition resolved_language :: "library \<Rightarrow> edition_model \<Rightarrow> work_model option \<Rightarrow> string option" where
  "resolved_language lb ed work =
     (let name_of = (\<lambda>l. Option.bind l (collect_map (lb_languages lb))) in
      case name_of (em_language_id ed) of
        Some n \<Rightarrow> Some n
      | None \<Rightarrow> name_of (Option.bind work wm_language_id))"

definition dates_part :: "edition_model \<Rightarrow> document" where
  "dates_part ed =
     (let published_year = (case em_published_date ed of Some d \<Rightarrow> as_u64 (td_year d) | None \<Rightarrow> 0) in
      (case em_published_date ed of
         Some d \<Rightarrow> [(PUB_DATE, VDate (nanos_i64 (midnight_nanos d)))] | None \<Rightarrow> [])
      @ (if published_year > 0 then [(PUBLISHED_YEAR, VU64 published_year)] else []))"

definition index_edition :: "'e search_env_scheme \<Rightarrow> library \<Rightarrow> edition_model \<Rightarrow> document" where
  "index_edition e lb ed =
     (let work = collect_map (map (\<lambda>w. (wm_id w, w)) (lb_works lb)) (em_work_id ed);
          edition_title = unwrap_or_default (em_title ed);
          work_title = (case work of Some w \<Rightarrow> wm_title w | None \<Rightarrow> []);
          resolved_title = (if edition_title = [] then work_title else edition_title);
          authors = resolve_authors lb ed;
          idents = edition_identifiers lb (em_id ed);
          tag_names = member_names lb (lb_edition_tags lb) (lb_tags lb) (em_id ed);
          genre_names = member_names lb (lb_edition_genres lb) (lb_genres lb) (em_id ed);
          subject_names = member_names lb (lb_edition_subjects lb) (lb_subjects lb) (em_id ed);
          publisher_names = member_names lb (lb_edition_publishers lb) (lb_publishers lb) (em_id ed) in
      ids_part e (db_id_display (se_deps e) (em_id ed)) (db_id_display (se_deps e) (em_work_id ed))
        (id_strs e (map fst authors))
      @ [(TITLE, VText resolved_title)]
      @ (if edition_title = [] then [] else [(EDITION_TITLE, VText edition_title)])
      @ add_opt WORK_DESCRIPTION (Option.bind work wm_description)
      @ add_opt EDITION_DESCRIPTION (em_description ed)
      @ add_texts AUTHORS (map snd authors) @ add_texts TAGS tag_names @ add_texts GENRES genre_names
      @ add_texts SUBJECTS subject_names @ add_texts PUBLISHERS publisher_names
      @ add_texts IDENTIFIER_KINDS (map fst idents) @ add_texts IDENTIFIER_VALUES (map snd idents)
      @ [(NOTES, VText (unwrap_or_default (em_notes ed)))]
      @ add_opt FORMAT (Option.bind (em_format_id ed) (collect_map (lb_formats lb)))
      @ facets_part e (resolved_language lb ed work) publisher_names subject_names genre_names
      @ dates_part ed
      @ [(TITLE_SORT, VText (se_lower e resolved_title))]
      @ (case authors of (_, primary) # _ \<Rightarrow> [(PRIMARY_AUTHOR_SORT, VText (se_lower e primary))] | [] \<Rightarrow> [])
      @ [(CREATED_AT, VDate (nanos_i64 (em_created_at ed)))]
      @ (case em_updated_at ed of Some t \<Rightarrow> [(UPDATED_AT, VDate (nanos_i64 t))] | None \<Rightarrow> [])
      @ [(POPULARITY, VU64 0), (SOURCE, VText ''catalog''),
         (HAS_FILE, VBool (List.member (map iv_edition_id (lb_inventory lb)) (em_id ed)))]
      @ add_texts TAG_ID (id_strs e (member_ids lb (lb_edition_tags lb) (em_id ed)))
      @ add_texts GENRE_ID (id_strs e (member_ids lb (lb_edition_genres lb) (em_id ed)))
      @ add_texts SUBJECT_ID (id_strs e (member_ids lb (lb_edition_subjects lb) (em_id ed)))
      @ add_texts SERIES_ID (id_strs e (member_ids lb (lb_series_entries lb) (em_id ed)))
      @ add_texts PUBLISHER_ID (id_strs e (member_ids lb (lb_edition_publishers lb) (em_id ed))))"

definition index_author :: "'e search_env_scheme \<Rightarrow> db_id \<times> string \<Rightarrow> document" where
  "index_author e a =
     [(AUTHOR_ID, VText (db_id_display (se_deps e) (fst a))), (KIND, VText kind_author),
      (TITLE, VText (snd a)), (AUTHORS, VText (snd a)), (TITLE_SORT, VText (se_lower e (snd a))),
      (PRIMARY_AUTHOR_SORT, VText (se_lower e (snd a)))]"

datatype reindex_event = Loading | Indexing nat nat

datatype search_error =
    TantivyError string
  | DbError string
  | SchemaVersionMismatch nat nat

definition index_documents :: "'e search_env_scheme \<Rightarrow> library \<Rightarrow> index" where
  "index_documents e lb = map (index_edition e lb) (lb_editions lb) @ map (index_author e) (lb_authors lb)"

text \<open>The old documents are deleted and that is committed before the database is read: a read that
  fails leaves an empty index. The events are those the progress hook receives.\<close>

definition reindex_with_progress ::
  "'e search_env_scheme \<Rightarrow> (library, string) result \<Rightarrow> index \<Rightarrow> index \<times> reindex_event list \<times> (unit, search_error) result" where
  "reindex_with_progress e db ix =
     (case db of
        Inl err \<Rightarrow> ([], [Loading], Inl (DbError err))
      | Inr lb \<Rightarrow>
          (let docs = index_documents e lb; total_docs = length docs in
           (docs, Loading # map (\<lambda>n. Indexing n total_docs) [0..<total_docs + 1], Inr ())))"

definition reindex :: "'e search_env_scheme \<Rightarrow> (library, string) result \<Rightarrow> index \<Rightarrow> index \<times> (unit, search_error) result" where
  "reindex e db ix = (case reindex_with_progress e db ix of (ix', _, r) \<Rightarrow> (ix', r))"

definition add_edition ::
  "'e search_env_scheme \<Rightarrow> (library, string) result \<Rightarrow> db_id \<Rightarrow> index \<Rightarrow> index \<times> (unit, search_error) result" where
  "add_edition e db i ix = reindex e db ix"

section \<open>\<open>sea_orm_resource_lookup.rs\<close>: rows by id\<close>

text \<open>\<open>find_by_id\<close> and the batched \<open>find_many\<close>, over the id of a row.\<close>

definition find_row :: "('r \<Rightarrow> db_id) \<Rightarrow> 'r list \<Rightarrow> db_id \<Rightarrow> 'r option" where
  "find_row key rows i = List.find (\<lambda>r. key r = i) rows"

definition find_many :: "('r \<Rightarrow> db_id) \<Rightarrow> 'r list \<Rightarrow> db_id list \<Rightarrow> 'r list" where
  "find_many key rows ids = (if ids = [] then [] else filter (\<lambda>r. List.member ids (key r)) rows)"

fun resource_table :: "library \<Rightarrow> resource_kind \<Rightarrow> (db_id \<times> string) list" where
  "resource_table lb Author = lb_authors lb"
| "resource_table lb Genre = lb_genres lb"
| "resource_table lb Subject = lb_subjects lb"
| "resource_table lb Series = lb_series lb"
| "resource_table lb Publisher = lb_publishers lb"
| "resource_table lb Tag = lb_tags lb"

definition resource_exists :: "library \<Rightarrow> resource_kind \<Rightarrow> db_id \<Rightarrow> bool" where
  "resource_exists lb kind i \<longleftrightarrow> find_row fst (resource_table lb kind) i \<noteq> None"

definition resource_names :: "library \<Rightarrow> resource_kind \<Rightarrow> db_id list \<Rightarrow> db_id \<Rightarrow> string option" where
  "resource_names lb kind ids =
     (if ids = [] then Map.empty else collect_map (find_many fst (resource_table lb kind) ids))"

definition isbn_value :: "identifier_model \<Rightarrow> string" where
  "isbn_value i = (case parse (im_value i) of Inr c \<Rightarrow> Isbn.as_str c | Inl _ \<Rightarrow> im_value i)"

definition get_edition_isbns_impl :: "library \<Rightarrow> db_id list \<Rightarrow> db_id \<Rightarrow> string list option" where
  "get_edition_isbns_impl lb ids =
     (let rows = (if ids = [] then [] else is_in ids (lb_edition_identifiers lb));
          fetched = filter (\<lambda>i. List.member (map snd rows) (im_id i)) (lb_identifiers lb);
          by_id = collect_map (map (\<lambda>i. (im_id i, i)) fetched) in
      if rows = [] then Map.empty
      else pushed (List.map_filter
             (\<lambda>(k, i). Option.bind (by_id i)
                (\<lambda>ident. if im_kind ident = ''isbn'' then Some (k, isbn_value ident) else None)) rows))"

section \<open>\<open>index.rs\<close>: opening and migrating an index directory\<close>

text \<open>The directory: the path of its sidecar file, that file (absent, unreadable, or its text), the tantivy index in it, and
  whether a writer holds its lock.\<close>

record index_dir =
  dir_meta_path :: string
  dir_sidecar :: "(string, string) result option"
  dir_index :: "stored_index option"
  dir_locked :: bool

definition META_FILE :: string where "META_FILE = ''search_schema_version.json''"

definition as_u64_json :: "json \<Rightarrow> nat option" where
  "as_u64_json v = (case v of JInt n \<Rightarrow> if 0 \<le> n \<and> n < 2 ^ 64 then Some (nat n) else None | _ \<Rightarrow> None)"

definition read_schema_version :: "'e search_env_scheme \<Rightarrow> index_dir \<Rightarrow> (nat option, search_error) result" where
  "read_schema_version e dir =
     (case dir_sidecar dir of
        None \<Rightarrow> Inr None
      | Some (Inl m) \<Rightarrow> Inl (TantivyError (''cannot read '' @ META_FILE @ '' at '' @ dir_meta_path dir @ '': '' @ m))
      | Some (Inr raw) \<Rightarrow>
          (case json_from_str (se_deps e) raw of
             Inl m \<Rightarrow> Inl (TantivyError (''malformed '' @ META_FILE @ '' at '' @ dir_meta_path dir @ '': '' @ m))
           | Inr parsed \<Rightarrow>
               Inr (Some (case Option.bind (json_get parsed ''schema_version'') as_u64_json of
                            Some v \<Rightarrow> v mod 2 ^ 32 | None \<Rightarrow> 1))))"

definition write_schema_version :: "'e search_env_scheme \<Rightarrow> index_dir \<Rightarrow> (index_dir, search_error) result" where
  "write_schema_version e dir =
     (case se_write_meta e of
        Some m \<Rightarrow> Inl (TantivyError (''cannot write '' @ META_FILE @ '' at '' @ dir_meta_path dir @ '': '' @ m))
      | None \<Rightarrow> Inr (dir\<lparr>dir_sidecar := Some (Inr (json_to_string (se_deps e)
           (JObject [(''schema_version'', JInt (int SCHEMA_VERSION))]) @ [CHR 0x0A]))\<rparr>))"

definition open_index_parts :: "'e search_env_scheme \<Rightarrow> index_dir \<Rightarrow> (index_dir, search_error) result" where
  "open_index_parts e dir =
     (case se_open_or_create e build_schema (dir_index dir) of
        Inl m \<Rightarrow> Inl (TantivyError m)
      | Inr ix \<Rightarrow> Inr (dir\<lparr>dir_index := Some ix\<rparr>))"

definition open_reader :: "'e search_env_scheme \<Rightarrow> index_dir \<Rightarrow> index_dir \<times> (unit, search_error) result" where
  "open_reader e dir =
     (case read_schema_version e dir of
        Inl err \<Rightarrow> (dir, Inl err)
      | Inr v \<Rightarrow>
          (let on_disk = (case v of Some n \<Rightarrow> n | None \<Rightarrow> SCHEMA_VERSION) in
           if on_disk \<noteq> SCHEMA_VERSION then (dir, Inl (SchemaVersionMismatch on_disk SCHEMA_VERSION))
           else (case open_index_parts e dir of
                   Inl err \<Rightarrow> (dir, Inl err)
                 | Inr dir' \<Rightarrow>
                     (if dir_sidecar dir' \<noteq> None then (dir', Inr ())
                      else (case write_schema_version e dir' of
                              Inl err \<Rightarrow> (dir', Inl err) | Inr dir'' \<Rightarrow> (dir'', Inr ()))))))"

definition open_writer :: "index_dir \<Rightarrow> (index_dir, search_error) result" where
  "open_writer dir =
     (if dir_locked dir then Inl (TantivyError ''LockBusy'') else Inr (dir\<lparr>dir_locked := True\<rparr>))"

definition open_index :: "'e search_env_scheme \<Rightarrow> index_dir \<Rightarrow> index_dir \<times> (unit, search_error) result" where
  "open_index e dir =
     (case open_reader e dir of
        (dir', Inl err) \<Rightarrow> (dir', Inl err)
      | (dir', Inr _) \<Rightarrow>
          (case open_writer dir' of Inl err \<Rightarrow> (dir', Inl err) | Inr dir'' \<Rightarrow> (dir'', Inr ())))"

text \<open>The temporary writer is dropped on every path out of the migration, which releases the lock.\<close>

definition rebuild ::
  "'e search_env_scheme \<Rightarrow> (library, string) result \<Rightarrow> index_dir \<Rightarrow>
   index_dir \<times> reindex_event list \<times> (unit, search_error) result" where
  "rebuild e db dir =
     (case open_index_parts e dir of
        Inl err \<Rightarrow> (dir, [], Inl err)
      | Inr dir1 \<Rightarrow>
          (case open_writer dir1 of
             Inl err \<Rightarrow> (dir1, [], Inl err)
           | Inr dir2 \<Rightarrow>
               (case reindex_with_progress e db (snd (the (dir_index dir2))) of
                  (ix, events, r) \<Rightarrow>
                    (let dir3 = dir2\<lparr>dir_index := Some (build_schema, ix), dir_locked := False\<rparr> in
                     case r of
                       Inl err \<Rightarrow> (dir3, events, Inl err)
                     | Inr _ \<Rightarrow>
                         (case write_schema_version e dir3 of
                            Inl err \<Rightarrow> (dir3, events, Inl err) | Inr dir4 \<Rightarrow> (dir4, events, Inr ()))))))"

definition migrate_to_with_progress ::
  "'e search_env_scheme \<Rightarrow> (library, string) result \<Rightarrow> index_dir \<Rightarrow>
   index_dir \<times> reindex_event list \<times> (nat, search_error) result" where
  "migrate_to_with_progress e db dir =
     (case read_schema_version e dir of
        Inl err \<Rightarrow> (dir, [], Inl err)
      | Inr v \<Rightarrow>
          (let prev = (case v of Some n \<Rightarrow> n | None \<Rightarrow> 1) in
           if prev > SCHEMA_VERSION then (dir, [], Inl (SchemaVersionMismatch prev SCHEMA_VERSION))
           else if prev = SCHEMA_VERSION then (dir, [Indexing 0 0], Inr prev)
           else (case rebuild e db dir of
                   (dir', events, Inl err) \<Rightarrow> (dir', events, Inl err)
                 | (dir', events, Inr _) \<Rightarrow> (dir', events, Inr prev))))"

definition migrate_to ::
  "'e search_env_scheme \<Rightarrow> (library, string) result \<Rightarrow> index_dir \<Rightarrow> index_dir \<times> (nat, search_error) result" where
  "migrate_to e db dir =
     (case read_schema_version e dir of
        Inl err \<Rightarrow> (dir, Inl err)
      | Inr v \<Rightarrow>
          (let prev = (case v of Some n \<Rightarrow> n | None \<Rightarrow> 1) in
           if prev > SCHEMA_VERSION then (dir, Inl (SchemaVersionMismatch prev SCHEMA_VERSION))
           else if prev = SCHEMA_VERSION then (dir, Inr prev)
           else (case rebuild e db dir of
                   (dir', _, Inl err) \<Rightarrow> (dir', Inl err)
                 | (dir', _, Inr _) \<Rightarrow> (dir', Inr prev))))"

end
