(* ===== verification/SearchHits.thy ===== *)
theory SearchHits
  imports SearchIndex Complex_Main
begin

text \<open>
  The reading half of \<open>livtet-search\<close>: queries from filters, the edition searches with their limits,
  sorting, hits and collapsing to works (\<open>search.rs\<close>, \<open>model.rs\<close>), and the label cache
  (\<open>label_resolver.rs\<close>).

  Tantivy's query parser, ranking, snippets and explanations are fields of \<open>reader_env\<close>. A document
  stands for its address: \<open>searcher.doc\<close> gives back its stored fields. Scores are finite \<open>f32\<close>, here
  rationals. \<open>usize\<close> is 64 bits wide.
\<close>

section \<open>Queries\<close>

datatype query =
    AllQuery
  | ParsedQuery string
  | TermQuery index_field index_term
  | TermSetQuery "(index_field \<times> string) list"
  | BooleanQuery "query list"

text \<open>\<open>ParsedQuery\<close> is what \<open>QueryParser::parse_query\<close> makes of a text; every clause of a
  \<open>BooleanQuery\<close> here is \<open>Occur::Must\<close>.\<close>

record reader_env = search_env +
  re_parses :: "string \<Rightarrow> (unit, string) result"
  re_text_match :: "string \<Rightarrow> document \<Rightarrow> bool"
  re_rank :: "query \<Rightarrow> index \<Rightarrow> (rat \<times> document) list"
  re_top_docs :: "nat \<Rightarrow> query \<Rightarrow> index \<Rightarrow> ((rat \<times> document) list, string) result"
  re_snippets :: "query \<Rightarrow> nat \<Rightarrow> (document \<Rightarrow> string \<times> (nat \<times> nat) list) option"
  re_explain :: "query \<Rightarrow> document \<Rightarrow> string option"
  re_debug_date :: "int \<Rightarrow> string"

fun matches :: "reader_env \<Rightarrow> query \<Rightarrow> document \<Rightarrow> bool" where
  "matches e AllQuery d = True"
| "matches e (ParsedQuery s) d = re_text_match e s d"
| "matches e (TermQuery f t) d = has_term e f t d"
| "matches e (TermSetQuery ts) d = list_ex (\<lambda>(f, s). has_term e f (TText s) d) ts"
| "matches e (BooleanQuery qs) d = (qs \<noteq> [] \<and> list_all (\<lambda>q. matches e q d) qs)"

text \<open>Documented behaviour of the collector: the ranking holds the documents that match, best score
  first, and \<open>TopDocs::with_limit(n)\<close> is its first \<open>n\<close> entries; a limit of 0 is not allowed.\<close>

definition rank_ok :: "reader_env \<Rightarrow> bool" where
  "rank_ok e \<longleftrightarrow>
     (\<forall>q ix. mset (map snd (re_rank e q ix)) = mset (filter (matches e q) ix)
           \<and> sorted_wrt (\<lambda>a b. fst b \<le> fst a) (re_rank e q ix))
     \<and> (\<forall>n q ix. 0 < n \<longrightarrow> re_top_docs e n q ix = Inr (take n (re_rank e q ix)))"

datatype sort_direction = Desc | Asc

datatype sort_field = FieldTitle | FieldCreatedAt | FieldUpdatedAt | FieldScore

record sort_spec =
  so_field :: sort_field
  so_direction :: sort_direction
  so_limit :: "nat option"

record work_filters =
  wf_tag_ids :: "db_id list"
  wf_genre_ids :: "db_id list"
  wf_subject_ids :: "db_id list"
  wf_publisher_ids :: "db_id list"
  wf_author_ids :: "db_id list"
  wf_format_ids :: "db_id list"
  wf_language_ids :: "db_id list"
  wf_has_file :: "bool option"
  wf_sort_by :: "work_sort_by option"
  wf_sort_direction :: "sort_direction option"
  wf_limit :: "nat option"

definition no_filters :: work_filters where
  "no_filters = \<lparr>wf_tag_ids = [], wf_genre_ids = [], wf_subject_ids = [], wf_publisher_ids = [],
     wf_author_ids = [], wf_format_ids = [], wf_language_ids = [], wf_has_file = None, wf_sort_by = None,
     wf_sort_direction = None, wf_limit = None\<rparr>"

record work_filters_resolved =
  wr_filters :: work_filters
  wr_format_labels :: "string list"
  wr_language_labels :: "string list"

record work_filters_query =
  wq_resolved :: work_filters_resolved
  wq_query :: string

definition map_id_filter :: "reader_env \<Rightarrow> db_id list \<Rightarrow> index_field \<Rightarrow> query list" where
  "map_id_filter e ids f =
     (if ids = [] then [] else [TermSetQuery (map (\<lambda>i. (f, db_id_display (se_deps e) i)) ids)])"

definition map_text_filter :: "string list \<Rightarrow> index_field \<Rightarrow> query list" where
  "map_text_filter labels f = (if labels = [] then [] else [TermSetQuery (map (\<lambda>l. (f, l)) labels)])"

definition parse_query :: "reader_env \<Rightarrow> string \<Rightarrow> (query, string) result" where
  "parse_query e s = result_bind (re_parses e s) (\<lambda>_. Inr (ParsedQuery s))"

definition has_filters :: "work_filters_resolved \<Rightarrow> bool" where
  "has_filters r \<longleftrightarrow>
     wf_tag_ids (wr_filters r) \<noteq> [] \<or> wf_genre_ids (wr_filters r) \<noteq> []
     \<or> wf_subject_ids (wr_filters r) \<noteq> [] \<or> wf_publisher_ids (wr_filters r) \<noteq> []
     \<or> wf_author_ids (wr_filters r) \<noteq> [] \<or> wr_format_labels r \<noteq> [] \<or> wr_language_labels r \<noteq> []
     \<or> wf_has_file (wr_filters r) \<noteq> None"

definition filter_clauses :: "reader_env \<Rightarrow> work_filters_resolved \<Rightarrow> query list" where
  "filter_clauses e r =
     (let f = wr_filters r in
      map_id_filter e (wf_tag_ids f) TAG_ID @ map_id_filter e (wf_genre_ids f) GENRE_ID
      @ map_id_filter e (wf_subject_ids f) SUBJECT_ID @ map_id_filter e (wf_publisher_ids f) PUBLISHER_ID
      @ map_id_filter e (wf_author_ids f) AUTHOR_ID
      @ map_text_filter (wr_format_labels r) FORMAT @ map_text_filter (wr_language_labels r) LANGUAGE
      @ (case wf_has_file f of Some b \<Rightarrow> [TermQuery HAS_FILE (TBool b)] | None \<Rightarrow> []))"

definition build_query :: "reader_env \<Rightarrow> work_filters_query \<Rightarrow> (query, string) result" where
  "build_query e w =
     (let has_query = trim (wq_query w) \<noteq> [] in
      if \<not> has_query \<and> \<not> has_filters (wq_resolved w) then Inr AllQuery
      else if has_query
      then result_bind (parse_query e (escape_query_text (wq_query w)))
             (\<lambda>q. Inr (BooleanQuery (q # filter_clauses e (wq_resolved w))))
      else Inr (BooleanQuery (filter_clauses e (wq_resolved w))))"

definition build_sort :: "work_filters_query \<Rightarrow> sort_spec" where
  "build_sort w =
     (let f = wr_filters (wq_resolved w);
          direction = (case wf_sort_direction f of Some d \<Rightarrow> d | None \<Rightarrow> Desc);
          limit = effective_limit (wf_limit f) (wf_sort_by f) in
      case wf_sort_by f of
        Some SortTitle \<Rightarrow> \<lparr>so_field = FieldTitle, so_direction = direction, so_limit = limit\<rparr>
      | Some SortUpdatedAt \<Rightarrow> \<lparr>so_field = FieldUpdatedAt, so_direction = direction, so_limit = limit\<rparr>
      | Some SortNewestCap \<Rightarrow>
          \<lparr>so_field = FieldCreatedAt, so_direction = Desc,
           so_limit = (case limit of Some n \<Rightarrow> Some n | None \<Rightarrow> Some 100)\<rparr>
      | _ \<Rightarrow> \<lparr>so_field = FieldCreatedAt, so_direction = direction, so_limit = limit\<rparr>)"

definition editions_only :: "query \<Rightarrow> query" where
  "editions_only q = BooleanQuery [q, TermQuery KIND (TText kind_edition)]"

definition build_filtered_query :: "reader_env \<Rightarrow> string \<Rightarrow> work_filters \<Rightarrow> (query, string) result" where
  "build_filtered_query e s f =
     result_bind
       (build_query e \<lparr>wq_resolved = \<lparr>wr_filters = f, wr_format_labels = [], wr_language_labels = []\<rparr>,
                       wq_query = s\<rparr>)
       (\<lambda>q. Inr (editions_only q))"

section \<open>Hits\<close>

datatype hit_kind = HitEdition | HitWork | HitPerson

record search_hit =
  h_kind :: hit_kind
  h_edition_id :: "string option"
  h_work_id :: string
  h_author_id :: "string option"
  h_title :: string
  h_work_title :: "string option"
  h_edition_title :: "string option"
  h_authors :: "string list"
  h_isbn :: "string option"
  h_format :: "string option"
  h_language :: "string option"
  h_published_date :: "string option"
  h_score :: rat
  h_explanation :: "string option"
  h_snippet_text :: "string option"
  h_snippet_highlighted :: "(nat \<times> nat) list"
  h_grouped_edition_ids :: "string list"
  h_source :: string
  h_has_file :: bool

record search_options =
  op_explain :: bool
  op_with_snippet :: bool
  op_snippet_chars :: int
  op_collapse_to_works :: bool
  op_work_overfetch :: int
  op_sort :: "sort_spec option"
  op_offset :: int
  op_source_filter :: "string option"

definition default_options :: search_options where
  "default_options = \<lparr>op_explain = False, op_with_snippet = True,
     op_snippet_chars = int DEFAULT_SNIPPET_CHARS, op_collapse_to_works = False,
     op_work_overfetch = int WORK_GROUP_OVERFETCH, op_sort = None, op_offset = 0, op_source_filter = None\<rparr>"

text \<open>\<open>searcher.doc\<close> returns the stored fields of a document; \<open>get_first\<close> and \<open>get_all\<close> read them.\<close>

definition stored_doc :: "document \<Rightarrow> document" where
  "stored_doc d = filter (\<lambda>(f, _). fo_stored (field_of f)) d"

definition get_all :: "document \<Rightarrow> index_field \<Rightarrow> doc_value list" where
  "get_all d f = map snd (filter (\<lambda>(g, _). g = f) d)"

definition get_first :: "document \<Rightarrow> index_field \<Rightarrow> doc_value option" where
  "get_first d f = (case get_all d f of [] \<Rightarrow> None | v # _ \<Rightarrow> Some v)"

fun value_str :: "doc_value \<Rightarrow> string option" where
  "value_str (VText s) = Some s"
| "value_str _ = None"

fun value_datetime :: "doc_value \<Rightarrow> int option" where
  "value_datetime (VDate t) = Some t"
| "value_datetime _ = None"

fun value_bool :: "doc_value \<Rightarrow> bool option" where
  "value_bool (VBool b) = Some b"
| "value_bool _ = None"

definition first_str :: "document \<Rightarrow> index_field \<Rightarrow> string option" where
  "first_str d f = Option.bind (get_first d f) value_str"

definition build_hit :: "reader_env \<Rightarrow> query \<Rightarrow> search_options \<Rightarrow> rat \<times> document \<Rightarrow> search_hit" where
  "build_hit e q opts r =
     (let d = stored_doc (snd r);
          generator = (if op_with_snippet opts then re_snippets e q (nat (max (op_snippet_chars opts) 0))
                       else None);
          kind = (if unwrap_or_default (first_str d KIND) = kind_author then HitPerson else HitEdition);
          snippet = (case generator of
                       Some g \<Rightarrow> (Some (fst (g d)),
                                  map (\<lambda>(a, b). (a mod 2 ^ 32, b mod 2 ^ 32)) (snd (g d)))
                     | None \<Rightarrow> (None, [])) in
      \<lparr>h_kind = kind,
       h_edition_id = (if kind = HitEdition then first_str d EDITION_ID else None),
       h_work_id = unwrap_or_default (first_str d WORK_ID),
       h_author_id = (if kind = HitPerson then first_str d AUTHOR_ID else None),
       h_title = unwrap_or_default (first_str d TITLE),
       h_work_title = None,
       h_edition_title = first_str d EDITION_TITLE,
       h_authors = (if kind = HitPerson then [] else List.map_filter value_str (get_all d AUTHORS)),
       h_isbn = None,
       h_format = first_str d FORMAT,
       h_language = first_str d LANGUAGE,
       h_published_date =
         map_option (re_debug_date e) (Option.bind (get_first d PUB_DATE) value_datetime),
       h_score = fst r,
       h_explanation = (if op_explain opts then re_explain e q (snd r) else None),
       h_snippet_text = fst snippet,
       h_snippet_highlighted = snd snippet,
       h_grouped_edition_ids = [],
       h_source = (case first_str d SOURCE of Some s \<Rightarrow> s | None \<Rightarrow> ''catalog''),
       h_has_file = (case Option.bind (get_first d HAS_FILE) value_bool of Some b \<Rightarrow> b | None \<Rightarrow> False)\<rparr>)"

definition build_hits ::
  "reader_env \<Rightarrow> query \<Rightarrow> (rat \<times> document) list \<Rightarrow> search_options \<Rightarrow> search_hit list" where
  "build_hits e q top_docs opts = map (build_hit e q opts) top_docs"

section \<open>Sorting and collapsing\<close>

datatype ordering = Less | Equal | Greater

datatype sort_key = KeyTitle string | KeyDate int

text \<open>\<open>Ord for SortKey\<close>; keys of different kinds count as equal.\<close>

definition three_way :: "'a :: linorder \<Rightarrow> 'a \<Rightarrow> ordering" where
  "three_way a b = (if a < b then Less else if a = b then Equal else Greater)"

fun key_cmp :: "sort_key \<Rightarrow> sort_key \<Rightarrow> ordering" where
  "key_cmp (KeyTitle a) (KeyTitle b) = three_way a b"
| "key_cmp (KeyDate a) (KeyDate b) = three_way a b"
| "key_cmp _ _ = Equal"

definition DATE_MIN :: int where "DATE_MIN = i64_min"

definition key_of :: "reader_env \<Rightarrow> sort_field \<Rightarrow> document \<Rightarrow> sort_key" where
  "key_of e f d =
     (case f of
        FieldTitle \<Rightarrow>
          KeyTitle (unwrap_or_default (map_option (se_lower e) (first_str (stored_doc d) TITLE)))
      | FieldUpdatedAt \<Rightarrow>
          KeyDate (case Option.bind (get_first (stored_doc d) UPDATED_AT) value_datetime of
                     Some t \<Rightarrow> t | None \<Rightarrow> DATE_MIN)
      | _ \<Rightarrow>
          KeyDate (case Option.bind (get_first (stored_doc d) CREATED_AT) value_datetime of
                     Some t \<Rightarrow> t | None \<Rightarrow> DATE_MIN))"

text \<open>The comparison of \<open>sort_by\<close>: the key in the requested direction, \<open>then\<close> the original index. The
  sort itself is a stable insertion by that comparison.\<close>

definition sort_before :: "sort_direction \<Rightarrow> nat \<times> sort_key \<Rightarrow> nat \<times> sort_key \<Rightarrow> bool" where
  "sort_before dir a b \<longleftrightarrow>
     (case (case dir of Asc \<Rightarrow> key_cmp (snd a) (snd b) | Desc \<Rightarrow> key_cmp (snd b) (snd a)) of
        Less \<Rightarrow> True | Greater \<Rightarrow> False | Equal \<Rightarrow> fst a \<le> fst b)"

fun insert_by :: "('a \<Rightarrow> 'a \<Rightarrow> bool) \<Rightarrow> 'a \<Rightarrow> 'a list \<Rightarrow> 'a list" where
  "insert_by le x [] = [x]"
| "insert_by le x (y # ys) = (if le x y then x # y # ys else y # insert_by le x ys)"

definition sort_by :: "('a \<Rightarrow> 'a \<Rightarrow> bool) \<Rightarrow> 'a list \<Rightarrow> 'a list" where
  "sort_by le xs = foldr (insert_by le) xs []"

definition sort_top_docs_by_spec ::
  "reader_env \<Rightarrow> (rat \<times> document) list \<Rightarrow> sort_spec \<Rightarrow> (rat \<times> document) list" where
  "sort_top_docs_by_spec e top_docs spec =
     (if so_field spec = FieldScore then top_docs
      else (let indexed = map (\<lambda>i. (i, key_of e (so_field spec) (snd (top_docs ! i)))) [0..<length top_docs] in
            map (\<lambda>p. top_docs ! fst p) (sort_by (sort_before (so_direction spec)) indexed)))"

definition push_edition :: "search_hit \<Rightarrow> search_hit \<Rightarrow> search_hit" where
  "push_edition h from_hit =
     (case h_edition_id from_hit of
        Some eid \<Rightarrow> h\<lparr>h_grouped_edition_ids := h_grouped_edition_ids h @ [eid]\<rparr> | None \<Rightarrow> h)"

definition collapse_step ::
  "(string \<rightharpoonup> search_hit) \<times> string list \<Rightarrow> search_hit \<Rightarrow> (string \<rightharpoonup> search_hit) \<times> string list" where
  "collapse_step st h =
     (case st of (grouped, order) \<Rightarrow>
        (case grouped (h_work_id h) of
           Some existing \<Rightarrow>
             (let pushed_hit = push_edition existing h;
                  scored = (if h_score pushed_hit < h_score h then pushed_hit\<lparr>h_score := h_score h\<rparr>
                            else pushed_hit) in
              (grouped(h_work_id h \<mapsto> scored), order))
         | None \<Rightarrow> (grouped(h_work_id h \<mapsto> push_edition h h), order @ [h_work_id h])))"

fun emit_works :: "(string \<rightharpoonup> search_hit) \<Rightarrow> nat \<Rightarrow> search_hit list \<Rightarrow> string list \<Rightarrow> search_hit list" where
  "emit_works grouped limit out [] = out"
| "emit_works grouped limit out (key # keys) =
     (case grouped key of
        Some h \<Rightarrow>
          (if limit \<le> length (out @ [h]) then out @ [h]
           else emit_works (grouped(key := None)) limit (out @ [h]) keys)
      | None \<Rightarrow> emit_works grouped limit out keys)"

definition collapse_editions_to_works :: "search_hit list \<Rightarrow> nat \<Rightarrow> search_hit list" where
  "collapse_editions_to_works hits limit =
     (case foldl collapse_step (Map.empty, []) hits of (grouped, order) \<Rightarrow> emit_works grouped limit [] order)"

section \<open>The edition searches\<close>

definition USIZE_MAX :: nat where "USIZE_MAX = 2 ^ 64 - 1"

definition saturating_add :: "nat \<Rightarrow> nat \<Rightarrow> nat" where
  "saturating_add a b = min (a + b) USIZE_MAX"

definition saturating_mul :: "nat \<Rightarrow> nat \<Rightarrow> nat" where
  "saturating_mul a b = min (a * b) USIZE_MAX"

definition base_limit :: "nat \<Rightarrow> search_options \<Rightarrow> nat" where
  "base_limit limit opts =
     (let effective = saturating_add limit (as_u64 (op_offset opts)) in
      if op_collapse_to_works opts then saturating_mul effective (as_u64 (max (op_work_overfetch opts) 1))
      else effective)"

definition fetch_limit :: "nat \<Rightarrow> search_options \<Rightarrow> nat" where
  "fetch_limit limit opts =
     (if op_sort opts \<noteq> None
      then max (saturating_mul (base_limit limit opts) 2) (saturating_add (base_limit limit opts) 64)
      else base_limit limit opts)"

definition drop_offset :: "int \<Rightarrow> 'a list \<Rightarrow> 'a list" where
  "drop_offset off xs =
     (let n = nat (max off 0) in
      if 0 < n \<and> n < length xs then drop n xs else if length xs \<le> n then [] else xs)"

definition hits_page ::
  "reader_env \<Rightarrow> query \<Rightarrow> nat \<Rightarrow> search_options \<Rightarrow> (rat \<times> document) list \<Rightarrow> search_hit list" where
  "hits_page e q limit opts docs =
     (let hits = build_hits e q (drop_offset (op_offset opts) docs) opts in
      if op_collapse_to_works opts then collapse_editions_to_works hits limit else take limit hits)"

definition finish_edition_search ::
  "reader_env \<Rightarrow> index \<Rightarrow> query \<Rightarrow> nat \<Rightarrow> search_options \<Rightarrow> (search_hit list, string) result" where
  "finish_edition_search e ix q limit opts =
     result_bind (re_top_docs e (fetch_limit limit opts) q ix)
       (\<lambda>top_docs.
          let ordered = (case op_sort opts of
                           Some spec \<Rightarrow> sort_top_docs_by_spec e top_docs spec | None \<Rightarrow> top_docs) in
          Inr (hits_page e q limit opts (take (base_limit limit opts) ordered)))"

definition search_with_options ::
  "reader_env \<Rightarrow> index \<Rightarrow> string \<Rightarrow> nat \<Rightarrow> search_options \<Rightarrow> (search_hit list, string) result" where
  "search_with_options e ix s limit opts =
     result_bind (build_filtered_query e s no_filters)
       (\<lambda>q. finish_edition_search e ix
              (case op_source_filter opts of
                 Some sf \<Rightarrow> BooleanQuery [q, TermQuery SOURCE (TText sf), TermQuery KIND (TText kind_edition)]
               | None \<Rightarrow> q)
              limit opts)"

definition search_with_query ::
  "reader_env \<Rightarrow> index \<Rightarrow> query \<Rightarrow> nat \<Rightarrow> search_options \<Rightarrow> (search_hit list, string) result" where
  "search_with_query e ix q limit opts = finish_edition_search e ix (editions_only q) limit opts"

definition search_editions :: "reader_env \<Rightarrow> index \<Rightarrow> string \<Rightarrow> nat \<Rightarrow> (search_hit list, string) result" where
  "search_editions e ix s limit = search_with_options e ix s limit default_options"

definition search_works :: "reader_env \<Rightarrow> index \<Rightarrow> string \<Rightarrow> nat \<Rightarrow> (search_hit list, string) result" where
  "search_works e ix s limit =
     search_with_options e ix s limit (default_options\<lparr>op_collapse_to_works := True\<rparr>)"

definition search_all_kinds ::
  "reader_env \<Rightarrow> index \<Rightarrow> string \<Rightarrow> nat \<Rightarrow> search_options \<Rightarrow> (search_hit list, string) result" where
  "search_all_kinds e ix s limit opts =
     result_bind (parse_query e (escape_query_text s))
       (\<lambda>q. result_bind (re_top_docs e (base_limit limit opts) q ix)
              (\<lambda>top_docs. Inr (hits_page e q limit opts top_docs)))"

definition count_docs :: "reader_env \<Rightarrow> index \<Rightarrow> query \<Rightarrow> nat" where
  "count_docs e ix q = length (filter (matches e q) ix)"

definition count_works_filtered ::
  "reader_env \<Rightarrow> index \<Rightarrow> string \<Rightarrow> work_filters \<Rightarrow> (nat, string) result" where
  "count_works_filtered e ix s f =
     result_bind (build_filtered_query e s f) (\<lambda>q. Inr (count_docs e ix q))"

definition count_with_query :: "reader_env \<Rightarrow> index \<Rightarrow> query \<Rightarrow> nat" where
  "count_with_query e ix q = count_docs e ix (editions_only q)"

fun collect_work_ids ::
  "reader_env \<Rightarrow> string list \<Rightarrow> db_id list \<Rightarrow> (rat \<times> document) list \<Rightarrow> db_id list" where
  "collect_work_ids e seen out [] = out"
| "collect_work_ids e seen out (r # rs) =
     (case first_str (stored_doc (snd r)) WORK_ID of
        None \<Rightarrow> collect_work_ids e seen out rs
      | Some key \<Rightarrow>
          (if key \<in> set seen then collect_work_ids e seen out rs
           else (case db_id_from_str (se_deps e) key of
                   Inr i \<Rightarrow> collect_work_ids e (key # seen) (out @ [i]) rs
                 | Inl _ \<Rightarrow> collect_work_ids e (key # seen) out rs)))"

definition matching_work_ids ::
  "reader_env \<Rightarrow> index \<Rightarrow> string \<Rightarrow> work_filters \<Rightarrow> (db_id list, string) result" where
  "matching_work_ids e ix s f =
     result_bind (build_filtered_query e s f)
       (\<lambda>q. result_bind (re_top_docs e OPDS_WORK_ID_LIMIT q ix)
              (\<lambda>top_docs. Inr (collect_work_ids e [] [] top_docs)))"

definition matching_work_ids_from_query :: "reader_env \<Rightarrow> index \<Rightarrow> query \<Rightarrow> (db_id list, string) result" where
  "matching_work_ids_from_query e ix q =
     result_bind (re_top_docs e OPDS_WORK_ID_LIMIT (editions_only q) ix)
       (\<lambda>top_docs. Inr (collect_work_ids e [] [] top_docs))"

section \<open>\<open>label_resolver.rs\<close>: labels of format and language ids\<close>

type_synonym label_cache = "string \<times> string \<rightharpoonup> string list \<times> string list \<times> int"

record label_resolver =
  lr_cache :: label_cache
  lr_ttl :: int

definition label_resolver_new :: label_resolver where
  "label_resolver_new = \<lparr>lr_cache = Map.empty, lr_ttl = 60 * 1000000000\<rparr>"

definition with_ttl :: "label_resolver \<Rightarrow> int \<Rightarrow> label_resolver" where
  "with_ttl r ttl = r\<lparr>lr_ttl := ttl\<rparr>"

definition hash_ids :: "db_id list \<Rightarrow> string" where
  "hash_ids ids = sort (concat (map to_bytes ids))"

text \<open>The rows of a vocabulary table whose id is asked for, in the order of the table.\<close>

definition labels_of :: "(db_id \<times> string) list \<Rightarrow> db_id list \<Rightarrow> string list" where
  "labels_of rows ids = (if ids = [] then [] else map snd (is_in ids rows))"

definition resolve_labels ::
  "library \<Rightarrow> int \<Rightarrow> db_id list \<Rightarrow> db_id list \<Rightarrow> label_resolver \<Rightarrow> label_resolver \<times> string list \<times> string list" where
  "resolve_labels lb now format_ids language_ids r =
     (let key = (hash_ids format_ids, hash_ids language_ids);
          fresh = (labels_of (lb_formats lb) format_ids, labels_of (lb_languages lb) language_ids);
          queried = (r\<lparr>lr_cache := (lr_cache r)(key \<mapsto> (fst fresh, snd fresh, now))\<rparr>, fresh) in
      case lr_cache r key of
        Some (f, l, ts) \<Rightarrow> if now - ts < lr_ttl r then (r, f, l) else queried
      | None \<Rightarrow> queried)"

end
