(* ===== verification/LibraryStore.thy ===== *)
theory LibraryStore
  imports SearchHits "HOL-Library.Product_Lexorder"
begin

text \<open>
  The library behind the foreign-function interface: creating, changing and deleting works, editions,
  files, identifiers and contributors (\<open>livtet-ffi/src/mutations.rs\<close>, \<open>contributors.rs\<close> and the
  identifier reads of \<open>works.rs\<close>).

  The state is the library's rows, as \<open>SearchIndex\<close> reads them, and the search index. Foreign keys,
  cascades and the columns that may not be null are those of migrations 3 and 4. \<open>DbId::new\<close>, the clock,
  the calendar, the text of a violated constraint and the outcome of writing to the index are fields of
  \<open>store_env\<close>. Rows of tables that no
  operation here reads (loans, progress, annotations, reading lists) are not part of the state, and the
  summaries the calls return are the rows they are made from.
\<close>

section \<open>State and errors\<close>

datatype livtet_error =
    DatabaseFailure string
  | SearchFailure string
  | NotFound string string
  | InvalidInput string
  | SyncFailure string

text \<open>How refreshing the index from the rows can end: the old documents cannot be removed, a table cannot be
  read after they were removed, or the new documents cannot be written.\<close>

datatype refresh_outcome = RefreshOk | ClearFails string | ReadsFail string | WriteFails string

record store_env = search_env +
  st_fresh :: db_id
  st_now :: int
  st_month_error :: "nat \<Rightarrow> string"
  st_calendar :: "int \<Rightarrow> nat \<Rightarrow> nat \<Rightarrow> (time_date, string) result"
  st_violation :: "string \<Rightarrow> string"
  st_refresh :: refresh_outcome
  st_delete_ok :: "db_id \<Rightarrow> bool"

record library_store =
  ls_library :: library
  ls_index :: index

type_synonym 'a outcome_of = "library_store \<times> ('a, livtet_error) result"

definition violated :: "store_env \<Rightarrow> string \<Rightarrow> livtet_error" where
  "violated e what = DatabaseFailure (st_violation e what)"

fun search_error_text :: "search_error \<Rightarrow> string" where
  "search_error_text (TantivyError m) = ''tantivy error: '' @ m"
| "search_error_text (DbError m) = ''database error: '' @ m"
| "search_error_text (SchemaVersionMismatch found expected) =
     ''index schema version '' @ show_nat found @ '' does not match build version '' @ show_nat expected
     @ ''; rebuild index with the original build or run migrate_to first''"

text \<open>\<open>LivtetStore::open\<close>: the rows as they are and the documents the index directory holds; nothing is rebuilt.\<close>

definition open_store :: "store_env \<Rightarrow> library \<Rightarrow> index_dir \<Rightarrow> index_dir \<times> (library_store, livtet_error) result" where
  "open_store e lb dir =
     (case open_index e dir of
        (dir', Inl err) \<Rightarrow> (dir', Inl (SearchFailure (search_error_text err)))
      | (dir', Inr _) \<Rightarrow> (dir', Inr \<lparr>ls_library = lb, ls_index = snd (the (dir_index dir'))\<rparr>))"

definition attempt_reindex :: "store_env \<Rightarrow> library_store \<Rightarrow> unit outcome_of" where
  "attempt_reindex e st =
     (case (case st_refresh e of
              RefreshOk \<Rightarrow> reindex e (Inr (ls_library st)) (ls_index st)
            | ReadsFail m \<Rightarrow> reindex e (Inl m) (ls_index st)
            | ClearFails m \<Rightarrow> (ls_index st, Inl (TantivyError m))
            | WriteFails m \<Rightarrow> ([], Inl (TantivyError m))) of
        (ix, Inl err) \<Rightarrow> (st\<lparr>ls_index := ix\<rparr>, Inl (SearchFailure (search_error_text err)))
      | (ix, Inr _) \<Rightarrow> (st\<lparr>ls_index := ix\<rparr>, Inr ()))"

text \<open>\<open>add_edition\<close> is a full rebuild whatever the edition.\<close>

definition sync_edition_index :: "store_env \<Rightarrow> library_store \<Rightarrow> db_id \<Rightarrow> unit outcome_of" where
  "sync_edition_index e st i = attempt_reindex e st"

definition reindex_store :: "store_env \<Rightarrow> library_store \<Rightarrow> unit outcome_of" where
  "reindex_store e st = attempt_reindex e st"

text \<open>Removing one document after its row is gone; a failure is ignored by the callers.\<close>

definition index_delete :: "store_env \<Rightarrow> db_id \<Rightarrow> index \<Rightarrow> index" where
  "index_delete e i ix = (if st_delete_ok e i then SearchIndex.delete_edition e i ix else ix)"

text \<open>Changing the library, then refreshing the index, then answering: the tail of most operations.\<close>

definition commit_and_sync :: "store_env \<Rightarrow> library_store \<Rightarrow> library \<Rightarrow> db_id \<Rightarrow> 'a \<Rightarrow> 'a outcome_of" where
  "commit_and_sync e st lb i answer =
     (case sync_edition_index e (st\<lparr>ls_library := lb\<rparr>) i of
        (st', Inl err) \<Rightarrow> (st', Inl err) | (st', Inr _) \<Rightarrow> (st', Inr answer))"

definition require_edition :: "store_env \<Rightarrow> library \<Rightarrow> db_id \<Rightarrow> (edition_model, livtet_error) result" where
  "require_edition e lb i =
     ok_or (NotFound ''editions'' (db_id_display (se_deps e) i)) (find_row em_id (lb_editions lb) i)"

definition require_work :: "store_env \<Rightarrow> library \<Rightarrow> db_id \<Rightarrow> (work_model, livtet_error) result" where
  "require_work e lb i =
     ok_or (NotFound ''works'' (db_id_display (se_deps e) i)) (find_row wm_id (lb_works lb) i)"

definition keep_text :: "string option \<Rightarrow> string option" where
  "keep_text s = (case s of Some t \<Rightarrow> if trim t = [] then None else Some t | None \<Rightarrow> None)"

section \<open>Files\<close>

definition set_edition_file ::
  "store_env \<Rightarrow> library_store \<Rightarrow> db_id \<Rightarrow> string \<Rightarrow> string option \<Rightarrow> int option \<Rightarrow> unit outcome_of" where
  "set_edition_file e st i path fmt bytes =
     (let lb = ls_library st in
      case require_edition e lb i of
        Inl err \<Rightarrow> (st, Inl err)
      | Inr _ \<Rightarrow>
          (case List.find (\<lambda>r. iv_edition_id r = i) (lb_inventory lb) of
             Some row \<Rightarrow>
               (let row' = row\<lparr>iv_file_path := Some path,
                               iv_file_format := (case fmt of Some f \<Rightarrow> f | None \<Rightarrow> iv_file_format row),
                               iv_file_size_bytes := (if bytes \<noteq> None then bytes else iv_file_size_bytes row),
                               iv_updated_at := Some (st_now e)\<rparr> in
                commit_and_sync e st
                  (lb\<lparr>lb_inventory := map (\<lambda>r. if iv_id r = iv_id row then row' else r) (lb_inventory lb)\<rparr>) i ())
           | None \<Rightarrow>
               (case fmt of
                  None \<Rightarrow> (st, Inl (violated e ''digital_inventory.file_format''))
                | Some f \<Rightarrow>
                    if List.member (map iv_id (lb_inventory lb)) (st_fresh e)
                    then (st, Inl (violated e ''digital_inventory.id''))
                    else commit_and_sync e st
                      (lb\<lparr>lb_inventory := lb_inventory lb @
                         [\<lparr>iv_id = st_fresh e, iv_edition_id = i, iv_file_path = Some path, iv_cover_path = None,
                           iv_blurhash = None, iv_dominant_color = None, iv_file_hash = None,
                           iv_file_size_bytes = bytes, iv_file_format = f, iv_notes = None,
                           iv_added_at = st_now e, iv_updated_at = None\<rparr>]\<rparr>) i ())))"

definition remove_edition_file :: "store_env \<Rightarrow> library_store \<Rightarrow> db_id \<Rightarrow> bool outcome_of" where
  "remove_edition_file e st i =
     (let lb = ls_library st in
      if list_ex (\<lambda>r. iv_edition_id r = i) (lb_inventory lb)
      then commit_and_sync e st
             (lb\<lparr>lb_inventory := filter (\<lambda>r. iv_edition_id r \<noteq> i) (lb_inventory lb)\<rparr>) i True
      else (st, Inr False))"

section \<open>Identifiers\<close>

definition link_identifier :: "library \<Rightarrow> db_id \<Rightarrow> db_id \<Rightarrow> library" where
  "link_identifier lb i ident_id =
     (if List.member (lb_edition_identifiers lb) (i, ident_id) then lb
      else lb\<lparr>lb_edition_identifiers := lb_edition_identifiers lb @ [(i, ident_id)]\<rparr>)"

definition attach_identifier ::
  "store_env \<Rightarrow> library \<Rightarrow> db_id \<Rightarrow> book_identifier \<Rightarrow> (library \<times> db_id, livtet_error) result" where
  "attach_identifier e lb i ident =
     (case List.find (\<lambda>r. im_value r = as_urn_string ident) (lb_identifiers lb) of
        Some row \<Rightarrow> Inr (link_identifier lb i (im_id row), im_id row)
      | None \<Rightarrow>
          (if List.member (map im_id (lb_identifiers lb)) (st_fresh e) then Inl (violated e ''identifiers.id'')
           else Inr (link_identifier
                       (lb\<lparr>lb_identifiers := lb_identifiers lb @
                          [\<lparr>im_id = st_fresh e, im_kind = kind_as_str (id_kind ident),
                            im_value = as_urn_string ident\<rparr>]\<rparr>) i (st_fresh e), st_fresh e)))"

definition detach_identifier :: "library \<Rightarrow> db_id \<Rightarrow> string \<Rightarrow> library \<times> bool" where
  "detach_identifier lb i urn =
     (case List.find (\<lambda>r. im_value r = urn) (lb_identifiers lb) of
        None \<Rightarrow> (lb, False)
      | Some row \<Rightarrow>
          (lb\<lparr>lb_edition_identifiers := filter (\<lambda>r. r \<noteq> (i, im_id row)) (lb_edition_identifiers lb)\<rparr>,
           List.member (lb_edition_identifiers lb) (i, im_id row)))"

definition add_edition_identifier :: "store_env \<Rightarrow> library_store \<Rightarrow> db_id \<Rightarrow> book_identifier \<Rightarrow> string outcome_of" where
  "add_edition_identifier e st i ident =
     (case require_edition e (ls_library st) i of
        Inl err \<Rightarrow> (st, Inl err)
      | Inr _ \<Rightarrow>
          (case attach_identifier e (ls_library st) i ident of
             Inl err \<Rightarrow> (st, Inl err)
           | Inr (lb, _) \<Rightarrow> commit_and_sync e st lb i (as_urn_string ident)))"

definition update_edition_identifier ::
  "store_env \<Rightarrow> library_store \<Rightarrow> db_id \<Rightarrow> book_identifier \<Rightarrow> book_identifier \<Rightarrow> book_identifier outcome_of" where
  "update_edition_identifier e st i old new =
     (case require_edition e (ls_library st) i of
        Inl err \<Rightarrow> (st, Inl err)
      | Inr _ \<Rightarrow>
          (let lb1 = fst (detach_identifier (ls_library st) i (as_urn_string old)) in
           case attach_identifier e lb1 i new of
             Inl err \<Rightarrow> (st\<lparr>ls_library := lb1\<rparr>, Inl err)
           | Inr (lb2, _) \<Rightarrow> commit_and_sync e st lb2 i new))"

definition remove_edition_identifier :: "store_env \<Rightarrow> library_store \<Rightarrow> db_id \<Rightarrow> book_identifier \<Rightarrow> bool outcome_of" where
  "remove_edition_identifier e st i ident =
     (case detach_identifier (ls_library st) i (as_urn_string ident) of
        (lb, removed) \<Rightarrow>
          if removed then commit_and_sync e st lb i True else (st\<lparr>ls_library := lb\<rparr>, Inr False))"

definition to_identifier :: "identifier_model \<Rightarrow> book_identifier" where
  "to_identifier row =
     \<lparr>id_kind = (case kind_parse (im_kind row) of Some k \<Rightarrow> k | None \<Rightarrow> KindCustom (im_kind row)),
      id_urn = (case urn_parse (im_value row) of
                  Inr u \<Rightarrow> u | Inl _ \<Rightarrow> \<lparr>urn_type = im_kind row, urn_value = im_value row\<rparr>)\<rparr>"

definition list_edition_identifiers :: "library \<Rightarrow> db_id \<Rightarrow> book_identifier list" where
  "list_edition_identifiers lb i =
     (let ids = map snd (filter (\<lambda>r. fst r = i) (lb_edition_identifiers lb)) in
      if ids = [] then []
      else map to_identifier (sort_key im_value (find_many im_id (lb_identifiers lb) ids)))"

definition find_editions_by_identifier :: "library \<Rightarrow> book_identifier \<Rightarrow> edition_model list" where
  "find_editions_by_identifier lb ident =
     (case List.find (\<lambda>r. im_value r = as_urn_string ident) (lb_identifiers lb) of
        None \<Rightarrow> []
      | Some row \<Rightarrow>
          (let ids = map fst (filter (\<lambda>r. snd r = im_id row) (lb_edition_identifiers lb)) in
           if ids = [] then []
           else sort_key (\<lambda>ed. - em_created_at ed) (find_many em_id (lb_editions lb) ids)))"

definition count_works :: "library \<Rightarrow> nat" where
  "count_works lb = length (lb_works lb)"

section \<open>Works and editions\<close>

record new_edition =
  ne_work_id :: db_id
  ne_title :: "string option"
  ne_description :: "string option"
  ne_published_date :: "published_date option"
  ne_format_id :: "db_id option"
  ne_language_id :: "db_id option"
  ne_notes :: "string option"
  ne_cover_image_url :: "string option"

record edition_patch =
  ep_title :: "string option"
  ep_description :: "string option"
  ep_notes :: "string option"
  ep_published_date :: "published_date option"
  ep_format_id :: "db_id option"
  ep_language_id :: "db_id option"

fun first_day :: "published_date \<Rightarrow> int \<times> nat \<times> nat" where
  "first_day (YearMonthDay y m d) = (y, m, d)"
| "first_day (YearMonth y m) = (y, m, 1)"
| "first_day (Year y) = (y, 1, 1)"

definition full_date :: "store_env \<Rightarrow> published_date \<Rightarrow> (time_date, livtet_error) result" where
  "full_date e p =
     (case first_day p of (y, m, d) \<Rightarrow>
        if m < 1 \<or> 12 < m then Inl (InvalidInput (''invalid month: '' @ st_month_error e m))
        else map_err (\<lambda>msg. InvalidInput (''invalid calendar date: '' @ msg)) (st_calendar e y m d))"

definition date_of :: "store_env \<Rightarrow> published_date option \<Rightarrow> (time_date option, livtet_error) result" where
  "date_of e p = (case p of None \<Rightarrow> Inr None | Some d \<Rightarrow> result_bind (full_date e d) (\<lambda>t. Inr (Some t)))"

text \<open>The foreign keys of an edition row that an insert or update can violate.\<close>

definition references_ok :: "library \<Rightarrow> db_id option \<Rightarrow> db_id option \<Rightarrow> bool" where
  "references_ok lb fmt lang \<longleftrightarrow>
     (case fmt of None \<Rightarrow> True | Some f \<Rightarrow> List.member (map fst (lb_formats lb)) f)
     \<and> (case lang of None \<Rightarrow> True | Some l \<Rightarrow> List.member (map fst (lb_languages lb)) l)"

definition create_work ::
  "store_env \<Rightarrow> library_store \<Rightarrow> string \<Rightarrow> string option \<Rightarrow> string option \<Rightarrow> work_model outcome_of" where
  "create_work e st title sort_title description =
     (if trim title = [] then (st, Inl (InvalidInput ''work title must not be empty''))
      else if List.member (map wm_id (lb_works (ls_library st))) (st_fresh e) then (st, Inl (violated e ''works.id''))
      else (let row = \<lparr>wm_id = st_fresh e, wm_title = trim title, wm_description = keep_text description,
                       wm_sort_title = keep_text sort_title, wm_series_type = None, wm_language_id = None,
                       wm_preferred_edition_id = None, wm_created_at = st_now e, wm_updated_at = None\<rparr> in
            (st\<lparr>ls_library := (ls_library st)\<lparr>lb_works := lb_works (ls_library st) @ [row]\<rparr>\<rparr>, Inr row)))"

definition create_edition :: "store_env \<Rightarrow> library_store \<Rightarrow> new_edition \<Rightarrow> edition_model outcome_of" where
  "create_edition e st inp =
     (let lb = ls_library st in
      case require_work e lb (ne_work_id inp) of
        Inl err \<Rightarrow> (st, Inl err)
      | Inr _ \<Rightarrow>
          (case date_of e (ne_published_date inp) of
             Inl err \<Rightarrow> (st, Inl err)
           | Inr date \<Rightarrow>
               (if List.member (edition_ids lb) (st_fresh e) then (st, Inl (violated e ''editions.id''))
                else if \<not> references_ok lb (ne_format_id inp) (ne_language_id inp)
                then (st, Inl (violated e ''FOREIGN KEY''))
                else (let row = \<lparr>em_id = st_fresh e, em_work_id = ne_work_id inp, em_group_id = None,
                        em_title = keep_text (ne_title inp), em_published_date = date,
                        em_format_id = ne_format_id inp, em_language_id = ne_language_id inp,
                        em_notes = keep_text (ne_notes inp), em_description = keep_text (ne_description inp),
                        em_format_metadata = None, em_cover_image_url = keep_text (ne_cover_image_url inp),
                        em_created_at = st_now e, em_updated_at = None\<rparr>;
                      lb' = lb\<lparr>lb_editions := lb_editions lb @ [row]\<rparr> in
                      (st\<lparr>ls_library := lb'\<rparr>, require_edition e lb' (st_fresh e))))))"

definition replace_edition :: "library \<Rightarrow> edition_model \<Rightarrow> library" where
  "replace_edition lb row =
     lb\<lparr>lb_editions := map (\<lambda>r. if em_id r = em_id row then row else r) (lb_editions lb)\<rparr>"

definition set_edition_cover_url :: "store_env \<Rightarrow> library_store \<Rightarrow> db_id \<Rightarrow> string option \<Rightarrow> unit outcome_of" where
  "set_edition_cover_url e st i url =
     (case require_edition e (ls_library st) i of
        Inl err \<Rightarrow> (st, Inl err)
      | Inr row \<Rightarrow>
          commit_and_sync e st (replace_edition (ls_library st)
            (row\<lparr>em_cover_image_url := keep_text url, em_updated_at := Some (st_now e)\<rparr>)) i ())"

definition patch_text :: "string option \<Rightarrow> string option \<Rightarrow> string option" where
  "patch_text new old = (case new of None \<Rightarrow> old | Some [] \<Rightarrow> None | Some t \<Rightarrow> Some t)"

definition patch_row :: "store_env \<Rightarrow> edition_patch \<Rightarrow> time_date option \<Rightarrow> edition_model \<Rightarrow> edition_model" where
  "patch_row e p date row =
     row\<lparr>em_title := patch_text (ep_title p) (em_title row),
         em_description := patch_text (ep_description p) (em_description row),
         em_notes := patch_text (ep_notes p) (em_notes row),
         em_published_date := (if date \<noteq> None then date else em_published_date row),
         em_format_id := (if ep_format_id p \<noteq> None then ep_format_id p else em_format_id row),
         em_language_id := (if ep_language_id p \<noteq> None then ep_language_id p else em_language_id row),
         em_updated_at := Some (st_now e)\<rparr>"

definition update_edition :: "store_env \<Rightarrow> library_store \<Rightarrow> db_id \<Rightarrow> edition_patch \<Rightarrow> edition_model outcome_of" where
  "update_edition e st i p =
     (let lb = ls_library st in
      case date_of e (ep_published_date p) of
        Inl err \<Rightarrow> (st, Inl err)
      | Inr date \<Rightarrow>
          (case require_edition e lb i of
             Inl err \<Rightarrow> (st, Inl err)
           | Inr row \<Rightarrow>
               (if \<not> references_ok lb (ep_format_id p) (ep_language_id p)
                then (st, Inl (violated e ''FOREIGN KEY''))
                else (let lb' = replace_edition lb (patch_row e p date row) in
                      case sync_edition_index e (st\<lparr>ls_library := lb'\<rparr>) i of
                        (st', Inl err) \<Rightarrow> (st', Inl err)
                      | (st', Inr _) \<Rightarrow> (st', require_edition e (ls_library st') i)))))"

section \<open>Deletion and its cascades\<close>

definition without_keys :: "db_id set \<Rightarrow> (db_id \<times> 'b) list \<Rightarrow> (db_id \<times> 'b) list" where
  "without_keys ids rows = filter (\<lambda>r. fst r \<notin> ids) rows"

definition cascade_editions :: "db_id set \<Rightarrow> library \<Rightarrow> library" where
  "cascade_editions ids lb =
     lb\<lparr>lb_editions := filter (\<lambda>ed. em_id ed \<notin> ids) (lb_editions lb),
        lb_works := map (\<lambda>w. case wm_preferred_edition_id w of
            Some p \<Rightarrow> if p \<in> ids then w\<lparr>wm_preferred_edition_id := None\<rparr> else w | None \<Rightarrow> w) (lb_works lb),
        lb_edition_authors := without_keys ids (lb_edition_authors lb),
        lb_edition_tags := without_keys ids (lb_edition_tags lb),
        lb_edition_genres := without_keys ids (lb_edition_genres lb),
        lb_edition_subjects := without_keys ids (lb_edition_subjects lb),
        lb_edition_publishers := without_keys ids (lb_edition_publishers lb),
        lb_series_entries := without_keys ids (lb_series_entries lb),
        lb_edition_identifiers := without_keys ids (lb_edition_identifiers lb),
        lb_inventory := filter (\<lambda>r. iv_edition_id r \<notin> ids) (lb_inventory lb)\<rparr>"

definition editions_of :: "library \<Rightarrow> db_id \<Rightarrow> db_id list" where
  "editions_of lb w = map em_id (filter (\<lambda>ed. em_work_id ed = w) (lb_editions lb))"

definition remove_work_row :: "db_id \<Rightarrow> library \<Rightarrow> library" where
  "remove_work_row w lb =
     (cascade_editions (set (editions_of lb w)) lb)
       \<lparr>lb_works := filter (\<lambda>r. wm_id r \<noteq> w) (lb_works (cascade_editions (set (editions_of lb w)) lb)),
        lb_work_authors := without_keys {w} (lb_work_authors lb)\<rparr>"

definition delete_work :: "store_env \<Rightarrow> library_store \<Rightarrow> db_id \<Rightarrow> bool outcome_of" where
  "delete_work e st w =
     (let lb = ls_library st; ids = editions_of lb w in
      if List.member (map wm_id (lb_works lb)) w
      then (st\<lparr>ls_library := remove_work_row w lb, ls_index := fold (index_delete e) ids (ls_index st)\<rparr>, Inr True)
      else (st, Inr False))"

definition delete_edition_row :: "store_env \<Rightarrow> library_store \<Rightarrow> db_id \<Rightarrow> bool outcome_of" where
  "delete_edition_row e st i =
     (let lb = ls_library st in
      case find_row em_id (lb_editions lb) i of
        None \<Rightarrow> (st, Inr False)
      | Some ed \<Rightarrow>
          (let siblings = length (editions_of lb (em_work_id ed));
               lb' = cascade_editions {i} lb in
           (st\<lparr>ls_library := (if siblings \<le> 1 then remove_work_row (em_work_id ed) lb' else lb'),
               ls_index := index_delete e i (ls_index st)\<rparr>, Inr True)))"

section \<open>Contributors\<close>

definition clean_name :: "string \<Rightarrow> (string, livtet_error) result" where
  "clean_name n =
     (if trim n = [] then Inl (InvalidInput ''contributor name must not be empty'') else Inr (trim n))"

definition clean_role :: "store_env \<Rightarrow> string \<Rightarrow> (string, livtet_error) result" where
  "clean_role e r =
     (if se_lower e (trim r) = [] then Inl (InvalidInput ''contributor role must not be empty'')
      else Inr (se_lower e (trim r)))"

definition require_contributor :: "store_env \<Rightarrow> library \<Rightarrow> db_id \<Rightarrow> (db_id \<times> string, livtet_error) result" where
  "require_contributor e lb i =
     ok_or (NotFound ''authors'' (db_id_display (se_deps e) i)) (find_row fst (lb_authors lb) i)"

definition get_contributor :: "library \<Rightarrow> db_id \<Rightarrow> (db_id \<times> string) option" where
  "get_contributor lb i = find_row fst (lb_authors lb) i"

definition create_contributor :: "store_env \<Rightarrow> library_store \<Rightarrow> string \<Rightarrow> (db_id \<times> string) outcome_of" where
  "create_contributor e st name =
     (case clean_name name of
        Inl err \<Rightarrow> (st, Inl err)
      | Inr n \<Rightarrow>
          (if List.member (map fst (lb_authors (ls_library st))) (st_fresh e) then (st, Inl (violated e ''authors.id''))
           else (st\<lparr>ls_library := (ls_library st)\<lparr>lb_authors := lb_authors (ls_library st) @ [(st_fresh e, n)]\<rparr>\<rparr>,
                 Inr (st_fresh e, n))))"

definition update_contributor :: "store_env \<Rightarrow> library_store \<Rightarrow> db_id \<Rightarrow> string \<Rightarrow> (db_id \<times> string) outcome_of" where
  "update_contributor e st i name =
     (case clean_name name of
        Inl err \<Rightarrow> (st, Inl err)
      | Inr n \<Rightarrow>
          (case require_contributor e (ls_library st) i of
             Inl err \<Rightarrow> (st, Inl err)
           | Inr _ \<Rightarrow>
               (st\<lparr>ls_library := (ls_library st)\<lparr>lb_authors :=
                    map (\<lambda>a. if fst a = i then (i, n) else a) (lb_authors (ls_library st))\<rparr>\<rparr>, Inr (i, n))))"

definition delete_contributor :: "library_store \<Rightarrow> db_id \<Rightarrow> bool outcome_of" where
  "delete_contributor st i =
     (let lb = ls_library st in
      (st\<lparr>ls_library := lb\<lparr>lb_authors := filter (\<lambda>a. fst a \<noteq> i) (lb_authors lb),
            lb_edition_authors := filter (\<lambda>(_, a, _). a \<noteq> i) (lb_edition_authors lb),
            lb_work_authors := filter (\<lambda>(_, a). a \<noteq> i) (lb_work_authors lb)\<rparr>\<rparr>,
       Inr (List.member (map fst (lb_authors lb)) i)))"

definition contains_text :: "string \<Rightarrow> string \<Rightarrow> bool" where
  "contains_text needle s \<longleftrightarrow> list_ex (\<lambda>k. take (length needle) (drop k s) = needle) [0..<Suc (length s)]"

definition find_contributors :: "store_env \<Rightarrow> library \<Rightarrow> string \<Rightarrow> (db_id \<times> string) list" where
  "find_contributors e lb name =
     (let needle = se_lower e (trim name) in
      filter (\<lambda>a. needle = [] \<or> contains_text needle (se_lower e (snd a))) (sort_key snd (lb_authors lb)))"

definition attach_contributor :: "library \<Rightarrow> db_id \<Rightarrow> db_id \<Rightarrow> string \<Rightarrow> library" where
  "attach_contributor lb i c role =
     (if List.member (lb_edition_authors lb) (i, c, role) then lb
      else lb\<lparr>lb_edition_authors := lb_edition_authors lb @ [(i, c, role)]\<rparr>)"

definition detach_contributor :: "library \<Rightarrow> db_id \<Rightarrow> db_id \<Rightarrow> string \<Rightarrow> library \<times> bool" where
  "detach_contributor lb i c role =
     (lb\<lparr>lb_edition_authors := filter (\<lambda>r. r \<noteq> (i, c, role)) (lb_edition_authors lb)\<rparr>,
      List.member (lb_edition_authors lb) (i, c, role))"

type_synonym contribution = "db_id \<times> db_id \<times> string \<times> string"

definition list_edition_contributors :: "library \<Rightarrow> db_id \<Rightarrow> contribution list" where
  "list_edition_contributors lb i =
     (let links = filter (\<lambda>r. fst r = i) (lb_edition_authors lb);
          names = collect_map (find_many fst (lb_authors lb) (map (\<lambda>(_, a, _). a) links)) in
      sort_key (\<lambda>(_, _, n, r). (n, r))
        (map (\<lambda>(k, a, r). (k, a, unwrap_or_default (names a), r)) links))"

definition add_edition_contributor ::
  "store_env \<Rightarrow> library_store \<Rightarrow> db_id \<Rightarrow> db_id \<Rightarrow> string \<Rightarrow> contribution outcome_of" where
  "add_edition_contributor e st i c role =
     (case result_bind (clean_role e role) (\<lambda>r.
             result_bind (require_edition e (ls_library st) i) (\<lambda>_.
             result_bind (require_contributor e (ls_library st) c) (\<lambda>a. Inr (r, a)))) of
        Inl err \<Rightarrow> (st, Inl err)
      | Inr (r, a) \<Rightarrow> commit_and_sync e st (attach_contributor (ls_library st) i c r) i (i, c, snd a, r))"

definition update_edition_contributor ::
  "store_env \<Rightarrow> library_store \<Rightarrow> db_id \<Rightarrow> db_id \<Rightarrow> string \<Rightarrow> string \<Rightarrow> contribution outcome_of" where
  "update_edition_contributor e st i c from_role to_role =
     (case result_bind (clean_role e from_role) (\<lambda>f.
             result_bind (clean_role e to_role) (\<lambda>t.
             result_bind (require_edition e (ls_library st) i) (\<lambda>_.
             result_bind (require_contributor e (ls_library st) c) (\<lambda>a. Inr (f, t, a))))) of
        Inl err \<Rightarrow> (st, Inl err)
      | Inr (f, t, a) \<Rightarrow>
          commit_and_sync e st (attach_contributor (fst (detach_contributor (ls_library st) i c f)) i c t) i
            (i, c, snd a, t))"

definition remove_edition_contributor ::
  "store_env \<Rightarrow> library_store \<Rightarrow> db_id \<Rightarrow> db_id \<Rightarrow> string \<Rightarrow> bool outcome_of" where
  "remove_edition_contributor e st i c role =
     (case clean_role e role of
        Inl err \<Rightarrow> (st, Inl err)
      | Inr r \<Rightarrow>
          (case detach_contributor (ls_library st) i c r of
             (lb, removed) \<Rightarrow>
               if removed then commit_and_sync e st lb i True else (st\<lparr>ls_library := lb\<rparr>, Inr False)))"

section \<open>The order of a work list\<close>

datatype work_column = ColCreatedAt | ColTitle | ColUpdatedAt

definition apply_work_ordering :: "work_sort_by option \<Rightarrow> sort_direction option \<Rightarrow> work_column \<times> sort_direction" where
  "apply_work_ordering ordered_by direction =
     (if ordered_by = Some SortNewestCap then (ColCreatedAt, Desc)
      else (case (case ordered_by of Some b \<Rightarrow> b | None \<Rightarrow> SortTitle) of
              SortTitle \<Rightarrow> ColTitle | SortUpdatedAt \<Rightarrow> ColUpdatedAt | _ \<Rightarrow> ColCreatedAt,
            case direction of Some d \<Rightarrow> d | None \<Rightarrow> Desc))"

end
