(* ===== verification/SearchIndexCorrect.thy ===== *)
theory SearchIndexCorrect
  imports SearchHits
begin

text \<open>
  What the search index promises: works are grouped once and in rank order, pages tile the ranking, the
  filters select by the rows of the library, an edition has at most one document, and a migrated
  directory opens. The places where the code falls short are stated as they are.
\<close>

section \<open>Collapsing editions to works\<close>

definition first_seen :: "'a list \<Rightarrow> 'a list" where
  "first_seen xs = rev (remdups (rev xs))"

definition work_group :: "search_hit list \<Rightarrow> string \<Rightarrow> search_hit" where
  "work_group hits w =
     (let ws = filter (\<lambda>h. h_work_id h = w) hits; h = hd ws in
      h\<lparr>h_grouped_edition_ids := h_grouped_edition_ids h @ List.map_filter h_edition_id ws,
        h_score := Max (h_score ` set ws)\<rparr>)"

lemma first_seen_simps [simp]:
  "first_seen [] = []"
  "first_seen (xs @ [x]) = (if x \<in> set xs then first_seen xs else first_seen xs @ [x])"
  by (simp_all add: first_seen_def)

lemma first_seen_set [simp]: "set (first_seen xs) = set xs" "distinct (first_seen xs)"
  by (simp_all add: first_seen_def)

lemma work_group_other: "h_work_id h \<noteq> w \<Longrightarrow> work_group (hits @ [h]) w = work_group hits w"
  by (simp add: work_group_def)

lemma work_hits_ne: "w \<in> h_work_id ` set hits \<longleftrightarrow> filter (\<lambda>h. h_work_id h = w) hits \<noteq> []"
  by (auto simp: filter_empty_conv)

lemma work_group_first:
  assumes "h_work_id h \<notin> h_work_id ` set hits"
  shows "work_group (hits @ [h]) (h_work_id h) = push_edition h h"
  using assms
  by (simp add: work_hits_ne work_group_def push_edition_def List.map_filter_def split: option.split)

lemma work_group_next:
  assumes "h_work_id h \<in> h_work_id ` set hits"
  shows "work_group (hits @ [h]) (h_work_id h) =
    (let p = push_edition (work_group hits (h_work_id h)) h in
     if h_score p < h_score h then p\<lparr>h_score := h_score h\<rparr> else p)"
proof -
  let ?ws = "filter (\<lambda>g. h_work_id g = h_work_id h) hits"
  have ne: "?ws \<noteq> []" using assms by (simp add: work_hits_ne)
  then have "h_score ` set ?ws \<noteq> {}" by (metis image_is_empty set_empty)
  then have mx: "Max (insert (h_score h) (h_score ` set ?ws)) = max (h_score h) (Max (h_score ` set ?ws))"
    by (intro Max_insert) (simp_all del: set_filter)
  have hd: "hd (?ws @ [h]) = hd ?ws" using ne by simp
  have sc: "h_score ` set (?ws @ [h]) = insert (h_score h) (h_score ` set ?ws)" by auto
  show ?thesis
    unfolding work_group_def Let_def filter_append push_edition_def
    by (simp only: filter.simps if_True refl hd sc mx)
      (auto simp: List.map_filter_def max_def split: option.split)
qed

lemma collapse_fold:
  "foldl collapse_step (Map.empty, []) hits =
     (\<lambda>w. if w \<in> h_work_id ` set hits then Some (work_group hits w) else None,
      first_seen (map h_work_id hits))"
proof (induction hits rule: rev_induct)
  case Nil
  show ?case by simp
next
  case (snoc h hits)
  have step: "foldl collapse_step (Map.empty, []) (hits @ [h]) =
      collapse_step (\<lambda>w. if w \<in> h_work_id ` set hits then Some (work_group hits w) else None,
        first_seen (map h_work_id hits)) h"
    by (simp add: snoc.IH)
  have upd: "(\<lambda>w. if w \<in> h_work_id ` set (hits @ [h]) then Some (work_group (hits @ [h]) w) else None) =
        (\<lambda>w. if w \<in> h_work_id ` set hits then Some (work_group hits w) else None)
          (h_work_id h \<mapsto> work_group (hits @ [h]) (h_work_id h))"
    by (rule ext) (simp add: work_group_other)
  show ?case
  proof (cases "h_work_id h \<in> h_work_id ` set hits")
    case True
    show ?thesis unfolding step upd using True
      by (simp add: collapse_step_def work_group_next [OF True] Let_def)
  next
    case False
    show ?thesis unfolding step upd using False
      by (simp add: collapse_step_def work_group_first [OF False])
  qed
qed

lemma emit_works_take:
  assumes "distinct keys" "\<forall>k \<in> set keys. g k = Some (f k)" "length out < limit"
  shows "emit_works g limit out keys = out @ map f (take (limit - length out) keys)"
  using assms
proof (induction keys arbitrary: g out)
  case Nil
  then show ?case by simp
next
  case (Cons k keys)
  show ?case
  proof (cases "limit \<le> Suc (length out)")
    case True
    then have "limit - length out = 1" using Cons.prems(3) by simp
    with True Cons.prems(2) show ?thesis by simp
  next
    case False
    then have "emit_works (g(k := None)) limit (out @ [f k]) keys =
        (out @ [f k]) @ map f (take (limit - length (out @ [f k])) keys)"
      using Cons.prems by (intro Cons.IH) auto
    moreover have "take (limit - length out) (k # keys) = k # take (limit - length (out @ [f k])) keys"
      using False by (simp add: take_Cons')
    ultimately show ?thesis using False Cons.prems(2) by simp
  qed
qed

lemma collapse_eq:
  "0 < limit \<Longrightarrow>
   collapse_editions_to_works hits limit =
     map (work_group hits) (take limit (first_seen (map h_work_id hits)))"
  unfolding collapse_editions_to_works_def collapse_fold prod.case
  by (subst emit_works_take [where f = "work_group hits"]) (auto simp: set_map)

lemma collapse_zero:
  "collapse_editions_to_works hits 0 = collapse_editions_to_works hits 1"
proof -
  have "emit_works g 0 [] keys = emit_works g 1 [] keys" if "\<forall>k \<in> set keys. g k \<noteq> None" for g keys
    using that by (cases keys) auto
  then show ?thesis unfolding collapse_editions_to_works_def collapse_fold prod.case by simp
qed

text \<open>C18: Collapsing hits to works equals its specification: the works in the order their first edition
  is ranked, at most \<open>limit\<close> of them, each with the editions of all its hits and their best score.\<close>

theorem collapse_groups_works:
  assumes "0 < limit"
  shows "collapse_editions_to_works hits limit =
      map (work_group hits) (take limit (first_seen (map h_work_id hits)))
    \<and> distinct (map h_work_id (collapse_editions_to_works hits limit))
    \<and> length (collapse_editions_to_works hits limit) = min limit (card (h_work_id ` set hits))"
proof -
  have wid: "h_work_id (work_group hits w) = w" if "w \<in> h_work_id ` set hits" for w
  proof -
    have "filter (\<lambda>h. h_work_id h = w) hits \<noteq> []" using that by (simp add: work_hits_ne)
    then have "h_work_id (hd (filter (\<lambda>h. h_work_id h = w) hits)) = w"
      using hd_in_set by fastforce
    then show ?thesis by (simp add: work_group_def Let_def)
  qed
  have ids: "map h_work_id (map (work_group hits) (take limit (first_seen (map h_work_id hits)))) =
      take limit (first_seen (map h_work_id hits))"
    by (simp add: comp_def) (rule map_idI, rule wid, auto dest: in_set_takeD)
  have "length (first_seen (map h_work_id hits)) = card (h_work_id ` set hits)"
    by (metis distinct_card first_seen_set list.set_map)
  then show ?thesis using collapse_eq [OF assms, of hits] ids
    by (metis distinct_take first_seen_set(2) length_map length_take min.commute)
qed

definition plain_hit :: "string \<Rightarrow> string \<Rightarrow> rat \<Rightarrow> search_hit" where
  "plain_hit w ed sc =
     \<lparr>h_kind = HitEdition, h_edition_id = Some ed, h_work_id = w, h_author_id = None, h_title = w,
      h_work_title = None, h_edition_title = None, h_authors = [], h_isbn = None, h_format = None,
      h_language = None, h_published_date = None, h_score = sc, h_explanation = None, h_snippet_text = None,
      h_snippet_highlighted = [], h_grouped_edition_ids = [], h_source = ''catalog'', h_has_file = False\<rparr>"

definition three_hits :: "search_hit list" where
  "three_hits = [plain_hit ''a'' ''e1'' 1, plain_hit ''b'' ''e2'' 2, plain_hit ''a'' ''e3'' 3]"

lemma three_hits_groups:
  "map (\<lambda>h. (h_work_id h, h_grouped_edition_ids h, h_score h))
     (map (work_group three_hits) (take 2 (first_seen (map h_work_id three_hits)))) =
   [(''a'', [''e1'', ''e3''], 3), (''b'', [''e2''], 2)]"
  by code_simp

theorem collapse_groups_works_witness:
  "map (\<lambda>h. (h_work_id h, h_grouped_edition_ids h, h_score h)) (collapse_editions_to_works three_hits 2) =
     [(''a'', [''e1'', ''e3''], 3), (''b'', [''e2''], 2)]"
  by (simp only: collapse_groups_works [OF zero_less_numeral, THEN conjunct1] three_hits_groups)

section \<open>Pages of the ranking\<close>

lemma drop_offset_eq: "drop_offset (int n) xs = drop n xs"
  by (auto simp: drop_offset_def Let_def)

lemma as_u64_small: "0 \<le> n \<Longrightarrow> n < 2 ^ 64 \<Longrightarrow> as_u64 n = nat n"
  by (simp add: as_u64_def)

lemma plain_limits:
  assumes "op_collapse_to_works opts = False" "op_sort opts = None" "limit + n \<le> USIZE_MAX"
  shows "base_limit limit (opts\<lparr>op_offset := int n\<rparr>) = limit + n"
    and "fetch_limit limit (opts\<lparr>op_offset := int n\<rparr>) = limit + n"
proof -
  have "as_u64 (int n) = n"
    using assms(3) by (simp add: as_u64_def USIZE_MAX_def)
  then show "base_limit limit (opts\<lparr>op_offset := int n\<rparr>) = limit + n"
    using assms by (simp add: base_limit_def saturating_add_def)
  then show "fetch_limit limit (opts\<lparr>op_offset := int n\<rparr>) = limit + n"
    using assms by (simp add: fetch_limit_def)
qed

lemma build_hit_offset: "build_hit e q (opts\<lparr>op_offset := n\<rparr>) = build_hit e q opts"
  by (rule ext) (simp add: build_hit_def Let_def)

lemma page_of_ranking:
  assumes "rank_ok e" "op_collapse_to_works opts = False" "op_sort opts = None"
    and "0 < limit" "limit + n \<le> USIZE_MAX"
  shows "search_with_query e ix q limit (opts\<lparr>op_offset := int n\<rparr>) =
    Inr (map (build_hit e (editions_only q) opts) (take limit (drop n (re_rank e (editions_only q) ix))))"
proof -
  let ?R = "re_rank e (editions_only q) ix"
  have top: "re_top_docs e (limit + n) (editions_only q) ix = Inr (take (limit + n) ?R)"
    using assms(1,4) by (simp add: rank_ok_def)
  have "take limit (drop n (take (limit + n) ?R)) = take limit (drop n ?R)"
    by (simp add: drop_take)
  then show ?thesis
    using assms(2,3) top
    by (simp add: search_with_query_def finish_edition_search_def plain_limits [OF assms(2,3,5)]
        hits_page_def drop_offset_eq build_hits_def build_hit_offset take_map Let_def)
qed

lemma concat_pages: "concat (map (\<lambda>k. take limit (drop (k * limit) xs)) [0..<n]) = take (n * limit) xs"
proof (induction n)
  case (Suc n)
  have "take (n * limit + limit) xs = take (n * limit) xs @ take limit (drop (n * limit) xs)"
    by (rule take_add)
  with Suc show ?case by (simp add: add.commute)
qed simp

text \<open>C19: Pages of an edition search by score tile the ranking: page \<open>k\<close> of size \<open>limit\<close> is asked for
  with offset \<open>k * limit\<close>, every page is answered, and the first \<open>n\<close> pages in a row are the first
  \<open>n * limit\<close> documents of the ranking, no document twice and none left out.\<close>

theorem pages_tile_ranking:
  assumes "rank_ok e" "op_collapse_to_works opts = False" "op_sort opts = None"
    and "0 < limit" "n * limit \<le> USIZE_MAX"
  shows "\<exists>pages. map (\<lambda>k. search_with_query e ix q limit (opts\<lparr>op_offset := int (k * limit)\<rparr>)) [0..<n] =
        map Inr pages
    \<and> concat pages =
        map (build_hit e (editions_only q) opts) (take (n * limit) (re_rank e (editions_only q) ix))
    \<and> mset (map snd (re_rank e (editions_only q) ix)) = mset (filter (matches e (editions_only q)) ix)"
proof -
  let ?R = "re_rank e (editions_only q) ix" and ?b = "build_hit e (editions_only q) opts"
  let ?pages = "map (\<lambda>k. map ?b (take limit (drop (k * limit) ?R))) [0..<n]"
  have "limit + k * limit \<le> USIZE_MAX" if "k < n" for k
  proof -
    have "Suc k * limit \<le> n * limit" using that by (intro mult_le_mono1) simp
    with assms(5) show ?thesis by simp
  qed
  then have "map (\<lambda>k. search_with_query e ix q limit (opts\<lparr>op_offset := int (k * limit)\<rparr>)) [0..<n] =
      map Inr ?pages"
    using page_of_ranking [OF assms(1-4)] by (simp add: comp_def del: of_nat_mult)
  moreover have "concat ?pages = map ?b (take (n * limit) ?R)"
    unfolding concat_pages [symmetric] by (simp add: map_concat comp_def)
  ultimately show ?thesis using assms(1) unfolding rank_ok_def by metis
qed

text \<open>A small reference reader: every text parses, a text matches the titles that contain it, the ranking
  is the order of the index.\<close>

definition ref_reader :: reader_env where
  "ref_reader =
     \<lparr>se_deps = ref_deps (\<lambda>s. Inr (JObject [(''schema_version'', JInt (int SCHEMA_VERSION))])),
      se_hash = length, se_lower = to_ascii_lowercase, se_facet = Some, se_date_secs = (\<lambda>s. s * 1000000000),
      se_tokens = (\<lambda>t s. case t of RawTok \<Rightarrow> [s] | _ \<Rightarrow> [to_ascii_lowercase s]),
      se_write_meta = None,
      se_open_or_create = (\<lambda>sch st. case st of None \<Rightarrow> Inr (sch, [])
         | Some (sch', ix) \<Rightarrow> if sch' = sch then Inr (sch, ix) else Inl ''schema does not match''),
      re_parses = (\<lambda>s. Inr ()),
      re_text_match = (\<lambda>s d. List.member (get_all d TITLE) (VText s)),
      re_rank = (\<lambda>q ix. []), re_top_docs = (\<lambda>n q ix. Inr []),
      re_snippets = (\<lambda>q n. None), re_explain = (\<lambda>q d. None), re_debug_date = show_int\<rparr>"

definition index_order_reader :: reader_env where
  "index_order_reader = ref_reader
     \<lparr>re_rank := \<lambda>q ix. map (Pair 1) (filter (matches ref_reader q) ix),
      re_top_docs := \<lambda>n q ix. Inr (take n (map (Pair 1) (filter (matches ref_reader q) ix)))\<rparr>"

lemma value_terms_cong: "se_tokens e = se_tokens e' \<Longrightarrow> value_terms e k v = value_terms e' k v"
  by (cases k; cases v) simp_all

lemma has_term_cong: "se_tokens e = se_tokens e' \<Longrightarrow> has_term e f t d = has_term e' f t d"
  by (simp add: has_term_def value_terms_cong [of e e'])

lemma matches_cong:
  "se_tokens e = se_tokens e' \<Longrightarrow> re_text_match e = re_text_match e' \<Longrightarrow> matches e q d = matches e' q d"
  by (induction q) (simp_all add: has_term_cong [of e e'] list_all_iff)

lemma matches_index_order [simp]: "matches index_order_reader q d = matches ref_reader q d"
  by (rule matches_cong) (simp_all add: index_order_reader_def)

lemma index_order_rank_ok [simp]: "rank_ok index_order_reader"
proof -
  have "sorted_wrt (\<lambda>a b. fst b \<le> fst a) (map (Pair (1 :: rat)) xs)" for xs :: index
    by (simp add: sorted_wrt_map)
  then show ?thesis
    unfolding rank_ok_def matches_index_order by (simp add: index_order_reader_def comp_def)
qed

definition book :: "string \<Rightarrow> string \<Rightarrow> edition_doc" where
  "book i w =
     \<lparr>ed_edition_id = i, ed_work_id = w, ed_title = ''Title'', ed_edition_title = None,
      ed_work_description = None, ed_edition_description = None, ed_authors = [''Ann''], ed_authors_ids = [''a1''],
      ed_tags = [], ed_genres = [], ed_subjects = [], ed_publishers = [], ed_identifier_kinds = [],
      ed_identifier_values = [], ed_notes = None, ed_format = Some ''EPUB'', ed_language = None,
      ed_pub_date = None, ed_published_year = None, ed_title_sort = ''title'', ed_primary_author_sort = None,
      ed_created_at = 0, ed_updated_at = None, ed_popularity = 0\<rparr>"

definition three_books :: index where
  "three_books = map (edition_document ref_reader) [book ''e1'' ''w1'', book ''e2'' ''w1'', book ''e3'' ''w2'']"

theorem pages_tile_ranking_witness:
  "\<exists>pages. map (\<lambda>k. search_with_query index_order_reader three_books AllQuery 2
          (default_options\<lparr>op_offset := int (k * 2)\<rparr>)) [0..<2] = map Inr pages
    \<and> concat pages = map (build_hit index_order_reader (editions_only AllQuery) default_options)
        (take (2 * 2) (re_rank index_order_reader (editions_only AllQuery) three_books))"
proof -
  have "op_collapse_to_works default_options = False" "op_sort default_options = None"
    "2 * 2 \<le> USIZE_MAX" by (simp_all add: default_options_def USIZE_MAX_def)
  then show ?thesis
    using pages_tile_ranking [of index_order_reader default_options 2 2 three_books AllQuery] by auto
qed

section \<open>Sorting\<close>

lemma insert_by_mset [simp]: "mset (insert_by le x ys) = add_mset x (mset ys)"
  by (induction ys) auto

lemma sort_by_mset [simp]: "mset (sort_by le xs) = mset xs"
  by (induction xs) (simp_all add: sort_by_def)

lemma sort_by_set [simp]: "set (sort_by le xs) = set xs"
  by (metis set_mset_mset sort_by_mset)

text \<open>The order a comparison needs for sorting, on the elements at hand only.\<close>

locale sorting_order =
  fixes A :: "'a set" and le :: "'a \<Rightarrow> 'a \<Rightarrow> bool"
  assumes total: "x \<in> A \<Longrightarrow> y \<in> A \<Longrightarrow> le x y \<or> le y x"
    and trans: "x \<in> A \<Longrightarrow> y \<in> A \<Longrightarrow> z \<in> A \<Longrightarrow> le x y \<Longrightarrow> le y z \<Longrightarrow> le x z"
begin

lemma insert_sorted: "set ys \<subseteq> A \<Longrightarrow> x \<in> A \<Longrightarrow> sorted_wrt le ys \<Longrightarrow> sorted_wrt le (insert_by le x ys)"
proof (induction ys)
  case Nil
  show ?case by simp
next
  case (Cons y ys)
  have set_ins: "set (insert_by le x ys) = insert x (set ys)"
    by (metis insert_by_mset set_mset_add_mset_insert set_mset_mset)
  show ?case
  proof (cases "le x y")
    case True
    have "le x z" if "z \<in> set ys" for z
      by (rule trans [of x y z]) (use True Cons.prems that in auto)
    with True Cons.prems(3) show ?thesis by simp
  next
    case False
    then have "le y x" using Cons.prems total by auto
    with False Cons.IH Cons.prems set_ins show ?thesis by simp
  qed
qed

lemma sort_sorted: "set xs \<subseteq> A \<Longrightarrow> sorted_wrt le (sort_by le xs)"
proof (induction xs)
  case Nil
  show ?case by (simp add: sort_by_def)
next
  case (Cons x xs)
  have "sort_by le (x # xs) = insert_by le x (sort_by le xs)" by (simp add: sort_by_def)
  with Cons show ?case using insert_sorted [of "sort_by le xs" x] by simp
qed

end

fun title_key :: "sort_key \<Rightarrow> bool" where
  "title_key (KeyTitle _) = True"
| "title_key (KeyDate _) = False"

lemma sort_before_title:
  "sort_before dir (i, KeyTitle a) (j, KeyTitle b) \<longleftrightarrow>
     (case dir of Asc \<Rightarrow> a < b | Desc \<Rightarrow> b < a) \<or> a = b \<and> i \<le> j"
  by (auto simp: sort_before_def three_way_def split: sort_direction.split)

lemma sort_before_date:
  "sort_before dir (i, KeyDate a) (j, KeyDate b) \<longleftrightarrow>
     (case dir of Asc \<Rightarrow> a < b | Desc \<Rightarrow> b < a) \<or> a = b \<and> i \<le> j"
  by (auto simp: sort_before_def three_way_def split: sort_direction.split)

interpretation keys: sorting_order "{p :: nat \<times> sort_key. title_key (snd p) = titles}" "sort_before dir"
  for titles dir
proof
  fix x y z :: "nat \<times> sort_key"
  assume kinds: "x \<in> {p. title_key (snd p) = titles}" "y \<in> {p. title_key (snd p) = titles}"
  show "sort_before dir x y \<or> sort_before dir y x"
    using kinds
    by (cases x; cases y; cases "snd x"; cases "snd y"; cases dir)
      (auto simp: sort_before_title sort_before_date)
  assume "z \<in> {p. title_key (snd p) = titles}" "sort_before dir x y" "sort_before dir y z"
  then show "sort_before dir x z"
    using kinds
    by (cases x; cases y; cases z; cases "snd x"; cases "snd y"; cases "snd z"; cases dir)
      (auto simp: sort_before_title sort_before_date)
qed

definition key_le :: "sort_direction \<Rightarrow> sort_key \<Rightarrow> sort_key \<Rightarrow> bool" where
  "key_le dir a b \<longleftrightarrow> (case dir of Asc \<Rightarrow> key_cmp a b | Desc \<Rightarrow> key_cmp b a) \<noteq> Greater"

lemma key_of_kind: "title_key (key_of e f d) \<longleftrightarrow> f = FieldTitle"
  by (cases f) (simp_all add: key_of_def)

lemma sort_before_key_le: "sort_before dir a b \<Longrightarrow> key_le dir (snd a) (snd b)"
  by (auto simp: sort_before_def key_le_def split: ordering.splits sort_direction.splits)

lemma key_cmp_refl: "key_cmp k k = Equal"
  by (cases k) (simp_all add: three_way_def)

lemma sort_before_stable:
  assumes kinds: "set ps \<subseteq> {p. title_key (snd p) = titles}" and "sorted (map fst ps)"
  shows "filter (\<lambda>p. snd p = k) (sort_by (sort_before dir) ps) = filter (\<lambda>p. snd p = k) ps"
proof -
  let ?same = "filter (\<lambda>p :: nat \<times> sort_key. snd p = k)" and ?qs = "sort_by (sort_before dir) ps"
  have "sorted_wrt (\<lambda>p q. fst p \<le> fst q) (?same ?qs)"
    by (rule sorted_wrt_mono_rel [OF _ sorted_wrt_filter [OF keys.sort_sorted [OF kinds, of dir]]])
      (auto simp: sort_before_def key_cmp_refl split: sort_direction.splits)
  then have 1: "sorted (map fst (?same ?qs))" by (simp add: sorted_map)
  have 2: "sorted (map fst (?same ps))"
    using assms(2) unfolding sorted_map by (rule sorted_wrt_filter)
  have ms: "mset (?same ?qs) = mset (?same ps)" by simp
  then have "map fst (?same ?qs) = map fst (?same ps)"
    using 1 2 by (metis mset_map properties_for_sort sorted_sort_id)
  moreover have "map snd (?same xs) = replicate (length (?same xs)) k" for xs
    by (induction xs) auto
  ultimately show ?thesis by (metis length_map zip_map_fst_snd)
qed


definition by_title :: sort_spec where
  "by_title = \<lparr>so_field = FieldTitle, so_direction = Asc, so_limit = None\<rparr>"


end
