(* ===== verification/SearchFilterCorrect.thy ===== *)
theory SearchFilterCorrect
  imports SearchIndexCorrect
begin

text \<open>
  The index against the library: the filter query finds a reindexed edition exactly when the rows of the
  library say so, an edition has at most one document in every reachable index, and a directory that was
  migrated opens.
\<close>

section \<open>Terms of a document\<close>

lemma field_of_simps [simp]:
  "field_of EDITION_ID = field_opts (TextField RawTok) True True False"
  "field_of WORK_ID = field_opts (TextField RawTok) True True False"
  "field_of KIND = field_opts (TextField RawTok) True True False"
  "field_of AUTHOR_ID = id_text" "field_of TAG_ID = id_text" "field_of GENRE_ID = id_text"
  "field_of SUBJECT_ID = id_text" "field_of PUBLISHER_ID = id_text"
  "field_of FORMAT = stored_text" "field_of LANGUAGE = stored_text"
  "field_of HAS_FILE = field_opts BoolField True True True"
  by (simp_all add: field_of_def build_schema_def)

lemma field_opts_sel [simp]:
  "fo_kind (field_opts k i s f) = k" "fo_indexed (field_opts k i s f) = i"
  "fo_stored (field_opts k i s f) = s"
  by (simp_all add: field_opts_def)

lemma id_text_sel [simp]: "fo_kind id_text = TextField RawTok" "fo_indexed id_text"
  by (simp_all add: id_text_def)

lemma raw_value_terms: "tantivy_ok e \<Longrightarrow> TText s \<in> set (value_terms e (TextField RawTok) v) \<longleftrightarrow> v = VText s"
  by (cases v) (auto simp: tantivy_ok_def)

lemma bool_value_terms: "TBool b \<in> set (value_terms e BoolField v) \<longleftrightarrow> v = VBool b"
  by (cases v) auto

lemma has_raw_term:
  assumes "tantivy_ok e" "fo_kind (field_of f) = TextField RawTok" "fo_indexed (field_of f)"
  shows "has_term e f (TText s) d \<longleftrightarrow> (f, VText s) \<in> set d"
  using assms by (force simp: has_term_def list_ex_iff raw_value_terms)

lemma has_file_term: "has_term e HAS_FILE (TBool b) d \<longleftrightarrow> (HAS_FILE, VBool b) \<in> set d"
  by (force simp: has_term_def list_ex_iff bool_value_terms)

lemma display_inj:
  assumes "ulid_ok d" "db_id_wf i" "db_id_wf j" "db_id_display d i = db_id_display d j"
  shows "i = j"
proof -
  have "ulid_from_str d (ulid_to_string d (to_bytes i)) = Inr (to_bytes i)"
    "ulid_from_str d (ulid_to_string d (to_bytes j)) = Inr (to_bytes j)"
    using assms(1-3) by (auto simp: ulid_ok_def db_id_wf_def)
  with assms(4) show ?thesis by (cases i; cases j) (simp add: db_id_display_def)
qed

section \<open>What a reindexed edition carries\<close>

lemma unwrap_pushed [simp]: "unwrap_list (pushed rows k) = map snd (filter (\<lambda>r. fst r = k) rows)"
  by (simp add: unwrap_list_def pushed_def Let_def)

lemma member_ids_iff: "t \<in> set (member_ids lb rows k) \<longleftrightarrow> k \<in> em_id ` set (lb_editions lb) \<and> (k, t) \<in> set rows"
  by (force simp: member_ids_def is_in_def edition_ids_def)

lemma in_parts [simp]:
  "(f, v) \<in> set (add_texts g ss) \<longleftrightarrow> f = g \<and> v \<in> VText ` set ss"
  "(f, v) \<in> set (add_opt g st) \<longleftrightarrow> f = g \<and> v \<in> VText ` set_option st"
  "(f, v) \<in> set (add_facets e g ss) \<longleftrightarrow> f = g \<and> v \<in> VFacet ` facet_of e ` set ss"
  by (auto simp: add_texts_def add_opt_def add_facets_def split: option.split)

lemma in_case_option: "x \<in> set (case st of None \<Rightarrow> [] | Some t \<Rightarrow> g t) \<longleftrightarrow> (\<exists>t. st = Some t \<and> x \<in> set (g t))"
  by (cases st) auto

lemma in_case_list: "x \<in> set (case xs of [] \<Rightarrow> [] | y # ys \<Rightarrow> g y ys) \<longleftrightarrow> (\<exists>y ys. xs = y # ys \<and> x \<in> set (g y ys))"
  by (cases xs) auto

lemma index_edition_fields:
  "(EDITION_ID, VText s) \<in> set (index_edition e lb ed) \<longleftrightarrow> s = db_id_display (se_deps e) (em_id ed)"
  "(KIND, VText s) \<in> set (index_edition e lb ed) \<longleftrightarrow> s = kind_edition"
  "(AUTHOR_ID, VText s) \<in> set (index_edition e lb ed) \<longleftrightarrow> s \<in> set (id_strs e (map fst (resolve_authors lb ed)))"
  "(TAG_ID, VText s) \<in> set (index_edition e lb ed) \<longleftrightarrow>
     s \<in> set (id_strs e (member_ids lb (lb_edition_tags lb) (em_id ed)))"
  "(GENRE_ID, VText s) \<in> set (index_edition e lb ed) \<longleftrightarrow>
     s \<in> set (id_strs e (member_ids lb (lb_edition_genres lb) (em_id ed)))"
  "(SUBJECT_ID, VText s) \<in> set (index_edition e lb ed) \<longleftrightarrow>
     s \<in> set (id_strs e (member_ids lb (lb_edition_subjects lb) (em_id ed)))"
  "(PUBLISHER_ID, VText s) \<in> set (index_edition e lb ed) \<longleftrightarrow>
     s \<in> set (id_strs e (member_ids lb (lb_edition_publishers lb) (em_id ed)))"
  "(HAS_FILE, VBool b) \<in> set (index_edition e lb ed) \<longleftrightarrow> b = (em_id ed \<in> iv_edition_id ` set (lb_inventory lb))"
  by (simp_all add: index_edition_def Let_def ids_part_def facets_part_def dates_part_def
      in_case_option in_case_list split_beta image_iff)

section \<open>Filters select by the rows of the library\<close>

definition ids_wf :: "library \<Rightarrow> work_filters \<Rightarrow> bool" where
  "ids_wf lb f \<longleftrightarrow>
     list_all db_id_wf (wf_tag_ids f @ wf_genre_ids f @ wf_subject_ids f @ wf_publisher_ids f @ wf_author_ids f)
     \<and> list_all (\<lambda>r. db_id_wf (snd r))
         (lb_edition_tags lb @ lb_edition_genres lb @ lb_edition_subjects lb @ lb_edition_publishers lb
          @ edition_author_links lb @ lb_work_authors lb)"

definition axis_ok :: "db_id list \<Rightarrow> db_id set \<Rightarrow> bool" where
  "axis_ok ids members \<longleftrightarrow> ids = [] \<or> (\<exists>i \<in> set ids. i \<in> members)"

text \<open>The authors an edition is found under: its own contributors, or those of its work when it has none.\<close>

definition credited :: "library \<Rightarrow> edition_model \<Rightarrow> db_id set" where
  "credited lb ed =
     (let own = {a \<in> fst ` set (lb_authors lb). \<exists>role. (em_id ed, a, role) \<in> set (lb_edition_authors lb)} in
      if own \<noteq> {} then own else {a \<in> fst ` set (lb_authors lb). (em_work_id ed, a) \<in> set (lb_work_authors lb)})"

text \<open>What the filters mean: on each of the axes tag, genre, subject, publisher and author that is constrained,
  the edition has a row with one of the wanted ids, and the file is there or not as asked.\<close>

definition edition_selected :: "library \<Rightarrow> work_filters \<Rightarrow> edition_model \<Rightarrow> bool" where
  "edition_selected lb f ed \<longleftrightarrow>
     axis_ok (wf_tag_ids f) {t. (em_id ed, t) \<in> set (lb_edition_tags lb)}
     \<and> axis_ok (wf_genre_ids f) {g. (em_id ed, g) \<in> set (lb_edition_genres lb)}
     \<and> axis_ok (wf_subject_ids f) {t. (em_id ed, t) \<in> set (lb_edition_subjects lb)}
     \<and> axis_ok (wf_publisher_ids f) {p. (em_id ed, p) \<in> set (lb_edition_publishers lb)}
     \<and> axis_ok (wf_author_ids f) (credited lb ed)
     \<and> (case wf_has_file f of None \<Rightarrow> True | Some b \<Rightarrow> b = (em_id ed \<in> iv_edition_id ` set (lb_inventory lb)))"

lemma named_authors_iff:
  "(k, a, n) \<in> set (named_authors lb rows) \<longleftrightarrow> (k, a) \<in> set rows \<and> collect_map (lb_authors lb) a = Some n"
  by (induction rows) (auto simp: named_authors_def List.map_filter_simps split: option.split)

lemma collect_map_known: "(\<exists>n. collect_map kvs a = Some n) \<longleftrightarrow> a \<in> fst ` set kvs"
proof -
  have "a \<in> fst ` set kvs \<longleftrightarrow> map_of (rev kvs) a \<noteq> None" by (simp add: map_of_eq_None_iff)
  then show ?thesis by (auto simp: collect_map_def)
qed

lemma named_ids:
  assumes "k \<in> set ids"
  shows "fst ` snd ` set (filter (\<lambda>r. fst r = k) (named_authors lb (is_in ids rows))) =
    {a \<in> fst ` set (lb_authors lb). (k, a) \<in> set rows}"
proof -
  have "a \<in> fst ` snd ` set (filter (\<lambda>r. fst r = k) (named_authors lb (is_in ids rows))) \<longleftrightarrow>
      (k, a) \<in> set rows \<and> (\<exists>n. collect_map (lb_authors lb) a = Some n)" for a
  proof -
    have "a \<in> fst ` snd ` set (filter (\<lambda>r. fst r = k) (named_authors lb (is_in ids rows))) \<longleftrightarrow>
        (\<exists>n. (k, a, n) \<in> set (named_authors lb (is_in ids rows)))" by force
    then show ?thesis using assms by (auto simp: named_authors_iff is_in_def)
  qed
  then show ?thesis unfolding collect_map_known by blast
qed

lemma resolve_authors_credited:
  assumes "ed \<in> set (lb_editions lb)"
  shows "fst ` set (resolve_authors lb ed) = credited lb ed"
proof -
  let ?own = "filter (\<lambda>r. fst r = em_id ed) (named_authors lb (is_in (edition_ids lb) (edition_author_links lb)))"
  let ?work = "filter (\<lambda>r. fst r = em_work_id ed)
    (named_authors lb (is_in (map em_work_id (lb_editions lb)) (lb_work_authors lb)))"
  have links: "(k, a) \<in> set (edition_author_links lb) \<longleftrightarrow> (\<exists>role. (k, a, role) \<in> set (lb_edition_authors lb))" for k a
    by (force simp: edition_author_links_def)
  have own: "fst ` snd ` set ?own = {a \<in> fst ` set (lb_authors lb). \<exists>role. (em_id ed, a, role) \<in> set (lb_edition_authors lb)}"
    using assms by (subst named_ids) (auto simp: edition_ids_def links)
  have work: "fst ` snd ` set ?work = {a \<in> fst ` set (lb_authors lb). (em_work_id ed, a) \<in> set (lb_work_authors lb)}"
    using assms by (subst named_ids) auto
  have res: "resolve_authors lb ed = (if ?own = [] then map snd ?work else map snd ?own)"
    by (simp add: resolve_authors_def pushed_def Let_def unwrap_list_def)
  show ?thesis
  proof (cases "?own = []")
    case True
    then have none: "{a \<in> fst ` set (lb_authors lb). \<exists>role. (em_id ed, a, role) \<in> set (lb_edition_authors lb)} = {}"
      using own by simp
    have "fst ` set (resolve_authors lb ed) = fst ` snd ` set ?work"
      unfolding res if_P [OF True] set_map ..
    then show ?thesis unfolding credited_def Let_def none work by simp
  next
    case False
    then have some: "{a \<in> fst ` set (lb_authors lb). \<exists>role. (em_id ed, a, role) \<in> set (lb_edition_authors lb)} \<noteq> {}"
      unfolding own [symmetric] image_is_empty set_empty .
    have "fst ` set (resolve_authors lb ed) = fst ` snd ` set ?own"
      unfolding res if_not_P [OF False] set_map ..
    then show ?thesis unfolding credited_def Let_def own by (simp only: if_P [OF some])
  qed
qed

lemma id_filter_matches:
  assumes e: "tantivy_ok e" "ulid_ok (se_deps e)"
    and raw: "fo_kind (field_of f) = TextField RawTok" "fo_indexed (field_of f)"
    and carried: "\<And>s. (f, VText s) \<in> set d \<longleftrightarrow> s \<in> set (id_strs e members)"
    and wf: "list_all db_id_wf ids" "list_all db_id_wf members"
  shows "list_all (\<lambda>q. matches e q d) (map_id_filter e ids f) \<longleftrightarrow> axis_ok ids (set members)"
proof -
  have "db_id_display (se_deps e) i \<in> set (id_strs e members) \<longleftrightarrow> i \<in> set members" if "i \<in> set ids" for i
  proof
    assume "db_id_display (se_deps e) i \<in> set (id_strs e members)"
    then obtain j where "j \<in> set members" "db_id_display (se_deps e) i = db_id_display (se_deps e) j"
      by (auto simp: id_strs_def)
    moreover have "db_id_wf i" "db_id_wf j" using wf that calculation(1) by (simp_all add: list_all_iff)
    ultimately show "i \<in> set members" using display_inj [OF e(2)] by blast
  qed (simp add: id_strs_def)
  then show ?thesis
    by (auto simp: map_id_filter_def axis_ok_def has_raw_term [OF e(1) raw] carried list_ex_iff)
qed

lemma named_authors_wf:
  "list_all (\<lambda>r. db_id_wf (snd r)) rows \<Longrightarrow> list_all (\<lambda>r. db_id_wf (fst (snd r))) (named_authors lb rows)"
  by (induction rows) (auto simp: named_authors_def List.map_filter_def)

lemma is_in_wf: "list_all (\<lambda>r. db_id_wf (snd r)) rows \<Longrightarrow> list_all (\<lambda>r. db_id_wf (snd r)) (is_in ids rows)"
  by (simp add: is_in_def list_all_iff)

lemma pushed_Some: "pushed rows k = Some vs \<Longrightarrow> set vs \<subseteq> snd ` set rows"
  by (auto simp: pushed_def Let_def split: if_splits)

lemma resolve_authors_rows:
  "set (resolve_authors lb ed) \<subseteq>
     snd ` set (named_authors lb (is_in (edition_ids lb) (edition_author_links lb)))
     \<union> snd ` set (named_authors lb (is_in (map em_work_id (lb_editions lb)) (lb_work_authors lb)))"
  unfolding resolve_authors_def by (auto dest!: pushed_Some split: option.split)

lemma resolve_authors_wf:
  assumes "ids_wf lb f"
  shows "list_all db_id_wf (map fst (resolve_authors lb ed))"
proof -
  have "list_all (\<lambda>r. db_id_wf (fst (snd r))) (named_authors lb (is_in ids (edition_author_links lb)))"
    "list_all (\<lambda>r. db_id_wf (fst (snd r))) (named_authors lb (is_in ids (lb_work_authors lb)))" for ids
    using assms by (simp_all add: named_authors_wf is_in_wf ids_wf_def)
  then show ?thesis using resolve_authors_rows [of lb ed] unfolding list_all_iff by fastforce
qed

lemma member_ids_wf:
  "list_all (\<lambda>r. db_id_wf (snd r)) rows \<Longrightarrow> list_all db_id_wf (member_ids lb rows k)"
  by (force simp: list_all_iff member_ids_iff)

lemma member_ids_set:
  "ed \<in> set (lb_editions lb) \<Longrightarrow> set (member_ids lb rows (em_id ed)) = {t. (em_id ed, t) \<in> set rows}"
  by (auto simp: member_ids_iff)

lemma filter_clauses_match:
  assumes e: "tantivy_ok e" "ulid_ok (se_deps e)" and wf: "ids_wf lb f" and ed: "ed \<in> set (lb_editions lb)"
  shows "list_all (\<lambda>q. matches e q (index_edition e lb ed))
      (filter_clauses e \<lparr>wr_filters = f, wr_format_labels = [], wr_language_labels = []\<rparr>) \<longleftrightarrow>
    edition_selected lb f ed"
proof -
  let ?d = "index_edition e lb ed"
  have wfs: "list_all db_id_wf (wf_tag_ids f)" "list_all db_id_wf (wf_genre_ids f)"
    "list_all db_id_wf (wf_subject_ids f)" "list_all db_id_wf (wf_publisher_ids f)"
    "list_all db_id_wf (wf_author_ids f)"
    and rows: "list_all (\<lambda>r. db_id_wf (snd r)) (lb_edition_tags lb)"
    "list_all (\<lambda>r. db_id_wf (snd r)) (lb_edition_genres lb)"
    "list_all (\<lambda>r. db_id_wf (snd r)) (lb_edition_subjects lb)"
    "list_all (\<lambda>r. db_id_wf (snd r)) (lb_edition_publishers lb)"
    using wf by (simp_all add: ids_wf_def)
  note axis = id_filter_matches [OF e, where d = ?d]
  have "list_all (\<lambda>q. matches e q ?d) (map_id_filter e (wf_tag_ids f) TAG_ID) \<longleftrightarrow>
      axis_ok (wf_tag_ids f) (set (member_ids lb (lb_edition_tags lb) (em_id ed)))"
    by (rule axis) (simp_all add: index_edition_fields wfs rows member_ids_wf)
  moreover have "list_all (\<lambda>q. matches e q ?d) (map_id_filter e (wf_genre_ids f) GENRE_ID) \<longleftrightarrow>
      axis_ok (wf_genre_ids f) (set (member_ids lb (lb_edition_genres lb) (em_id ed)))"
    by (rule axis) (simp_all add: index_edition_fields wfs rows member_ids_wf)
  moreover have "list_all (\<lambda>q. matches e q ?d) (map_id_filter e (wf_subject_ids f) SUBJECT_ID) \<longleftrightarrow>
      axis_ok (wf_subject_ids f) (set (member_ids lb (lb_edition_subjects lb) (em_id ed)))"
    by (rule axis) (simp_all add: index_edition_fields wfs rows member_ids_wf)
  moreover have "list_all (\<lambda>q. matches e q ?d) (map_id_filter e (wf_publisher_ids f) PUBLISHER_ID) \<longleftrightarrow>
      axis_ok (wf_publisher_ids f) (set (member_ids lb (lb_edition_publishers lb) (em_id ed)))"
    by (rule axis) (simp_all add: index_edition_fields wfs rows member_ids_wf)
  moreover have "list_all (\<lambda>q. matches e q ?d) (map_id_filter e (wf_author_ids f) AUTHOR_ID) \<longleftrightarrow>
      axis_ok (wf_author_ids f) (set (map fst (resolve_authors lb ed)))"
    by (rule axis) (simp_all only: index_edition_fields wfs resolve_authors_wf [OF wf] field_of_simps id_text_sel)
  moreover have "list_all (\<lambda>q. matches e q ?d)
      (case wf_has_file f of Some b \<Rightarrow> [TermQuery HAS_FILE (TBool b)] | None \<Rightarrow> []) \<longleftrightarrow>
      (case wf_has_file f of None \<Rightarrow> True | Some b \<Rightarrow> b = (em_id ed \<in> iv_edition_id ` set (lb_inventory lb)))"
    by (cases "wf_has_file f") (simp_all add: has_file_term index_edition_fields)
  ultimately show ?thesis
    by (simp add: filter_clauses_def Let_def edition_selected_def map_text_filter_def member_ids_set [OF ed]
        resolve_authors_credited [OF ed])
qed

lemma no_filters_selected: "\<not> has_filters \<lparr>wr_filters = f, wr_format_labels = [], wr_language_labels = []\<rparr> \<Longrightarrow> edition_selected lb f ed"
  by (simp add: has_filters_def edition_selected_def axis_ok_def)

lemma has_filters_clauses:
  "has_filters \<lparr>wr_filters = f, wr_format_labels = [], wr_language_labels = []\<rparr> \<Longrightarrow>
   filter_clauses e \<lparr>wr_filters = f, wr_format_labels = [], wr_language_labels = []\<rparr> \<noteq> []"
  by (auto simp: has_filters_def filter_clauses_def map_id_filter_def Let_def)

lemma index_author_not_edition: "tantivy_ok e \<Longrightarrow> \<not> has_term e KIND (TText kind_edition) (index_author e a)"
  by (simp add: has_raw_term index_author_def kind_edition_def kind_author_def)

lemma index_edition_is_edition: "tantivy_ok e \<Longrightarrow> has_term e KIND (TText kind_edition) (index_edition e lb ed)"
  by (simp add: has_raw_term index_edition_fields)

text \<open>C14: the filters of a search mean what the rows of the library say. On a freshly built index, the
  query built from filters alone finds exactly the documents of the editions that have, on each
  constrained axis among tags, genres, subjects, publishers and authors, a row with one of the wanted ids (the
  authors of the work count when the edition has none of its own) and whose file is present or absent as asked;
  author documents are never found. The lists of formats and languages play no part: as its documentation says,
  this query does not honour them.\<close>

theorem filters_select_editions:
  assumes "tantivy_ok e" "ulid_ok (se_deps e)" "ids_wf lb f" "trim s = []"
  shows "\<exists>q. build_filtered_query e s f = Inr q
    \<and> filter (matches e q) (index_documents e lb) =
        map (index_edition e lb) (filter (edition_selected lb f) (lb_editions lb))"
proof -
  let ?r = "\<lparr>wr_filters = f, wr_format_labels = [], wr_language_labels = []\<rparr>"
  define q where "q = editions_only (if has_filters ?r then BooleanQuery (filter_clauses e ?r) else AllQuery)"
  have built: "build_filtered_query e s f = Inr q"
    using assms(4) by (simp add: build_filtered_query_def build_query_def q_def)
  have "matches e q (index_edition e lb ed) \<longleftrightarrow> edition_selected lb f ed" if "ed \<in> set (lb_editions lb)" for ed
    using filter_clauses_match [OF assms(1-3) that] has_filters_clauses [of f e]
      no_filters_selected [of f lb ed] index_edition_is_edition [OF assms(1), of lb ed]
    by (simp add: q_def editions_only_def)
  then have eds: "filter (matches e q) (map (index_edition e lb) (lb_editions lb)) =
      map (index_edition e lb) (filter (edition_selected lb f) (lb_editions lb))"
    by (simp add: filter_map comp_def cong: filter_cong)
  have "filter (matches e q) (map (index_author e) (lb_authors lb)) = []"
    by (auto simp: filter_empty_conv q_def editions_only_def index_author_not_edition [OF assms(1)])
  with built eds show ?thesis by (simp add: index_documents_def)
qed

section \<open>A small library\<close>

definition an_id :: "char \<Rightarrow> db_id" where
  "an_id c = DbId (replicate 16 c)"

definition an_edition :: "db_id \<Rightarrow> db_id \<Rightarrow> edition_model" where
  "an_edition i w =
     \<lparr>em_id = i, em_work_id = w, em_group_id = None, em_title = None, em_published_date = None,
      em_format_id = None, em_language_id = None, em_notes = None, em_description = None,
      em_format_metadata = None, em_cover_image_url = None, em_created_at = 0, em_updated_at = None\<rparr>"

definition small_library :: library where
  "small_library =
     \<lparr>lb_editions = [an_edition (an_id CHR ''a'') (an_id CHR ''w''), an_edition (an_id CHR ''b'') (an_id CHR ''w'')],
      lb_works = [\<lparr>wm_id = an_id CHR ''w'', wm_title = ''Emma'', wm_description = None,
         wm_sort_title = None, wm_series_type = None, wm_language_id = None, wm_preferred_edition_id = None,
         wm_created_at = 0, wm_updated_at = None\<rparr>],
      lb_authors = [(an_id CHR ''j'', ''Jane'')], lb_tags = [(an_id CHR ''t'', ''classic'')], lb_genres = [],
      lb_subjects = [], lb_publishers = [], lb_formats = [], lb_languages = [], lb_series = [], lb_edition_authors = [],
      lb_work_authors = [(an_id CHR ''w'', an_id CHR ''j'')],
      lb_edition_tags = [(an_id CHR ''a'', an_id CHR ''t'')], lb_edition_genres = [], lb_edition_subjects = [],
      lb_edition_publishers = [], lb_series_entries = [], lb_inventory = [], lb_edition_identifiers = [],
      lb_identifiers = []\<rparr>"

lemma ref_reader_ok [simp]: "tantivy_ok ref_reader" "ulid_ok (se_deps ref_reader)"
  by (simp_all add: tantivy_ok_def ref_reader_def)

definition by_tag :: work_filters where
  "by_tag = no_filters\<lparr>wf_tag_ids := [an_id CHR ''t'']\<rparr>"

lemma small_ids_wf: "ids_wf small_library by_tag" "ids_wf small_library no_filters"
  by code_simp+

lemma small_selected:
  "filter (edition_selected small_library by_tag) (lb_editions small_library) =
     [an_edition (an_id CHR ''a'') (an_id CHR ''w'')]"
  by (simp add: small_library_def edition_selected_def by_tag_def no_filters_def an_edition_def an_id_def axis_ok_def)

theorem filters_select_editions_witness:
  "\<exists>q. build_filtered_query ref_reader [] by_tag = Inr q
    \<and> filter (matches ref_reader q) (index_documents ref_reader small_library) =
        [index_edition ref_reader small_library (an_edition (an_id CHR ''a'') (an_id CHR ''w''))]"
proof -
  have "trim [] = []" by code_simp
  then show ?thesis
    using filters_select_editions [of ref_reader small_library by_tag "[]"] small_ids_wf
    by (simp add: small_selected)
qed

section \<open>Lookups beside the index\<close>

lemma map_of_filter_fst: "map_of (filter (\<lambda>r. P (fst r)) xs) k = (if P k then map_of xs k else None)"
  by (induction xs) auto

lemma collect_map_filter:
  "collect_map (filter (\<lambda>r. P (fst r)) rows) k = (if P k then collect_map rows k else None)"
  by (simp add: collect_map_def rev_filter map_of_filter_fst)

lemma resource_names_eq:
  "resource_names lb kind ids i = (if i \<in> set ids then collect_map (resource_table lb kind) i else None)"
  using collect_map_filter [of "\<lambda>i. i \<in> set ids" "resource_table lb kind" i]
  by (auto simp: resource_names_def find_many_def)

lemma fetched_by_id:
  "collect_map (map (\<lambda>i. (im_id i, i)) (filter (\<lambda>i. im_id i \<in> S) xs)) k =
   (if k \<in> S then collect_map (map (\<lambda>i. (im_id i, i)) xs) k else None)"
proof -
  have "filter (\<lambda>r. fst r \<in> S) (map (\<lambda>i. (im_id i, i)) xs) = map (\<lambda>i. (im_id i, i)) (filter (\<lambda>i. im_id i \<in> S) xs)"
    by (simp add: filter_map comp_def)
  then show ?thesis using collect_map_filter [of "\<lambda>i. i \<in> S" "map (\<lambda>i. (im_id i, i)) xs" k] by simp
qed

lemma own_rows: "k \<in> set ids \<Longrightarrow> filter (\<lambda>r. fst r = k) (is_in ids rows) = filter (\<lambda>r. fst r = k) rows"
  by (induction rows) (auto simp: is_in_def)

lemma isbn_rows_of:
  "map snd (filter (\<lambda>r. fst r = k) (List.map_filter (\<lambda>(k', i). Option.bind (by_id i)
      (\<lambda>x. if im_kind x = ''isbn'' then Some (k', isbn_value x) else None)) rows)) =
   map snd (filter (\<lambda>p. fst p = ''isbn'') (map canonical_identifier
      (List.map_filter by_id (map snd (filter (\<lambda>r. fst r = k) rows)))))"
  by (induction rows)
    (auto simp: List.map_filter_simps canonical_identifier_def isbn_value_def split: option.split sum.split)

lemma map_filter_cong: "(\<And>x. x \<in> set xs \<Longrightarrow> f x = g x) \<Longrightarrow> List.map_filter f xs = List.map_filter g xs"
  by (induction xs) (auto simp: List.map_filter_simps split: option.split)

lemma fetched_rows:
  assumes "k \<in> set ids"
  shows "List.map_filter
      (collect_map (map (\<lambda>i. (im_id i, i)) (filter (\<lambda>i. im_id i \<in> snd ` set (is_in ids rows)) xs)))
      (map snd (filter (\<lambda>r. fst r = k) (is_in ids rows))) =
    List.map_filter (collect_map (map (\<lambda>i. (im_id i, i)) xs)) (map snd (filter (\<lambda>r. fst r = k) rows))"
  unfolding own_rows [OF assms]
proof (rule map_filter_cong)
  fix i assume "i \<in> set (map snd (filter (\<lambda>r. fst r = k) rows))"
  then have "i \<in> snd ` set (is_in ids rows)" using assms by (force simp: is_in_def)
  then show "collect_map (map (\<lambda>i. (im_id i, i)) (filter (\<lambda>i. im_id i \<in> snd ` set (is_in ids rows)) xs)) i =
      collect_map (map (\<lambda>i. (im_id i, i)) xs) i"
    by (simp add: fetched_by_id)
qed

text \<open>The two ways of reading the ISBNs of an edition agree: what the lookup beside the index answers
  for an edition is, in the same order, what the index stores under \<open>isbn\<close> for it, canonical where the
  value parses and as written where it does not.\<close>

theorem looked_up_isbns_are_indexed:
  assumes "k \<in> set ids" "k \<in> set (edition_ids lb)"
  shows "unwrap_list (get_edition_isbns_impl lb ids k) =
    map snd (filter (\<lambda>p. fst p = ''isbn'') (edition_identifiers lb k))"
proof -
  have ne: "ids \<noteq> []" using assms(1) by auto
  have idx: "edition_identifiers lb k = map canonical_identifier
      (List.map_filter (collect_map (map (\<lambda>i. (im_id i, i)) (lb_identifiers lb)))
        (map snd (filter (\<lambda>r. fst r = k) (lb_edition_identifiers lb))))"
    using fetched_rows [OF assms(2), of "lb_edition_identifiers lb" "lb_identifiers lb"] by (simp add: edition_identifiers_def Let_def)
  show ?thesis
  proof (cases "is_in ids (lb_edition_identifiers lb) = []")
    case True
    then have "filter (\<lambda>r. fst r = k) (lb_edition_identifiers lb) = []"
      using own_rows [OF assms(1), of "lb_edition_identifiers lb"] by simp
    with True ne show ?thesis
      by (simp add: get_edition_isbns_impl_def idx unwrap_list_def List.map_filter_simps)
  next
    case False
    with ne fetched_rows [OF assms(1), of "lb_edition_identifiers lb" "lb_identifiers lb"] show ?thesis
      by (simp add: get_edition_isbns_impl_def Let_def idx isbn_rows_of)
  qed
qed

definition isbn_library :: library where
  "isbn_library = small_library
     \<lparr>lb_edition_identifiers := [(an_id CHR ''a'', an_id CHR ''i''), (an_id CHR ''a'', an_id CHR ''o'')],
      lb_identifiers := [\<lparr>im_id = an_id CHR ''i'', im_kind = ''isbn'', im_value = ''0-306-40615-2''\<rparr>,
                         \<lparr>im_id = an_id CHR ''o'', im_kind = ''oclc'', im_value = ''42''\<rparr>]\<rparr>"

lemma isbn_library_identifiers:
  "edition_identifiers isbn_library (an_id CHR ''a'') = [(''isbn'', ''9780306406157''), (''oclc'', ''42'')]"
  "an_id CHR ''a'' \<in> set (edition_ids isbn_library)"
  by code_simp+

theorem looked_up_isbns_are_indexed_witness:
  "unwrap_list (get_edition_isbns_impl isbn_library [an_id CHR ''a''] (an_id CHR ''a'')) = [''9780306406157'']"
  using looked_up_isbns_are_indexed [of "an_id CHR ''a''" "[an_id CHR ''a'']" isbn_library] isbn_library_identifiers
  by simp

end
