(* ===== verification/SearchWriteCorrect.thy ===== *)
theory SearchWriteCorrect
  imports SearchFilterCorrect
begin

text \<open>
  Writing the search index: one document per edition in every reachable index, what an upsert replaces and
  what it also removes, migration of an index directory, and the behaviours of the index that differ from
  what the code means.
\<close>

section \<open>One document per edition\<close>

definition docs_of_edition :: "'e search_env_scheme \<Rightarrow> string \<Rightarrow> index \<Rightarrow> index" where
  "docs_of_edition e i ix = filter (has_term e EDITION_ID (TText i)) ix"

lemma edition_document_fields:
  "(EDITION_ID, VText s) \<in> set (edition_document e doc) \<longleftrightarrow> s = ed_edition_id doc"
  "(AUTHOR_ID, VText s) \<in> set (edition_document e doc) \<longleftrightarrow> s \<in> set (ed_authors_ids doc)"
  "(HAS_FILE, v) \<notin> set (edition_document e doc)"
  "(TAG_ID, v) \<notin> set (edition_document e doc)"
  by (simp_all add: edition_document_def Let_def ids_part_def facets_part_def in_case_option image_iff)

lemma edition_document_has_id:
  "tantivy_ok e \<Longrightarrow> has_term e EDITION_ID (TText s) (edition_document e doc) \<longleftrightarrow> s = ed_edition_id doc"
  by (simp add: has_raw_term edition_document_fields)

lemma author_documents_no_edition:
  "tantivy_ok e \<Longrightarrow> \<not> has_term e EDITION_ID (TText s) (author_document e a)"
  "tantivy_ok e \<Longrightarrow> \<not> has_term e EDITION_ID (TText s) (index_author e b)"
  by (simp_all add: has_raw_term author_document_def index_author_def)

lemma docs_of_delete:
  "docs_of_edition e s (delete_term e f t ix) = filter (\<lambda>d. \<not> has_term e f t d) (docs_of_edition e s ix)"
  by (simp add: docs_of_edition_def delete_term_def conj_commute)

lemma docs_of_deleted: "docs_of_edition e s (delete_term e EDITION_ID (TText s) ix) = []"
  by (simp add: docs_of_edition_def delete_term_def filter_empty_conv)

lemma docs_of_append [simp]: "docs_of_edition e s (xs @ ys) = docs_of_edition e s xs @ docs_of_edition e s ys"
  by (simp add: docs_of_edition_def)

lemma docs_of_upsert:
  assumes "tantivy_ok e"
  shows "docs_of_edition e s (upsert_edition e doc ix) =
    (if s = ed_edition_id doc then [edition_document e doc]
     else filter (\<lambda>d. \<not> has_term e EDITION_ID (TText (ed_edition_id doc)) d) (docs_of_edition e s ix))"
proof (cases "s = ed_edition_id doc")
  case True
  then show ?thesis
    by (simp add: upsert_edition_def docs_of_deleted)
      (simp add: docs_of_edition_def edition_document_has_id [OF assms])
next
  case False
  then show ?thesis
    by (simp add: upsert_edition_def docs_of_delete)
      (simp add: docs_of_edition_def edition_document_has_id [OF assms])
qed

lemma filter_le_one: "length xs \<le> Suc 0 \<Longrightarrow> length (filter P xs) \<le> Suc 0"
  by (rule order_trans [OF length_filter_le])

inductive index_reachable :: "'e search_env_scheme \<Rightarrow> index \<Rightarrow> bool" for e where
  fresh: "index_reachable e []"
| reindexed: "index_reachable e ix \<Longrightarrow>
    (\<And>lb. db = Inr lb \<Longrightarrow> distinct (edition_ids lb) \<and> list_all db_id_wf (edition_ids lb)) \<Longrightarrow>
    index_reachable e (fst (reindex e db ix))"
| edition_upserted: "index_reachable e ix \<Longrightarrow> index_reachable e (upsert_edition e doc ix)"
| author_upserted: "index_reachable e ix \<Longrightarrow> index_reachable e (upsert_author e author ix)"
| edition_deleted: "index_reachable e ix \<Longrightarrow> index_reachable e (delete_edition e i ix)"

lemma docs_of_index:
  assumes "tantivy_ok e" "ulid_ok (se_deps e)" "distinct (edition_ids lb)" "list_all db_id_wf (edition_ids lb)"
  shows "length (docs_of_edition e s (index_documents e lb)) \<le> 1"
proof -
  have authors: "docs_of_edition e s (map (index_author e) as) = []" for as
    using author_documents_no_edition(2) [OF assms(1)] by (auto simp: docs_of_edition_def filter_empty_conv)
  have "length (docs_of_edition e s (map (index_edition e lb) eds)) \<le> 1"
    if "distinct (map em_id eds)" "list_all db_id_wf (map em_id eds)" for eds
    using that
  proof (induction eds)
    case Nil
    show ?case by (simp add: docs_of_edition_def)
  next
    case (Cons ed eds)
    show ?case
    proof (cases "s = db_id_display (se_deps e) (em_id ed)")
      case True
      have "s \<noteq> db_id_display (se_deps e) (em_id x)" if "x \<in> set eds" for x
        using display_inj [OF assms(2), of "em_id ed" "em_id x"] Cons.prems that True
        by (auto simp: list_all_iff)
      then have "docs_of_edition e s (map (index_edition e lb) eds) = []"
        by (auto simp: docs_of_edition_def filter_empty_conv has_raw_term [OF assms(1)] index_edition_fields)
      then show ?thesis by (simp add: docs_of_edition_def)
    next
      case False
      with Cons show ?thesis
        by (simp add: docs_of_edition_def has_raw_term [OF assms(1)] index_edition_fields)
    qed
  qed
  with assms(3,4) show ?thesis by (simp add: index_documents_def authors edition_ids_def)
qed

text \<open>C17: Invariant of the index. Whatever sequence of rebuilds (also failed ones), edition upserts, author
  upserts and deletions an index has gone through, no edition id has more than one document.\<close>

theorem one_document_per_edition:
  assumes "index_reachable e ix" "tantivy_ok e" "ulid_ok (se_deps e)"
  shows "length (docs_of_edition e s ix) \<le> 1"
  using assms(1)
proof induction
  case fresh
  show ?case by (simp add: docs_of_edition_def)
next
  case (reindexed ix db)
  show ?case
  proof (cases db)
    case (Inl err)
    then show ?thesis by (simp add: reindex_def reindex_with_progress_def docs_of_edition_def)
  next
    case (Inr lb)
    with reindexed.hyps docs_of_index [OF assms(2,3)] show ?thesis
      by (simp add: reindex_def reindex_with_progress_def Let_def)
  qed
next
  case (edition_upserted ix doc)
  then show ?case by (simp add: docs_of_upsert [OF assms(2)] filter_le_one)
next
  case (author_upserted ix author)
  have "docs_of_edition e s [author_document e author] = []"
    by (simp add: docs_of_edition_def author_documents_no_edition [OF assms(2)])
  with author_upserted show ?case by (simp add: upsert_author_def docs_of_delete filter_le_one)
next
  case (edition_deleted ix i)
  then show ?case by (simp add: delete_edition_def docs_of_delete filter_le_one)
qed

theorem one_document_per_edition_witness:
  "length (docs_of_edition ref_reader ''e1''
     (upsert_edition ref_reader (book ''e1'' ''w2'') (upsert_edition ref_reader (book ''e1'' ''w1'') []))) \<le> 1"
  by (rule one_document_per_edition) (auto intro: index_reachable.intros)

text \<open>An edition upsert replaces and nothing else: afterwards the id has exactly the new document, and
  the documents without that id are the same ones in the same order.\<close>

theorem upsert_edition_replaces:
  assumes "tantivy_ok e"
  shows "docs_of_edition e (ed_edition_id doc) (upsert_edition e doc ix) = [edition_document e doc]
    \<and> filter (\<lambda>d. \<not> has_term e EDITION_ID (TText (ed_edition_id doc)) d) (upsert_edition e doc ix) =
        filter (\<lambda>d. \<not> has_term e EDITION_ID (TText (ed_edition_id doc)) d) ix"
  using docs_of_upsert [OF assms, of "ed_edition_id doc" doc ix]
  by (simp add: upsert_edition_def delete_term_def edition_document_has_id [OF assms])

theorem upsert_edition_replaces_witness:
  "docs_of_edition ref_reader ''e1'' (upsert_edition ref_reader (book ''e1'' ''w9'') three_books) =
     [edition_document ref_reader (book ''e1'' ''w9'')]"
  using upsert_edition_replaces [of ref_reader "book ''e1'' ''w9''" three_books]
  by (simp add: book_def)

section \<open>Opening and migrating\<close>

text \<open>serde reads back what the sidecar is written with, white space at its end included.\<close>

definition sidecar_ok :: "'e search_env_scheme \<Rightarrow> bool" where
  "sidecar_ok e \<longleftrightarrow>
     json_from_str (se_deps e)
       (json_to_string (se_deps e) (JObject [(''schema_version'', JInt (int SCHEMA_VERSION))]) @ [CHR 0x0A])
     = Inr (JObject [(''schema_version'', JInt (int SCHEMA_VERSION))])"

lemma read_written_version:
  "sidecar_ok e \<Longrightarrow> write_schema_version e dir0 = Inr dir \<Longrightarrow>
   read_schema_version e dir = Inr (Some SCHEMA_VERSION)"
  by (auto simp: read_schema_version_def write_schema_version_def sidecar_ok_def json_get_def
      as_u64_json_def SCHEMA_VERSION_def split: option.splits)

lemma written_dir: "write_schema_version e dir0 = Inr dir \<Longrightarrow> dir_index dir = dir_index dir0 \<and> dir_sidecar dir \<noteq> None"
  by (auto simp: write_schema_version_def split: option.splits)

lemma open_current:
  assumes "tantivy_ok e" "read_schema_version e dir = Inr (Some SCHEMA_VERSION)" "dir_sidecar dir \<noteq> None"
    and "dir_index dir = Some (build_schema, ix)"
  shows "open_reader e dir = (dir, Inr ())"
proof -
  have "open_index_parts e dir = Inr dir"
    using assms(1,4) by (simp add: open_index_parts_def tantivy_ok_def)
  with assms(2,3) show ?thesis by (auto simp: open_reader_def Let_def)
qed

lemma rebuild_ok:
  assumes "rebuild e (Inr lb) dir = (dir', events, Inr u)"
  shows "\<exists>dir0. write_schema_version e dir0 = Inr dir' \<and> dir_index dir0 = Some (build_schema, index_documents e lb)"
  using assms by (auto simp: rebuild_def reindex_with_progress_def Let_def split: sum.splits)

lemma migrate_to_eq: "migrate_to e db dir = (case migrate_to_with_progress e db dir of (d, _, r) \<Rightarrow> (d, r))"
  by (simp add: migrate_to_def migrate_to_with_progress_def Let_def split: sum.split prod.split)

text \<open>C21: Migration. A migration that succeeds either found the current version and changed nothing, or
  left an index with exactly the documents of the library that opens for reading as it is, and for which
  migrating again is a no-op.\<close>

theorem migrated_index_opens:
  assumes "tantivy_ok e" "sidecar_ok e" "migrate_to e (Inr lb) dir = (dir', Inr prev)"
  shows "(prev = SCHEMA_VERSION \<and> dir' = dir)
    \<or> (prev < SCHEMA_VERSION \<and> dir_index dir' = Some (build_schema, index_documents e lb)
       \<and> open_reader e dir' = (dir', Inr ()) \<and> migrate_to e db dir' = (dir', Inr SCHEMA_VERSION))"
proof (cases "prev = SCHEMA_VERSION")
  case True
  then have "dir' = dir"
    using assms(3)
    by (auto simp: migrate_to_def Let_def split: sum.splits prod.splits option.splits if_splits)
  with True show ?thesis by simp
next
  case False
  with assms(3) obtain events u where "rebuild e (Inr lb) dir = (dir', events, Inr u)" and less: "prev < SCHEMA_VERSION"
    by (auto simp: migrate_to_def Let_def split: sum.splits prod.splits option.splits if_splits)
  then obtain dir0 where dir': "write_schema_version e dir0 = Inr dir'"
    and ix: "dir_index dir0 = Some (build_schema, index_documents e lb)"
    using rebuild_ok by blast
  have version: "read_schema_version e dir' = Inr (Some SCHEMA_VERSION)"
    by (rule read_written_version [OF assms(2) dir'])
  have ix': "dir_index dir' = Some (build_schema, index_documents e lb)"
    using ix written_dir [OF dir'] by simp
  have "open_reader e dir' = (dir', Inr ())"
    by (rule open_current [OF assms(1) version _ ix']) (simp add: written_dir [OF dir'])
  moreover have "migrate_to e db dir' = (dir', Inr SCHEMA_VERSION)"
    by (simp add: migrate_to_def version)
  ultimately show ?thesis using less ix' by blast
qed

definition fresh_dir :: index_dir where
  "fresh_dir = \<lparr>dir_meta_path = META_FILE, dir_sidecar = None, dir_index = None, dir_locked = False\<rparr>"

lemma ref_sidecar_ok: "sidecar_ok ref_reader"
  by (simp add: sidecar_ok_def ref_reader_def ref_deps_def)

lemma fresh_migrates: "snd (migrate_to ref_reader (Inr small_library) fresh_dir) = Inr 1"
  by (simp add: migrate_to_def read_schema_version_def fresh_dir_def rebuild_def open_index_parts_def
      open_writer_def reindex_with_progress_def write_schema_version_def SCHEMA_VERSION_def ref_reader_def Let_def)

theorem migrated_index_opens_witness:
  "open_reader ref_reader (fst (migrate_to ref_reader (Inr small_library) fresh_dir)) =
     (fst (migrate_to ref_reader (Inr small_library) fresh_dir), Inr ())"
  using migrated_index_opens [of ref_reader small_library fresh_dir
      "fst (migrate_to ref_reader (Inr small_library) fresh_dir)" 1 "Inl []"] ref_sidecar_ok fresh_migrates
  by (auto simp: prod_eq_iff SCHEMA_VERSION_def)

section \<open>Behaviours that differ from what the code means\<close>

text \<open>The migration opens the old directory instead of dropping it: an index written with another schema
  can never be migrated.\<close>

lemma other_schema_never_migrates:
  assumes "tantivy_ok e" "dir_index dir = Some (sch, ix)" "sch \<noteq> build_schema"
    and "read_schema_version e dir = Inr (Some n)" "n < SCHEMA_VERSION"
  shows "\<exists>m. migrate_to e db dir = (dir, Inl (TantivyError m))"
proof -
  obtain m where "se_open_or_create e build_schema (Some (sch, ix)) = Inl m"
    using assms(1,3) unfolding tantivy_ok_def by metis
  then have "rebuild e db dir = (dir, [], Inl (TantivyError m))"
    using assms(2) by (simp add: rebuild_def open_index_parts_def)
  with assms(4,5) show ?thesis by (auto simp: migrate_to_def Let_def)
qed

text \<open>A rebuild whose database read fails leaves an empty index.\<close>

lemma failed_reindex_empties: "reindex e (Inl err) ix = ([], Inl (DbError err))"
  by (simp add: reindex_def reindex_with_progress_def)

text \<open>Author documents are deleted by the author id, which edition documents carry too.\<close>

lemma upsert_author_drops_editions:
  assumes "tantivy_ok e" "(AUTHOR_ID, VText (ad_author_id author)) \<in> set d" "(KIND, VText kind_edition) \<in> set d"
  shows "d \<notin> set (upsert_author e author ix)"
  using assms by (auto simp: upsert_author_def delete_term_def has_raw_term author_document_def
      kind_edition_def kind_author_def)

lemma author_upsert_empties_shelf:
  "upsert_author ref_reader
     \<lparr>ad_author_id = ''a1'', ad_name = ''Ann'', ad_sort_name = ''ann'', ad_birth_year = None,
      ad_death_year = None, ad_source = ''catalog''\<rparr> three_books =
   [author_document ref_reader
     \<lparr>ad_author_id = ''a1'', ad_name = ''Ann'', ad_sort_name = ''ann'', ad_birth_year = None,
      ad_death_year = None, ad_source = ''catalog''\<rparr>]"
  by (simp add: upsert_author_def delete_term_def three_books_def has_raw_term edition_document_fields book_def)

text \<open>A document from \<open>upsert_edition\<close> has neither value of \<open>has_file\<close> and no tag ids.\<close>

lemma upserted_edition_never_filtered:
  "tantivy_ok e \<Longrightarrow> \<not> matches e (TermQuery HAS_FILE (TBool b)) (edition_document e doc)"
  "tantivy_ok e \<Longrightarrow> ids \<noteq> [] \<Longrightarrow> \<not> list_all (\<lambda>q. matches e q (edition_document e doc)) (map_id_filter e ids TAG_ID)"
  by (auto simp: has_file_term edition_document_fields map_id_filter_def list_ex_iff has_raw_term)

text \<open>The label of a format is indexed as lower-case terms and looked for as it is written.\<close>

lemma stemmed_value_terms:
  "en_stem_ok e \<Longrightarrow> \<not> lowercase_text l \<Longrightarrow> TText l \<notin> set (value_terms e (TextField EnStemTok) v)"
  by (cases v) (auto simp: en_stem_ok_def)

lemma uppercase_label_never_matches:
  assumes "en_stem_ok e" "labels \<noteq> []" "list_all (\<lambda>l. \<not> lowercase_text l) labels" "f = FORMAT \<or> f = LANGUAGE"
  shows "\<not> list_all (\<lambda>q. matches e q d) (map_text_filter labels f)"
proof -
  have kind: "fo_kind (field_of f) = TextField EnStemTok" using assms(4) by (auto simp: stored_text_def)
  have "\<not> has_term e f (TText l) d" if "l \<in> set labels" for l
    using stemmed_value_terms [OF assms(1)] assms(3) that by (auto simp: has_term_def kind list_ex_iff list_all_iff)
  with assms(2) show ?thesis by (auto simp: map_text_filter_def list_ex_iff)
qed

text \<open>A publication date before 21 September 1677 does not fit the nanoseconds and becomes 1970-01-01.\<close>

lemma early_dates_become_epoch:
  assumes "em_published_date ed = Some d" "td_unix_day d \<le> -106752"
  shows "(PUB_DATE, VDate 0) \<in> set (dates_part ed)"
proof -
  have "midnight_nanos d \<le> -106752 * 86400 * 1000000000"
    unfolding midnight_nanos_def using assms(2) by simp
  then have "\<not> in_i64 (midnight_nanos d)" by (simp add: in_i64_def i64_min_def)
  with assms(1) show ?thesis by (simp add: dates_part_def nanos_i64_def Let_def)
qed

text \<open>A negative offset is clamped when hits are dropped but not when the fetch limit is computed.\<close>

lemma negative_offset_fetches_everything:
  assumes "op_offset opts = -1" "1 \<le> limit" "op_collapse_to_works opts = False" "op_sort opts = None"
  shows "fetch_limit limit opts = USIZE_MAX" "drop_offset (op_offset opts) xs = xs"
proof -
  have "as_u64 (-1) = USIZE_MAX" by (simp add: as_u64_def USIZE_MAX_def)
  then show "fetch_limit limit opts = USIZE_MAX"
    using assms by (simp add: fetch_limit_def base_limit_def saturating_add_def)
  show "drop_offset (op_offset opts) xs = xs" using assms(1) by (simp add: drop_offset_def)
qed

text \<open>The offset of a work search counts editions, so one work can be on two pages; and the count of works
  counts editions.\<close>

definition work_options :: "int \<Rightarrow> search_options" where
  "work_options off = default_options\<lparr>op_collapse_to_works := True, op_offset := off\<rparr>"

lemma work_page_eq:
  assumes "base_limit 1 (work_options off) = Suc n"
  shows "search_with_query index_order_reader three_books AllQuery 1 (work_options off) =
    Inr (hits_page ref_reader (editions_only AllQuery) 1 (work_options off)
      (take (Suc n) (map (Pair 1) (filter (matches ref_reader (editions_only AllQuery)) three_books))))"
proof -
  have "fetch_limit 1 (work_options off) = Suc n"
    using assms by (simp add: fetch_limit_def work_options_def default_options_def)
  moreover have "build_hit index_order_reader q opts = build_hit ref_reader q opts" for q opts
    by (simp add: fun_eq_iff build_hit_def index_order_reader_def Let_def)
  moreover have "op_sort (work_options off) = None" by (simp add: work_options_def default_options_def)
  moreover have "re_top_docs index_order_reader k q ix = Inr (take k (map (Pair 1) (filter (matches ref_reader q) ix)))"
    for k q ix by (simp add: index_order_reader_def)
  ultimately show ?thesis
    by (simp only: search_with_query_def finish_edition_search_def assms hits_page_def build_hits_def
        result_bind.simps option.case Let_def take_take min.idem)
qed

lemma work_on_two_pages:
  "map_sum id (map h_work_id) (search_with_query index_order_reader three_books AllQuery 1 (work_options 0)) = Inr [''w1'']"
  "map_sum id (map h_work_id) (search_with_query index_order_reader three_books AllQuery 1 (work_options 1)) = Inr [''w1'']"
proof -
  have limits: "base_limit 1 (work_options 0) = Suc 7" "base_limit 1 (work_options 1) = Suc 15"
    by (simp_all add: base_limit_def work_options_def default_options_def saturating_add_def
        saturating_mul_def as_u64_def WORK_GROUP_OVERFETCH_def USIZE_MAX_def)
  show "map_sum id (map h_work_id) (search_with_query index_order_reader three_books AllQuery 1 (work_options 0)) = Inr [''w1'']"
    unfolding work_page_eq [OF limits(1)] by code_simp
  show "map_sum id (map h_work_id) (search_with_query index_order_reader three_books AllQuery 1 (work_options 1)) = Inr [''w1'']"
    unfolding work_page_eq [OF limits(2)] by code_simp
qed

lemma count_of_works_counts_editions:
  "count_works_filtered ref_reader (index_documents ref_reader small_library) [] no_filters = Inr 2"
  "length (lb_works small_library) = 1"
  by code_simp+

text \<open>A sorted search fetches more of the ranking for a later page, so what comes first by title can change
  between pages: here the first page shows \<open>e0\<close>, the second shows it again, and \<open>x\<close> is on neither.\<close>

definition titled :: "string \<Rightarrow> string \<Rightarrow> rat \<times> document" where
  "titled i t = (1, [(EDITION_ID, VText i), (KIND, VText kind_edition), (TITLE, VText t)])"

definition long_ranking :: "(rat \<times> document) list" where
  "long_ranking = titled ''e0'' ''b'' # replicate 64 (titled ''e1'' ''c'') @ [titled ''x'' ''a'']"

definition long_reader :: reader_env where
  "long_reader = ref_reader\<lparr>re_rank := \<lambda>q ix. long_ranking, re_top_docs := \<lambda>n q ix. Inr (take n long_ranking)\<rparr>"

definition by_title_from :: "int \<Rightarrow> search_options" where
  "by_title_from off = default_options\<lparr>op_sort := Some by_title, op_offset := off\<rparr>"

lemma sorted_limits:
  "base_limit 1 (by_title_from 0) = 1"
  "fetch_limit 1 (by_title_from 0) = 65"
  "base_limit 1 (by_title_from 1) = 2"
  "fetch_limit 1 (by_title_from 1) = 66"
  by (simp_all add: base_limit_def fetch_limit_def by_title_from_def default_options_def saturating_add_def saturating_mul_def
      as_u64_def USIZE_MAX_def)

lemma sorted_slices:
  "take 1 (sort_top_docs_by_spec long_reader (take 65 long_ranking) by_title) = [titled ''e0'' ''b'']"
  "take 2 (sort_top_docs_by_spec long_reader (take 66 long_ranking) by_title) = [titled ''x'' ''a'', titled ''e0'' ''b'']"
  by code_simp+

lemma sorted_pages_repeat:
  "map_sum id (map h_edition_id) (finish_edition_search long_reader ix q 1 (by_title_from 0)) = Inr [Some ''e0'']"
  "map_sum id (map h_edition_id) (finish_edition_search long_reader ix q 1 (by_title_from 1)) = Inr [Some ''e0'']"
proof -
  have env: "re_top_docs long_reader n q ix = Inr (take n long_ranking)" for n by (simp add: long_reader_def)
  have opts: "op_sort (by_title_from off) = Some by_title" "op_offset (by_title_from off) = off"
    "op_collapse_to_works (by_title_from off) = False" for off
    by (simp_all add: by_title_from_def default_options_def)
  have hit: "h_edition_id (build_hit long_reader q opts (titled ''e0'' ''b'')) = Some ''e0''" for opts
    by (simp add: build_hit_def titled_def stored_doc_def first_str_def get_first_def get_all_def Let_def
        kind_edition_def kind_author_def unwrap_or_default_def)
  show "map_sum id (map h_edition_id) (finish_edition_search long_reader ix q 1 (by_title_from 0)) = Inr [Some ''e0'']"
    unfolding finish_edition_search_def env sorted_limits opts result_bind.simps option.case Let_def sorted_slices
    by (simp add: hits_page_def drop_offset_def build_hits_def hit opts)
  show "map_sum id (map h_edition_id) (finish_edition_search long_reader ix q 1 (by_title_from 1)) = Inr [Some ''e0'']"
    unfolding finish_edition_search_def env sorted_limits opts result_bind.simps option.case Let_def sorted_slices
    by (simp add: hits_page_def drop_offset_def build_hits_def hit opts)
qed

text \<open>The cache key of a list of ids is the sorted bytes of all of them, so ids made of the same bytes share
  an entry and get each other's labels.\<close>

definition format_id :: "string \<Rightarrow> db_id" where
  "format_id s = DbId (s @ replicate 14 (CHR ''0''))"

definition two_formats :: library where
  "two_formats = small_library
     \<lparr>lb_formats := [(format_id ''12'', ''EPUB''), (format_id ''21'', ''PDF'')]\<rparr>"

lemma hash_ids_permuted: "mset (concat (map to_bytes is)) = mset (concat (map to_bytes js)) \<Longrightarrow> hash_ids is = hash_ids js"
  by (simp add: hash_ids_def properties_for_sort)

lemma label_cache_mixes_ids:
  assumes "hash_ids fs = hash_ids fs'" "lr_ttl r > 0"
    and "lr_cache r (hash_ids fs, hash_ids ls) = None"
  shows "snd (resolve_labels lb now fs' ls (fst (resolve_labels lb now fs ls r))) =
    (labels_of (lb_formats lb) fs, labels_of (lb_languages lb) ls)"
  using assms by (simp add: resolve_labels_def Let_def)

lemma pdf_resolved_as_epub:
  "snd (resolve_labels two_formats 5 [format_id ''21''] []
     (fst (resolve_labels two_formats 0 [format_id ''12''] [] label_resolver_new))) = ([''EPUB''], [])"
  "labels_of (lb_formats two_formats) [format_id ''21''] = [''PDF'']"
  by code_simp+

end
