(* ===== verification/LibraryStoreCorrect.thy ===== *)
theory LibraryStoreCorrect
  imports LibraryStore SearchWriteCorrect
begin

text \<open>
  When the search index of the library store holds exactly the documents a rebuild would give: after a rebuild
  that worked, until an operation leaves the index behind or a write to it fails. The operations that leave
  it behind are stated at the end, with the other places where the code differs from its comments.
\<close>

section \<open>What a document depends on\<close>

definition work_row :: "library \<Rightarrow> db_id \<Rightarrow> work_model option" where
  "work_row lb w = collect_map (map (\<lambda>r. (wm_id r, r)) (lb_works lb)) w"

lemma member_ids_own:
  "ed \<in> set (lb_editions lb) \<Longrightarrow> member_ids lb rows (em_id ed) = map snd (filter (\<lambda>r. fst r = em_id ed) rows)"
  by (simp add: member_ids_def own_rows edition_ids_def)

lemma edition_identifiers_own:
  assumes "ed \<in> set (lb_editions lb)"
  shows "edition_identifiers lb (em_id ed) = map canonical_identifier
    (List.map_filter (collect_map (map (\<lambda>i. (im_id i, i)) (lb_identifiers lb)))
      (map snd (filter (\<lambda>r. fst r = em_id ed) (lb_edition_identifiers lb))))"
proof -
  have "em_id ed \<in> set (edition_ids lb)" using assms by (simp add: edition_ids_def)
  from fetched_rows [OF this, of "lb_edition_identifiers lb" "lb_identifiers lb"]
  show ?thesis by (simp add: edition_identifiers_def Let_def)
qed

lemma named_authors_own:
  "filter (\<lambda>r. fst r = k) (named_authors lb rows) = named_authors lb (filter (\<lambda>r. fst r = k) rows)"
  by (induction rows) (auto simp: named_authors_def List.map_filter_simps split: option.split)

lemma pushed_own: "pushed (named_authors lb rows) k = pushed (named_authors lb (filter (\<lambda>r. fst r = k) rows)) k"
  by (simp add: pushed_def named_authors_own)

lemma resolve_authors_own:
  assumes "ed \<in> set (lb_editions lb)"
  shows "resolve_authors lb ed =
    (case pushed (named_authors lb (filter (\<lambda>r. fst r = em_id ed) (edition_author_links lb))) (em_id ed) of
       Some as \<Rightarrow> as
     | None \<Rightarrow> unwrap_list
         (pushed (named_authors lb (filter (\<lambda>r. fst r = em_work_id ed) (lb_work_authors lb))) (em_work_id ed)))"
proof -
  have "em_id ed \<in> set (edition_ids lb)" "em_work_id ed \<in> set (map em_work_id (lb_editions lb))"
    using assms by (simp_all add: edition_ids_def)
  then show ?thesis
    unfolding resolve_authors_def
    by (subst (1 2) pushed_own) (simp only: own_rows)
qed

lemma named_authors_cong: "lb_authors lb' = lb_authors lb \<Longrightarrow> named_authors lb' rows = named_authors lb rows"
  by (simp add: named_authors_def)

text \<open>Two libraries give an edition the same document when they agree on what the document is made from.\<close>

definition same_for :: "library \<Rightarrow> library \<Rightarrow> edition_model \<Rightarrow> bool" where
  "same_for lb lb' ed \<longleftrightarrow>
     (let own = (\<lambda>rows. filter (\<lambda>r. fst r = em_id ed) rows) in
      map_option wm_title (work_row lb' (em_work_id ed)) = map_option wm_title (work_row lb (em_work_id ed))
      \<and> map_option wm_description (work_row lb' (em_work_id ed)) = map_option wm_description (work_row lb (em_work_id ed))
      \<and> map_option wm_language_id (work_row lb' (em_work_id ed)) = map_option wm_language_id (work_row lb (em_work_id ed))
      \<and> own (edition_author_links lb') = own (edition_author_links lb)
      \<and> filter (\<lambda>r. fst r = em_work_id ed) (lb_work_authors lb') = filter (\<lambda>r. fst r = em_work_id ed) (lb_work_authors lb)
      \<and> filter (\<lambda>r. fst r = em_id ed) (lb_edition_tags lb') = filter (\<lambda>r. fst r = em_id ed) (lb_edition_tags lb)
      \<and> filter (\<lambda>r. fst r = em_id ed) (lb_edition_genres lb') = filter (\<lambda>r. fst r = em_id ed) (lb_edition_genres lb)
      \<and> filter (\<lambda>r. fst r = em_id ed) (lb_edition_subjects lb') = filter (\<lambda>r. fst r = em_id ed) (lb_edition_subjects lb)
      \<and> filter (\<lambda>r. fst r = em_id ed) (lb_edition_publishers lb') = filter (\<lambda>r. fst r = em_id ed) (lb_edition_publishers lb)
      \<and> filter (\<lambda>r. fst r = em_id ed) (lb_series_entries lb') = filter (\<lambda>r. fst r = em_id ed) (lb_series_entries lb)
      \<and> filter (\<lambda>r. fst r = em_id ed) (lb_edition_identifiers lb') = filter (\<lambda>r. fst r = em_id ed) (lb_edition_identifiers lb)
      \<and> (em_id ed \<in> iv_edition_id ` set (lb_inventory lb')) = (em_id ed \<in> iv_edition_id ` set (lb_inventory lb)))"

definition same_vocabulary :: "library \<Rightarrow> library \<Rightarrow> bool" where
  "same_vocabulary lb lb' \<longleftrightarrow>
     lb_authors lb' = lb_authors lb \<and> lb_tags lb' = lb_tags lb \<and> lb_genres lb' = lb_genres lb
     \<and> lb_subjects lb' = lb_subjects lb \<and> lb_publishers lb' = lb_publishers lb \<and> lb_formats lb' = lb_formats lb
     \<and> lb_languages lb' = lb_languages lb \<and> lb_identifiers lb' = lb_identifiers lb"

lemma work_fields:
  assumes "map_option wm_title a = map_option wm_title b" "map_option wm_description a = map_option wm_description b"
    "map_option wm_language_id a = map_option wm_language_id b"
  shows "(case a of Some w \<Rightarrow> wm_title w | None \<Rightarrow> []) = (case b of Some w \<Rightarrow> wm_title w | None \<Rightarrow> [])"
    and "Option.bind a wm_description = Option.bind b wm_description"
    and "Option.bind a wm_language_id = Option.bind b wm_language_id"
  using assms by (cases a; cases b; simp)+

lemma index_edition_same:
  assumes ed: "ed \<in> set (lb_editions lb)" "ed \<in> set (lb_editions lb')"
    and same: "same_for lb lb' ed" "same_vocabulary lb lb'"
  shows "index_edition e lb' ed = index_edition e lb ed"
proof -
  note voc = same(2) [unfolded same_vocabulary_def]
  note own = same(1) [unfolded same_for_def Let_def]
  have authors: "resolve_authors lb' ed = resolve_authors lb ed"
    unfolding resolve_authors_own [OF ed(1)] resolve_authors_own [OF ed(2)]
    by (simp only: named_authors_cong [of lb' lb] own voc)
  have idents: "edition_identifiers lb' (em_id ed) = edition_identifiers lb (em_id ed)"
    using own voc by (simp add: edition_identifiers_own [OF ed(1)] edition_identifiers_own [OF ed(2)])
  have ids: "member_ids lb' (f lb') (em_id ed) = member_ids lb (f lb) (em_id ed)"
    if "filter (\<lambda>r. fst r = em_id ed) (f lb') = filter (\<lambda>r. fst r = em_id ed) (f lb)" for f
    using that by (simp add: member_ids_own [OF ed(1)] member_ids_own [OF ed(2)])
  have work: "map_option wm_title (work_row lb' (em_work_id ed)) = map_option wm_title (work_row lb (em_work_id ed))"
    "map_option wm_description (work_row lb' (em_work_id ed)) = map_option wm_description (work_row lb (em_work_id ed))"
    "map_option wm_language_id (work_row lb' (em_work_id ed)) = map_option wm_language_id (work_row lb (em_work_id ed))"
    using own by blast+
  have lang: "resolved_language lb' ed (work_row lb' (em_work_id ed)) = resolved_language lb ed (work_row lb (em_work_id ed))"
    unfolding resolved_language_def Let_def by (simp only: voc work_fields(3) [OF work])
  show ?thesis
    unfolding index_edition_def Let_def member_names_def work_row_def [symmetric]
    using own voc by (simp add: authors idents ids lang work_fields(1,2) [OF work])
qed

section \<open>Cascades and the index\<close>

definition clear_preferred :: "db_id set \<Rightarrow> work_model \<Rightarrow> work_model" where
  "clear_preferred ids w = (case wm_preferred_edition_id w of
     Some p \<Rightarrow> if p \<in> ids then w\<lparr>wm_preferred_edition_id := None\<rparr> else w | None \<Rightarrow> w)"

lemma clear_preferred_sel [simp]:
  "wm_id (clear_preferred ids w) = wm_id w" "wm_title (clear_preferred ids w) = wm_title w"
  "wm_description (clear_preferred ids w) = wm_description w"
  "wm_language_id (clear_preferred ids w) = wm_language_id w"
  by (simp_all add: clear_preferred_def split: option.split)

lemma map_of_pairs: "map_of (map (\<lambda>p. (fst p, g (snd p))) kvs) k = map_option g (map_of kvs k)"
  by (induction kvs) auto

lemma collect_map_map: "collect_map (map (\<lambda>p. (fst p, g (snd p))) kvs) k = map_option g (collect_map kvs k)"
  by (simp add: collect_map_def rev_map map_of_pairs)

lemma cascade_works: "lb_works (cascade_editions ids lb) = map (clear_preferred ids) (lb_works lb)"
  by (simp add: cascade_editions_def clear_preferred_def)

lemma cascade_work_row: "work_row (cascade_editions ids lb) w = map_option (clear_preferred ids) (work_row lb w)"
  using collect_map_map [of "clear_preferred ids" "map (\<lambda>r. (wm_id r, r)) (lb_works lb)" w]
  by (simp add: work_row_def cascade_works comp_def)

lemma own_without_keys: "k \<notin> ids \<Longrightarrow> filter (\<lambda>r. fst r = k) (without_keys ids rows) = filter (\<lambda>r. fst r = k) rows"
  by (induction rows) (auto simp: without_keys_def)

lemma links_without_keys:
  "map (\<lambda>(k, a, _). (k, a)) (without_keys ids rows) = without_keys ids (map (\<lambda>(k, a, _). (k, a)) rows)"
  by (induction rows) (auto simp: without_keys_def)

lemma cascade_same_for: "em_id ed \<notin> ids \<Longrightarrow> same_for lb (cascade_editions ids lb) ed"
  unfolding same_for_def Let_def cascade_work_row
  by (auto simp: cascade_editions_def edition_author_links_def links_without_keys own_without_keys option.map_comp comp_def)

lemma cascade_vocabulary: "same_vocabulary lb (cascade_editions ids lb)"
  by (simp add: same_vocabulary_def cascade_editions_def)

lemma index_documents_cascade:
  "index_documents e (cascade_editions ids lb) =
     map (index_edition e lb) (filter (\<lambda>ed. em_id ed \<notin> ids) (lb_editions lb)) @ map (index_author e) (lb_authors lb)"
proof -
  have "index_edition e (cascade_editions ids lb) ed = index_edition e lb ed"
    if "ed \<in> set (lb_editions lb)" "em_id ed \<notin> ids" for ed
    by (rule index_edition_same [OF that(1) _ cascade_same_for [OF that(2)] cascade_vocabulary])
      (use that in \<open>simp add: cascade_editions_def\<close>)
  then show ?thesis by (simp add: index_documents_def) (simp add: cascade_editions_def)
qed

lemma filter_works_row:
  "collect_map (map (\<lambda>r. (wm_id r, r)) (filter (\<lambda>r. wm_id r \<noteq> w) ws)) k =
   (if k \<noteq> w then collect_map (map (\<lambda>r. (wm_id r, r)) ws) k else None)"
proof -
  have "filter (\<lambda>p. fst p \<noteq> w) (map (\<lambda>r. (wm_id r, r)) ws) = map (\<lambda>r. (wm_id r, r)) (filter (\<lambda>r. wm_id r \<noteq> w) ws)"
    by (simp add: filter_map comp_def)
  then show ?thesis using collect_map_filter [of "\<lambda>k. k \<noteq> w" "map (\<lambda>r. (wm_id r, r)) ws" k] by simp
qed

lemma removed_work_same_for:
  assumes "em_work_id ed \<noteq> w"
  shows "same_for (cascade_editions (set (editions_of lb w)) lb) (remove_work_row w lb) ed"
proof -
  have "work_row (remove_work_row w lb) (em_work_id ed) =
      work_row (cascade_editions (set (editions_of lb w)) lb) (em_work_id ed)"
    using assms by (simp add: work_row_def remove_work_row_def filter_works_row)
  then show ?thesis
    using assms unfolding same_for_def Let_def
    by (simp add: remove_work_row_def edition_author_links_def own_without_keys) (simp add: cascade_editions_def)
qed

lemma index_documents_remove_work:
  "index_documents e (remove_work_row w lb) =
     map (index_edition e lb) (filter (\<lambda>ed. em_id ed \<notin> set (editions_of lb w)) (lb_editions lb))
     @ map (index_author e) (lb_authors lb)"
proof -
  let ?ids = "set (editions_of lb w)"
  let ?c = "cascade_editions ?ids lb"
  have eds: "lb_editions (remove_work_row w lb) = lb_editions ?c" "lb_authors (remove_work_row w lb) = lb_authors ?c"
    by (simp_all add: remove_work_row_def)
  have other: "em_work_id ed \<noteq> w" if "ed \<in> set (lb_editions ?c)" for ed
    using that by (auto simp: cascade_editions_def editions_of_def)
  have "index_edition e (remove_work_row w lb) ed = index_edition e ?c ed" if "ed \<in> set (lb_editions ?c)" for ed
    by (rule index_edition_same [OF that _ removed_work_same_for [OF other [OF that]]])
      (use that in \<open>simp_all add: eds same_vocabulary_def\<close>, simp add: remove_work_row_def)
  then have "index_documents e (remove_work_row w lb) = index_documents e ?c"
    by (simp add: index_documents_def eds)
  then show ?thesis by (simp only: index_documents_cascade)
qed

lemma fold_delete_edition:
  "fold (SearchIndex.delete_edition e) ids ix =
     filter (\<lambda>d. \<forall>i \<in> set ids. \<not> has_term e EDITION_ID (TText (db_id_display (se_deps e) i)) d) ix"
  by (induction ids arbitrary: ix) (simp_all add: SearchIndex.delete_edition_def delete_term_def conj_commute)

lemma deleted_documents:
  assumes "tantivy_ok e" "ulid_ok (se_deps e)" "list_all db_id_wf (edition_ids lb)" "set ids \<subseteq> set (edition_ids lb)"
  shows "fold (SearchIndex.delete_edition e) ids (index_documents e lb) =
     map (index_edition e lb) (filter (\<lambda>ed. em_id ed \<notin> set ids) (lb_editions lb)) @ map (index_author e) (lb_authors lb)"
proof -
  have "(\<forall>i \<in> set ids. db_id_display (se_deps e) i \<noteq> db_id_display (se_deps e) (em_id ed)) \<longleftrightarrow> em_id ed \<notin> set ids"
    if "ed \<in> set (lb_editions lb)" for ed
  proof -
    have "db_id_wf (em_id ed)" "\<And>i. i \<in> set ids \<Longrightarrow> db_id_wf i"
      using assms(3,4) that by (auto simp: list_all_iff edition_ids_def)
    then show ?thesis using display_inj [OF assms(2)] by metis
  qed
  then show ?thesis
    unfolding fold_delete_edition index_documents_def
    by (simp add: filter_map comp_def has_raw_term [OF assms(1)] index_edition_fields index_author_def
        cong: filter_cong)
qed

section \<open>The store and its mutations\<close>

text \<open>What the keys of the database give: ids are well-formed, and an edition belongs to an existing work.\<close>

definition library_ok :: "library \<Rightarrow> bool" where
  "library_ok lb \<longleftrightarrow> list_all db_id_wf (edition_ids lb)
     \<and> list_all (\<lambda>ed. em_work_id ed \<in> wm_id ` set (lb_works lb)) (lb_editions lb)"

definition in_step :: "'e search_env_scheme \<Rightarrow> library_store \<Rightarrow> bool" where
  "in_step e st \<longleftrightarrow> ls_index st = index_documents e (ls_library st)"

datatype mutation =
    SetFile db_id string "string option" "int option"
  | RemoveFile db_id
  | AddIdentifier db_id book_identifier
  | UpdateIdentifier db_id book_identifier book_identifier
  | RemoveIdentifier db_id book_identifier
  | CreateWork string "string option" "string option"
  | SetCoverUrl db_id "string option"
  | UpdateEdition db_id edition_patch
  | DeleteWork db_id
  | DeleteEdition db_id
  | AddEditionContributor db_id db_id string
  | UpdateEditionContributor db_id db_id string string
  | RemoveEditionContributor db_id db_id string
  | CreateEdition new_edition
  | CreateContributor string
  | UpdateContributor db_id string
  | DeleteContributor db_id
  | Reindex

fun run_mutation :: "store_env \<Rightarrow> library_store \<Rightarrow> mutation \<Rightarrow> library_store" where
  "run_mutation e st (SetFile i p f b) = fst (set_edition_file e st i p f b)"
| "run_mutation e st (RemoveFile i) = fst (remove_edition_file e st i)"
| "run_mutation e st (AddIdentifier i d) = fst (add_edition_identifier e st i d)"
| "run_mutation e st (UpdateIdentifier i d d') = fst (update_edition_identifier e st i d d')"
| "run_mutation e st (RemoveIdentifier i d) = fst (remove_edition_identifier e st i d)"
| "run_mutation e st (CreateWork t s d) = fst (create_work e st t s d)"
| "run_mutation e st (SetCoverUrl i u) = fst (set_edition_cover_url e st i u)"
| "run_mutation e st (UpdateEdition i p) = fst (update_edition e st i p)"
| "run_mutation e st (DeleteWork w) = fst (delete_work e st w)"
| "run_mutation e st (DeleteEdition i) = fst (delete_edition_row e st i)"
| "run_mutation e st (AddEditionContributor i c r) = fst (add_edition_contributor e st i c r)"
| "run_mutation e st (UpdateEditionContributor i c f t) = fst (update_edition_contributor e st i c f t)"
| "run_mutation e st (RemoveEditionContributor i c r) = fst (remove_edition_contributor e st i c r)"
| "run_mutation e st (CreateEdition inp) = fst (create_edition e st inp)"
| "run_mutation e st (CreateContributor n) = fst (create_contributor e st n)"
| "run_mutation e st (UpdateContributor c n) = fst (update_contributor e st c n)"
| "run_mutation e st (DeleteContributor c) = fst (delete_contributor st c)"
| "run_mutation e st Reindex = fst (reindex_store e st)"

text \<open>The documents after a refresh that may have failed.\<close>

definition refresh_result :: "store_env \<Rightarrow> library \<Rightarrow> index \<Rightarrow> index" where
  "refresh_result e lb ix = (case st_refresh e of RefreshOk \<Rightarrow> index_documents e lb | ClearFails _ \<Rightarrow> ix | _ \<Rightarrow> [])"

lemma attempt_reindex_eq:
  "fst (attempt_reindex e st) = st\<lparr>ls_index := refresh_result e (ls_library st) (ls_index st)\<rparr>"
  "snd (attempt_reindex e st) = Inr () \<longleftrightarrow> st_refresh e = RefreshOk"
  by (simp_all add: attempt_reindex_def refresh_result_def reindex_def reindex_with_progress_def Let_def
      split: refresh_outcome.split)

lemma sync_edition_index_eq:
  "fst (sync_edition_index e st i) = st\<lparr>ls_index := refresh_result e (ls_library st) (ls_index st)\<rparr>"
  by (simp add: sync_edition_index_def attempt_reindex_eq)

lemma commit_and_sync_fst:
  "fst (commit_and_sync e st lb i a) = st\<lparr>ls_library := lb, ls_index := refresh_result e lb (ls_index st)\<rparr>"
  using sync_edition_index_eq [of e "st\<lparr>ls_library := lb\<rparr>" i]
  by (cases "sync_edition_index e (st\<lparr>ls_library := lb\<rparr>) i") (simp add: commit_and_sync_def split: sum.split)

lemma commit_and_sync_Inr:
  "commit_and_sync e st lb i a = (st', Inr b) \<longleftrightarrow>
     st_refresh e = RefreshOk \<and> b = a \<and> st' = st\<lparr>ls_library := lb, ls_index := index_documents e lb\<rparr>"
proof -
  let ?st = "st\<lparr>ls_library := lb\<rparr>"
  obtain s r where sr: "sync_edition_index e ?st i = (s, r)" by fastforce
  have s: "s = st\<lparr>ls_library := lb, ls_index := refresh_result e lb (ls_index st)\<rparr>" "r = Inr () \<longleftrightarrow> st_refresh e = RefreshOk"
    using sync_edition_index_eq [of e ?st i] attempt_reindex_eq(2) [of e ?st] sr by (simp_all add: sync_edition_index_def)
  show ?thesis using s sr by (cases r) (auto simp: commit_and_sync_def refresh_result_def)
qed

lemma commit_and_sync_ok:
  "st_refresh e = RefreshOk \<Longrightarrow>
   commit_and_sync e st lb i a = (st\<lparr>ls_library := lb, ls_index := index_documents e lb\<rparr>, Inr a)"
  by (simp add: commit_and_sync_Inr)

definition index_works :: "store_env \<Rightarrow> bool" where
  "index_works e \<longleftrightarrow> st_refresh e = RefreshOk \<and> (\<forall>i. st_delete_ok e i)"

lemma index_delete_works: "index_works e \<Longrightarrow> index_delete e = SearchIndex.delete_edition e"
  by (simp add: fun_eq_iff index_delete_def index_works_def)

definition store_ok :: "store_env \<Rightarrow> library_store \<Rightarrow> bool" where
  "store_ok e st \<longleftrightarrow> in_step e st \<and> library_ok (ls_library st)"

lemma library_ok_same:
  "library_ok lb \<Longrightarrow> lb_editions lb' = lb_editions lb \<Longrightarrow> lb_works lb' = lb_works lb \<Longrightarrow> library_ok lb'"
  by (simp add: library_ok_def edition_ids_def)

text \<open>Most operations either change nothing or change the rows and refresh the index from them.\<close>

definition refreshed :: "store_env \<Rightarrow> library_store \<Rightarrow> library_store \<Rightarrow> bool" where
  "refreshed e st st' \<longleftrightarrow>
     st' = st \<or> (\<exists>lb. library_ok lb \<and> st' = st\<lparr>ls_library := lb, ls_index := refresh_result e lb (ls_index st)\<rparr>)"

lemma refreshed_self [simp]: "refreshed e st st"
  by (simp add: refreshed_def)

lemma refreshed_synced: "library_ok lb \<Longrightarrow> refreshed e st (st\<lparr>ls_library := lb, ls_index := refresh_result e lb (ls_index st)\<rparr>)"
  by (auto simp: refreshed_def)

lemma refreshed_commit: "library_ok lb \<Longrightarrow> refreshed e st (fst (commit_and_sync e st lb i a))"
  by (simp add: commit_and_sync_fst refreshed_synced)

lemma refreshed_library_ok: "refreshed e st st' \<Longrightarrow> library_ok (ls_library st) \<Longrightarrow> library_ok (ls_library st')"
  by (auto simp: refreshed_def)

lemma refreshed_in_step:
  "refreshed e st st' \<Longrightarrow> st_refresh e = RefreshOk \<Longrightarrow> in_step e st \<or> st' \<noteq> st \<Longrightarrow> in_step e st'"
  by (auto simp: refreshed_def refresh_result_def in_step_def)

subsection \<open>What the writes keep of the rows\<close>

lemma attach_identifier_rows:
  "attach_identifier e lb i d = Inr (lb', k) \<Longrightarrow> lb_editions lb' = lb_editions lb \<and> lb_works lb' = lb_works lb"
  by (auto simp: attach_identifier_def link_identifier_def split: option.splits if_splits)

lemma detach_identifier_rows [simp]:
  "lb_editions (fst (detach_identifier lb i u)) = lb_editions lb" "lb_works (fst (detach_identifier lb i u)) = lb_works lb"
  "lb_identifiers (fst (detach_identifier lb i u)) = lb_identifiers lb"
  by (simp_all add: detach_identifier_def split: option.split)

lemma filter_absent: "x \<notin> set xs \<Longrightarrow> filter (\<lambda>r. r \<noteq> x) xs = xs"
  by (rule filter_True) auto

lemma detach_identifier_none: "\<not> snd (detach_identifier lb i u) \<Longrightarrow> fst (detach_identifier lb i u) = lb"
proof (cases "List.find (\<lambda>r. im_value r = u) (lb_identifiers lb)")
  case (Some row)
  assume "\<not> snd (detach_identifier lb i u)"
  then have "(i, im_id row) \<notin> set (lb_edition_identifiers lb)" using Some by (simp add: detach_identifier_def)
  from filter_absent [OF this] show ?thesis unfolding detach_identifier_def Some by simp
qed (simp add: detach_identifier_def)

lemma attach_contributor_rows [simp]:
  "lb_editions (attach_contributor lb i c r) = lb_editions lb" "lb_works (attach_contributor lb i c r) = lb_works lb"
  by (simp_all add: attach_contributor_def)

lemma detach_contributor_rows [simp]:
  "lb_editions (fst (detach_contributor lb i c r)) = lb_editions lb" "lb_works (fst (detach_contributor lb i c r)) = lb_works lb"
  by (simp_all add: detach_contributor_def)

lemma detach_contributor_none: "\<not> snd (detach_contributor lb i c r) \<Longrightarrow> fst (detach_contributor lb i c r) = lb"
proof -
  assume "\<not> snd (detach_contributor lb i c r)"
  then have "(i, c, r) \<notin> set (lb_edition_authors lb)" by (simp add: detach_contributor_def)
  from filter_absent [OF this] show ?thesis unfolding detach_contributor_def by simp
qed

lemma require_edition_in:
  "require_edition e lb i = Inr row \<Longrightarrow> row \<in> set (lb_editions lb) \<and> em_id row = i"
  by (auto simp: require_edition_def find_row_def ok_or_def find_Some_iff split: option.splits)

lemma edition_has_work:
  "library_ok lb \<Longrightarrow> ed \<in> set (lb_editions lb) \<Longrightarrow> em_work_id ed \<in> wm_id ` set (lb_works lb)"
  unfolding library_ok_def list_all_iff by blast

lemma replace_edition_ok:
  assumes "library_ok lb" "old \<in> set (lb_editions lb)" "em_id row = em_id old" "em_work_id row = em_work_id old"
  shows "library_ok (replace_edition lb row)"
proof -
  have "edition_ids (replace_edition lb row) = edition_ids lb"
    by (simp add: edition_ids_def replace_edition_def comp_def if_distrib cong: if_cong)
  moreover have "em_work_id old \<in> wm_id ` set (lb_works lb)"
    by (rule edition_has_work [OF assms(1,2)])
  ultimately show ?thesis
    using assms(1,4) by (auto simp: library_ok_def list_all_iff replace_edition_def)
qed

lemma cascade_ok: "library_ok lb \<Longrightarrow> library_ok (cascade_editions ids lb)"
  by (auto simp: library_ok_def list_all_iff edition_ids_def cascade_works image_image) (auto simp: cascade_editions_def)

lemma remove_work_ok:
  assumes "library_ok lb"
  shows "library_ok (remove_work_row w lb)"
proof -
  let ?c = "cascade_editions (set (editions_of lb w)) lb"
  have "em_work_id ed \<noteq> w" if "ed \<in> set (lb_editions ?c)" for ed
    using that by (auto simp: cascade_editions_def editions_of_def)
  then show ?thesis
    using cascade_ok [OF assms, of "set (editions_of lb w)"]
    by (simp add: library_ok_def list_all_iff edition_ids_def remove_work_row_def image_iff) metis
qed

lemma append_work_row: "w \<noteq> wm_id row \<Longrightarrow> work_row (lb\<lparr>lb_works := lb_works lb @ [row]\<rparr>) w = work_row lb w"
  by (simp add: work_row_def collect_map_def)

lemma index_documents_new_work:
  assumes "library_ok lb" "wm_id row \<notin> wm_id ` set (lb_works lb)"
  shows "index_documents e (lb\<lparr>lb_works := lb_works lb @ [row]\<rparr>) = index_documents e lb"
proof -
  let ?lb = "lb\<lparr>lb_works := lb_works lb @ [row]\<rparr>"
  have "index_edition e ?lb ed = index_edition e lb ed" if "ed \<in> set (lb_editions lb)" for ed
  proof (rule index_edition_same [OF that])
    have "em_work_id ed \<noteq> wm_id row" using edition_has_work [OF assms(1) that] assms(2) by metis
    then show "same_for lb ?lb ed"
      unfolding same_for_def Let_def append_work_row [OF \<open>em_work_id ed \<noteq> wm_id row\<close>]
      by (simp add: edition_author_links_def)
  qed (use that in \<open>simp_all add: same_vocabulary_def\<close>)
  then show ?thesis by (simp add: index_documents_def)
qed

subsection \<open>Operations that refresh the index\<close>

lemma files_refresh:
  assumes ok: "library_ok (ls_library st)"
  shows "refreshed e st (fst (set_edition_file e st i p f b))" "refreshed e st (fst (remove_edition_file e st i))"
proof -
  have inv: "library_ok ((ls_library st)\<lparr>lb_inventory := rows\<rparr>)" for rows
    by (rule library_ok_same [OF ok]) simp_all
  show "refreshed e st (fst (set_edition_file e st i p f b))"
    by (simp add: set_edition_file_def Let_def refreshed_commit inv split: option.split sum.split)
  show "refreshed e st (fst (remove_edition_file e st i))"
    by (simp add: remove_edition_file_def Let_def refreshed_commit inv)
qed

lemma identifiers_refresh:
  assumes ok: "library_ok (ls_library st)"
  shows "refreshed e st (fst (add_edition_identifier e st i d))"
    and "st_fresh e \<notin> im_id ` set (lb_identifiers (ls_library st))
         \<Longrightarrow> refreshed e st (fst (update_edition_identifier e st i d d'))"
    and "refreshed e st (fst (remove_edition_identifier e st i d))"
proof -
  have attached: "library_ok lb'" if "attach_identifier e lb i d = Inr (lb', k)" "library_ok lb" for lb lb' k d
    using that library_ok_same attach_identifier_rows by blast
  have detached: "library_ok (fst (detach_identifier (ls_library st) i u))" for u
    by (rule library_ok_same [OF ok]) simp_all
  show "refreshed e st (fst (add_edition_identifier e st i d))"
    by (auto simp: add_edition_identifier_def refreshed_commit attached [OF _ ok] split: sum.split)
  show "refreshed e st (fst (remove_edition_identifier e st i d))"
  proof (cases "snd (detach_identifier (ls_library st) i (as_urn_string d))")
    case False
    from detach_identifier_none [OF this] False show ?thesis
      by (simp add: remove_edition_identifier_def case_prod_unfold)
  qed (simp add: remove_edition_identifier_def case_prod_unfold refreshed_commit detached)
  assume fresh: "st_fresh e \<notin> im_id ` set (lb_identifiers (ls_library st))"
  have "\<exists>lb k. attach_identifier e (fst (detach_identifier (ls_library st) i (as_urn_string d))) i d' = Inr (lb, k)"
    using fresh by (auto simp: attach_identifier_def split: option.split)
  then obtain lb k where new: "attach_identifier e (fst (detach_identifier (ls_library st) i (as_urn_string d))) i d' = Inr (lb, k)"
    by blast
  show "refreshed e st (fst (update_edition_identifier e st i d d'))"
    using attached [OF new detached]
    by (simp add: update_edition_identifier_def Let_def new refreshed_commit split: sum.split)
qed

lemma fst_after_sync:
  "fst (case x of (s, Inl err) \<Rightarrow> (s, Inl err) | (s, Inr u) \<Rightarrow> (s, f s)) = fst x"
  by (simp split: prod.split sum.split)

lemma reindex_refreshes: "library_ok (ls_library st) \<Longrightarrow> refreshed e st (fst (reindex_store e st))"
  using refreshed_synced [of "ls_library st" e st] by (simp add: reindex_store_def attempt_reindex_eq)

lemma editions_refresh:
  assumes ok: "library_ok (ls_library st)"
  shows "refreshed e st (fst (set_edition_cover_url e st i u))" "refreshed e st (fst (update_edition e st i p))"
proof -
  have replaced: "library_ok (replace_edition (ls_library st) row')"
    if "require_edition e (ls_library st) i = Inr row" "em_id row' = em_id row" "em_work_id row' = em_work_id row" for row row'
    using replace_edition_ok [OF ok _ that(2,3)] require_edition_in [OF that(1)] by blast
  show "refreshed e st (fst (set_edition_cover_url e st i u))"
    using replaced by (auto simp: set_edition_cover_url_def refreshed_commit split: sum.split)
  have patched: "em_id (patch_row e p d row) = em_id row" "em_work_id (patch_row e p d row) = em_work_id row" for d row
    by (simp_all add: patch_row_def)
  show "refreshed e st (fst (update_edition e st i p))"
    using replaced [OF _ patched]
    by (auto simp: update_edition_def Let_def fst_after_sync sync_edition_index_eq refreshed_synced split: sum.split)
qed

lemma contributors_refresh:
  assumes ok: "library_ok (ls_library st)"
  shows "refreshed e st (fst (add_edition_contributor e st i c r))" "refreshed e st (fst (update_edition_contributor e st i c r t))"
    "refreshed e st (fst (remove_edition_contributor e st i c r))"
proof -
  have detached: "library_ok (fst (detach_contributor (ls_library st) i c r))" for r
    by (rule library_ok_same [OF ok]) simp_all
  have attached: "library_ok (attach_contributor lb i c r)" if "library_ok lb" for lb r
    by (rule library_ok_same [OF that]) simp_all
  show "refreshed e st (fst (add_edition_contributor e st i c r))"
    by (simp add: add_edition_contributor_def refreshed_commit attached ok split: sum.split prod.split)
  show "refreshed e st (fst (update_edition_contributor e st i c r t))"
    by (simp add: update_edition_contributor_def refreshed_commit attached detached split: sum.split prod.split)
  show "refreshed e st (fst (remove_edition_contributor e st i c r))"
  proof (cases "clean_role e r")
    case (Inr r')
    then show ?thesis
      using detached detach_contributor_none [of "ls_library st" i c r']
      by (cases "snd (detach_contributor (ls_library st) i c r')")
        (simp_all add: remove_edition_contributor_def refreshed_commit case_prod_unfold)
  qed (simp add: remove_edition_contributor_def)
qed

subsection \<open>Operations that keep the index in step\<close>

lemma create_work_keeps_step:
  assumes "store_ok e st"
  shows "store_ok e (fst (create_work e st t s d))"
proof -
  let ?lb = "ls_library st"
  have ok: "library_ok ?lb" and ix: "ls_index st = index_documents e ?lb"
    using assms by (simp_all add: store_ok_def in_step_def)
  have "library_ok (?lb\<lparr>lb_works := lb_works ?lb @ [row]\<rparr>)" for row
    using ok by (auto simp: library_ok_def list_all_iff edition_ids_def)
  then show ?thesis
    using assms by (simp add: create_work_def Let_def store_ok_def in_step_def ix index_documents_new_work [OF ok])
qed

lemma deletions_keep_step:
  assumes e: "tantivy_ok e" "ulid_ok (se_deps e)" and works: "index_works e" and st: "store_ok e st"
  shows "store_ok e (fst (delete_work e st w))" "store_ok e (fst (delete_edition_row e st i))"
proof -
  let ?lb = "ls_library st"
  have ok: "library_ok ?lb" and ix: "ls_index st = index_documents e ?lb"
    using st by (simp_all add: store_ok_def in_step_def)
  note deleted = deleted_documents [OF e, of ?lb, folded ix]
  have wf: "list_all db_id_wf (edition_ids ?lb)" using ok by (simp add: library_ok_def)
  show "store_ok e (fst (delete_work e st w))"
    using st deleted [OF wf, of "editions_of ?lb w"] remove_work_ok [OF ok]
    by (auto simp: delete_work_def Let_def index_delete_works [OF works] store_ok_def in_step_def index_documents_remove_work editions_of_def edition_ids_def)
  show "store_ok e (fst (delete_edition_row e st i))"
  proof (cases "find_row em_id (lb_editions ?lb) i")
    case None
    then show ?thesis using st by (simp add: delete_edition_row_def Let_def)
  next
    case (Some ed)
    have ed: "ed \<in> set (lb_editions ?lb)" "em_id ed = i"
      using Some by (auto simp: find_row_def find_Some_iff)
    let ?c = "cascade_editions {i} ?lb"
    have docs: "SearchIndex.delete_edition e i (ls_index st) = index_documents e ?c"
      using deleted [OF wf, of "[i]"] ed by (simp add: index_documents_cascade edition_ids_def image_iff) blast
    have "index_documents e (remove_work_row (em_work_id ed) ?c) = index_documents e ?c"
      if one: "length (editions_of ?lb (em_work_id ed)) \<le> 1"
    proof -
      have "i \<in> set (editions_of ?lb (em_work_id ed))" using ed by (auto simp: editions_of_def)
      then have "editions_of ?lb (em_work_id ed) = [i]" using one by (cases "editions_of ?lb (em_work_id ed)") auto
      then have "set (editions_of ?lb (em_work_id ed)) = {i}" by simp
      then have "editions_of ?c (em_work_id ed) = []"
        by (auto simp: editions_of_def cascade_editions_def filter_empty_conv)
      then show ?thesis by (simp add: index_documents_remove_work) (simp add: index_documents_def)
    qed
    then show ?thesis
      using docs cascade_ok [OF ok] remove_work_ok [OF cascade_ok [OF ok]]
      by (simp add: delete_edition_row_def Let_def index_delete_works [OF works] Some store_ok_def in_step_def)
  qed
qed

subsection \<open>The rows stay well-formed\<close>

lemma library_ok_new_work: "library_ok lb \<Longrightarrow> library_ok (lb\<lparr>lb_works := lb_works lb @ [row]\<rparr>)"
  by (auto simp: library_ok_def list_all_iff edition_ids_def)

lemma library_ok_new_edition:
  "library_ok lb \<Longrightarrow> db_id_wf (em_id row) \<Longrightarrow> em_work_id row \<in> wm_id ` set (lb_works lb)
   \<Longrightarrow> library_ok (lb\<lparr>lb_editions := lb_editions lb @ [row]\<rparr>)"
  by (simp add: library_ok_def edition_ids_def)

lemma require_work_in: "require_work e lb i = Inr row \<Longrightarrow> i \<in> wm_id ` set (lb_works lb)"
  by (auto simp: require_work_def find_row_def ok_or_def find_Some_iff split: option.splits)

lemma catalogue_keeps_rows:
  assumes ok: "library_ok (ls_library st)"
  shows "library_ok (ls_library (fst (create_work e st t s d)))"
    and "db_id_wf (st_fresh e) \<Longrightarrow> library_ok (ls_library (fst (create_edition e st inp)))"
    and "library_ok (ls_library (fst (delete_work e st w)))" "library_ok (ls_library (fst (delete_edition_row e st i)))"
    and "library_ok (ls_library (fst (create_contributor e st n)))" "library_ok (ls_library (fst (update_contributor e st c n)))"
    and "library_ok (ls_library (fst (delete_contributor st c)))"
proof -
  have same: "library_ok ((ls_library st)\<lparr>lb_authors := as\<rparr>)" for as
    by (rule library_ok_same [OF ok]) simp_all
  show "library_ok (ls_library (fst (create_work e st t s d)))"
    by (simp add: create_work_def Let_def ok library_ok_new_work)
  show "library_ok (ls_library (fst (create_edition e st inp)))" if "db_id_wf (st_fresh e)"
    using that by (auto simp: create_edition_def Let_def ok intro!: library_ok_new_edition require_work_in split: sum.split)
  show "library_ok (ls_library (fst (delete_work e st w)))"
    by (simp add: delete_work_def Let_def ok remove_work_ok)
  show "library_ok (ls_library (fst (delete_edition_row e st i)))"
    by (simp add: delete_edition_row_def Let_def ok remove_work_ok cascade_ok split: option.split)
  show "library_ok (ls_library (fst (create_contributor e st n)))"
    by (simp add: create_contributor_def ok same split: sum.split)
  show "library_ok (ls_library (fst (update_contributor e st c n)))"
    by (simp add: update_contributor_def ok same split: sum.split)
  show "library_ok (ls_library (fst (delete_contributor st c)))"
    unfolding delete_contributor_def Let_def by (rule library_ok_same [OF ok]) simp_all
qed

section \<open>Runs of the store\<close>

text \<open>
  Operations that ask for a refresh of the index, and operations that change what documents are made of
  without asking for one.
\<close>

fun refreshing :: "mutation \<Rightarrow> bool" where
  "refreshing (CreateWork _ _ _) = False"
| "refreshing (DeleteWork _) = False"
| "refreshing (DeleteEdition _) = False"
| "refreshing (CreateEdition _) = False"
| "refreshing (CreateContributor _) = False"
| "refreshing (UpdateContributor _ _) = False"
| "refreshing (DeleteContributor _) = False"
| "refreshing _ = True"

fun lagging :: "mutation \<Rightarrow> bool" where
  "lagging (CreateEdition _) = True"
| "lagging (CreateContributor _) = True"
| "lagging (UpdateContributor _ _) = True"
| "lagging (DeleteContributor _) = True"
| "lagging _ = False"

definition unused_id :: "library \<Rightarrow> db_id \<Rightarrow> bool" where
  "unused_id lb i \<longleftrightarrow> db_id_wf i \<and> i \<notin> im_id ` set (lb_identifiers lb)"

lemma refreshing_refreshed:
  assumes "library_ok (ls_library st)" "unused_id (ls_library st) (st_fresh e)" "refreshing m"
  shows "refreshed e st (run_mutation e st m)"
  using assms(2,3)
  by (cases m) (simp_all add: files_refresh [OF assms(1)] identifiers_refresh [OF assms(1)]
      editions_refresh [OF assms(1)] contributors_refresh [OF assms(1)] reindex_refreshes [OF assms(1)] unused_id_def)

lemma mutation_keeps_rows:
  assumes "library_ok (ls_library st)" "unused_id (ls_library st) (st_fresh e)"
  shows "library_ok (ls_library (run_mutation e st m))"
proof (cases "refreshing m")
  case True
  from refreshed_library_ok [OF refreshing_refreshed [OF assms this] assms(1)] show ?thesis .
next
  case False
  then show ?thesis
    using assms(2) by (cases m) (simp_all add: catalogue_keeps_rows [OF assms(1)] unused_id_def)
qed

text \<open>After which calls the index is known to follow the rows: a rebuild that worked and was asked for by an
  operation that changed something, or any call but the lagging ones when it did before and no write to the index
  failed.\<close>

definition refreshes :: "store_env \<Rightarrow> library_store \<Rightarrow> mutation \<Rightarrow> bool" where
  "refreshes e st m \<longleftrightarrow>
     st_refresh e = RefreshOk \<and> refreshing m \<and> (m = Reindex \<or> run_mutation e st m \<noteq> st)"

lemma mutation_keeps_step:
  assumes e: "tantivy_ok e" "ulid_ok (se_deps e)"
    and st: "library_ok (ls_library st)" "unused_id (ls_library st) (st_fresh e)"
    and m: "in_step e st \<and> \<not> lagging m \<and> index_works e \<or> refreshes e st m"
  shows "in_step e (run_mutation e st m)"
proof (cases "refreshing m")
  case True
  have "in_step e (run_mutation e st Reindex)" if "st_refresh e = RefreshOk"
    using that by (simp add: reindex_store_def attempt_reindex_eq refresh_result_def in_step_def)
  moreover have "st_refresh e = RefreshOk" using m by (auto simp: refreshes_def index_works_def)
  ultimately show ?thesis
    using refreshed_in_step [OF refreshing_refreshed [OF st True]] m unfolding refreshes_def by blast
next
  case False
  then have "store_ok e st" "\<not> lagging m" "index_works e" using m st by (auto simp: store_ok_def refreshes_def)
  with False have "store_ok e (run_mutation e st m)"
    by (cases m) (simp_all add: create_work_keeps_step deletions_keep_step [OF e])
  then show ?thesis by (simp add: store_ok_def)
qed

text \<open>The environment of one call: the id it draws and the time it reads.\<close>

definition at_call :: "store_env \<Rightarrow> db_id \<Rightarrow> int \<Rightarrow> store_env" where
  "at_call e i t = e\<lparr>st_fresh := i, st_now := t\<rparr>"

lemma at_call_sel [simp]:
  "se_deps (at_call e i t) = se_deps e" "se_lower (at_call e i t) = se_lower e"
  "se_hash (at_call e i t) = se_hash e" "se_facet (at_call e i t) = se_facet e"
  "se_tokens (at_call e i t) = se_tokens e" "se_open_or_create (at_call e i t) = se_open_or_create e"
  "st_fresh (at_call e i t) = i" "st_now (at_call e i t) = t" "st_refresh (at_call e i t) = st_refresh e"
  by (simp_all add: at_call_def)

lemma at_call_documents [simp]: "index_documents (at_call e i t) lb = index_documents e lb"
  unfolding index_documents_def index_edition_def index_author_def ids_part_def facets_part_def id_strs_def
    add_facets_def facet_of_def Let_def at_call_sel ..

lemma at_call_laws [simp]:
  "tantivy_ok (at_call e i t) = tantivy_ok e" "in_step (at_call e i t) st = in_step e st"
  by (simp_all add: tantivy_ok_def in_step_def)

text \<open>One call with what happens to the index during it.\<close>

definition call_env :: "store_env \<Rightarrow> db_id \<Rightarrow> int \<Rightarrow> refresh_outcome \<Rightarrow> (db_id \<Rightarrow> bool) \<Rightarrow> store_env" where
  "call_env e i t r d = (at_call e i t)\<lparr>st_refresh := r, st_delete_ok := d\<rparr>"

lemma call_env_sel [simp]:
  "se_deps (call_env e i t r d) = se_deps e" "se_lower (call_env e i t r d) = se_lower e"
  "se_hash (call_env e i t r d) = se_hash e" "se_facet (call_env e i t r d) = se_facet e"
  "se_tokens (call_env e i t r d) = se_tokens e" "se_open_or_create (call_env e i t r d) = se_open_or_create e"
  "st_fresh (call_env e i t r d) = i" "st_refresh (call_env e i t r d) = r" "st_delete_ok (call_env e i t r d) = d"
  by (simp_all add: call_env_def)

lemma call_env_documents [simp]: "index_documents (call_env e i t r d) lb = index_documents e lb"
  unfolding index_documents_def index_edition_def index_author_def ids_part_def facets_part_def id_strs_def
    add_facets_def facet_of_def Let_def call_env_sel ..

lemma call_env_laws [simp]:
  "tantivy_ok (call_env e i t r d) = tantivy_ok e" "in_step (call_env e i t r d) st = in_step e st"
  by (simp_all add: tantivy_ok_def in_step_def)

text \<open>Stores reached from any library and any index directory that opens, whatever documents it holds: the
  flag says that the index is known to follow the rows.\<close>

inductive store_reachable :: "store_env \<Rightarrow> bool \<Rightarrow> library_store \<Rightarrow> bool" for e where
  opened: "library_ok lb \<Longrightarrow> open_store e lb dir = (dir', Inr st) \<Longrightarrow> store_reachable e False st"
| mutated: "store_reachable e up_to_date st \<Longrightarrow> unused_id (ls_library st) i \<Longrightarrow> e' = call_env e i t r d
    \<Longrightarrow> store_reachable e (refreshes e' st m \<or> up_to_date \<and> \<not> lagging m \<and> index_works e') (run_mutation e' st m)"

lemma open_store_library: "open_store e lb dir = (dir', Inr st) \<Longrightarrow> ls_library st = lb"
  by (auto simp: open_store_def split: prod.splits sum.splits)

lemma store_reachable_ok:
  assumes e: "tantivy_ok e" "ulid_ok (se_deps e)" and reach: "store_reachable e up_to_date st"
  shows "library_ok (ls_library st) \<and> (up_to_date \<longrightarrow> in_step e st)"
  using reach
proof (induction rule: store_reachable.induct)
  case (opened lb dir dir' st)
  then show ?case by (simp add: open_store_library)
next
  case (mutated b st i e' t r d m)
  have st: "library_ok (ls_library st)" "unused_id (ls_library st) (st_fresh e')"
    using mutated by simp_all
  have "in_step e' (run_mutation e' st m)" if "refreshes e' st m \<or> b \<and> \<not> lagging m \<and> index_works e'"
    by (rule mutation_keeps_step) (use e st that mutated in auto)
  then show ?case using mutation_keeps_rows [OF st, of m] mutated.hyps(3) by auto
qed

section \<open>Properties\<close>

text \<open>A reference store: the reference tantivy, a calendar of months of 31 days, and a fixed id and time.\<close>

definition ref_store :: "db_id \<Rightarrow> int \<Rightarrow> store_env" where
  "ref_store i t =
     \<lparr>se_deps = se_deps ref_reader, se_hash = length, se_lower = to_ascii_lowercase, se_facet = Some,
      se_date_secs = (\<lambda>s. s * 1000000000), se_tokens = se_tokens ref_reader,
      se_write_meta = None, se_open_or_create = se_open_or_create ref_reader, st_fresh = i, st_now = t,
      st_month_error = (\<lambda>m. ''month out of range''),
      st_calendar = (\<lambda>y m d. Inr \<lparr>td_year = y, td_unix_day = (y - 1970) * 372 + int m * 31 + int d - 32\<rparr>),
      st_violation = (\<lambda>w. ''constraint failed: '' @ w), st_refresh = RefreshOk, st_delete_ok = (\<lambda>_. True)\<rparr>"

lemma ref_store_ok [simp]: "tantivy_ok (ref_store i t)" "ulid_ok (se_deps (ref_store i t))"
  by (simp_all add: tantivy_ok_def ref_store_def) (simp_all add: ref_reader_def)

lemma ref_store_at_call [simp]: "at_call (ref_store i t) j u = ref_store j u"
  by (simp add: at_call_def ref_store_def)

lemma small_library_ok: "library_ok small_library"
  by code_simp

lemma small_unused: "unused_id small_library (an_id CHR ''n'')"
  by code_simp

text \<open>C15: search follows the library. Start from any rows with sound keys and any index directory that opens, and
  run any creations, updates and deletions of works, editions, files, identifiers and contributors and rebuilds of
  the index, any of which may fail to write to the index. The rows keep their keys; and the index holds exactly the
  documents a full rebuild would give once a rebuild has worked, be it asked for or part of an operation that changed
  something, as long as since then no write to the index failed, no edition was created and no contributor was
  created, renamed or deleted. In particular deleting a work or an edition then leaves none of its documents.\<close>

theorem search_follows_library:
  assumes "tantivy_ok e" "ulid_ok (se_deps e)" "store_reachable e up_to_date st"
  shows "library_ok (ls_library st) \<and> (up_to_date \<longrightarrow> ls_index st = index_documents e (ls_library st))"
  using store_reachable_ok [OF assms] by (simp add: in_step_def)

text \<open>The witness opens a library over an empty index directory, rebuilds the index, adds an edition, which the index
  does not show, attaches a file to it, which refreshes the index, and deletes another edition.\<close>

definition small_store :: library_store where
  "small_store = \<lparr>ls_library = small_library,
     ls_index = index_documents (ref_store (an_id CHR ''n'') 5) small_library\<rparr>"

definition a_new_edition :: new_edition where
  "a_new_edition = \<lparr>ne_work_id = an_id CHR ''w'', ne_title = Some ''Emma II'', ne_description = None,
     ne_published_date = Some (Year 1815), ne_format_id = None, ne_language_id = None, ne_notes = Some '' '',
     ne_cover_image_url = None\<rparr>"

definition created_store :: library_store where
  "created_store = run_mutation (ref_store (an_id CHR ''n'') 5) small_store (CreateEdition a_new_edition)"

definition filed_store :: library_store where
  "filed_store = run_mutation (ref_store (an_id CHR ''f'') 6) created_store
     (SetFile (an_id CHR ''n'') ''emma.epub'' (Some ''epub'') None)"

definition pruned_store :: library_store where
  "pruned_store = run_mutation (ref_store (an_id CHR ''f'') 7) filed_store (DeleteEdition (an_id CHR ''a''))"

lemma unused_ids:
  "unused_id (ls_library small_store) (an_id CHR ''n'')" "unused_id (ls_library created_store) (an_id CHR ''f'')"
  "unused_id (ls_library filed_store) (an_id CHR ''f'')"
  by code_simp+

lemma filed_inventory: "map iv_edition_id (lb_inventory (ls_library filed_store)) = [an_id CHR ''n'']"
  by code_simp

lemma ref_store_call [simp]:
  "call_env (ref_store i t) j u RefreshOk (\<lambda>_. True) = ref_store j u" "index_works (ref_store i t)"
  by (simp_all add: call_env_def at_call_def ref_store_def index_works_def)

lemma opened_small:
  "\<exists>dir'. open_store (ref_store (an_id CHR ''n'') 5) small_library fresh_dir = (dir', Inr \<lparr>ls_library = small_library, ls_index = []\<rparr>)"
proof -
  let ?e = "ref_store (an_id CHR ''n'') 5"
  have "se_write_meta ?e = None" "se_open_or_create ?e build_schema None = Inr (build_schema, [])"
    by (simp_all add: ref_store_def ref_reader_def)
  then show ?thesis
    by (simp add: open_store_def open_index_def open_reader_def open_writer_def open_index_parts_def
        read_schema_version_def write_schema_version_def fresh_dir_def Let_def)
qed

lemma pruned_reachable: "store_reachable (ref_store (an_id CHR ''n'') 5) True pruned_store"
proof -
  let ?e = "ref_store (an_id CHR ''n'') 5" and ?empty = "\<lparr>ls_library = small_library, ls_index = []\<rparr>"
  note step = store_reachable.mutated [where e = ?e, OF _ _ refl, where r = RefreshOk and d = "\<lambda>_. True", simplified ref_store_call]
  have "store_reachable ?e False ?empty"
    using opened_small store_reachable.opened [OF small_library_ok] by blast
  from step [OF this, of "an_id CHR ''n''" 5 Reindex] small_unused
  have small: "store_reachable ?e True small_store"
    by (simp add: refreshes_def reindex_store_def attempt_reindex_eq refresh_result_def small_store_def)
      (simp add: ref_store_def)
  from step [OF this unused_ids(1), of 5 "CreateEdition a_new_edition"]
  have created: "store_reachable ?e False created_store" by (simp add: refreshes_def created_store_def)
  have "lb_inventory (ls_library created_store) = []" by code_simp
  then have "filed_store \<noteq> created_store" using filed_inventory by auto
  with step [OF created unused_ids(2), of 6 "SetFile (an_id CHR ''n'') ''emma.epub'' (Some ''epub'') None"]
  have "store_reachable ?e True filed_store" by (simp add: refreshes_def filed_store_def) (simp add: ref_store_def)
  from step [OF this unused_ids(3), of 7 "DeleteEdition (an_id CHR ''a'')"]
  show ?thesis by (simp add: pruned_store_def)
qed

theorem search_follows_library_witness:
  "library_ok (ls_library pruned_store)
    \<and> ls_index pruned_store = index_documents (ref_store (an_id CHR ''n'') 5) (ls_library pruned_store)
    \<and> length (ls_index pruned_store) = 3"
proof -
  have follows: "library_ok (ls_library pruned_store)"
    "ls_index pruned_store = index_documents (ref_store (an_id CHR ''n'') 5) (ls_library pruned_store)"
    using search_follows_library [OF _ _ pruned_reachable] by simp_all
  moreover have "length (lb_editions (ls_library pruned_store)) = 2" "length (lb_authors (ls_library pruned_store)) = 1"
    by code_simp+
  ultimately show ?thesis by (simp add: index_documents_def)
qed

subsection \<open>Identifiers\<close>

lemma linked_identifier: "(i, k) \<in> set (lb_edition_identifiers (link_identifier lb i k))"
  by (simp add: link_identifier_def)

lemma link_identifier_sel [simp]:
  "lb_identifiers (link_identifier lb i k) = lb_identifiers lb" "lb_editions (link_identifier lb i k) = lb_editions lb"
  by (simp_all add: link_identifier_def)

lemma find_append_absent: "List.find P xs = None \<Longrightarrow> P x \<Longrightarrow> List.find P (xs @ [x]) = Some x"
  by (induction xs) (auto split: if_splits)

lemma attached_row:
  assumes "attach_identifier e lb i d = Inr (lb', k)"
  shows "\<exists>row. List.find (\<lambda>r. im_value r = as_urn_string d) (lb_identifiers lb') = Some row \<and> im_id row = k
    \<and> (i, k) \<in> set (lb_edition_identifiers lb') \<and> lb_editions lb' = lb_editions lb"
  using assms by (auto simp: attach_identifier_def linked_identifier find_append_absent split: option.splits if_splits)

lemma attach_identifier_again:
  assumes "List.find (\<lambda>r. im_value r = as_urn_string d) (lb_identifiers lb) = Some row"
    "(i, im_id row) \<in> set (lb_edition_identifiers lb)"
  shows "attach_identifier e lb i d = Inr (lb, im_id row)"
  using assms by (simp add: attach_identifier_def link_identifier_def)

lemma find_many_set: "set (find_many key rows ids) = {r \<in> set rows. key r \<in> set ids}"
  by (auto simp: find_many_def)

lemma found_editions:
  "em_id ` set (find_editions_by_identifier lb d) =
     (case List.find (\<lambda>r. im_value r = as_urn_string d) (lb_identifiers lb) of
        None \<Rightarrow> {} | Some row \<Rightarrow> {i \<in> set (edition_ids lb). (i, im_id row) \<in> set (lb_edition_identifiers lb)})"
proof (cases "List.find (\<lambda>r. im_value r = as_urn_string d) (lb_identifiers lb)")
  case (Some row)
  let ?ids = "map fst (filter (\<lambda>r. snd r = im_id row) (lb_edition_identifiers lb))"
  have "set (find_editions_by_identifier lb d) = {ed \<in> set (lb_editions lb). em_id ed \<in> set ?ids}"
    by (simp add: find_editions_by_identifier_def Some Let_def find_many_set [symmetric] del: set_map)
      (simp add: find_many_def)
  moreover have "i \<in> set ?ids \<longleftrightarrow> (i, im_id row) \<in> set (lb_edition_identifiers lb)" for i
    by force
  ultimately show ?thesis by (auto simp: Some edition_ids_def)
qed (simp add: find_editions_by_identifier_def)

lemma detached_identifier:
  "i \<notin> em_id ` set (find_editions_by_identifier (fst (detach_identifier lb i (as_urn_string d))) d)"
  by (auto simp: found_editions detach_identifier_def split: option.splits)

text \<open>C16: identifiers are attached once. When \<open>add_edition_identifier\<close> answers, the identifier finds the edition,
  adding it again changes neither the rows nor the index whatever id and time the second call draws, and
  after removing it the identifier no longer finds the edition.
\<close>

theorem added_identifier_finds_edition:
  assumes "add_edition_identifier e st i d = (st', Inr urn)"
  shows "urn = as_urn_string d
    \<and> i \<in> em_id ` set (find_editions_by_identifier (ls_library st') d)
    \<and> add_edition_identifier (at_call e j t) st' i d = (st', Inr urn)
    \<and> snd (remove_edition_identifier e st' i d) = Inr True
    \<and> i \<notin> em_id ` set (find_editions_by_identifier (ls_library (fst (remove_edition_identifier e st' i d))) d)"
proof -
  obtain ed lb k where ed: "require_edition e (ls_library st) i = Inr ed"
    and new: "attach_identifier e (ls_library st) i d = Inr (lb, k)" and works: "st_refresh e = RefreshOk"
    and st': "st' = st\<lparr>ls_library := lb, ls_index := index_documents e lb\<rparr>" and urn: "urn = as_urn_string d"
    using assms by (auto simp: add_edition_identifier_def commit_and_sync_Inr split: sum.splits)
  obtain row where row: "List.find (\<lambda>r. im_value r = as_urn_string d) (lb_identifiers lb) = Some row" "im_id row = k"
    "(i, k) \<in> set (lb_edition_identifiers lb)" "lb_editions lb = lb_editions (ls_library st)"
    using attached_row [OF new] by blast
  have lib: "ls_library st' = lb" by (simp add: st')
  have "i \<in> set (edition_ids lb)" using require_edition_in [OF ed] row(4) by (auto simp: edition_ids_def)
  then have found: "i \<in> em_id ` set (find_editions_by_identifier lb d)"
    using row by (simp add: found_editions)
  have ed': "require_edition (at_call e j t) lb i = Inr ed"
    using ed row(4) by (simp add: require_edition_def)
  have again: "add_edition_identifier (at_call e j t) st' i d = (st', Inr urn)"
    using attach_identifier_again [OF row(1), of i "at_call e j t"] row ed'
    by (simp add: add_edition_identifier_def lib urn commit_and_sync_Inr works) (simp add: st')
  have "snd (detach_identifier lb i (as_urn_string d))" using row by (simp add: detach_identifier_def)
  then have "remove_edition_identifier e st' i d = commit_and_sync e st' (fst (detach_identifier lb i (as_urn_string d))) i True"
    by (simp add: remove_edition_identifier_def lib case_prod_unfold)
  then show ?thesis
    using found again detached_identifier [of i lb d] by (simp add: urn lib commit_and_sync_ok [OF works])
qed

definition an_identifier :: book_identifier where
  "an_identifier = \<lparr>id_kind = KindCustom ''oclc'', id_urn = \<lparr>urn_type = ''oclc'', urn_value = ''42''\<rparr>\<rparr>"

lemma small_adds_identifier:
  "snd (add_edition_identifier (ref_store (an_id CHR ''n'') 5) small_store (an_id CHR ''a'') an_identifier) = Inr (as_urn_string an_identifier)"
  by code_simp

theorem added_identifier_finds_edition_witness:
  "let st' = fst (add_edition_identifier (ref_store (an_id CHR ''n'') 5) small_store (an_id CHR ''a'') an_identifier) in
     an_id CHR ''a'' \<in> em_id ` set (find_editions_by_identifier (ls_library st') an_identifier)
     \<and> add_edition_identifier (ref_store (an_id CHR ''z'') 9) st' (an_id CHR ''a'') an_identifier = (st', Inr (as_urn_string an_identifier))"
  using added_identifier_finds_edition [of "ref_store (an_id CHR ''n'') 5" small_store "an_id CHR ''a''" an_identifier
      "fst (add_edition_identifier (ref_store (an_id CHR ''n'') 5) small_store (an_id CHR ''a'') an_identifier)"
      "as_urn_string an_identifier" "an_id CHR ''z''" 9]
    small_adds_identifier by (simp add: Let_def prod_eq_iff)

section \<open>Where the code differs from its comments\<close>

text \<open>A created edition is not in the index: the call changes the rows and leaves the documents alone.\<close>

lemma created_edition_not_searchable:
  "ls_index created_store = ls_index small_store \<and> length (lb_editions (ls_library created_store)) = 3
    \<and> length (ls_index created_store) = 3 \<and> \<not> in_step (ref_store (an_id CHR ''n'') 5) created_store"
proof -
  have rows: "ls_index created_store = ls_index small_store" "length (ls_index small_store) = 3"
    "length (lb_editions (ls_library created_store)) = 3" "length (lb_authors (ls_library created_store)) = 1"
    by code_simp+
  have "length (index_documents (ref_store (an_id CHR ''n'') 5) (ls_library created_store)) = 4"
    using rows(3,4) by (simp add: index_documents_def)
  then have "\<not> in_step (ref_store (an_id CHR ''n'') 5) created_store"
    unfolding in_step_def using rows(1,2) by (metis numeral_eq_iff num.distinct(5) num.inject(1))
  then show ?thesis using rows by simp
qed

text \<open>Renaming and deleting a contributor leave every document as it was, with the old name in it.\<close>

lemma renamed_contributor_not_searchable:
  "let e = ref_store (an_id CHR ''n'') 5; st = fst (update_contributor e small_store (an_id CHR ''j'') ''Austen'') in
     lb_authors (ls_library st) = [(an_id CHR ''j'', ''Austen'')] \<and> ls_index st = ls_index small_store \<and> \<not> in_step e st"
  by code_simp

lemma deleted_contributor_still_searchable:
  "let e = ref_store (an_id CHR ''n'') 5; st = fst (delete_contributor small_store (an_id CHR ''j'')) in
     lb_authors (ls_library st) = [] \<and> ls_index st = ls_index small_store \<and> \<not> in_step e st"
  by code_simp

text \<open>A deletion whose write to the index fails is reported as done and leaves the document of the edition.\<close>

lemma deleted_edition_still_searchable:
  "let e = (ref_store (an_id CHR ''n'') 5)\<lparr>st_delete_ok := \<lambda>_. False\<rparr>;
       r = delete_edition_row e small_store (an_id CHR ''a'') in
     snd r = Inr True \<and> edition_ids (ls_library (fst r)) = [an_id CHR ''b''] \<and> ls_index (fst r) = ls_index small_store"
  by code_simp

text \<open>The first file of an edition needs a format, although the argument is optional.\<close>

lemma first_file_needs_format:
  assumes "require_edition e (ls_library st) i = Inr ed" "\<forall>r \<in> set (lb_inventory (ls_library st)). iv_edition_id r \<noteq> i"
  shows "set_edition_file e st i path None bytes = (st, Inl (violated e ''digital_inventory.file_format''))"
proof -
  have "List.find (\<lambda>r. iv_edition_id r = i) (lb_inventory (ls_library st)) = None"
    using assms(2) by (auto simp: find_None_iff)
  then show ?thesis using assms(1) by (simp add: set_edition_file_def Let_def)
qed

text \<open>A date with less precision is stored as the first day of its period.\<close>

lemma partial_dates_are_stored:
  "full_date e (Year y) = full_date e (YearMonthDay y 1 1)" "full_date e (YearMonth y m) = full_date e (YearMonthDay y m 1)"
  by (simp_all add: full_date_def)

text \<open>Without arguments works are listed by title, last title first.\<close>

lemma default_work_order: "apply_work_ordering None None = (ColTitle, Desc)"
  by (simp add: apply_work_ordering_def)

end
