(* ===== verification/Spec2Isabelle.thy ===== *)
theory Spec2Isabelle
  imports Isbn PairLink DaemonInvariant ClientCorrect ValuesCorrect SearchCorrect CitationCorrect Shelf LibraryStoreCorrect
begin

text \<open>
  Verification of the Livtet core: sync, pairing, the daemon, search, the library store, citations, shelves
  and value types.

  \<^bold>\<open>The program.\<close> Livtet keeps a personal book collection in SQLite. Devices pair with each other and
  exchange the rows of a change log that triggers write on every change of a syncable table; the
  collection is searched through a tantivy index, cited, and put on shelves. The crates modelled are
  \<open>livtet-sync\<close> (the change log, pushing, pulling, applying, conflicts), \<open>livtet-sync-iroh\<close> (framed
  messages, the client), \<open>livtet-sync-server\<close> (requests answered from the engine, pairing, offers, the
  daemon), the client migrations of \<open>livtet-data\<close> that sync rests on, \<open>livtet-search\<close> (the index),
  \<open>livtet-cite\<close>, the shelves of \<open>livtet-core\<close>, the mutations of \<open>livtet-ffi\<close>, and from \<open>livtet-types\<close> ids, ISBNs, device types,
  identifiers, dates, vocabularies and the search language.

  \<^bold>\<open>How the parts interact.\<close> A peer's request arrives as a frame (\<open>Frames\<close>), is answered by the
  handler for it (\<open>WireServer\<close>) after its token and node id are checked, and reaches the engine
  (\<open>SyncEngine\<close>), whose statements change business tables and make the triggers write log rows
  (\<open>Triggers\<close>, \<open>ChangeLog\<close>). Tokens come from pairing: a claim over the wire, a decision by the owner
  (\<open>Pairs\<close>), a poll by the claimant (\<open>Pairing\<close>). The daemon (\<open>Daemon\<close>) pulls from a paired peer
  through the client (\<open>Client\<close>), holds back offered books until the owner decides, and applies the rest.
  The search index (\<open>SearchIndex\<close>) is rebuilt from the library's rows; a saved search (\<open>SavedSearch\<close>)
  renders to a query tree (\<open>SearchDsl\<close>), filters become queries on the index (\<open>SearchHits\<close>).
  Mutations of the library (\<open>LibraryStore\<close>) change the rows and refresh or prune that index.

  \<^bold>\<open>Theories.\<close>
  \<^item> \<open>Prelude\<close>: results (a Rust \<open>Result\<close> is a sum), fallible loops, and the contracts stated as
    locales: a step that keeps an invariant, a step that moves along a preorder, a codec on a byte
    stream, a bounded collection. \<open>RustText\<close>: UTF-8 text as the list of its bytes, with the string
    operations the sources use.
  \<^item> \<open>Isbn\<close>: \<open>livtet-types/src/isbn.rs\<close>. \<open>PairLink\<close>: \<open>livtet-sync/src/types/pair_link.rs\<close>; its parser
    can panic, so it returns an outcome with a panic case.
  \<^item> \<open>Json\<close>: \<open>serde_json::Value\<close>, SQL values, \<open>livtet-types/src/db_id.rs\<close>, and the record \<open>deps\<close> of the
    third-party functions the sources call. \<open>SyncTypes\<close>: the DTOs, errors and entity registry.
    \<open>ChangeLog\<close>: the tables of the engine and its statements on them. \<open>Entities\<close>: the columns and keys
    of the 21 syncable models. \<open>Triggers\<close>: the 53 triggers and what a statement on a business table
    makes them log.
  \<^item> \<open>SyncApply\<close>: \<open>livtet-sync/src/apply.rs\<close>. \<open>SyncEngine\<close>: \<open>livtet-sync/src/engine.rs\<close>, every public
    operation. \<open>PushCorrect\<close>, \<open>PullCorrect\<close>, \<open>ApplyCorrect\<close>: their correctness.
  \<^item> \<open>Frames\<close>: \<open>livtet-sync-iroh/src/wire.rs\<close>. \<open>RateLimit\<close>, \<open>Requests\<close>, \<open>Pairing\<close>: the files
    \<open>rate_limit.rs\<close>, \<open>requests.rs\<close> and \<open>pairing.rs\<close> of \<open>livtet-sync-server/src\<close>. \<open>DeviceTypes\<close>:
    \<open>livtet-types/src/device_type.rs\<close> and \<open>pairing_status.rs\<close>. \<open>WireState\<close>: \<open>wire_state.rs\<close> and the two
    pairing tables. \<open>WireServer\<close>: \<open>wire.rs\<close>, all fourteen requests, with \<open>exchange\<close> of
    \<open>livtet-sync-iroh/src/server.rs\<close>. \<open>Pairs\<close>: \<open>pairs.rs\<close>. \<open>ServerCorrect\<close>, \<open>ServerInvariant\<close>: what the
    endpoint promises, and what every step of it keeps.
  \<^item> \<open>Daemon\<close>, \<open>DaemonCorrect\<close>: pulling, offers, downloads and the JSON-RPC methods of
    \<open>livtet-sync-server/src/daemon.rs\<close> and \<open>peer.rs\<close>. \<open>DaemonInvariant\<close>: an invariant of every state the daemon
    reaches, as a server and as a client of its peers. \<open>Client\<close>, \<open>ClientCorrect\<close>:
    \<open>livtet-sync-iroh/src/client.rs\<close> and its composition with the server's handlers.
  \<^item> \<open>UrnEnum\<close>: the macro \<open>urn_enum!\<close> and its four vocabularies. \<open>Values\<close>, \<open>ValuesCorrect\<close>: \<open>urn.rs\<close>,
    \<open>identifier_kind.rs\<close>, \<open>identifier.rs\<close>, \<open>published_date.rs\<close>, \<open>reading_length.rs\<close>, \<open>progress_unit.rs\<close>
    and the limits of \<open>work_filters.rs\<close> in \<open>livtet-types/src\<close>.
  \<^item> \<open>Placeholder\<close>, \<open>PlaceholderCorrect\<close>: \<open>livtet-types/src/search/placeholder.rs\<close>. \<open>SearchDsl\<close>: query
    trees and every filter of that directory. \<open>SavedSearch\<close>, \<open>SearchCorrect\<close>: saved searches, raw
    queries and \<open>composition.rs\<close>.
  \<^item> \<open>SearchIndex\<close>: \<open>schema.rs\<close>, \<open>doc.rs\<close>, \<open>write.rs\<close>, \<open>index.rs\<close> and \<open>sea_orm_resource_lookup.rs\<close> of
    \<open>livtet-search/src\<close>. \<open>SearchHits\<close>: \<open>search.rs\<close>, \<open>model.rs\<close>, \<open>label_resolver.rs\<close>.
    \<open>SearchIndexCorrect\<close> (collapsing, pages, sorting), \<open>SearchFilterCorrect\<close> (filters against rows,
    lookups), \<open>SearchWriteCorrect\<close> (reachable indexes, migration, and where the code falls short).
  \<^item> \<open>LibraryStore\<close>, \<open>LibraryStoreCorrect\<close>: \<open>mutations.rs\<close>, \<open>contributors.rs\<close>, the identifier reads of
    \<open>works.rs\<close>, \<open>open\<close> and \<open>reindex\<close> in \<open>livtet-ffi/src\<close>: works, editions, files, identifiers and contributors with their
    cascades, composed with the index.
  \<^item> \<open>Citation\<close>, \<open>CitationCorrect\<close>: \<open>csl.rs\<close>, \<open>key.rs\<close>, \<open>bibtex.rs\<close> and \<open>ris.rs\<close> of \<open>livtet-cite/src\<close>.
    \<open>Shelf\<close>: \<open>livtet-core/src/shelf.rs\<close> with the tables of migration 13.

  \<^bold>\<open>State.\<close> A table is the list of its rows; \<open>store\<close> holds the tables the engine owns and, as one
  abstract value, the business tables, which SQLite changes through the parameter \<open>sqlite\<close>. An
  operation takes the state and returns it changed; a transaction that fails returns the state it
  started from, and an operation without a transaction returns the state at the point of failure.
  \<open>wire_state\<close> adds the pairing tables and the maps behind locks; the handlers run one after the other.
  What a handler reads from outside is the record \<open>wire_env\<close>. A search index is the list of its
  committed documents, an index directory the record \<open>index_dir\<close>.

  \<^bold>\<open>What the theorems show.\<close> Pushing: replaying is idempotent, conflicts keep the local row, a batch
  is atomic, the log grows by exactly the accepted changes. Pulling: paging is complete when versions
  are distinct, and the two ways it loses changes when they are not. Applying: parents first, no echo,
  history kept, no SQL injection, conflicts resolved once. Triggers and registry agree. Framing:
  round trip, truncation detected, bounded reads. Server: a token works only from the node it was
  issued to, nothing but an authenticated request changes the library, the handshake hands out a
  working token, decisions are final, expire, and go to their claimant only, a file range stays in the
  file, an offer is visible to its device only, and in every reachable state the decided claims, the
  request log and what the rate limiter grants stay bounded. Client: what it reads is what the handler
  computed, whole or in chunks. Daemon: an offered book waits for its decision, a decision is made once, the
  pull loop ends. Search language: a rendered search refers to existing authors, genres, subjects, series,
  publishers and tags only, a disabled raw query never renders, the guard on raw queries is exact, bound
  placeholders are replaced in phrases without stray dollar signs. Search index: filters select exactly the editions
  the rows select (formats and languages apart), an edition has one document in every reachable index, works are grouped once and in
  rank order, score pages tile the ranking, sorting a slice is a stable permutation, a migrated index opens.
  Library store: from any library and any index that opens, the index is what a rebuild gives once one
  has worked, until an edition is created, a contributor changes or a write to the index fails; an added
  identifier finds its edition once.
  Citations: keys are distinct and independent of the order, RIS reads back. Shelves: keys and
  references hold in every reachable database, and placing a book for the only account that has it
  moves its one row. Values: canonical ISBNs, round trips of links, dates and lengths. Where the code does something else than its comments say, a lemma
  states what it does.

  \<^bold>\<open>Bounds and fuel.\<close> \<open>page_walk\<close> takes a number of pages; one more than the number of pending changes
  is enough, and that is part of its theorem. \<open>pull_loop\<close> takes a number of pages too; its termination
  theorem gives one more than the full pages pending. Every other loop is total: \<open>read_chunks\<close> and the
  draining of a body by the bytes still missing, \<open>evict_front\<close> and \<open>evict_oldest\<close> by the length of the
  collection, \<open>phrase_loop\<close> by the text still to scan, \<open>free_ordinal\<close> by the keys in use, the walk to a
  Monday by at most seven days. Versions and row ids are unbounded integers (an \<open>i64\<close> column); instants
  and durations are nanoseconds; \<open>usize\<close> arithmetic of the search limits saturates at 64 bits.

  \<^bold>\<open>Not modelled.\<close> Failures of the database connection; SQLite's execution of statements on business
  tables, serde's encoders, the ulid and hex crates, the calendar of the time crate, iroh, tokio, tantivy
  (parsing, ranking, tokenizing, facet collectors) and the file system, which are parameters with their
  documented behaviour as named hypotheses; the daemon's standard input loop and network discovery;
  the tables of \<open>known.rs\<close>, addresses, disk paths and metadata schemas; covers; seeding and the
  migrations other than those of sync and shelves, which are DDL; temporal quotes; the
  summaries, covers, trackers and sync calls of \<open>livtet-ffi\<close>; and the language bindings and the command
  line, which forward to the parts above.
\<close>

end
